(* ===== verification/Prelude.thy ===== *)
theory Prelude
  imports Complex_Main "HOL-Library.AList"
begin

text \<open>
  What the components share: Python values, dictionaries, errors, strings and rounding.

  \<^item> A \<open>float\<close> is an exact rational (\<open>pyfloat\<close>): the order, the four operations
    and comparisons are the exact ones; NaN, infinities and binary rounding are outside the model.
    Python's \<open>round\<close> is modelled (half to even), because the code calls it.
  \<^item> A value of type \<open>Any\<close> is a \<open>pyval\<close>; a \<open>dict[str, Any]\<close> is an association
    list in insertion order (\<open>pydict\<close>), updated with \<open>AList.update\<close>, which keeps the place
    of an existing key and appends a new one, as Python does.
  \<^item> A raise is a value \<open>Inl e\<close> of \<open>pyerr + 'a\<close>, sequenced with \<open>bindE\<close>.
  \<^item> A \<open>str\<close> is a list of bytes (UTF-8 where the source has a non-ASCII character).
\<close>

section \<open>Proof bundles\<close>

named_theorems py_simps "Unfolding rules of the Python primitives"
named_theorems preserves "Operations preserve the invariant of their component"

section \<open>Values, errors and sequencing\<close>

type_synonym pyfloat = rat

datatype pyval =
    VNone
  | VBool bool
  | VInt int
  | VFloat pyfloat
  | VStr string
  | VList "pyval list"
  | VDict "(string \<times> pyval) list"

type_synonym pydict = "(string \<times> pyval) list"

datatype pyerr =
    TypeError
  | ValueError
  | KeyError
  | AttributeError
  | ZeroDivisionError
  | RuntimeError string
  | AgentPermissionError string string

fun bindE :: "'e + 'a \<Rightarrow> ('a \<Rightarrow> 'e + 'b) \<Rightarrow> 'e + 'b" where
  "bindE (Inl e) f = Inl e"
| "bindE (Inr x) f = f x"

lemma bindE_Inr_iff [simp]: "bindE m f = Inr y \<longleftrightarrow> (\<exists>x. m = Inr x \<and> f x = Inr y)"
  by (cases m) auto

lemma bindE_Inl_iff: "bindE m f = Inl e \<longleftrightarrow> m = Inl e \<or> (\<exists>x. m = Inr x \<and> f x = Inl e)"
  by (cases m) auto

lemma bindE_assoc: "bindE (bindE m f) g = bindE m (\<lambda>x. bindE (f x) g)"
  by (cases m) auto

text \<open>\<open>try: m except Exception: h\<close>.\<close>

fun catchE :: "'e + 'a \<Rightarrow> 'a \<Rightarrow> 'a" where
  "catchE (Inl e) h = h"
| "catchE (Inr x) h = x"

text \<open>\<open>[f x for x in xs]\<close> where \<open>f\<close> may raise: the first error ends the loop.\<close>

fun mapE :: "('a \<Rightarrow> 'e + 'b) \<Rightarrow> 'a list \<Rightarrow> 'e + 'b list" where
  "mapE f [] = Inr []"
| "mapE f (x # xs) = bindE (f x) (\<lambda>y. bindE (mapE f xs) (\<lambda>ys. Inr (y # ys)))"

lemma mapE_Inr_length: "mapE f xs = Inr ys \<Longrightarrow> length ys = length xs"
  by (induction xs arbitrary: ys) auto

lemma mapE_Inr_iff: "mapE f xs = Inr ys \<longleftrightarrow> list_all2 (\<lambda>x y. f x = Inr y) xs ys"
  by (induction xs arbitrary: ys) (auto simp: list_all2_Cons1)

section \<open>Truth, conversion and dictionaries\<close>

fun py_truthy :: "pyval \<Rightarrow> bool" where
  "py_truthy VNone = False"
| "py_truthy (VBool b) = b"
| "py_truthy (VInt i) = (i \<noteq> 0)"
| "py_truthy (VFloat x) = (x \<noteq> 0)"
| "py_truthy (VStr s) = (s \<noteq> [])"
| "py_truthy (VList xs) = (xs \<noteq> [])"
| "py_truthy (VDict d) = (d \<noteq> [])"

text \<open>\<open>v or w\<close>.\<close>

definition py_or :: "pyval \<Rightarrow> pyval \<Rightarrow> pyval" where
  [py_simps]: "py_or v w = (if py_truthy v then v else w)"

subsection \<open>Decimal text\<close>

definition digit_val :: "char \<Rightarrow> nat option" where
  "digit_val c = (let n = of_char c :: nat in if 48 \<le> n \<and> n \<le> 57 then Some (n - 48) else None)"

fun take_digits :: "string \<Rightarrow> nat list \<times> string" where
  "take_digits [] = ([], [])"
| "take_digits (c # cs) =
     (case digit_val c of
        None \<Rightarrow> ([], c # cs)
      | Some d \<Rightarrow> (let (ds, rest) = take_digits cs in (d # ds, rest)))"

definition digits_nat :: "nat list \<Rightarrow> nat" where
  "digits_nat ds = foldl (\<lambda>n d. 10 * n + d) 0 ds"

definition is_space :: "char \<Rightarrow> bool" where
  "is_space c \<longleftrightarrow> (let n = of_char c :: nat in n = 32 \<or> (9 \<le> n \<and> n \<le> 13))"

definition strip :: "string \<Rightarrow> string" where
  "strip s = rev (dropWhile is_space (rev (dropWhile is_space s)))"

definition read_sign :: "string \<Rightarrow> int \<times> string" where
  "read_sign s = (case s of
      c # cs \<Rightarrow> (if c = CHR ''-'' then (-1, cs) else if c = CHR ''+'' then (1, cs) else (1, s))
    | [] \<Rightarrow> (1, s))"

definition read_exponent :: "string \<Rightarrow> int option" where
  "read_exponent s = (case s of
      [] \<Rightarrow> Some 0
    | c # cs \<Rightarrow>
        (if c = CHR ''e'' \<or> c = CHR ''E'' then
           (let (sg, t) = read_sign cs; (ds, rest) = take_digits t
            in if ds \<noteq> [] \<and> rest = [] then Some (sg * int (digits_nat ds)) else None)
         else None))"

text \<open>The text \<open>float\<close> accepts, for finite decimal literals without underscores.\<close>

definition parse_float :: "string \<Rightarrow> pyfloat option" where
  "parse_float s =
     (let (sg, t) = read_sign (strip s);
          (ws, r1) = take_digits t;
          (fs, r2) = (case r1 of c # cs \<Rightarrow> (if c = CHR ''.'' then take_digits cs else ([], r1))
                      | [] \<Rightarrow> ([], r1))
      in if ws = [] \<and> fs = [] then None
         else case read_exponent r2 of
             None \<Rightarrow> None
           | Some e \<Rightarrow>
               (let m = of_int sg * (of_nat (digits_nat (ws @ fs)) / 10 ^ length fs)
                in Some (if 0 \<le> e then m * 10 ^ nat e else m / 10 ^ nat (- e))))"

function dec_nat :: "nat \<Rightarrow> string" where
  "dec_nat n = (if n < 10 then [char_of (48 + n)] else dec_nat (n div 10) @ [char_of (48 + n mod 10)])"
  by pat_completeness auto
termination
  by (relation "measure (\<lambda>n. n)") auto

declare dec_nat.simps [simp del]

definition dec_int :: "int \<Rightarrow> string" where
  "dec_int i = (if i < 0 then CHR ''-'' # dec_nat (nat (- i)) else dec_nat (nat i))"

text \<open>
  \<open>str(v)\<close> where the model needs its text: integers, strings, booleans and \<open>None\<close>.
  \<open>None\<close> stands for a text that is none of those forms (floats contain a point or an
  exponent, lists and dictionaries start with a bracket).
\<close>

fun py_str :: "pyval \<Rightarrow> string option" where
  "py_str VNone = Some ''None''"
| "py_str (VBool b) = Some (if b then ''True'' else ''False'')"
| "py_str (VInt i) = Some (dec_int i)"
| "py_str (VStr s) = Some s"
| "py_str _ = None"

subsection \<open>\<open>float(v)\<close>\<close>

fun py_float :: "pyval \<Rightarrow> pyerr + pyfloat" where
  "py_float VNone = Inl TypeError"
| "py_float (VBool b) = Inr (if b then 1 else 0)"
| "py_float (VInt i) = Inr (of_int i)"
| "py_float (VFloat x) = Inr x"
| "py_float (VStr s) = (case parse_float s of None \<Rightarrow> Inl ValueError | Some x \<Rightarrow> Inr x)"
| "py_float (VList xs) = Inl TypeError"
| "py_float (VDict d) = Inl TypeError"

subsection \<open>Dictionaries\<close>

definition dget :: "pydict \<Rightarrow> string \<Rightarrow> pyval \<Rightarrow> pyval" where
  [py_simps]: "dget d k v = (case map_of d k of None \<Rightarrow> v | Some w \<Rightarrow> w)"

text \<open>\<open>float(d.get(k, v))\<close> and \<open>float(d.get(k) or 0.0)\<close>.\<close>

definition get_float :: "pydict \<Rightarrow> string \<Rightarrow> pyval \<Rightarrow> pyerr + pyfloat" where
  [py_simps]: "get_float d k v = py_float (dget d k v)"

definition get_float_or0 :: "pydict \<Rightarrow> string \<Rightarrow> pyerr + pyfloat" where
  [py_simps]: "get_float_or0 d k = py_float (py_or (dget d k VNone) (VFloat 0))"

text \<open>\<open>d.update(e)\<close>, key by key in the order of \<open>e\<close>.\<close>

definition dict_update :: "('k \<times> 'v) list \<Rightarrow> ('k \<times> 'v) list \<Rightarrow> ('k \<times> 'v) list" where
  "dict_update d e = foldl (\<lambda>m (k, v). AList.update k v m) d e"

lemma dict_update_Nil [simp]: "dict_update d [] = d"
  by (simp add: dict_update_def)

lemma dict_update_Cons [simp]:
  "dict_update d ((k, v) # e) = dict_update (AList.update k v d) e"
  by (simp add: dict_update_def)

lemma map_of_update_iff [simp]:
  "map_of (AList.update k v d) x = (if x = k then Some v else map_of d x)"
  by (simp add: update_conv')

lemma map_of_dict_update_notin:
  "x \<notin> fst ` set e \<Longrightarrow> map_of (dict_update d e) x = map_of d x"
  by (induction e arbitrary: d) auto

lemma update_same [simp]: "map_of d k = Some v \<Longrightarrow> AList.update k v d = d"
  by (induction d) auto

lemma update_overwrite [simp]: "AList.update k v (AList.update k w d) = AList.update k v d"
  by (induction d) auto

text \<open>
  \<open>str(v)\<close> of a value the code expects to be text. A float, list or dictionary in such a place
  is outside what callers pass; its printed form starts with a digit, sign or bracket and is
  represented by one such text.
\<close>

definition py_text :: "pyval \<Rightarrow> string" where
  "py_text v = (case py_str v of Some s \<Rightarrow> s | None \<Rightarrow> ''[0]'')"

lemma py_text_VStr [simp]: "py_text (VStr s) = s"
  by (simp add: py_text_def)

text \<open>\<open>try: float(v) except (TypeError, ValueError): default\<close>; \<open>float\<close> raises nothing else.\<close>

definition float_or :: "pyval \<Rightarrow> pyfloat \<Rightarrow> pyfloat" where
  "float_or v dflt = (case py_float v of Inl e \<Rightarrow> dflt | Inr x \<Rightarrow> x)"

text \<open>\<open>int(x)\<close> of a number: towards zero.\<close>

definition py_trunc :: "pyfloat \<Rightarrow> int" where
  "py_trunc x = (if x < 0 then - \<lfloor>- x\<rfloor> else \<lfloor>x\<rfloor>)"

text \<open>\<open>int(v)\<close>: a number towards zero, or decimal text without a point.\<close>

definition parse_int :: "string \<Rightarrow> int option" where
  "parse_int s =
     (let (sg, t) = read_sign (strip s); (ds, rest) = take_digits t
      in if ds \<noteq> [] \<and> rest = [] then Some (sg * int (digits_nat ds)) else None)"

fun py_int :: "pyval \<Rightarrow> pyerr + int" where
  "py_int VNone = Inl TypeError"
| "py_int (VBool b) = Inr (if b then 1 else 0)"
| "py_int (VInt i) = Inr i"
| "py_int (VFloat x) = Inr (py_trunc x)"
| "py_int (VStr s) = (case parse_int s of None \<Rightarrow> Inl ValueError | Some i \<Rightarrow> Inr i)"
| "py_int (VList xs) = Inl TypeError"
| "py_int (VDict d) = Inl TypeError"

text \<open>
  The key under which a set or dictionary files a value: numbers of the three numeric types
  that compare equal share one, and lists and dictionaries are not hashable.
\<close>

fun hash_key :: "pyval \<Rightarrow> pyerr + pyval" where
  "hash_key (VBool b) = Inr (VFloat (if b then 1 else 0))"
| "hash_key (VInt i) = Inr (VFloat (of_int i))"
| "hash_key (VList xs) = Inl TypeError"
| "hash_key (VDict d) = Inl TypeError"
| "hash_key v = Inr v"

section \<open>Case of text\<close>

definition to_upper :: "char \<Rightarrow> char" where
  "to_upper c = (let n = of_char c :: nat in if 97 \<le> n \<and> n \<le> 122 then char_of (n - 32) else c)"

definition to_lower :: "char \<Rightarrow> char" where
  "to_lower c = (let n = of_char c :: nat in if 65 \<le> n \<and> n \<le> 90 then char_of (n + 32) else c)"

definition upper :: "string \<Rightarrow> string" where
  "upper s = map to_upper s"

definition lower :: "string \<Rightarrow> string" where
  "lower s = map to_lower s"

lemma to_upper_idem [simp]: "to_upper (to_upper c) = to_upper c"
  by (auto simp: to_upper_def Let_def)

lemma upper_idem [simp]: "upper (upper s) = upper s"
  by (simp add: upper_def)

text \<open>\<open>p in s\<close> on text.\<close>

fun has_prefix :: "string \<Rightarrow> string \<Rightarrow> bool" where
  "has_prefix [] s = True"
| "has_prefix (p # ps) [] = False"
| "has_prefix (p # ps) (c # cs) = (p = c \<and> has_prefix ps cs)"

fun contains :: "string \<Rightarrow> string \<Rightarrow> bool" where
  "contains p [] = (p = [])"
| "contains p (c # cs) = (has_prefix p (c # cs) \<or> contains p cs)"

text \<open>The UTF-8 bytes of the dash the source writes in its messages.\<close>

definition em_dash :: string where
  "em_dash = map char_of [226, 128, 148 :: nat]"

section \<open>Rounding\<close>

text \<open>\<open>round(x)\<close>: to the nearest integer, halves to the even one.\<close>

definition round_half_even :: "pyfloat \<Rightarrow> int" where
  "round_half_even x =
     (let f = \<lfloor>x\<rfloor>; d = x - of_int f
      in if d < 1/2 then f else if 1/2 < d then f + 1 else if even f then f else f + 1)"

definition py_round :: "pyfloat \<Rightarrow> nat \<Rightarrow> pyfloat" where
  "py_round x n = of_int (round_half_even (x * 10 ^ n)) / 10 ^ n"

lemma round_half_even_error: "\<bar>of_int (round_half_even x) - x\<bar> \<le> 1/2"
proof -
  define f :: rat where "f = of_int \<lfloor>x\<rfloor>"
  have "f \<le> x" "x < f + 1" unfolding f_def by linarith+
  moreover have "of_int (round_half_even x) =
      (if x - f < 1/2 then f else if 1/2 < x - f then f + 1 else if even \<lfloor>x\<rfloor> then f else f + 1)"
    by (simp add: round_half_even_def Let_def f_def)
  ultimately show ?thesis by (simp split: if_splits)
qed

lemma round_half_even_of_int [simp]: "round_half_even (of_int i) = i"
  by (simp add: round_half_even_def Let_def)

lemma py_round_error: "\<bar>py_round x n - x\<bar> \<le> 1 / (2 * 10 ^ n)"
proof -
  let ?p = "10 ^ n :: pyfloat"
  have p: "0 < ?p" by simp
  have "py_round x n - x = (of_int (round_half_even (x * ?p)) - x * ?p) / ?p"
    using p by (simp add: py_round_def diff_divide_distrib)
  then have "\<bar>py_round x n - x\<bar> = \<bar>of_int (round_half_even (x * ?p)) - x * ?p\<bar> / ?p"
    by (simp add: abs_divide)
  also have "\<dots> \<le> (1/2) / ?p"
    using p round_half_even_error by (intro divide_right_mono) auto
  finally show ?thesis by simp
qed

lemma py_round_bounds:
  "py_round x n \<le> x + 1 / (2 * 10 ^ n)" "x - 1 / (2 * 10 ^ n) \<le> py_round x n"
  using py_round_error [of x n] by (simp_all only: abs_le_iff) linarith+

lemma floor_divide_numeral [simp]: "\<lfloor>numeral a / numeral b :: rat\<rfloor> = numeral a div numeral b"
  by (metis floor_divide_of_int_eq of_int_numeral)

lemma floor_one_divide_numeral [simp]: "\<lfloor>1 / numeral b :: rat\<rfloor> = 1 div numeral b"
  by (metis floor_divide_of_int_eq of_int_1 of_int_numeral)

lemma round_half_even_mono: "x \<le> y \<Longrightarrow> round_half_even x \<le> round_half_even y"
proof -
  assume xy: "x \<le> y"
  show ?thesis
  proof (cases "\<lfloor>x\<rfloor> = \<lfloor>y\<rfloor>")
    case True
    with xy show ?thesis by (auto simp: round_half_even_def Let_def)
  next
    case False
    with xy have "\<lfloor>x\<rfloor> + 1 \<le> \<lfloor>y\<rfloor>" using floor_mono [OF xy] by linarith
    then show ?thesis by (auto simp: round_half_even_def Let_def)
  qed
qed

lemma py_round_mono: "x \<le> y \<Longrightarrow> py_round x n \<le> py_round y n"
  by (simp add: py_round_def divide_right_mono round_half_even_mono mult_right_mono)

text \<open>\<open>f"{x:.nf}"\<close>: the rounded value with \<open>n\<close> decimals, the sign kept.\<close>

definition zero_pad :: "nat \<Rightarrow> string \<Rightarrow> string" where
  "zero_pad n t = replicate (n - length t) (CHR ''0'') @ t"

definition fmt_fixed :: "pyfloat \<Rightarrow> nat \<Rightarrow> string" where
  "fmt_fixed x n =
     (let u = nat (round_half_even (\<bar>x\<bar> * 10 ^ n))
      in (if x < 0 then ''-'' else []) @ dec_nat (u div 10 ^ n)
         @ (if n = 0 then [] else CHR ''.'' # zero_pad n (dec_nat (u mod 10 ^ n))))"

text \<open>\<open>sep.join(parts)\<close>.\<close>

fun join :: "string \<Rightarrow> string list \<Rightarrow> string" where
  "join sep [] = []"
| "join sep [t] = t"
| "join sep (t # u # us) = t @ sep @ join sep (u # us)"

section \<open>Lists\<close>

lemma list_max_key: "xs \<noteq> [] \<Longrightarrow> foldl max (f (hd xs)) (map f (tl xs)) \<ge> f (hd xs)" for f :: "'a \<Rightarrow> rat"
proof -
  have "a \<le> foldl max a ys" for a :: rat and ys
    by (induction ys arbitrary: a) (auto intro: order_trans [OF max.cobounded1])
  then show ?thesis by simp
qed

end
