(* ===== verification/Contracts.thy ===== *)
theory Contracts
  imports Prelude
begin

text \<open>
  The interfaces the components share, each a locale that is interpreted on the model's own
  definitions in the theory of the component that provides them.

  \<^item> \<open>journal\<close>: an append-only JSONL store with an in-memory cache. Its contract is that
    reading the lines an operation appended, from the cache before it, gives the cache after it;
    what it yields is that a restart recovers the cache.
  \<^item> \<open>ranked_lifecycle\<close>: a table of allowed next states along which a rank grows; what it yields
    is that every run visits each state once, and a bound on its length.
  \<^item> \<open>escalation\<close>: a latched control that only an explicit recovery lowers.
\<close>

section \<open>Append-only JSONL files\<close>

text \<open>
  What the loading loops of the stores see of a line: nothing but space, text that is not JSON,
  or a JSON value. \<open>json.loads\<close> after \<open>json.dumps\<close> is the identity on the values the
  stores write (dictionaries with text keys).
\<close>

datatype jline = Blank | Corrupt | Json pyval

text \<open>What opening a file gives: its lines, \<open>FileNotFoundError\<close>, or another \<open>OSError\<close>.\<close>

datatype jread = Lines "jline list" | NoFile | Unreadable

text \<open>Every operation of a run meets its condition in the state it starts from.\<close>

fun all_durable :: "('op \<Rightarrow> 'st \<Rightarrow> 'st) \<Rightarrow> ('op \<Rightarrow> 'st \<Rightarrow> bool) \<Rightarrow> 'op list \<Rightarrow> 'st \<Rightarrow> bool" where
  "all_durable f ok [] s = True"
| "all_durable f ok (x # xs) s = (ok x s \<and> all_durable f ok xs (f x s))"

locale journal =
  fixes empty :: "'c"
    and load_line :: "'c \<Rightarrow> jline \<Rightarrow> 'c"
    and lines_of :: "'st \<Rightarrow> jline list"
    and cache_of :: "'st \<Rightarrow> 'c"
    and exec :: "'op \<Rightarrow> 'st \<Rightarrow> 'st"
    and durable :: "'op \<Rightarrow> 'st \<Rightarrow> bool"
  assumes writes: "durable x s \<Longrightarrow>
      (\<exists>ls. lines_of (exec x s) = lines_of s @ ls \<and> foldl load_line (cache_of s) ls = cache_of (exec x s))
    \<or> (lines_of (exec x s) = [] \<and> cache_of (exec x s) = empty)"
begin

definition recovered :: "'st \<Rightarrow> bool" where
  "recovered s \<longleftrightarrow> foldl load_line empty (lines_of s) = cache_of s"

lemma recovered_step: "recovered s \<Longrightarrow> durable x s \<Longrightarrow> recovered (exec x s)"
  using writes [of x s] by (auto simp: recovered_def)

lemma recovered_run: "recovered s \<Longrightarrow> all_durable exec durable xs s \<Longrightarrow> recovered (fold exec xs s)"
  by (induction xs arbitrary: s) (auto intro: recovered_step)

lemma restart_run:
  "foldl load_line empty (lines_of s) = cache_of s \<Longrightarrow> all_durable exec durable xs s \<Longrightarrow>
   foldl load_line empty (lines_of (fold exec xs s)) = cache_of (fold exec xs s)"
  using recovered_run [of s xs] by (simp add: recovered_def)

end

section \<open>Lifecycles\<close>

text \<open>A sequence of states in which each is an allowed successor of the one before.\<close>

fun walk :: "('s \<Rightarrow> 's list) \<Rightarrow> 's list \<Rightarrow> bool" where
  "walk f [] = True"
| "walk f [x] = True"
| "walk f (x # y # zs) = (y \<in> set (f x) \<and> walk f (y # zs))"

locale ranked_lifecycle =
  fixes nexts :: "'s \<Rightarrow> 's list"
    and rank :: "'s \<Rightarrow> nat"
    and top :: nat
  assumes rank_up: "t \<in> set (nexts s) \<Longrightarrow> rank s < rank t"
    and rank_top: "rank s \<le> top"
begin

lemma walk_rank: "walk nexts (x # xs) \<Longrightarrow> y \<in> set xs \<Longrightarrow> rank x < rank y"
proof (induction xs arbitrary: x)
  case Nil
  then show ?case by simp
next
  case (Cons z zs)
  then have "rank x < rank z" by (auto intro: rank_up)
  with Cons show ?case by fastforce
qed

lemma walk_tl: "walk nexts (x # xs) \<Longrightarrow> walk nexts xs"
  by (cases xs) auto

lemma walk_distinct: "walk nexts xs \<Longrightarrow> distinct xs"
proof (induction xs)
  case Nil
  show ?case by simp
next
  case (Cons x xs)
  then show ?case using walk_rank [of x xs x] walk_tl [of x xs] by auto
qed

lemma walk_length_rank: "walk nexts (x # xs) \<Longrightarrow> length xs + rank x \<le> top"
proof (induction xs arbitrary: x)
  case Nil
  show ?case using rank_top [of x] by simp
next
  case (Cons y ys)
  then have "rank x < rank y" "length ys + rank y \<le> top" by (auto intro: rank_up)
  then show ?case by simp
qed

lemma walk_length: "walk nexts xs \<Longrightarrow> length xs \<le> Suc top"
  using walk_length_rank by (cases xs) fastforce+

lemma walk_terminal: "nexts x = [] \<Longrightarrow> walk nexts (x # xs) \<Longrightarrow> xs = []"
  by (cases xs) auto

end

section \<open>Latched escalation\<close>

text \<open>
  A control with a severity. Its observations never lower the severity; while it is latched only
  a recovery whose condition holds lowers it.
\<close>

locale escalation =
  fixes severity :: "'st \<Rightarrow> nat"
    and observe :: "'ev \<Rightarrow> 'st \<Rightarrow> 'st"
  assumes observe_up: "severity s \<le> severity (observe e s)"
begin

lemma observe_run_up: "severity s \<le> severity (fold observe es s)"
  by (induction es arbitrary: s) (auto intro: order_trans [OF observe_up])

lemma observed_level_stays:
  "k \<le> severity s \<Longrightarrow> k \<le> severity (fold observe es s)"
  using observe_run_up order_trans by blast

end

end
