(* ===== verification/Order_State.thy ===== *)
theory Order_State
  imports Contracts
begin

text \<open>
  The order lifecycle and its ledger: \<open>execution/state_machine.py\<close> (states, allowed
  transitions, the in-memory ledger) and \<open>persistence/order_state_store.py\<close> (the durable
  JSONL ledger behind it). The clock is a text argument \<open>now\<close>; whether the file system takes
  an append is an argument \<open>io\<close>.
\<close>

section \<open>States and transitions\<close>

datatype order_state =
    INTENT_CREATED | RISK_APPROVED | SUBMITTING | SUBMITTED | ACKNOWLEDGED
  | PARTIALLY_FILLED | FILLED | POSITION_CONFIRMED | CLOSED | UNKNOWN

fun os_value :: "order_state \<Rightarrow> string" where
  "os_value INTENT_CREATED = ''intent_created''"
| "os_value RISK_APPROVED = ''risk_approved''"
| "os_value SUBMITTING = ''submitting''"
| "os_value SUBMITTED = ''submitted''"
| "os_value ACKNOWLEDGED = ''acknowledged''"
| "os_value PARTIALLY_FILLED = ''partially_filled''"
| "os_value FILLED = ''filled''"
| "os_value POSITION_CONFIRMED = ''position_confirmed''"
| "os_value CLOSED = ''closed''"
| "os_value UNKNOWN = ''unknown''"

definition all_order_states :: "order_state list" where
  "all_order_states = [INTENT_CREATED, RISK_APPROVED, SUBMITTING, SUBMITTED, ACKNOWLEDGED,
     PARTIALLY_FILLED, FILLED, POSITION_CONFIRMED, CLOSED, UNKNOWN]"

text \<open>\<open>OrderState(text)\<close>: \<open>None\<close> where it raises \<open>ValueError\<close>.\<close>

definition order_state_of :: "string \<Rightarrow> order_state option" where
  "order_state_of t = find (\<lambda>s. os_value s = t) all_order_states"

fun next_allowed :: "order_state \<Rightarrow> order_state list" where
  "next_allowed INTENT_CREATED = [RISK_APPROVED]"
| "next_allowed RISK_APPROVED = [SUBMITTING]"
| "next_allowed SUBMITTING = [SUBMITTED, UNKNOWN]"
| "next_allowed SUBMITTED = [ACKNOWLEDGED, UNKNOWN]"
| "next_allowed ACKNOWLEDGED = [PARTIALLY_FILLED, FILLED, UNKNOWN]"
| "next_allowed PARTIALLY_FILLED = [FILLED, UNKNOWN]"
| "next_allowed FILLED = [POSITION_CONFIRMED, CLOSED, UNKNOWN]"
| "next_allowed POSITION_CONFIRMED = [CLOSED, UNKNOWN]"
| "next_allowed CLOSED = []"
| "next_allowed UNKNOWN = []"

lemma order_state_of_value [simp]: "order_state_of (os_value s) = Some s"
  by (cases s) (simp_all add: order_state_of_def all_order_states_def)

lemma os_value_inj [simp]: "os_value s = os_value t \<longleftrightarrow> s = t"
  using order_state_of_value by (metis option.inject)

fun order_rank :: "order_state \<Rightarrow> nat" where
  "order_rank INTENT_CREATED = 0"
| "order_rank RISK_APPROVED = 1"
| "order_rank SUBMITTING = 2"
| "order_rank SUBMITTED = 3"
| "order_rank ACKNOWLEDGED = 4"
| "order_rank PARTIALLY_FILLED = 5"
| "order_rank FILLED = 6"
| "order_rank POSITION_CONFIRMED = 7"
| "order_rank CLOSED = 8"
| "order_rank UNKNOWN = 8"

interpretation order_life: ranked_lifecycle next_allowed order_rank 8
proof
  show "order_rank s < order_rank t" if "t \<in> set (next_allowed s)" for s t
    using that by (cases s) auto
  show "order_rank s \<le> 8" for s by (cases s) auto
qed

section \<open>The durable ledger\<close>

record order_store =
  os_orders :: "(string \<times> pydict) list"
  os_healthy :: bool
  os_file :: "jline list"

text \<open>The cache a restart has to recover: the records and the health flag.\<close>

definition os_cache :: "order_store \<Rightarrow> (string \<times> pydict) list \<times> bool" where
  "os_cache s = (os_orders s, os_healthy s)"

text \<open>
  One line of \<open>_load\<close>. A record is filed under its \<open>intent_id\<close>, which the store always
  writes as text; a line whose \<open>intent_id\<close> is another value is passed over.
\<close>

fun os_load_line :: "(string \<times> pydict) list \<times> bool \<Rightarrow> jline \<Rightarrow> (string \<times> pydict) list \<times> bool" where
  "os_load_line (m, h) Blank = (m, h)"
| "os_load_line (m, h) Corrupt = (m, False)"
| "os_load_line (m, h) (Json (VDict d)) =
     (case map_of d ''intent_id'' of
        Some (VStr i) \<Rightarrow> (AList.update i d m, h)
      | _ \<Rightarrow> (m, h))"
| "os_load_line (m, h) (Json _) = (m, h)"

definition os_init :: "jread \<Rightarrow> order_store" where
  "os_init r = (case r of
      Lines ls \<Rightarrow> (let (m, h) = foldl os_load_line ([], True) ls
                   in \<lparr>os_orders = m, os_healthy = h, os_file = ls\<rparr>)
    | NoFile \<Rightarrow> \<lparr>os_orders = [], os_healthy = True, os_file = []\<rparr>
    | Unreadable \<Rightarrow> \<lparr>os_orders = [], os_healthy = False, os_file = []\<rparr>)"

definition os_append :: "bool \<Rightarrow> pydict \<Rightarrow> order_store \<Rightarrow> bool \<times> order_store" where
  "os_append io entry s =
     (if \<not> os_healthy s then (False, s)
      else if io then (True, s\<lparr>os_file := os_file s @ [Json (VDict entry)]\<rparr>)
      else (False, s\<lparr>os_healthy := False\<rparr>))"

definition os_set_entry :: "string \<Rightarrow> string \<Rightarrow> string \<Rightarrow> pydict \<Rightarrow> order_store \<Rightarrow> pydict" where
  "os_set_entry now i st extra s =
     dict_update
       (dict_update (case map_of (os_orders s) i of None \<Rightarrow> [(''intent_id'', VStr i)] | Some r \<Rightarrow> r)
          [(''state'', VStr st), (''timestamp'', VStr now)])
       extra"

definition os_set_order ::
  "bool \<Rightarrow> string \<Rightarrow> string \<Rightarrow> string \<Rightarrow> pydict \<Rightarrow> order_store \<Rightarrow> bool \<times> order_store" where
  "os_set_order io now i st extra s =
     (let entry = os_set_entry now i st extra s
      in os_append io entry (s\<lparr>os_orders := AList.update i entry (os_orders s)\<rparr>))"

definition os_get_order :: "string \<Rightarrow> order_store \<Rightarrow> pydict option" where
  "os_get_order i s = map_of (os_orders s) i"

definition os_clear :: "bool \<Rightarrow> order_store \<Rightarrow> order_store" where
  "os_clear io s = s\<lparr>os_orders := [], os_file := (if io then [] else os_file s)\<rparr>"

subsection \<open>Closing by ticket\<close>

text \<open>
  \<open>str(a) == str(b)\<close>. Two values without a modelled text have the same text when they are the
  same value.
\<close>

definition same_str :: "pyval \<Rightarrow> pyval \<Rightarrow> bool" where
  "same_str a b = (case (py_str a, py_str b) of
      (Some x, Some y) \<Rightarrow> x = y
    | (None, None) \<Rightarrow> a = b
    | _ \<Rightarrow> False)"

definition latest_for_ticket ::
  "pyval \<Rightarrow> (string \<times> pydict) list \<Rightarrow> (string \<times> pydict) option" where
  "latest_for_ticket ticket m =
     foldl (\<lambda>acc (i, r). if same_str (dget r ''ticket'' VNone) ticket then Some (i, r) else acc) None m"

definition record_state :: "pydict \<Rightarrow> string" where
  "record_state r = (case py_str (dget r ''state'' (VStr [])) of None \<Rightarrow> [] | Some t \<Rightarrow> lower t)"

definition closed_entry :: "string \<Rightarrow> string \<Rightarrow> string \<Rightarrow> pyval \<Rightarrow> pydict \<Rightarrow> pydict" where
  "closed_entry ts reason i ticket r =
     [(''intent_id'', VStr i), (''state'', VStr (os_value CLOSED)), (''ticket'', dget r ''ticket'' ticket),
      (''timestamp'', VStr ts), (''reason'', VStr reason)]"

definition os_mark_closed ::
  "bool \<Rightarrow> string \<Rightarrow> pyval \<Rightarrow> string \<Rightarrow> order_store \<Rightarrow> bool \<times> order_store" where
  "os_mark_closed io ts ticket reason s =
     (if ticket = VNone then (False, s)
      else case latest_for_ticket ticket (os_orders s) of
        None \<Rightarrow> (False, s)
      | Some (i, r) \<Rightarrow>
          if record_state r = os_value CLOSED then (False, s)
          else case order_state_of (record_state r) of
            None \<Rightarrow> (False, s)
          | Some cur \<Rightarrow>
              if CLOSED \<notin> set (next_allowed cur) then (False, s)
              else let entry = closed_entry ts reason i ticket r
                   in (True, snd (os_append io entry (s\<lparr>os_orders := AList.update i entry (os_orders s)\<rparr>))))"

section \<open>The in-memory ledger\<close>

record ledger =
  lg_orders :: "(string \<times> pydict) list"
  lg_store :: "order_store option"

definition empty_ledger :: ledger where
  "empty_ledger = \<lparr>lg_orders = [], lg_store = None\<rparr>"

definition set_store :: "order_store option \<Rightarrow> ledger \<Rightarrow> ledger" where
  "set_store st l = (case st of
      None \<Rightarrow> l\<lparr>lg_store := None\<rparr>
    | Some s \<Rightarrow> l\<lparr>lg_orders := dict_update (lg_orders l) (os_orders s), lg_store := Some s\<rparr>)"

definition get_order :: "string \<Rightarrow> ledger \<Rightarrow> pyerr + pydict" where
  "get_order i l = (case map_of (lg_orders l) i of None \<Rightarrow> Inl KeyError | Some r \<Rightarrow> Inr r)"

definition ledger_entry :: "string \<Rightarrow> string \<Rightarrow> pydict \<Rightarrow> ledger \<Rightarrow> pydict" where
  "ledger_entry i st extra l =
     dict_update
       (AList.update ''state'' (VStr st)
          (case map_of (lg_orders l) i of None \<Rightarrow> [(''intent_id'', VStr i)] | Some r \<Rightarrow> r))
       extra"

definition set_order ::
  "bool \<Rightarrow> string \<Rightarrow> string \<Rightarrow> order_state \<Rightarrow> pydict \<Rightarrow> ledger \<Rightarrow> bool \<times> ledger" where
  "set_order io now i st extra l =
     (let l1 = l\<lparr>lg_orders := AList.update i (ledger_entry i (os_value st) extra l) (lg_orders l)\<rparr>
      in case lg_store l of
           None \<Rightarrow> (False, l1)
         | Some s \<Rightarrow>
             let (ok, s') = os_set_order io now i (os_value st) extra s
             in (ok, l1\<lparr>lg_store := Some s'\<rparr>))"

definition reset_store :: "ledger \<Rightarrow> ledger" where
  "reset_store l = l\<lparr>lg_orders := []\<rparr>"


section \<open>Lemmas\<close>

lemma os_append_cases:
  "os_append io e s =
     (if os_healthy s \<and> io then (True, s\<lparr>os_file := os_file s @ [Json (VDict e)]\<rparr>)
      else (False, s\<lparr>os_healthy := False\<rparr>))"
  by (cases "os_healthy s") (auto simp: os_append_def intro!: order_store.equality)

lemma os_append_orders [simp]: "os_orders (snd (os_append io e s)) = os_orders s"
  by (simp add: os_append_def)

lemma os_append_healthy [simp]: "os_healthy (snd (os_append io e s)) = (os_healthy s \<and> io)"
  by (simp add: os_append_def)

lemma os_append_ok [simp]: "fst (os_append io e s) = (os_healthy s \<and> io)"
  by (simp add: os_append_def)

lemma os_append_file:
  "os_file (snd (os_append io e s)) =
     (if os_healthy s \<and> io then os_file s @ [Json (VDict e)] else os_file s)"
  by (simp add: os_append_def)

lemma order_store_same [simp]: "os_healthy s = h \<Longrightarrow> s\<lparr>os_healthy := h\<rparr> = s"
  by (cases s) simp

text \<open>Every record of the cache is filed under its own \<open>intent_id\<close>.\<close>

definition os_keyed :: "order_store \<Rightarrow> bool" where
  "os_keyed s \<longleftrightarrow> (\<forall>(i, r) \<in> set (os_orders s). map_of r ''intent_id'' = Some (VStr i))"

definition keeps_id :: "string \<Rightarrow> pydict \<Rightarrow> bool" where
  "keeps_id i extra \<longleftrightarrow> (\<forall>v. (''intent_id'', v) \<in> set extra \<longrightarrow> v = VStr i)"

lemma map_of_dict_update_same:
  "map_of d k = Some v \<Longrightarrow> (\<forall>w. (k, w) \<in> set e \<longrightarrow> w = v) \<Longrightarrow> map_of (dict_update d e) k = Some v"
proof (induction e arbitrary: d)
  case Nil
  then show ?case by simp
next
  case (Cons x e)
  obtain a b where x: "x = (a, b)" by (cases x)
  have "map_of (AList.update a b d) k = Some v"
    using Cons.prems by (auto simp: x)
  then have "map_of (dict_update (AList.update a b d) e) k = Some v"
    using Cons.prems(2) by (intro Cons.IH) auto
  then show ?case by (simp add: x)
qed

lemma os_keyedD: "os_keyed s \<Longrightarrow> map_of (os_orders s) i = Some r \<Longrightarrow> map_of r ''intent_id'' = Some (VStr i)"
  using map_of_SomeD by (fastforce simp: os_keyed_def)

lemma set_entry_id:
  assumes "os_keyed s" "keeps_id i extra"
  shows "map_of (os_set_entry now i st extra s) ''intent_id'' = Some (VStr i)"
  unfolding os_set_entry_def
  using assms by (intro map_of_dict_update_same)
    (auto simp: keeps_id_def dest: os_keyedD split: option.splits)

lemma set_update_subset: "set (AList.update k v m) \<subseteq> insert (k, v) (set m)"
  by (induction m) auto

lemma keyed_update:
  "os_keyed s \<Longrightarrow> map_of r ''intent_id'' = Some (VStr i) \<Longrightarrow>
   os_keyed (s\<lparr>os_orders := AList.update i r (os_orders s)\<rparr>)"
  using set_update_subset [of i r "os_orders s"] by (fastforce simp: os_keyed_def)

lemma keyed_cong: "os_orders s = os_orders t \<Longrightarrow> os_keyed s \<longleftrightarrow> os_keyed t"
  by (simp add: os_keyed_def)

lemma closed_entry_id [simp]: "map_of (closed_entry ts reason i ticket r) ''intent_id'' = Some (VStr i)"
  by (simp add: closed_entry_def)

lemma os_set_order_keyed [preserves]:
  assumes "os_keyed s" "keeps_id i extra"
  shows "os_keyed (snd (os_set_order io now i st extra s))"
proof -
  have "os_keyed (s\<lparr>os_orders := AList.update i (os_set_entry now i st extra s) (os_orders s)\<rparr>)"
    by (rule keyed_update [OF assms(1) set_entry_id [OF assms]])
  then show ?thesis by (simp add: os_set_order_def Let_def os_keyed_def)
qed

lemma os_mark_closed_keyed [preserves]:
  assumes "os_keyed s"
  shows "os_keyed (snd (os_mark_closed io ts ticket reason s))"
proof -
  have "os_keyed (s\<lparr>os_orders := AList.update i (closed_entry ts reason i ticket r) (os_orders s)\<rparr>)" for i r
    by (rule keyed_update [OF assms closed_entry_id])
  then show ?thesis
    using assms by (auto simp: os_mark_closed_def Let_def os_keyed_def split: option.splits prod.splits)
qed

section \<open>Operations as a run, and recovery after a restart\<close>

datatype os_op =
    OSet string string string pydict   \<comment> \<open>now, intent, state, extra\<close>
  | OMarkClosed string pyval string    \<comment> \<open>at, ticket, reason\<close>
  | OClear

text \<open>An operation and whether the file system takes its write.\<close>

fun os_exec :: "os_op \<times> bool \<Rightarrow> order_store \<Rightarrow> order_store" where
  "os_exec (OSet now i st extra, io) s = snd (os_set_order io now i st extra s)"
| "os_exec (OMarkClosed ts ticket reason, io) s = snd (os_mark_closed io ts ticket reason s)"
| "os_exec (OClear, io) s = os_clear io s"

text \<open>
  What restart safety needs of a step: the store is healthy, the write succeeds, and the caller's
  metadata does not refile the record.
\<close>

fun os_durable :: "os_op \<times> bool \<Rightarrow> order_store \<Rightarrow> bool" where
  "os_durable (OSet now i st extra, io) s = (io \<and> os_healthy s \<and> os_keyed s \<and> keeps_id i extra)"
| "os_durable (OMarkClosed ts ticket reason, io) s = (io \<and> os_healthy s)"
| "os_durable (OClear, io) s = (io \<and> os_healthy s)"

lemma os_set_order_writes:
  assumes "io" "os_healthy s" "os_keyed s" "keeps_id i extra"
  shows "\<exists>l. os_file (snd (os_set_order io now i st extra s)) = os_file s @ [l]
    \<and> os_load_line (os_cache s) l = os_cache (snd (os_set_order io now i st extra s))"
  using assms set_entry_id [OF assms(3,4)]
  by (simp add: os_set_order_def Let_def os_append_def os_cache_def)

lemma os_mark_closed_writes:
  assumes "io" "os_healthy s"
  shows "\<exists>ls. os_file (snd (os_mark_closed io ts ticket reason s)) = os_file s @ ls
    \<and> foldl os_load_line (os_cache s) ls = os_cache (snd (os_mark_closed io ts ticket reason s))"
proof (cases "os_file (snd (os_mark_closed io ts ticket reason s)) = os_file s")
  case True
  then show ?thesis using assms
    by (intro exI [of _ "[]"])
      (auto simp: os_mark_closed_def Let_def os_append_def split: option.splits prod.splits if_splits)
next
  case False
  then obtain i r where
      "os_mark_closed io ts ticket reason s =
        (True, snd (os_append io (closed_entry ts reason i ticket r)
          (s\<lparr>os_orders := AList.update i (closed_entry ts reason i ticket r) (os_orders s)\<rparr>)))"
    by (auto simp: os_mark_closed_def Let_def split: option.splits prod.splits if_splits)
  then show ?thesis using assms
    by (intro exI [of _ "[Json (VDict (closed_entry ts reason i ticket r))]"])
      (simp add: os_append_def os_cache_def)
qed

interpretation order_journal:
  journal "([], True)" os_load_line os_file os_cache os_exec os_durable
proof
  fix x s
  assume d: "os_durable x s"
  show "(\<exists>ls. os_file (os_exec x s) = os_file s @ ls \<and>
            foldl os_load_line (os_cache s) ls = os_cache (os_exec x s))
      \<or> (os_file (os_exec x s) = [] \<and> os_cache (os_exec x s) = ([], True))"
  proof (cases "(x, s)" rule: os_exec.cases)
    case (1 now i st extra io s')
    then show ?thesis
      using d os_set_order_writes [of io s i extra now st] by fastforce
  next
    case (2 ts ticket reason io s')
    then show ?thesis using d os_mark_closed_writes [of io s ts ticket reason] by simp
  next
    case (3 io s')
    then show ?thesis using d by (simp add: os_clear_def os_cache_def)
  qed
qed

lemma os_init_Lines:
  "os_cache (os_init (Lines ls)) = foldl os_load_line ([], True) ls"
  by (simp add: os_init_def os_cache_def split: prod.splits)


section \<open>Properties\<close>

lemma os_init_keyed: "os_keyed (os_init r)"
proof -
  have load: "\<forall>(i, r) \<in> set m. map_of r ''intent_id'' = Some (VStr i) \<Longrightarrow>
      \<forall>(i, r) \<in> set (fst (foldl os_load_line (m, h) ls)). map_of r ''intent_id'' = Some (VStr i)" for m h ls
  proof (induction ls arbitrary: m h)
    case Nil
    then show ?case by simp
  next
    case (Cons l ls)
    have "\<forall>(i, r) \<in> set (fst (os_load_line (m, h) l)). map_of r ''intent_id'' = Some (VStr i)"
    proof (cases "((m, h), l)" rule: os_load_line.cases)
      case (3 m' h' d)
      then show ?thesis
        using Cons.prems set_update_subset by (fastforce split: option.splits pyval.splits)
    qed (use Cons.prems in auto)
    then show ?case
      using Cons.IH by (cases "os_load_line (m, h) l") simp
  qed
  show ?thesis
  proof (cases r)
    case (Lines ls)
    with load [of "[]" True ls] show ?thesis by (simp add: os_keyed_def os_init_def split: prod.splits)
  qed (simp_all add: os_keyed_def os_init_def)
qed

fun op_keeps_id :: "os_op \<Rightarrow> bool" where
  "op_keeps_id (OSet now i st extra) = keeps_id i extra"
| "op_keeps_id _ = True"

lemma os_exec_keyed [preserves]: "os_keyed s \<Longrightarrow> op_keeps_id x \<Longrightarrow> os_keyed (os_exec (x, io) s)"
proof (cases x)
  case OClear
  then show ?thesis by (simp add: os_clear_def os_keyed_def)
qed (auto intro: preserves)

lemma os_exec_healthy: "os_healthy s \<Longrightarrow> os_healthy (os_exec (x, True) s)"
  by (cases x) (auto simp: os_set_order_def os_mark_closed_def os_clear_def Let_def
      split: option.splits prod.splits)

lemma all_durable_os:
  "os_keyed s \<Longrightarrow> os_healthy s \<Longrightarrow> list_all (\<lambda>(x, io). io \<and> op_keeps_id x) xs \<Longrightarrow>
   all_durable os_exec os_durable xs s"
proof (induction xs arbitrary: s)
  case Nil
  then show ?case by simp
next
  case (Cons x xs)
  obtain y io where x: "x = (y, io)" by (cases x)
  with Cons.prems have "io" "op_keeps_id y" by auto
  then show ?case
    using Cons os_exec_keyed [of s y True] os_exec_healthy [of s y] x by (cases y) auto
qed

text \<open>
  A restart recovers the ledger: opening the file that a healthy ledger wrote through any run of
  set, close and clear operations whose writes succeed gives the same records, in the same order,
  and the same health.
\<close>

theorem order_restart:
  assumes "os_healthy (os_init (Lines ls))"
    and "list_all (\<lambda>(x, io). io \<and> op_keeps_id x) xs"
  shows "os_cache (os_init (Lines (os_file (fold os_exec xs (os_init (Lines ls))))))
       = os_cache (fold os_exec xs (os_init (Lines ls)))"
proof -
  have "os_file (os_init (Lines ls)) = ls" by (simp add: os_init_def split: prod.splits)
  then have "foldl os_load_line ([], True) (os_file (os_init (Lines ls))) = os_cache (os_init (Lines ls))"
    by (simp add: os_init_Lines)
  from order_journal.restart_run [OF this all_durable_os [OF os_init_keyed assms]]
  show ?thesis by (simp add: os_init_Lines)
qed

definition demo_run :: "(os_op \<times> bool) list" where
  "demo_run = [(OSet ''t0'' ''k1'' ''submitted'' [(''ticket'', VInt 7)], True),
     (OSet ''t1'' ''k1'' ''filled'' [], True), (OMarkClosed ''t2'' (VInt 7) ''gone'', True)]"

theorem order_restart_witness:
  "os_healthy (os_init (Lines [Blank]))
   \<and> os_cache (os_init (Lines (os_file (fold os_exec demo_run (os_init (Lines [Blank]))))))
     = os_cache (fold os_exec demo_run (os_init (Lines [Blank])))"
proof -
  have h: "os_healthy (os_init (Lines [Blank]))" by (simp add: os_init_def)
  have "list_all (\<lambda>(x, io). io \<and> op_keeps_id x) demo_run"
    by (simp add: demo_run_def keeps_id_def)
  from order_restart [OF h this] h show ?thesis by simp
qed

text \<open>
  A ledger that lost a write stays unhealthy: whatever operations follow, no later order record
  is reported as persisted.
\<close>

theorem os_unhealthy_sticky:
  assumes "\<not> os_healthy s"
  shows "\<not> os_healthy (fold os_exec xs s)
       \<and> \<not> fst (os_set_order io now i st extra (fold os_exec xs s))"
proof -
  have step: "\<not> os_healthy (os_exec x s)" if "\<not> os_healthy s" for x s
    using that by (cases "(x, s)" rule: os_exec.cases)
      (auto simp: os_set_order_def os_mark_closed_def os_clear_def Let_def split: option.splits)
  have "\<not> os_healthy (fold os_exec xs s)"
    using assms step by (induction xs arbitrary: s) auto
  then show ?thesis by (simp add: os_set_order_def Let_def)
qed

definition lost_store :: order_store where
  "lost_store = snd (os_set_order False ''t'' ''k1'' ''submitting'' [] (os_init NoFile))"

theorem os_unhealthy_sticky_witness:
  "\<not> os_healthy lost_store
   \<and> \<not> fst (os_set_order True ''u'' ''k2'' ''filled'' [] (fold os_exec demo_run lost_store))"
proof -
  have h: "\<not> os_healthy lost_store" by (simp add: lost_store_def os_set_order_def Let_def)
  from os_unhealthy_sticky [OF h, of demo_run True "''u''" "''k2''" "''filled''" "[]"] h show ?thesis by simp
qed

text \<open>
  Along allowed transitions an order visits no state twice and takes at most eight steps, and
  nothing follows a closed or unknown order.
\<close>

theorem order_walk_bounded:
  assumes "walk next_allowed (s # ss)"
  shows "distinct (s # ss) \<and> length ss \<le> 8 \<and> (s = CLOSED \<or> s = UNKNOWN \<longleftrightarrow> next_allowed s = [])
       \<and> (next_allowed s = [] \<longrightarrow> ss = [])"
proof -
  have "s = CLOSED \<or> s = UNKNOWN \<longleftrightarrow> next_allowed s = []" by (cases s) auto
  then show ?thesis
    using order_life.walk_distinct [OF assms] order_life.walk_length [OF assms]
      order_life.walk_terminal [of s ss] assms by auto
qed

theorem order_walk_bounded_witness:
  "length [RISK_APPROVED, SUBMITTING, SUBMITTED, ACKNOWLEDGED, FILLED, CLOSED] \<le> 8
   \<and> walk next_allowed [INTENT_CREATED, RISK_APPROVED, SUBMITTING, SUBMITTED, ACKNOWLEDGED, FILLED, CLOSED]"
proof -
  have w: "walk next_allowed
      [INTENT_CREATED, RISK_APPROVED, SUBMITTING, SUBMITTED, ACKNOWLEDGED, FILLED, CLOSED]"
    by simp
  from order_walk_bounded [OF w] w show ?thesis by blast
qed

subsection \<open>Closing\<close>

lemma latest_for_ticket_find:
  "latest_for_ticket t m = find (\<lambda>(i, r). same_str (dget r ''ticket'' VNone) t) (rev m)"
  unfolding latest_for_ticket_def by (induction m rule: rev_induct) auto

lemma find_snoc: "find p (xs @ [x]) = (case find p xs of Some y \<Rightarrow> Some y | None \<Rightarrow> if p x then Some x else None)"
  by (induction xs) auto

lemma latest_for_ticket_Cons:
  "latest_for_ticket t ((i, r) # m) =
     (case latest_for_ticket t m of
        Some x \<Rightarrow> Some x
      | None \<Rightarrow> (if same_str (dget r ''ticket'' VNone) t then Some (i, r) else None))"
  by (simp add: latest_for_ticket_find find_snoc)

lemma latest_for_ticket_in:
  "latest_for_ticket t m = Some (i, r) \<Longrightarrow> (i, r) \<in> set m \<and> same_str (dget r ''ticket'' VNone) t"
  by (auto simp: latest_for_ticket_find find_Some_iff in_set_conv_nth rev_nth)
     (metis diff_Suc_less gr_implies_not0 in_set_conv_nth length_rev neq0_conv nth_mem set_rev)

lemma latest_for_ticket_update:
  "distinct (map fst m) \<Longrightarrow> latest_for_ticket t m = Some (i, r) \<Longrightarrow>
   same_str (dget r' ''ticket'' VNone) t \<Longrightarrow> latest_for_ticket t (AList.update i r' m) = Some (i, r')"
proof (induction m)
  case Nil
  then show ?case by (simp add: latest_for_ticket_def)
next
  case (Cons x m)
  obtain j q where x: "x = (j, q)" by (cases x)
  show ?case
  proof (cases "latest_for_ticket t m")
    case None
    then show ?thesis using Cons.prems
      by (auto simp: x latest_for_ticket_Cons split: if_splits)
  next
    case (Some y)
    then have l: "latest_for_ticket t m = Some (i, r)"
      using Cons.prems(2) by (simp add: x latest_for_ticket_Cons)
    then have "i \<in> fst ` set m" using latest_for_ticket_in by force
    then have "j \<noteq> i" using Cons.prems(1) by (auto simp: x)
    then show ?thesis
      using Cons l by (simp add: x latest_for_ticket_Cons)
  qed
qed


lemma py_str_closed [simp]: "record_state (closed_entry ts reason i ticket r) = os_value CLOSED"
  by (simp add: record_state_def closed_entry_def dget_def lower_def to_lower_def Let_def)

lemma closed_entry_ticket [simp]:
  "same_str (dget r ''ticket'' VNone) t \<Longrightarrow> t \<noteq> VNone \<Longrightarrow>
   same_str (dget (closed_entry ts reason i t r) ''ticket'' VNone) t"
  by (auto simp: closed_entry_def dget_def same_str_def split: option.splits)

lemma order_state_of_closed [simp]: "order_state_of ''closed'' = Some CLOSED"
  using order_state_of_value [of CLOSED] by simp

lemma os_mark_closed_True:
  "fst (os_mark_closed io ts t reason s) \<longleftrightarrow>
     t \<noteq> VNone \<and> (\<exists>i r cur. latest_for_ticket t (os_orders s) = Some (i, r)
       \<and> order_state_of (record_state r) = Some cur \<and> CLOSED \<in> set (next_allowed cur))"
  by (cases "latest_for_ticket t (os_orders s)")
    (auto simp: os_mark_closed_def Let_def split: option.splits if_splits)

lemma os_mark_closed_orders:
  assumes "fst (os_mark_closed io ts t reason s)"
  obtains i r cur where "latest_for_ticket t (os_orders s) = Some (i, r)"
    "order_state_of (record_state r) = Some cur" "CLOSED \<in> set (next_allowed cur)"
    "os_orders (snd (os_mark_closed io ts t reason s))
       = AList.update i (closed_entry ts reason i t r) (os_orders s)"
  using assms by (auto simp: os_mark_closed_def Let_def split: option.splits prod.splits if_splits)

lemma closable_states:
  "(\<exists>cur. order_state_of t = Some cur \<and> CLOSED \<in> set (next_allowed cur)) \<longleftrightarrow> t = ''filled'' \<or> t = ''position_confirmed''"
  (is "?l \<longleftrightarrow> ?r")
proof
  assume ?l
  then obtain cur where c: "order_state_of t = Some cur" "CLOSED \<in> set (next_allowed cur)" by blast
  from c(1) have "os_value cur = t" by (auto simp: order_state_of_def find_Some_iff)
  with c(2) show ?r by (cases cur) auto
next
  assume ?r
  then show ?l
    using order_state_of_value [of FILLED] order_state_of_value [of POSITION_CONFIRMED] by auto
qed

lemma refused_close_unchanged:
  "\<not> fst (os_mark_closed io ts t reason s) \<Longrightarrow> snd (os_mark_closed io ts t reason s) = s"
  by (auto simp: os_mark_closed_def Let_def split: option.splits)



text \<open>
  A close whose write to disk fails is still reported as a success, although no closed record
  was appended: the file is unchanged and the ledger is unhealthy afterwards, so a restart brings
  the open record back.
\<close>

theorem mark_closed_reports_lost_write:
  assumes "fst (os_mark_closed False ts t reason s)"
  shows "fst (os_mark_closed False ts t reason s)
       \<and> os_file (snd (os_mark_closed False ts t reason s)) = os_file s
       \<and> \<not> os_healthy (snd (os_mark_closed False ts t reason s))"
  using assms by (auto simp: os_mark_closed_def Let_def os_append_file split: option.splits prod.splits if_splits)

definition open_position :: order_store where
  "open_position = \<lparr>os_orders = [(''k1'', [(''intent_id'', VStr ''k1''), (''state'', VStr ''filled''), (''ticket'', VInt 7)])],
     os_healthy = True, os_file = []\<rparr>"

lemma open_position_closes: "fst (os_mark_closed io ts (VInt 7) reason open_position)"
  by (simp add: os_mark_closed_True open_position_def latest_for_ticket_def dget_def same_str_def
      record_state_def lower_def to_lower_def Let_def order_state_of_def all_order_states_def)

theorem mark_closed_reports_lost_write_witness:
  "fst (os_mark_closed False ''t'' (VInt 7) ''gone'' open_position)
   \<and> os_file (snd (os_mark_closed False ''t'' (VInt 7) ''gone'' open_position)) = []"
  using mark_closed_reports_lost_write [OF open_position_closes [of False "''t''" "''gone''"]]
  by (simp add: open_position_def)

definition two_intents :: "(os_op \<times> bool) list" where
  "two_intents =
     [(OSet ''t0'' ''k1'' ''filled'' [(''ticket'', VInt 7)], True),
      (OSet ''t1'' ''k2'' ''filled'' [(''ticket'', VInt 7)], True),
      (OSet ''t2'' ''k1'' ''position_confirmed'' [], True)]"

text \<open>
  The record chosen for a ticket is the last one in the order the intents were first seen, not the
  one written last: after k1 and then k2 are filed under ticket 7 and k1 is confirmed again, closing
  ticket 7 closes k2 and leaves the record written last, k1, open.
\<close>

theorem mark_closed_misses_last_record:
  "let s = fold os_exec two_intents (os_init NoFile); s' = snd (os_mark_closed True ''t3'' (VInt 7) ''gone'' s)
   in last (os_file s) = Json (VDict [(''intent_id'', VStr ''k1''), (''state'', VStr ''position_confirmed''),
          (''timestamp'', VStr ''t2''), (''ticket'', VInt 7)])
      \<and> map_option record_state (os_get_order ''k2'' s') = Some (os_value CLOSED)
      \<and> map_option record_state (os_get_order ''k1'' s') = Some (os_value POSITION_CONFIRMED)"
  by code_simp

subsection \<open>The two ledgers agree\<close>

lemma ledger_entry_state:
  "''state'' \<notin> fst ` set extra \<Longrightarrow> map_of (ledger_entry i st extra l) ''state'' = Some (VStr st)"
  by (simp add: ledger_entry_def map_of_dict_update_notin)

lemma set_entry_state:
  "''state'' \<notin> fst ` set extra \<Longrightarrow> map_of (os_set_entry now i st extra s) ''state'' = Some (VStr st)"
  by (simp add: os_set_entry_def map_of_dict_update_notin)

text \<open>
  Setting an order writes the given state to the memory ledger and to the durable one, leaves
  every other order as it was in both, and reports true exactly when a store is attached and the
  record reached the disk. The old state is not consulted: any state can follow any other.
\<close>

theorem set_order_dual_write:
  assumes "''state'' \<notin> fst ` set extra"
    and "set_order io now i st extra l = (b, l')"
  shows "(\<exists>r. get_order i l' = Inr r \<and> map_of r ''state'' = Some (VStr (os_value st)))
       \<and> (\<forall>j. j \<noteq> i \<longrightarrow> get_order j l' = get_order j l)
       \<and> (case lg_store l of
            None \<Rightarrow> \<not> b \<and> lg_store l' = None
          | Some s \<Rightarrow> b = (os_healthy s \<and> io)
              \<and> (\<exists>s' r. lg_store l' = Some s' \<and> os_get_order i s' = Some r
                  \<and> map_of r ''state'' = Some (VStr (os_value st))
                  \<and> (\<forall>j. j \<noteq> i \<longrightarrow> os_get_order j s' = os_get_order j s)))"
proof (cases "lg_store l")
  case None
  then show ?thesis using assms
    by (auto simp: set_order_def get_order_def Let_def ledger_entry_state)
next
  case (Some s)
  let ?e = "os_set_entry now i (os_value st) extra s"
  let ?w = "os_append io ?e (s\<lparr>os_orders := AList.update i ?e (os_orders s)\<rparr>)"
  have eq: "b = fst ?w" "l' = l\<lparr>lg_orders := AList.update i (ledger_entry i (os_value st) extra l) (lg_orders l),
      lg_store := Some (snd ?w)\<rparr>"
    using assms(2) Some by (simp_all add: set_order_def os_set_order_def Let_def case_prod_beta)
  show ?thesis
    using assms(1) by (simp add: Some eq get_order_def os_get_order_def ledger_entry_state set_entry_state)
qed

theorem set_order_dual_write_witness:
  "\<exists>l'. set_order True ''t'' ''k1'' INTENT_CREATED [] (set_store (Some open_position) empty_ledger) = (True, l')
     \<and> (\<exists>r. get_order ''k1'' l' = Inr r \<and> map_of r ''state'' = Some (VStr (os_value INTENT_CREATED)))"
proof -
  let ?l = "set_store (Some open_position) empty_ledger"
  obtain b l' where r: "set_order True ''t'' ''k1'' INTENT_CREATED [] ?l = (b, l')" by fastforce
  have "lg_store ?l = Some open_position" "os_healthy open_position"
    by (simp_all add: set_store_def open_position_def)
  then show ?thesis using set_order_dual_write [OF _ r] r by simp
qed

end
