(* ===== verification/Execution.thy ===== *)
theory Execution
  imports Order_State
begin

text \<open>
  The execution engine: \<open>execution/engine.py\<close>. The broker is a state of any type \<open>'b\<close> with
  the functions the engine calls on the connector and on the native library (\<open>terminal\<close>); reads
  of it do not raise, sends may. An exception is its text. The world holds the broker, the order
  ledger with its durable store, the registries of the engine, and \<open>w_sent\<close>, a log of what was
  handed to the broker and what came back, which no operation reads.
\<close>

section \<open>Requests and results\<close>

type_synonym exn = string

record order_request =
  rq_symbol :: string
  rq_order_type :: string
  rq_volume :: pyfloat
  rq_price :: pyfloat
  rq_sl :: pyfloat
  rq_tp :: pyfloat
  rq_magic :: int
  rq_comment :: string
  rq_key :: string
  rq_token :: "string option"
  rq_signal_id :: "string option"
  rq_account_id :: "string option"
  rq_terminal_id :: "string option"
  rq_proposal_id :: "string option"
  rq_execution_id :: "string option"
  rq_strategy_version :: "string option"
  rq_order_ticket :: "int option"
  rq_deal_ticket :: "int option"
  rq_position_ticket :: "int option"

record exec_result =
  er_success :: bool
  er_ticket :: "int option"
  er_code :: int
  er_message :: string
  er_retries :: nat
  er_position :: "pydict option"

definition failed :: "int \<Rightarrow> string \<Rightarrow> nat \<Rightarrow> exec_result" where
  "failed code msg retries =
     \<lparr>er_success = False, er_ticket = None, er_code = code, er_message = msg, er_retries = retries,
      er_position = None\<rparr>"

text \<open>What a send returns: a dictionary, or the fields of a MetaTrader result object.\<close>

datatype raw_result =
    RawDict pydict
  | RawObj "int option" string "int option" pyval   \<comment> \<open>retcode, comment, order, price\<close>
  | RawNone

record send_result =
  sr_success :: bool
  sr_ticket :: "int option"
  sr_code :: int
  sr_message :: string
  sr_price :: pyval

record tick =
  tk_ask :: "pyfloat option"
  tk_bid :: "pyfloat option"

text \<open>
  The broker as the engine sees it: the optional send methods of the connector and of the native
  library, the arm switch, and the reads.
\<close>

record 'b terminal =
  bk_order_send :: "(pydict \<Rightarrow> 'b \<Rightarrow> (exn + raw_result) \<times> 'b) option"
  bk_execute_order :: "(pydict \<Rightarrow> 'b \<Rightarrow> (exn + raw_result) \<times> 'b) option"
  bk_native_send :: "(pydict \<Rightarrow> 'b \<Rightarrow> (exn + raw_result) \<times> 'b) option"
  bk_armed :: "'b \<Rightarrow> bool"
  bk_native_tick :: "string \<Rightarrow> 'b \<Rightarrow> (pyfloat \<times> pyfloat) option"
  bk_tick :: "string \<Rightarrow> 'b \<Rightarrow> tick option"
  bk_symbol_info :: "(string \<Rightarrow> 'b \<Rightarrow> (pyfloat option \<times> pyfloat option) option) option"
  bk_positions :: "'b \<Rightarrow> pydict list"
  bk_has_position :: "int \<Rightarrow> 'b \<Rightarrow> bool"
  bk_resolve :: "string \<Rightarrow> string option"
  bk_locator :: "(order_request \<Rightarrow> 'b \<Rightarrow> exn + pydict option) option"

text \<open>
  The engine's settings, with the environment its calls meet: whether the n-th write of the ledger
  reaches the disk, the clock at it, Python's text of a float and of a conversion error.
\<close>

record 'b engine =
  en_terminal :: "'b terminal"
  en_max_retries :: nat
  en_spread_tolerance :: pyfloat
  en_min_volume :: pyfloat
  en_max_volume :: pyfloat
  en_simulation :: bool
  en_require_approval :: bool
  en_require_durable :: bool
  en_io :: "nat \<Rightarrow> bool"
  en_now :: "nat \<Rightarrow> string"
  en_ms :: "nat \<Rightarrow> nat"
  en_repr :: "pyfloat \<Rightarrow> string"
  en_err :: "pyerr \<Rightarrow> exn"

record 'b world =
  w_broker :: 'b
  w_ledger :: ledger
  w_pending :: "string list"
  w_completed :: "(string \<times> exec_result) list"
  w_seq :: nat
  w_step :: nat
  w_sent :: "(pydict \<times> (exn + raw_result)) list"

section \<open>Identity and the ledger\<close>

definition opt_text :: "string option \<Rightarrow> string \<Rightarrow> string" where
  "opt_text v alt = (case v of Some (c # cs) \<Rightarrow> c # cs | _ \<Rightarrow> alt)"

definition text_field :: "string \<Rightarrow> string option \<Rightarrow> pydict" where
  "text_field k v = (case v of Some (c # cs) \<Rightarrow> [(k, VStr (c # cs))] | _ \<Rightarrow> [])"

definition ticket_field :: "string \<Rightarrow> int option \<Rightarrow> pydict" where
  "ticket_field k v = (case v of Some t \<Rightarrow> [(k, VInt t)] | None \<Rightarrow> [])"

definition identity_fields :: "order_request \<Rightarrow> pydict" where
  "identity_fields r =
     [(''intent_id'', VStr (rq_key r)), (''client_order_id'', VStr (rq_key r)),
      (''proposal_id'', VStr (opt_text (rq_proposal_id r) (rq_key r))),
      (''execution_id'', VStr (opt_text (rq_execution_id r) (rq_key r))),
      (''symbol'', VStr (rq_symbol r)), (''side'', VStr (rq_order_type r)), (''volume'', VFloat (rq_volume r)),
      (''strategy_version'', VStr (opt_text (rq_strategy_version r) ''unknown''))]
     @ text_field ''signal_id'' (rq_signal_id r) @ text_field ''account_id'' (rq_account_id r)
     @ text_field ''terminal_id'' (rq_terminal_id r)
     @ ticket_field ''broker_order_ticket'' (rq_order_ticket r)
     @ ticket_field ''broker_deal_ticket'' (rq_deal_ticket r)
     @ ticket_field ''broker_position_ticket'' (rq_position_ticket r)"

definition ticket_val :: "int option \<Rightarrow> pyval" where
  "ticket_val t = (case t of None \<Rightarrow> VNone | Some i \<Rightarrow> VInt i)"

definition w_set :: "'b engine \<Rightarrow> string \<Rightarrow> order_state \<Rightarrow> pydict \<Rightarrow> 'b world \<Rightarrow> bool \<times> 'b world" where
  "w_set E i st extra w =
     (let (ok, l) = set_order (en_io E (w_step w)) (en_now E (w_step w)) i st extra (w_ledger w)
      in (ok, w\<lparr>w_ledger := l, w_step := Suc (w_step w)\<rparr>))"

definition clear_pending :: "string \<Rightarrow> 'b world \<Rightarrow> 'b world" where
  "clear_pending k w = w\<lparr>w_pending := removeAll k (w_pending w)\<rparr>"

definition record_pending :: "string \<Rightarrow> 'b world \<Rightarrow> 'b world" where
  "record_pending k w = (if k = [] then w else w\<lparr>w_pending := List.insert k (w_pending w)\<rparr>)"

definition complete :: "string \<Rightarrow> exec_result \<Rightarrow> 'b world \<Rightarrow> 'b world" where
  "complete k r w = w\<lparr>w_completed := AList.update k r (w_completed w)\<rparr>"

text \<open>A record counts as submitted when it carries a state beyond the intent.\<close>

definition beyond_intent :: "pydict \<Rightarrow> bool" where
  "beyond_intent r \<longleftrightarrow> record_state r \<noteq> [] \<and> record_state r \<noteq> os_value INTENT_CREATED"

definition is_duplicate :: "string \<Rightarrow> 'b world \<Rightarrow> bool" where
  "is_duplicate k w \<longleftrightarrow>
     (if k = [] then False
      else k \<in> set (w_pending w) \<or> map_of (w_completed w) k \<noteq> None
         \<or> (case lg_store (w_ledger w) of
              None \<Rightarrow> False
            | Some s \<Rightarrow> (case os_get_order k s of None \<Rightarrow> False | Some r \<Rightarrow> r \<noteq> [] \<and> beyond_intent r))
         \<or> (case get_order k (w_ledger w) of Inl e \<Rightarrow> False | Inr r \<Rightarrow> beyond_intent r))"

section \<open>Sending\<close>

definition transient_retcodes :: "int list" where
  "transient_retcodes = [10004, 10006, 10007, 10012, 10015, 10018, 10021, 10027, 10031]"

definition transient_keywords :: "string list" where
  "transient_keywords = [''timeout'', ''requote'', ''trade_disabled'', ''trade disabled'', ''connection'', ''busy'',
     ''price changed'', ''network'', ''offline'', ''temporary'']"

definition ambiguous_retcodes :: "int list" where
  "ambiguous_retcodes = [10012, 10031]"

definition ambiguous_keywords :: "string list" where
  "ambiguous_keywords = [''timeout'', ''connection'', ''network'', ''offline'', ''lost reply'']"

definition not_sent :: "string \<Rightarrow> bool" where
  "not_sent msg \<longleftrightarrow> contains ''order not sent'' (lower msg) \<or> contains ''no fabricated fill'' (lower msg)"

definition is_transient_error :: "int \<Rightarrow> string \<Rightarrow> bool" where
  "is_transient_error code msg \<longleftrightarrow>
     (if not_sent msg then False
      else if code \<in> set transient_retcodes then True
      else list_ex (\<lambda>k. contains k (lower msg)) transient_keywords)"

definition is_ambiguous_execution :: "int \<Rightarrow> string \<Rightarrow> bool" where
  "is_ambiguous_execution code msg \<longleftrightarrow>
     (if not_sent msg then False
      else if code \<in> set ambiguous_retcodes \<or> code = - 1 then True
      else list_ex (\<lambda>k. contains k (lower msg)) ambiguous_keywords)"

definition text_or_empty :: "pyval \<Rightarrow> string" where
  "text_or_empty v = (if v = VNone then [] else py_text v)"

fun parse_send_result :: "raw_result \<Rightarrow> pyerr + send_result" where
  "parse_send_result (RawDict d) =
     (let success = py_truthy (dget d ''success'' (VBool False));
          ticket = py_or (py_or (dget d ''ticket'' VNone) (dget d ''order_id'' VNone)) (dget d ''order'' VNone);
          retcode = py_or (dget d ''retcode'' VNone) (dget d ''error_code'' VNone)
      in bindE (if ticket = VNone then Inr None else bindE (py_int ticket) (\<lambda>t. Inr (Some t))) (\<lambda>t.
         bindE (if retcode = VNone then Inr (if success then 0 else 1) else py_int retcode) (\<lambda>c.
           Inr \<lparr>sr_success = success, sr_ticket = t, sr_code = c,
                sr_message = text_or_empty (py_or (dget d ''message'' VNone) (dget d ''comment'' (VStr []))),
                sr_price = dget d ''price'' VNone\<rparr>)))"
| "parse_send_result (RawObj retcode comment order price) =
     (let done = (retcode = Some 10009 \<or> (retcode = Some 0 \<and> order \<noteq> None))
      in Inr \<lparr>sr_success = done, sr_ticket = (case order of Some t \<Rightarrow> if t = 0 then None else Some t | None \<Rightarrow> None),
              sr_code = (if done then 0 else case retcode of None \<Rightarrow> 0 | Some c \<Rightarrow> c),
              sr_message = comment, sr_price = price\<rparr>)"
| "parse_send_result RawNone =
     Inr \<lparr>sr_success = False, sr_ticket = None, sr_code = 0, sr_message = [], sr_price = VNone\<rparr>"

definition parsed :: "'b engine \<Rightarrow> exn + raw_result \<Rightarrow> exn + send_result" where
  "parsed E res = (case res of
      Inl x \<Rightarrow> Inl x
    | Inr raw \<Rightarrow> (case parse_send_result raw of Inl e \<Rightarrow> Inl (en_err E e) | Inr r \<Rightarrow> Inr r))"

text \<open>One call of a send function, entered in the log.\<close>

definition hand_over ::
  "(pydict \<Rightarrow> 'b \<Rightarrow> (exn + raw_result) \<times> 'b) \<Rightarrow> pydict \<Rightarrow> 'b world \<Rightarrow> (exn + raw_result) \<times> 'b world" where
  "hand_over f payload w =
     (let (res, b) = f payload (w_broker w)
      in (res, w\<lparr>w_broker := b, w_sent := w_sent w @ [(payload, res)]\<rparr>))"

definition send_payload :: "order_request \<Rightarrow> pydict" where
  "send_payload r =
     [(''symbol'', VStr (rq_symbol r)), (''volume'', VFloat (rq_volume r)), (''order_type'', VStr (rq_order_type r)),
      (''price'', VFloat (rq_price r)), (''sl'', VFloat (rq_sl r)), (''tp'', VFloat (rq_tp r)),
      (''magic'', VInt (rq_magic r)), (''comment'', VStr (rq_comment r))]"

definition execute_payload :: "order_request \<Rightarrow> pydict" where
  "execute_payload r =
     [(''symbol'', VStr (rq_symbol r)),
      (''side'', VStr (if contains ''BUY'' (upper (rq_order_type r)) then ''BUY'' else ''SELL'')),
      (''order_type'', VStr (rq_order_type r)), (''quantity'', VFloat (rq_volume r)), (''price'', VFloat (rq_price r)),
      (''sl'', VFloat (rq_sl r)), (''tp'', VFloat (rq_tp r)), (''comment'', VStr (rq_comment r))]"

text \<open>The constants of the native library are named, not numbered.\<close>

definition native_payload :: "'b terminal \<Rightarrow> order_request \<Rightarrow> 'b \<Rightarrow> pydict" where
  "native_payload T r b =
     (let buy = (upper (rq_order_type r) = ''BUY'');
          price = (if rq_price r \<le> 0
                   then (case bk_native_tick T (rq_symbol r) b of
                           Some (ask, bid) \<Rightarrow> if buy then ask else bid | None \<Rightarrow> rq_price r)
                   else rq_price r)
      in [(''action'', VStr ''TRADE_ACTION_DEAL''), (''symbol'', VStr (rq_symbol r)), (''volume'', VFloat (rq_volume r)),
          (''type'', VStr (if buy then ''ORDER_TYPE_BUY'' else ''ORDER_TYPE_SELL'')), (''price'', VFloat price),
          (''sl'', VFloat (rq_sl r)), (''tp'', VFloat (rq_tp r)), (''magic'', VInt (rq_magic r)),
          (''comment'', VStr (rq_comment r)), (''type_time'', VStr ''ORDER_TIME_GTC'')])"

definition next_simulated_ticket :: "'b engine \<Rightarrow> 'b world \<Rightarrow> int \<times> 'b world" where
  "next_simulated_ticket E w =
     (let q = Suc (w_seq w) mod 1000
      in (int (en_ms E (w_step w) mod 1000000 * 1000 + q), w\<lparr>w_seq := q\<rparr>))"

definition simulated_fill :: "'b engine \<Rightarrow> pyfloat \<Rightarrow> 'b world \<Rightarrow> (exn + send_result) \<times> 'b world" where
  "simulated_fill E price w =
     (let (t, w1) = next_simulated_ticket E w
      in (Inr \<lparr>sr_success = True, sr_ticket = Some t, sr_code = 0,
               sr_message = ''Simulated order execution successful'', sr_price = VFloat price\<rparr>, w1))"

definition refusal :: "int \<Rightarrow> string \<Rightarrow> send_result" where
  "refusal code msg = \<lparr>sr_success = False, sr_ticket = None, sr_code = code, sr_message = msg, sr_price = VNone\<rparr>"

definition send_native ::
  "'b engine \<Rightarrow> (pydict \<Rightarrow> 'b \<Rightarrow> (exn + raw_result) \<times> 'b) \<Rightarrow> order_request \<Rightarrow> 'b world
   \<Rightarrow> (exn + send_result) \<times> 'b world" where
  "send_native E f r w =
     (if \<not> bk_armed (en_terminal E) (w_broker w)
      then (Inr (refusal 403 (''EXECUTION NOT ARMED '' @ em_dash
              @ '' no operator-armed terminal; native order_send is disabled.'')), w)
      else case hand_over f (native_payload (en_terminal E) r (w_broker w)) w of
          (res, w1) \<Rightarrow>
            (case parsed E res of
               Inl x \<Rightarrow> (Inr (refusal (- 1) (''Native MT5 send failed: '' @ x)), w1)
             | Inr s \<Rightarrow> (Inr s, w1)))"

definition send_to_broker :: "'b engine \<Rightarrow> order_request \<Rightarrow> 'b world \<Rightarrow> (exn + send_result) \<times> 'b world" where
  "send_to_broker E r w =
     (let T = en_terminal E
      in case bk_order_send T of
           Some f \<Rightarrow> (case hand_over f (send_payload r) w of (res, w1) \<Rightarrow> (parsed E res, w1))
         | None \<Rightarrow>
             (case bk_execute_order T of
                Some f \<Rightarrow> (case hand_over f (execute_payload r) w of (res, w1) \<Rightarrow> (parsed E res, w1))
              | None \<Rightarrow>
                  (if en_simulation E \<and> \<not> en_require_approval E then simulated_fill E (rq_price r) w
                   else case bk_native_send T of
                       Some f \<Rightarrow> send_native E f r w
                     | None \<Rightarrow>
                         (if en_simulation E
                          then simulated_fill E (if rq_price r = 0 then 1085/1000 else rq_price r) w
                          else (Inr (refusal 1 (''No live MT5 connection and simulation_mode is disabled '' @ em_dash
                                  @ '' order not sent (no fabricated fill).'')), w)))))"

section \<open>Pre-flight validation\<close>

definition valid_order_types :: "string list" where
  "valid_order_types = [''BUY'', ''BUY_LIMIT'', ''BUY_STOP'', ''BUY_STOP_LIMIT'', ''SELL'', ''SELL_LIMIT'', ''SELL_STOP'',
     ''SELL_STOP_LIMIT'']"

definition resolve_symbol :: "'b terminal \<Rightarrow> string \<Rightarrow> string" where
  "resolve_symbol T symbol =
     (let clean = upper (strip symbol)
      in if clean = [] then clean
         else case bk_resolve T clean of Some (c # cs) \<Rightarrow> upper (c # cs) | _ \<Rightarrow> clean)"

definition opt_pos :: "pyfloat option \<Rightarrow> pyfloat \<Rightarrow> pyfloat" where
  "opt_pos x dflt = (case x of None \<Rightarrow> dflt | Some v \<Rightarrow> if v = 0 then dflt else v)"

definition volume_errors :: "'b engine \<Rightarrow> pyfloat \<Rightarrow> pyfloat \<Rightarrow> pyfloat \<Rightarrow> string list" where
  "volume_errors E v lo hi =
     (if v \<le> 0 then [''Volume must be greater than 0, got '' @ en_repr E v]
      else if v < lo then [''Volume '' @ en_repr E v @ '' is below minimum allowed lot size '' @ en_repr E lo]
      else if v > hi then [''Volume '' @ en_repr E v @ '' exceeds maximum allowed lot size '' @ en_repr E hi]
      else [])"

definition price_errors :: "'b engine \<Rightarrow> string \<Rightarrow> pyfloat \<Rightarrow> tick option \<Rightarrow> string list" where
  "price_errors E otype price t =
     (case t of
        None \<Rightarrow> []
      | Some k \<Rightarrow>
          (case (tk_ask k, tk_bid k) of
             (Some ask, Some bid) \<Rightarrow>
               (let market = (if contains ''BUY'' otype then ask else bid); diff = \<bar>price - market\<bar>;
                    allowed = max (en_spread_tolerance E) (\<bar>ask - bid\<bar> * 2)
                in if price > 0 \<and> diff > allowed
                   then [''Price '' @ en_repr E price @ '' exceeds spread tolerance (diff '' @ fmt_fixed diff 5
                         @ '' > allowed '' @ fmt_fixed allowed 5 @ '')'']
                   else [])
           | _ \<Rightarrow> []))"

text \<open>The price the levels are compared with: the requested one, else the quote of the side.\<close>

definition effective_price :: "string \<Rightarrow> pyfloat \<Rightarrow> tick option \<Rightarrow> pyfloat" where
  "effective_price otype price t =
     (if price \<le> 0
      then (case t of None \<Rightarrow> price
            | Some k \<Rightarrow> (case (if contains ''BUY'' otype then tk_ask k else tk_bid k) of None \<Rightarrow> 0 | Some x \<Rightarrow> x))
      else price)"

definition level_errors :: "'b engine \<Rightarrow> string \<Rightarrow> pyfloat \<Rightarrow> pyfloat \<Rightarrow> pyfloat \<Rightarrow> string list" where
  "level_errors E otype eff sl tp =
     (let pair = (\<lambda>a b c. a @ en_repr E b @ c @ en_repr E eff @ '')'')
      in if eff \<le> 0 then []
         else if contains ''BUY'' otype
         then (if sl > 0 \<and> sl \<ge> eff then [pair ''Buy order SL ('' sl '') must be strictly below price (''] else [])
              @ (if tp > 0 \<and> tp \<le> eff then [pair ''Buy order TP ('' tp '') must be strictly above price (''] else [])
         else if contains ''SELL'' otype
         then (if sl > 0 \<and> sl \<le> eff then [pair ''Sell order SL ('' sl '') must be strictly above price (''] else [])
              @ (if tp > 0 \<and> tp \<ge> eff then [pair ''Sell order TP ('' tp '') must be strictly below price (''] else [])
         else [])"

definition order_errors :: "'b engine \<Rightarrow> order_request \<Rightarrow> 'b \<Rightarrow> string list" where
  "order_errors E r b =
     (let T = en_terminal E;
          symbol = (if strip (rq_symbol r) = [] then [] else resolve_symbol T (rq_symbol r));
          info = (if symbol = [] then None else case bk_symbol_info T of None \<Rightarrow> None | Some f \<Rightarrow> f symbol b);
          otype = upper (strip (rq_order_type r));
          lo = (case info of None \<Rightarrow> en_min_volume E | Some (x, y) \<Rightarrow> opt_pos x (en_min_volume E));
          hi = (case info of None \<Rightarrow> en_max_volume E | Some (x, y) \<Rightarrow> opt_pos y (en_max_volume E));
          t = (if symbol = [] then None else bk_tick T symbol b)
      in (if strip (rq_symbol r) = [] then [''Symbol cannot be empty''] else [])
         @ (if symbol \<noteq> [] \<and> bk_symbol_info T \<noteq> None \<and> info = None
            then [''Invalid symbol '' @ [CHR 0x27] @ symbol @ [CHR 0x27] @ '': not available in MT5''] else [])
         @ (if otype \<notin> set valid_order_types
            then [''Invalid order_type '' @ [CHR 0x27] @ rq_order_type r @ [CHR 0x27] @ ''. Must be one of: ''
                  @ join '', '' valid_order_types] else [])
         @ volume_errors E (rq_volume r) lo hi
         @ price_errors E otype (rq_price r) t
         @ level_errors E otype (effective_price otype (rq_price r) t) (rq_sl r) (rq_tp r))"

section \<open>Confirmation and position summary\<close>

fun is_ticket :: "int \<Rightarrow> pyval \<Rightarrow> bool" where
  "is_ticket t (VInt i) = (i = t)"
| "is_ticket t (VFloat x) = (x = of_int t)"
| "is_ticket t (VBool b) = (t = (if b then 1 else 0))"
| "is_ticket t _ = False"

definition confirm_execution :: "'b terminal \<Rightarrow> int option \<Rightarrow> 'b \<Rightarrow> bool" where
  "confirm_execution T ticket b =
     (case ticket of
        None \<Rightarrow> False
      | Some t \<Rightarrow> t > 0 \<and> (list_ex (\<lambda>p. is_ticket t (dget p ''ticket'' VNone)) (bk_positions T b) \<or> bk_has_position T t b))"

record position_row =
  row_symbol :: string
  row_volume :: pyfloat
  row_side :: string
  row_profit :: pyfloat
  row_open :: pyfloat
  row_fields :: pydict

text \<open>\<open>_normalize_position\<close> of a dictionary.\<close>

definition normalize_position :: "pydict \<Rightarrow> pydict" where
  "normalize_position p =
     [(''ticket'', dget p ''ticket'' (VInt 0)), (''symbol'', dget p ''symbol'' (VStr [])),
      (''side'', py_or (dget p ''side'' VNone) (dget p ''type'' (VStr ''BUY''))),
      (''volume'', py_or (dget p ''volume'' VNone) (dget p ''quantity'' (VFloat 0))),
      (''price_open'', dget p ''price_open'' (VFloat 0)), (''price_current'', dget p ''price_current'' (VFloat 0)),
      (''profit'', dget p ''profit'' (VFloat 0)), (''sl'', dget p ''sl'' (VFloat 0)), (''tp'', dget p ''tp'' (VFloat 0))]"

definition symbol_field :: "pydict \<Rightarrow> pyerr + string" where
  "symbol_field n = (case dget n ''symbol'' (VStr []) of VStr t \<Rightarrow> Inr (upper t) | _ \<Rightarrow> Inl AttributeError)"

definition position_row_of :: "string \<Rightarrow> pydict \<Rightarrow> pyerr + position_row option" where
  "position_row_of sn p =
     (let n = normalize_position p
      in bindE (symbol_field n) (\<lambda>s.
           if s \<noteq> sn then Inr None
           else bindE (get_float n ''volume'' (VFloat 0)) (\<lambda>v.
                bindE (get_float n ''profit'' (VFloat 0)) (\<lambda>pr.
                bindE (get_float n ''price_open'' (VFloat 0)) (\<lambda>op.
                  Inr (Some \<lparr>row_symbol = s, row_volume = v, row_side = upper (py_text (dget n ''side'' (VStr []))),
                             row_profit = pr, row_open = op, row_fields = n\<rparr>))))))"

definition sync_position :: "'b engine \<Rightarrow> string \<Rightarrow> string \<Rightarrow> 'b \<Rightarrow> pyerr + pydict" where
  "sync_position E now symbol b =
     (let sn = (if symbol = [] then [] else resolve_symbol (en_terminal E) symbol)
      in bindE (mapE (position_row_of sn) (bk_positions (en_terminal E) b)) (\<lambda>rows.
         let ps = map the (filter (\<lambda>r. r \<noteq> None) rows);
             total = sum_list (map row_volume ps);
             buy = sum_list (map row_volume (filter (\<lambda>p. contains ''BUY'' (row_side p)) ps));
             sell = sum_list (map row_volume
               (filter (\<lambda>p. \<not> contains ''BUY'' (row_side p) \<and> contains ''SELL'' (row_side p)) ps));
             weighted = sum_list (map (\<lambda>p. row_open p * row_volume p) ps)
         in Inr [(''symbol'', VStr sn), (''positions_count'', VInt (int (length ps))),
                 (''total_volume'', VFloat (py_round total 4)), (''buy_volume'', VFloat (py_round buy 4)),
                 (''sell_volume'', VFloat (py_round sell 4)), (''net_volume'', VFloat (py_round (buy - sell) 4)),
                 (''unrealized_pnl'', VFloat (py_round (sum_list (map row_profit ps)) 2)),
                 (''average_price'', VFloat (py_round (if total > 0 then weighted / total else 0) 5)),
                 (''positions'', VList (map (VDict \<circ> row_fields) ps)), (''synced_at'', VStr now)]))"

section \<open>Adoption of an order whose response was lost\<close>

definition adopt_lost_response :: "'b engine \<Rightarrow> order_request \<Rightarrow> 'b world \<Rightarrow> pyerr + exec_result option" where
  "adopt_lost_response E r w =
     (case bk_locator (en_terminal E) of
        None \<Rightarrow> Inr None
      | Some find_order \<Rightarrow>
          (case find_order r (w_broker w) of
             Inl x \<Rightarrow> Inr None
           | Inr None \<Rightarrow> Inr None
           | Inr (Some []) \<Rightarrow> Inr None
           | Inr (Some (f # fs)) \<Rightarrow>
               (let t = dget (f # fs) ''ticket'' VNone
                in bindE (if t = VNone then Inr None else bindE (py_int t) (\<lambda>i. Inr (Some i))) (\<lambda>ticket.
                   bindE (sync_position E (en_now E (w_step w)) (rq_symbol r) (w_broker w)) (\<lambda>pos.
                     Inr (Some \<lparr>er_success = True, er_ticket = ticket, er_code = 0, er_message = [],
                                er_retries = 0, er_position = Some pos\<rparr>))))))"

definition adopted_fields :: "order_request \<Rightarrow> exec_result \<Rightarrow> pydict" where
  "adopted_fields r a =
     dict_update
       (dict_update [(''ticket'', ticket_val (er_ticket a)), (''adopted'', VBool True),
          (''broker_order_id'', ticket_val (er_ticket a)), (''symbol'', VStr (rq_symbol r)),
          (''volume'', VFloat (rq_volume r)), (''magic'', VInt (rq_magic r))] (identity_fields r))
       [(''broker_order_ticket'', ticket_val (er_ticket a)), (''broker_deal_ticket'', ticket_val (er_ticket a)),
        (''broker_position_ticket'', ticket_val (er_ticket a)), (''retry_count'', VInt (int (er_retries a)))]"

definition record_adopted :: "'b engine \<Rightarrow> order_request \<Rightarrow> exec_result \<Rightarrow> 'b world \<Rightarrow> 'b world" where
  "record_adopted E r a w =
     complete (rq_key r) a
       (snd (w_set E (rq_key r) POSITION_CONFIRMED (adopted_fields r a) (clear_pending (rq_key r) w)))"

section \<open>Executing an order\<close>

type_synonym 'b outcome = "(pyerr + exec_result) \<times> 'b world"

definition retry_fields :: "order_request \<Rightarrow> nat \<Rightarrow> pydict" where
  "retry_fields r n = dict_update (identity_fields r) [(''retry_count'', VInt (int n))]"

definition confirmed_fields :: "order_request \<Rightarrow> int option \<Rightarrow> pydict" where
  "confirmed_fields r t =
     dict_update
       (dict_update [(''ticket'', ticket_val t), (''symbol'', VStr (rq_symbol r)), (''volume'', VFloat (rq_volume r)),
          (''magic'', VInt (rq_magic r))] (identity_fields r))
       [(''broker_order_ticket'', ticket_val t), (''broker_deal_ticket'', ticket_val t),
        (''broker_position_ticket'', ticket_val t)]"

text \<open>The ledger steps of an accepted order, up to the confirmed position.\<close>

definition record_fill :: "'b engine \<Rightarrow> order_request \<Rightarrow> int option \<Rightarrow> nat \<Rightarrow> bool \<Rightarrow> 'b world \<Rightarrow> 'b world" where
  "record_fill E r t retries confirmed w =
     (let w1 = snd (w_set E (rq_key r) SUBMITTED
                  (dict_update (dict_update [(''ticket'', ticket_val t)] (identity_fields r))
                     [(''broker_order_id'', ticket_val t), (''broker_order_ticket'', ticket_val t),
                      (''retry_count'', VInt (int retries))]) w);
          w2 = snd (w_set E (rq_key r) ACKNOWLEDGED
                  [(''ticket'', ticket_val t), (''broker_deal_ticket'', ticket_val t)] w1)
      in if confirmed
         then snd (w_set E (rq_key r) POSITION_CONFIRMED (confirmed_fields r t)
                 (snd (w_set E (rq_key r) FILLED [] w2)))
         else w2)"

definition ledger_state :: "string \<Rightarrow> 'b world \<Rightarrow> pyval" where
  "ledger_state k w = (case get_order k (w_ledger w) of Inl e \<Rightarrow> VNone | Inr r \<Rightarrow> dget r ''state'' VNone)"

text \<open>
  After a successful send. A raise (the summary of the positions or the fill price cannot be read)
  leaves what was recorded before it.
\<close>

definition finish_success :: "'b engine \<Rightarrow> order_request \<Rightarrow> send_result \<Rightarrow> nat \<Rightarrow> 'b world \<Rightarrow> 'b outcome" where
  "finish_success E r s retries w =
     (let t = sr_ticket s;
          confirmed = confirm_execution (en_terminal E) t (w_broker w);
          w1 = record_fill E r t retries confirmed w
      in case sync_position E (en_now E (w_step w1)) (rq_symbol r) (w_broker w1) of
           Inl e \<Rightarrow> (Inl e, w1)
         | Inr pos \<Rightarrow>
             (let w2 = clear_pending (rq_key r) w1;
                  w3 = (if ledger_state (rq_key r) w2 = VStr (os_value UNKNOWN)
                        then snd (w_set E (rq_key r) UNKNOWN [] w2) else w2)
              in case py_float (py_or (py_or (sr_price s) (VFloat (rq_price r))) (VFloat 0)) of
                   Inl e \<Rightarrow> (Inl e, w3)
                 | Inr fill \<Rightarrow>
                     (let res = \<lparr>er_success = True, er_ticket = t, er_code = 0, er_message = [],
                                 er_retries = retries, er_position = (if confirmed then Some pos else None)\<rparr>
                      in (Inr res, complete (rq_key r) res w3))))"

text \<open>One attempt: the result of a filled order, or the error code and message of the attempt.\<close>

definition attempt_once :: "'b engine \<Rightarrow> order_request \<Rightarrow> nat \<Rightarrow> 'b world \<Rightarrow> (exec_result + int \<times> string) \<times> 'b world" where
  "attempt_once E r retries w =
     (case send_to_broker E r w of
        (Inl x, w1) \<Rightarrow> (Inr (- 1, ''Execution exception: '' @ x), w1)
      | (Inr s, w1) \<Rightarrow>
          (if sr_success s
           then (case finish_success E r s retries w1 of
                   (Inl e, w2) \<Rightarrow> (Inr (- 1, ''Execution exception: '' @ en_err E e), w2)
                 | (Inr res, w2) \<Rightarrow> (Inl res, w2))
           else (Inr (sr_code s, sr_message s), w1)))"

definition unknown_outcome :: "'b engine \<Rightarrow> order_request \<Rightarrow> int \<Rightarrow> string \<Rightarrow> nat \<Rightarrow> 'b world \<Rightarrow> 'b outcome" where
  "unknown_outcome E r code msg retries w =
     (let w1 = snd (w_set E (rq_key r) UNKNOWN
                 (dict_update [(''error_code'', VInt code), (''error_message'', VStr msg),
                    (''reconciliation'', VStr ''inconclusive''), (''retry_count'', VInt (int retries))]
                    (identity_fields r)) (clear_pending (rq_key r) w));
          res = failed code (''Execution state UNKNOWN after an ambiguous broker response; no confirmed fill was ''
                  @ ''found. Reconcile before any retry. Broker response: '' @ msg) retries
      in (Inr res, complete (rq_key r) res w1))"

definition exhausted :: "order_request \<Rightarrow> int \<Rightarrow> string \<Rightarrow> nat \<Rightarrow> 'b world \<Rightarrow> 'b outcome" where
  "exhausted r code msg retries w =
     (let res = failed code msg retries in (Inr res, complete (rq_key r) res (clear_pending (rq_key r) w)))"

text \<open>
  The retry loop. \<open>left\<close> counts the attempts after this one; \<open>retries\<close> is the attempt number, as
  in the code, where both grow together.
\<close>

fun attempt_loop :: "'b engine \<Rightarrow> order_request \<Rightarrow> nat \<Rightarrow> nat \<Rightarrow> 'b world \<Rightarrow> 'b outcome" where
  "attempt_loop E r left retries w =
     (let (ok, w0) = (if retries > 0 \<and> en_require_durable E
                      then w_set E (rq_key r) SUBMITTING (retry_fields r retries) w else (True, w))
      in if \<not> ok
         then (Inr (failed 503 (''Execution stopped before retry: retry state could not be persisted. ''
                 @ ''Reconcile the prior broker attempt.'') (retries - 1)), clear_pending (rq_key r) w0)
         else case attempt_once E r retries w0 of
             (Inl res, w1) \<Rightarrow> (Inr res, w1)
           | (Inr (code, msg), w1) \<Rightarrow>
               (if is_ambiguous_execution code msg
                then (case adopt_lost_response E r w1 of
                        Inl e \<Rightarrow> (Inl e, w1)
                      | Inr (Some a) \<Rightarrow> (Inr a, record_adopted E r a w1)
                      | Inr None \<Rightarrow> unknown_outcome E r code msg retries w1)
                else if \<not> is_transient_error code msg then exhausted r code msg retries w1
                else (case left of
                        0 \<Rightarrow> exhausted r code msg retries w1
                      | Suc n \<Rightarrow>
                          (case adopt_lost_response E r w1 of
                             Inl e \<Rightarrow> (Inl e, w1)
                           | Inr (Some a) \<Rightarrow> (Inr a, record_adopted E r a w1)
                           | Inr None \<Rightarrow> attempt_loop E r n (Suc retries) w1))))"

declare attempt_loop.simps [simp del]

text \<open>The fresh identifiers \<open>uuid4\<close> gives are arguments.\<close>

definition prepare :: "string \<Rightarrow> string \<Rightarrow> order_request \<Rightarrow> order_request" where
  "prepare fresh_key fresh_id r =
     (let r1 = (if rq_key r = [] then r\<lparr>rq_key := fresh_key\<rparr> else r);
          r2 = r1\<lparr>rq_execution_id := Some (opt_text (rq_execution_id r1) fresh_id)\<rparr>
      in r2\<lparr>rq_proposal_id := Some (opt_text (rq_proposal_id r2) (rq_key r2))\<rparr>)"

definition durable_ready :: "'b world \<Rightarrow> bool" where
  "durable_ready w \<longleftrightarrow> (case lg_store (w_ledger w) of None \<Rightarrow> False | Some s \<Rightarrow> os_healthy s)"

definition missing_approval :: "order_request \<Rightarrow> bool" where
  "missing_approval r \<longleftrightarrow> opt_text (rq_token r) [] = []"

text \<open>From the validated request on: the two ledger steps, the registry and the loop.\<close>

definition submit_order :: "'b engine \<Rightarrow> order_request \<Rightarrow> 'b world \<Rightarrow> 'b outcome" where
  "submit_order E r w =
     (let w1 = snd (w_set E (rq_key r) RISK_APPROVED [] w);
          (ok, w2) = w_set E (rq_key r) SUBMITTING (retry_fields r 0) w1
      in if en_require_durable E \<and> \<not> ok
         then (Inr (failed 503 ''Execution blocked: submitting intent could not be persisted.'' 0), w2)
         else case attempt_loop E r (en_max_retries E) 0 (record_pending (rq_key r) w2) of
             (res, w3) \<Rightarrow> (res, clear_pending (rq_key r) w3))"

definition admit_order :: "'b engine \<Rightarrow> order_request \<Rightarrow> 'b world \<Rightarrow> 'b outcome" where
  "admit_order E r w =
     (let (ok, w1) = w_set E (rq_key r) INTENT_CREATED (retry_fields r 0) w
      in if \<not> ok \<and> en_require_durable E
         then (Inr (failed 503 ''Execution blocked: order intent could not be persisted.'' 0), w1)
         else let errors = order_errors E r (w_broker w1)
              in if errors \<noteq> []
                 then (Inr (failed 400 (''Validation failed: '' @ join ''; '' errors) 0),
                       snd (w_set E (rq_key r) UNKNOWN
                         [(''rejected'', VBool True), (''reason'', VStr (join ''; '' errors))] w1))
                 else submit_order E r w1)"

definition execute_order :: "'b engine \<Rightarrow> string \<Rightarrow> string \<Rightarrow> order_request \<Rightarrow> 'b world \<Rightarrow> 'b outcome" where
  "execute_order E fresh_key fresh_id request w =
     (let r = prepare fresh_key fresh_id request
      in if en_require_durable E \<and> \<not> durable_ready w
         then (Inr (failed 503 (''Execution blocked: the required durable order-state store is unavailable ''
                 @ ''or unhealthy.'') 0), w)
         else if en_require_approval E \<and> missing_approval r
         then (Inr (failed 403 (''Execution rejected: require_approval is enabled but the order carries no ''
                 @ ''gate-issued approval_token (fail-closed). Only the deterministic pipeline may stamp approval ''
                 @ ''after the Risk Gate.'') 0), snd (w_set E (rq_key r) UNKNOWN [] w))
         else if is_duplicate (rq_key r) w
         then (Inr (failed 409 (''Duplicate order submission rejected: idempotency key '' @ [CHR 0x27] @ rq_key r
                 @ [CHR 0x27] @ '' already processed or pending'') 0), w)
         else admit_order E r w)"

end
