(* ===== verification/Execution_Safety.thy ===== *)
theory Execution_Safety
  imports Execution
begin

text \<open>
  What the execution engine guarantees: which calls reach the broker, when an order may be sent
  again, and that an order that reached the broker is refused afterwards, in the same process and
  after a restart from the ledger's file.
\<close>

section \<open>Frames\<close>

lemma w_set_frame [simp]:
  "w_broker (snd (w_set E i st x w)) = w_broker w" "w_sent (snd (w_set E i st x w)) = w_sent w"
  "w_pending (snd (w_set E i st x w)) = w_pending w" "w_completed (snd (w_set E i st x w)) = w_completed w"
  by (simp_all add: w_set_def split: prod.split)

lemma w_setD:
  assumes "w_set E i st x w = (ok, v)"
  shows "w_sent v = w_sent w" "w_broker v = w_broker w" "w_pending v = w_pending w"
    "w_completed v = w_completed w"
  using w_set_frame [of E i st x w] by (simp_all add: assms)

lemma w_set_ledger:
  "w_ledger (snd (w_set E i st x w)) =
     snd (set_order (en_io E (w_step w)) (en_now E (w_step w)) i st x (w_ledger w))"
  by (simp add: w_set_def split: prod.split)

lemma clear_pending_frame [simp]:
  "w_broker (clear_pending k w) = w_broker w" "w_sent (clear_pending k w) = w_sent w"
  "w_ledger (clear_pending k w) = w_ledger w" "w_completed (clear_pending k w) = w_completed w"
  by (simp_all add: clear_pending_def)

lemma record_pending_frame [simp]:
  "w_broker (record_pending k w) = w_broker w" "w_sent (record_pending k w) = w_sent w"
  "w_ledger (record_pending k w) = w_ledger w" "w_completed (record_pending k w) = w_completed w"
  by (simp_all add: record_pending_def)

lemma complete_frame [simp]:
  "w_broker (complete k r w) = w_broker w" "w_sent (complete k r w) = w_sent w"
  "w_ledger (complete k r w) = w_ledger w"
  by (simp_all add: complete_def)

text \<open>A send appends at most one entry to the log and leaves the ledger alone.\<close>

lemma hand_over_effect:
  assumes "hand_over f p w = (res, w1)"
  shows "w_sent w1 = w_sent w @ [(p, res)]" "w_ledger w1 = w_ledger w"
  using assms by (auto simp: hand_over_def split: prod.splits)

lemma simulated_fill_effect:
  assumes "simulated_fill E p w = (res, w1)"
  shows "w_sent w1 = w_sent w" "w_ledger w1 = w_ledger w" "\<exists>s. res = Inr s \<and> sr_success s"
  using assms by (auto simp: simulated_fill_def next_simulated_ticket_def Let_def)

text \<open>
  The three ways a send ends: nothing is handed over; the broker's answer as parsed; or the native
  library raised, which the engine turns into code -1.
\<close>

inductive send_case :: "'b engine \<Rightarrow> (pydict \<times> (exn + raw_result)) list \<Rightarrow> exn + send_result \<Rightarrow> bool" where
  unsent: "\<not> sr_success s \<Longrightarrow> send_case E [] (Inr s)"
| simulated: "en_simulation E \<Longrightarrow> send_case E [] (Inr s)"
| answered: "send_case E [(p, res)] (parsed E res)"
| native_raised: "parsed E res = Inl x \<Longrightarrow> send_case E [(p, res)] (Inr (refusal (- 1) msg))"

inductive_cases send_caseE: "send_case E es out"

lemma send_to_broker_effect:
  assumes "send_to_broker E r w = (out, w1)"
  shows "\<exists>es. w_sent w1 = w_sent w @ es \<and> send_case E es out" "w_ledger w1 = w_ledger w"
proof -
  have ho: "hand_over f p w = (res, v) \<Longrightarrow> w_sent v = w_sent w @ [(p, res)] \<and> w_ledger v = w_ledger w" for f p res v
    using hand_over_effect by auto
  have refuse: "\<not> sr_success (refusal c m)" for c m by (simp add: refusal_def)
  have "(\<exists>es. w_sent w1 = w_sent w @ es \<and> send_case E es out) \<and> w_ledger w1 = w_ledger w"
  proof (cases "bk_order_send (en_terminal E)")
    case (Some f)
    with assms ho show ?thesis
      by (auto simp: send_to_broker_def split: prod.splits intro!: exI [of _ "[(send_payload r, _)]"] send_case.answered)
  next
    case no_send: None
    show ?thesis
    proof (cases "bk_execute_order (en_terminal E)")
      case (Some f)
      with assms no_send ho show ?thesis
        by (auto simp: send_to_broker_def split: prod.splits intro!: exI [of _ "[(execute_payload r, _)]"] send_case.answered)
    next
      case no_exec: None
      show ?thesis
      proof (cases "en_simulation E \<and> \<not> en_require_approval E")
        case True
        with assms no_send no_exec have "simulated_fill E (rq_price r) w = (out, w1)" by (simp add: send_to_broker_def)
        from simulated_fill_effect [OF this] True show ?thesis by (auto intro: send_case.simulated)
      next
        case no_sim: False
        show ?thesis
        proof (cases "bk_native_send (en_terminal E)")
          case None
          show ?thesis
          proof (cases "en_simulation E")
            case True
            with assms no_send no_exec no_sim None have
              "simulated_fill E (if rq_price r = 0 then 1085/1000 else rq_price r) w = (out, w1)"
              by (simp add: send_to_broker_def)
            from simulated_fill_effect [OF this] True show ?thesis by (auto intro: send_case.simulated)
          next
            case False
            with assms no_send no_exec no_sim None show ?thesis
              by (auto simp: send_to_broker_def intro: send_case.unsent [OF refuse])
          qed
        next
          case (Some f)
          have n: "send_native E f r w = (out, w1)"
            using assms no_send no_exec no_sim Some by (auto simp: send_to_broker_def)
          show ?thesis
          proof (cases "bk_armed (en_terminal E) (w_broker w)")
            case False
            with n show ?thesis by (auto simp: send_native_def intro: send_case.unsent [OF refuse])
          next
            case True
            obtain res v where h: "hand_over f (native_payload (en_terminal E) r (w_broker w)) w = (res, v)"
              by (cases "hand_over f (native_payload (en_terminal E) r (w_broker w)) w")
            show ?thesis
            proof (cases "parsed E res")
              case (Inl x)
              with n True h ho [OF h] show ?thesis
                by (auto simp: send_native_def intro!: exI [of _ "[(_, res)]"] send_case.native_raised)
            next
              case (Inr s)
              have "send_case E [(p, res)] (Inr s)" for p using send_case.answered [of E p res] Inr by simp
              with n True h ho [OF h] Inr show ?thesis by (auto simp: send_native_def)
            qed
          qed
        qed
      qed
    qed
  qed
  then show "\<exists>es. w_sent w1 = w_sent w @ es \<and> send_case E es out" "w_ledger w1 = w_ledger w" by auto
qed

lemma record_fill_sent [simp]: "w_sent (record_fill E r t n c w) = w_sent w"
  by (simp add: record_fill_def Let_def)

lemma finish_success_sent: "finish_success E r s n w = (res, w1) \<Longrightarrow> w_sent w1 = w_sent w"
  by (auto simp: finish_success_def Let_def split: sum.splits if_splits)

lemma record_adopted_sent [simp]: "w_sent (record_adopted E r a w) = w_sent w"
  by (simp add: record_adopted_def)

lemma unknown_outcome_sent: "unknown_outcome E r c m n w = (res, w1) \<Longrightarrow> w_sent w1 = w_sent w"
  by (auto simp: unknown_outcome_def Let_def)

lemma exhausted_sent: "exhausted r c m n w = (res, w1) \<Longrightarrow> w_sent w1 = w_sent w"
  by (auto simp: exhausted_def Let_def)

section \<open>When an order may be sent again\<close>

text \<open>The broker answered, refused, and the refusal is transient and unambiguous.\<close>

definition retryable :: "'b engine \<Rightarrow> exn + raw_result \<Rightarrow> bool" where
  "retryable E res \<longleftrightarrow> (case parsed E res of
      Inl x \<Rightarrow> False
    | Inr s \<Rightarrow> \<not> sr_success s \<and> \<not> is_ambiguous_execution (sr_code s) (sr_message s)
               \<and> is_transient_error (sr_code s) (sr_message s))"

lemma raised_never_retried: "is_ambiguous_execution (- 1) msg \<or> \<not> is_transient_error (- 1) msg"
  by (auto simp: is_ambiguous_execution_def is_transient_error_def)

lemma attempt_once_effect:
  assumes "attempt_once E r n w = (out, w1)"
  shows "\<exists>es. w_sent w1 = w_sent w @ es \<and> length es \<le> 1 \<and>
     (\<forall>code msg. out = Inr (code, msg) \<longrightarrow> \<not> is_ambiguous_execution code msg \<longrightarrow> is_transient_error code msg \<longrightarrow>
        (\<forall>e\<in>set es. retryable E (snd e)))"
proof -
  obtain sent v where s: "send_to_broker E r w = (sent, v)" by (cases "send_to_broker E r w")
  from send_to_broker_effect [OF s] obtain es where es: "w_sent v = w_sent w @ es" "send_case E es sent" by auto
  have len: "length es \<le> 1" using es(2) by (cases rule: send_case.cases) auto
  show ?thesis
  proof (cases sent)
    case (Inl x)
    with assms s es len show ?thesis
      using raised_never_retried by (auto simp: attempt_once_def intro!: exI [of _ es])
  next
    case (Inr sr)
    show ?thesis
    proof (cases "sr_success sr")
      case True
      obtain fin u where f: "finish_success E r sr n v = (fin, u)" by (cases "finish_success E r sr n v")
      from assms s Inr True f have "w1 = u \<and> (\<forall>code msg. out = Inr (code, msg) \<longrightarrow> code = - 1)"
        by (auto simp: attempt_once_def split: sum.splits)
      with finish_success_sent [OF f] es len show ?thesis
        using raised_never_retried by (auto intro!: exI [of _ es])
    next
      case False
      with assms s Inr have o: "out = Inr (sr_code sr, sr_message sr)" "w1 = v" by (auto simp: attempt_once_def)
      have "\<not> is_ambiguous_execution (sr_code sr) (sr_message sr) \<Longrightarrow> is_transient_error (sr_code sr) (sr_message sr) \<Longrightarrow>
          \<forall>e\<in>set es. retryable E (snd e)"
        using es(2) False Inr
        by (cases rule: send_case.cases)
          (auto simp: retryable_def refusal_def split: sum.splits, metis raised_never_retried)
      with o es len show ?thesis by (auto intro!: exI [of _ es])
    qed
  qed
qed

lemma all_butlast_append:
  "(\<forall>e\<in>set xs. P e) \<Longrightarrow> (\<forall>e\<in>set (butlast ys). P e) \<Longrightarrow> (\<forall>e\<in>set (butlast (xs @ ys)). P e)"
  by (auto simp: butlast_append dest: in_set_butlastD)

lemma attempt_loop_sends:
  "attempt_loop E r left n w = (res, w1) \<Longrightarrow>
   \<exists>es. w_sent w1 = w_sent w @ es \<and> length es \<le> Suc left \<and> (\<forall>e\<in>set (butlast es). retryable E (snd e))"
proof (induction left arbitrary: n w)
  case 0
  obtain ok w0 where p: "(if n > 0 \<and> en_require_durable E then w_set E (rq_key r) SUBMITTING (retry_fields r n) w
      else (True, w)) = (ok, w0)" by fastforce
  have w0: "w_sent w0 = w_sent w"
    using p by (auto split: if_splits dest: w_setD)
  obtain out v where a: "attempt_once E r n w0 = (out, v)" by (cases "attempt_once E r n w0")
  from attempt_once_effect [OF a] obtain es where es: "w_sent v = w_sent w @ es" "length es \<le> 1"
    by (auto simp: w0)
  have "w_sent w1 = w_sent w \<or> w_sent w1 = w_sent v"
    using 0 p w0 a unfolding attempt_loop.simps [of E r 0]
    by (auto split: if_splits sum.splits option.splits dest: unknown_outcome_sent exhausted_sent)
  moreover have "butlast es = []" using es(2) by (cases es) auto
  ultimately show ?case using es by fastforce
next
  case (Suc left)
  obtain ok w0 where p: "(if n > 0 \<and> en_require_durable E then w_set E (rq_key r) SUBMITTING (retry_fields r n) w
      else (True, w)) = (ok, w0)" by fastforce
  have w0: "w_sent w0 = w_sent w"
    using p by (auto split: if_splits dest: w_setD)
  obtain out v where a: "attempt_once E r n w0 = (out, v)" by (cases "attempt_once E r n w0")
  from attempt_once_effect [OF a] obtain es where es: "w_sent v = w_sent w @ es" "length es \<le> 1"
    and re: "\<And>code msg. out = Inr (code, msg) \<Longrightarrow> \<not> is_ambiguous_execution code msg \<Longrightarrow> is_transient_error code msg \<Longrightarrow>
        \<forall>e\<in>set es. retryable E (snd e)"
    by (auto simp: w0)
  have nil: "butlast es = []" using es(2) by (cases es) auto
  have "w_sent w1 = w_sent w \<or> w_sent w1 = w_sent v
      \<or> (\<exists>code msg. out = Inr (code, msg) \<and> \<not> is_ambiguous_execution code msg \<and> is_transient_error code msg
           \<and> attempt_loop E r left (Suc n) v = (res, w1))"
    using Suc.prems p w0 a unfolding attempt_loop.simps [of E r "Suc left"]
    by (auto split: if_splits sum.splits option.splits dest: unknown_outcome_sent exhausted_sent)
  then consider "w_sent w1 = w_sent w" | "w_sent w1 = w_sent v"
    | code msg where "out = Inr (code, msg)" "\<not> is_ambiguous_execution code msg" "is_transient_error code msg"
        "attempt_loop E r left (Suc n) v = (res, w1)" by blast
  then show ?case
  proof cases
    case 1
    then show ?thesis by auto
  next
    case 2
    with es nil show ?thesis by fastforce
  next
    case 3
    from Suc.IH [OF 3(4)] obtain fs where fs: "w_sent w1 = w_sent v @ fs" "length fs \<le> Suc left"
      "\<forall>e\<in>set (butlast fs). retryable E (snd e)" by auto
    from all_butlast_append [OF re [OF 3(1-3)] fs(3)] show ?thesis
      using es fs by (intro exI [of _ "es @ fs"]) auto
  qed
qed

lemma attempt_once_ledger_step:
  assumes "attempt_once E r n w = (out, w1)"
  shows "\<exists>v. w_ledger v = w_ledger w \<and>
     (w_ledger w1 = w_ledger v \<or> (\<exists>s fin u. finish_success E r s n v = (fin, u) \<and> w_ledger w1 = w_ledger u))"
proof -
  obtain sent v where s: "send_to_broker E r w = (sent, v)" by (cases "send_to_broker E r w")
  from send_to_broker_effect(2) [OF s] have v: "w_ledger v = w_ledger w" .
  from assms s have "w1 = v \<or> (\<exists>s fin u. finish_success E r s n v = (fin, u) \<and> w1 = u)"
    by (auto simp: attempt_once_def split: sum.splits if_splits prod.splits)
  with v show ?thesis by blast
qed

section \<open>What stays on record\<close>

text \<open>
  A property of the ledger that every later write of the engine for this order keeps: writes of a
  state beyond the intent, whose fields neither refile the record nor overwrite its state.
\<close>

definition benign :: "string \<Rightarrow> pydict \<Rightarrow> bool" where
  "benign i x \<longleftrightarrow> keeps_id i x \<and> ''state'' \<notin> fst ` set x"

definition kept_by_writes :: "string \<Rightarrow> (ledger \<Rightarrow> bool) \<Rightarrow> bool" where
  "kept_by_writes i P \<longleftrightarrow> (\<forall>io now st x l. P l \<longrightarrow> st \<noteq> INTENT_CREATED \<longrightarrow> benign i x \<longrightarrow>
     P (snd (set_order io now i st x l)))"

lemma dict_update_subset: "set (dict_update d e) \<subseteq> set d \<union> set e"
proof (induction e arbitrary: d)
  case (Cons x e)
  obtain k v where x: "x = (k, v)" by (cases x)
  from Cons.IH [of "AList.update k v d"] set_update_subset [of k v d] show ?case by (auto simp: x)
qed simp

lemma all_values_iff: "(\<forall>v. (k, v) \<in> set x \<longrightarrow> v = a) \<longleftrightarrow> (\<forall>e\<in>set x. fst e = k \<longrightarrow> snd e = a)"
  by force

lemma no_key_iff: "k \<notin> fst ` set x \<longleftrightarrow> (\<forall>e\<in>set x. fst e \<noteq> k)"
  by force

lemma benign_iff:
  "benign i x \<longleftrightarrow> (\<forall>e\<in>set x. fst e \<noteq> ''state'' \<and> (fst e = ''intent_id'' \<longrightarrow> snd e = VStr i))"
  unfolding benign_def keeps_id_def all_values_iff no_key_iff by blast

lemma benign_dict_update: "benign i d \<Longrightarrow> benign i e \<Longrightarrow> benign i (dict_update d e)"
  unfolding benign_iff using dict_update_subset [of d e] by blast

lemma benign_Nil [simp]: "benign i []"
  by (simp add: benign_iff)

lemma benign_Cons: "benign i ((k, v) # x) \<longleftrightarrow> k \<noteq> ''state'' \<and> (k = ''intent_id'' \<longrightarrow> v = VStr i) \<and> benign i x"
  by (auto simp: benign_iff)

lemma benign_append: "benign i (x @ y) \<longleftrightarrow> benign i x \<and> benign i y"
  by (auto simp: benign_iff)

lemma benign_optional:
  assumes "k \<noteq> ''state''" "k \<noteq> ''intent_id''"
  shows "benign i (text_field k v)" "benign i (ticket_field k t)"
  using assms by (simp_all add: text_field_def ticket_field_def benign_Cons split: option.split list.split)

lemma benign_identity: "benign (rq_key r) (identity_fields r)"
  unfolding identity_fields_def benign_append by (simp add: benign_Cons benign_optional)

lemma benign_updates:
  "benign i d \<Longrightarrow> benign i e \<Longrightarrow> benign i f \<Longrightarrow> benign i (dict_update (dict_update d e) f)"
  by (intro benign_dict_update)

lemma benign_retry_fields: "benign (rq_key r) (retry_fields r n)"
  unfolding retry_fields_def by (rule benign_dict_update [OF benign_identity]) (simp add: benign_Cons)

lemma benign_adopted_fields: "benign (rq_key r) (adopted_fields r a)"
  unfolding adopted_fields_def by (rule benign_updates [OF _ benign_identity]) (simp_all add: benign_Cons)

lemma benign_confirmed_fields: "benign (rq_key r) (confirmed_fields r t)"
  unfolding confirmed_fields_def by (rule benign_updates [OF _ benign_identity]) (simp_all add: benign_Cons)

lemmas benign_fields = benign_retry_fields benign_adopted_fields benign_confirmed_fields

lemma w_set_keeps:
  "kept_by_writes i P \<Longrightarrow> P (w_ledger w) \<Longrightarrow> st \<noteq> INTENT_CREATED \<Longrightarrow> benign i x \<Longrightarrow> P (w_ledger (snd (w_set E i st x w)))"
  by (simp add: kept_by_writes_def w_set_ledger)

lemma record_fill_keeps:
  assumes k: "kept_by_writes (rq_key r) P" and p: "P (w_ledger w)"
  shows "P (w_ledger (record_fill E r t n c w))"
proof -
  have 1: "benign (rq_key r) (dict_update (dict_update [(''ticket'', ticket_val t)] (identity_fields r))
      [(''broker_order_id'', ticket_val t), (''broker_order_ticket'', ticket_val t), (''retry_count'', VInt (int n))])"
    by (rule benign_updates [OF _ benign_identity]) (simp_all add: benign_Cons)
  have 2: "benign (rq_key r) [(''ticket'', ticket_val t), (''broker_deal_ticket'', ticket_val t)]"
    by (simp add: benign_Cons)
  note w1 = w_set_keeps [OF k p _ 1, of SUBMITTED E, simplified order_state.simps simp_thms]
  note w2 = w_set_keeps [OF k w1 _ 2, of ACKNOWLEDGED E, simplified order_state.simps simp_thms]
  note w3 = w_set_keeps [OF k w2 _ benign_Nil, of FILLED E, simplified order_state.simps simp_thms]
  note w4 = w_set_keeps [OF k w3 _ benign_confirmed_fields, of POSITION_CONFIRMED E t, simplified order_state.simps simp_thms]
  show ?thesis unfolding record_fill_def Let_def using w2 w4 by (cases c) simp_all
qed

lemma finish_success_keeps:
  assumes "kept_by_writes (rq_key r) P" "P (w_ledger w)" "finish_success E r s n w = (res, w1)"
  shows "P (w_ledger w1)"
  using assms(3) record_fill_keeps [OF assms(1,2)]
  by (auto simp: finish_success_def Let_def intro!: w_set_keeps [OF assms(1)] split: sum.splits if_splits)

lemma record_adopted_keeps:
  "kept_by_writes (rq_key r) P \<Longrightarrow> P (w_ledger w) \<Longrightarrow> P (w_ledger (record_adopted E r a w))"
  by (simp add: record_adopted_def w_set_keeps benign_adopted_fields)

lemma unknown_outcome_keeps:
  assumes k: "kept_by_writes (rq_key r) P" and p: "P (w_ledger w)" and u: "unknown_outcome E r c m n w = (res, w1)"
  shows "P (w_ledger w1)"
proof -
  have "benign (rq_key r) (dict_update [(''error_code'', VInt c), (''error_message'', VStr m),
      (''reconciliation'', VStr ''inconclusive''), (''retry_count'', VInt (int n))] (identity_fields r))"
    by (rule benign_dict_update [OF _ benign_identity]) (simp add: benign_Cons)
  from w_set_keeps [OF k _ _ this, of "clear_pending (rq_key r) w" UNKNOWN E] p u
  show ?thesis by (auto simp: unknown_outcome_def Let_def simp del: dict_update_Cons)
qed

lemma exhausted_keeps: "exhausted r c m n w = (res, w1) \<Longrightarrow> w_ledger w1 = w_ledger w"
  by (auto simp: exhausted_def Let_def)

lemma attempt_once_keeps:
  assumes "kept_by_writes (rq_key r) P" "P (w_ledger w)" "attempt_once E r n w = (out, w1)"
  shows "P (w_ledger w1)"
  using attempt_once_ledger_step [OF assms(3)] finish_success_keeps [OF assms(1)] assms(2) by metis

text \<open>How the loop ends, one attempt at a time.\<close>

lemma attempt_loop_cases:
  assumes "attempt_loop E r left n w = (res, w1)"
    and p: "(if n > 0 \<and> en_require_durable E then w_set E (rq_key r) SUBMITTING (retry_fields r n) w
      else (True, w)) = (ok, w0)"
    and a: "attempt_once E r n w0 = (out, v)"
  shows "w1 = clear_pending (rq_key r) w0 \<or> w1 = v
    \<or> (\<exists>c m. unknown_outcome E r c m n v = (res, w1)) \<or> (\<exists>c m. exhausted r c m n v = (res, w1))
    \<or> (\<exists>b. w1 = record_adopted E r b v)
    \<or> (\<exists>left'. left = Suc left' \<and> attempt_loop E r left' (Suc n) v = (res, w1))"
proof (cases ok)
  case False
  then show ?thesis using assms unfolding attempt_loop.simps [of E r left] by simp
next
  case True
  show ?thesis
  proof (cases out)
    case (Inl x)
    then show ?thesis using assms True unfolding attempt_loop.simps [of E r left] by simp
  next
    case (Inr cm)
    obtain c m where cm: "cm = (c, m)" by (cases cm)
    have "(if is_ambiguous_execution c m
           then (case adopt_lost_response E r v of
               Inl e \<Rightarrow> (Inl e, v) | Inr (Some b) \<Rightarrow> (Inr b, record_adopted E r b v)
             | Inr None \<Rightarrow> unknown_outcome E r c m n v)
           else if \<not> is_transient_error c m then exhausted r c m n v
           else (case left of 0 \<Rightarrow> exhausted r c m n v
             | Suc k \<Rightarrow> (case adopt_lost_response E r v of
                 Inl e \<Rightarrow> (Inl e, v) | Inr (Some b) \<Rightarrow> (Inr b, record_adopted E r b v)
               | Inr None \<Rightarrow> attempt_loop E r k (Suc n) v))) = (res, w1)"
      using assms True Inr cm unfolding attempt_loop.simps [of E r left] by simp
    then show ?thesis
      by (cases "adopt_lost_response E r v"; cases left) (auto split: if_splits option.splits)
  qed
qed

lemma attempt_loop_keeps:
  assumes k: "kept_by_writes (rq_key r) P"
  shows "P (w_ledger w) \<Longrightarrow> attempt_loop E r left n w = (res, w1) \<Longrightarrow> P (w_ledger w1)"
proof (induction left arbitrary: n w rule: less_induct)
  case (less left)
  obtain ok w0 where p: "(if n > 0 \<and> en_require_durable E then w_set E (rq_key r) SUBMITTING (retry_fields r n) w
      else (True, w)) = (ok, w0)" by fastforce
  have w0: "P (w_ledger w0)"
    using p less.prems w_set_keeps [OF k less.prems(1) _ benign_retry_fields, of SUBMITTING E n]
    by (auto split: if_splits)
  obtain out v where a: "attempt_once E r n w0 = (out, v)" by (cases "attempt_once E r n w0")
  have v: "P (w_ledger v)" by (rule attempt_once_keeps [OF k w0 a])
  from attempt_loop_cases [OF less.prems(2) p a] consider
      "w1 = clear_pending (rq_key r) w0" | "w1 = v" | c m where "unknown_outcome E r c m n v = (res, w1)"
    | c m where "exhausted r c m n v = (res, w1)" | b where "w1 = record_adopted E r b v"
    | k where "left = Suc k" "attempt_loop E r k (Suc n) v = (res, w1)" by blast
  then show ?case
  proof cases
    case 3
    then show ?thesis by (rule unknown_outcome_keeps [OF k v])
  next
    case 4
    with v show ?thesis by (simp add: exhausted_keeps)
  next
    case 5
    with record_adopted_keeps [OF k v] show ?thesis by simp
  next
    case (6 l)
    with less.IH [of l] v show ?thesis by simp
  qed (use w0 v in simp_all)
qed

section \<open>The way to the first send\<close>

text \<open>The world after the ledger steps that precede the first send.\<close>

definition submitted_world :: "'b engine \<Rightarrow> order_request \<Rightarrow> 'b world \<Rightarrow> 'b world" where
  "submitted_world E r w =
     snd (w_set E (rq_key r) SUBMITTING (retry_fields r 0)
       (snd (w_set E (rq_key r) RISK_APPROVED []
         (snd (w_set E (rq_key r) INTENT_CREATED (retry_fields r 0) w)))))"

lemma submitted_world_frame [simp]:
  "w_sent (submitted_world E r w) = w_sent w" "w_broker (submitted_world E r w) = w_broker w"
  by (simp_all add: submitted_world_def)

lemma submit_order_cases:
  assumes "submit_order E r w = (res, w1)"
    and "w2 = snd (w_set E (rq_key r) SUBMITTING (retry_fields r 0) (snd (w_set E (rq_key r) RISK_APPROVED [] w)))"
  shows "w1 = w2 \<or>
    ((en_require_durable E \<longrightarrow>
        fst (w_set E (rq_key r) SUBMITTING (retry_fields r 0) (snd (w_set E (rq_key r) RISK_APPROVED [] w)))) \<and>
     (\<exists>w3. attempt_loop E r (en_max_retries E) 0 (record_pending (rq_key r) w2) = (res, w3)
           \<and> w1 = clear_pending (rq_key r) w3))"
  using assms by (auto simp: submit_order_def split: prod.splits if_splits)

lemma admit_order_cases:
  assumes "admit_order E r w = (res, w1)"
    and v: "v = snd (w_set E (rq_key r) INTENT_CREATED (retry_fields r 0) w)"
  shows "w1 = v
    \<or> (\<exists>x. w1 = snd (w_set E (rq_key r) UNKNOWN [(''rejected'', VBool True), (''reason'', VStr x)] v))
    \<or> (order_errors E r (w_broker w) = [] \<and> submit_order E r v = (res, w1))"
proof -
  obtain ok u where u: "w_set E (rq_key r) INTENT_CREATED (retry_fields r 0) w = (ok, u)" by fastforce
  with v have "v = u" "w_broker u = w_broker w" using w_setD(2) [OF u] by simp_all
  with assms(1) u show ?thesis by (auto simp: admit_order_def Let_def split: if_splits)
qed

lemma execute_order_cases:
  assumes "execute_order E fk fi q w = (res, w1)" and r: "r = prepare fk fi q"
  shows "w1 = w \<or> (en_require_approval E \<and> missing_approval r \<and> w1 = snd (w_set E (rq_key r) UNKNOWN [] w))
    \<or> ((en_require_durable E \<longrightarrow> durable_ready w) \<and> (en_require_approval E \<longrightarrow> \<not> missing_approval r)
        \<and> \<not> is_duplicate (rq_key r) w \<and> admit_order E r w = (res, w1))"
  using assms by (auto simp: execute_order_def Let_def split: if_splits)

text \<open>A call that sent anything passed every guard and ran the loop from the submitted world.\<close>

lemma sending_call:
  assumes "execute_order E fk fi q w = (res, w1)" "w_sent w1 \<noteq> w_sent w" and r: "r = prepare fk fi q"
  shows "en_require_durable E \<Longrightarrow> durable_ready w" "en_require_approval E \<Longrightarrow> \<not> missing_approval r"
    "\<not> is_duplicate (rq_key r) w" "order_errors E r (w_broker w) = []"
    "en_require_durable E \<Longrightarrow> fst (w_set E (rq_key r) SUBMITTING (retry_fields r 0)
        (snd (w_set E (rq_key r) RISK_APPROVED [] (snd (w_set E (rq_key r) INTENT_CREATED (retry_fields r 0) w)))))"
    "\<exists>w3. attempt_loop E r (en_max_retries E) 0 (record_pending (rq_key r) (submitted_world E r w)) = (res, w3)
        \<and> w1 = clear_pending (rq_key r) w3"
proof -
  let ?v = "snd (w_set E (rq_key r) INTENT_CREATED (retry_fields r 0) w)"
  from execute_order_cases [OF assms(1) r] assms(2)
  have g: "en_require_durable E \<longrightarrow> durable_ready w" "en_require_approval E \<longrightarrow> \<not> missing_approval r"
    "\<not> is_duplicate (rq_key r) w" and a: "admit_order E r w = (res, w1)" by auto
  from admit_order_cases [OF a refl] assms(2)
  have e: "order_errors E r (w_broker w) = []" and s: "submit_order E r ?v = (res, w1)" by auto
  from submit_order_cases [OF s refl] assms(2)
  have "(en_require_durable E \<longrightarrow> fst (w_set E (rq_key r) SUBMITTING (retry_fields r 0)
        (snd (w_set E (rq_key r) RISK_APPROVED [] ?v)))) \<and>
      (\<exists>w3. attempt_loop E r (en_max_retries E) 0 (record_pending (rq_key r) (submitted_world E r w)) = (res, w3)
        \<and> w1 = clear_pending (rq_key r) w3)"
    by (auto simp: submitted_world_def)
  with g e show "en_require_durable E \<Longrightarrow> durable_ready w" "en_require_approval E \<Longrightarrow> \<not> missing_approval r"
    "\<not> is_duplicate (rq_key r) w" "order_errors E r (w_broker w) = []"
    "en_require_durable E \<Longrightarrow> fst (w_set E (rq_key r) SUBMITTING (retry_fields r 0)
        (snd (w_set E (rq_key r) RISK_APPROVED [] ?v)))"
    "\<exists>w3. attempt_loop E r (en_max_retries E) 0 (record_pending (rq_key r) (submitted_world E r w)) = (res, w3)
        \<and> w1 = clear_pending (rq_key r) w3" by auto
qed

lemma submit_order_keeps:
  assumes k: "kept_by_writes (rq_key r) P" and p: "P (w_ledger w)" and s: "submit_order E r w = (res, w1)"
  shows "P (w_ledger w1)"
proof -
  note w1 = w_set_keeps [OF k p _ benign_Nil, of RISK_APPROVED E, simplified order_state.simps simp_thms]
  note w2 = w_set_keeps [OF k w1 _ benign_retry_fields, of SUBMITTING E 0, simplified order_state.simps simp_thms]
  from submit_order_cases [OF s refl] show ?thesis
    using w2 attempt_loop_keeps [OF k, of "record_pending (rq_key r) v" for v] by auto
qed

lemma execute_order_keeps:
  assumes k: "kept_by_writes (rq_key r) P" and p: "P (w_ledger w)" and r: "r = prepare fk fi q"
    and i: "\<not> is_duplicate (rq_key r) w \<Longrightarrow>
      P (w_ledger (snd (w_set E (rq_key r) INTENT_CREATED (retry_fields r 0) w)))"
    and e: "execute_order E fk fi q w = (res, w1)"
  shows "P (w_ledger w1)"
proof -
  consider "w1 = w" | "w1 = snd (w_set E (rq_key r) UNKNOWN [] w)"
    | "\<not> is_duplicate (rq_key r) w" "admit_order E r w = (res, w1)"
    using execute_order_cases [OF e r] by blast
  then show ?thesis
  proof cases
    case 2
    then show ?thesis using w_set_keeps [OF k p _ benign_Nil, of UNKNOWN E] by simp
  next
    case 3
    note v = i [OF 3(1)]
    have "benign (rq_key r) [(''rejected'', VBool True), (''reason'', VStr x)]" for x by (simp add: benign_Cons)
    from w_set_keeps [OF k v _ this, of UNKNOWN E] admit_order_cases [OF 3(2) refl] v submit_order_keeps [OF k v]
    show ?thesis by auto
  qed (use p in simp)
qed

end
