(* ===== verification/Order_Once.thy ===== *)
theory Order_Once
  imports Execution_Safety
begin

text \<open>
  An order is sent in one call only. Runs of calls on one process and restarts from the ledger's
  file (\<open>execution/engine.py\<close> over \<open>execution/order_state.py\<close> and
  \<open>persistence/order_state_store.py\<close>), and the properties of single calls.
\<close>

section \<open>The record that bars a second send\<close>

definition burnt :: "string \<Rightarrow> ledger \<Rightarrow> bool" where
  "burnt i l \<longleftrightarrow> (\<exists>r. map_of (lg_orders l) i = Some r \<and> beyond_intent r)"

lemma burnt_is_duplicate: "burnt (rq_key r) (w_ledger w) \<Longrightarrow> rq_key r \<noteq> [] \<Longrightarrow> is_duplicate (rq_key r) w"
  by (auto simp: burnt_def is_duplicate_def get_order_def)

lemma state_after_write:
  assumes "''state'' \<notin> fst ` set x"
  shows "map_of (dict_update (AList.update ''state'' (VStr st) d) x) ''state'' = Some (VStr st)"
  by (simp add: map_of_dict_update_notin [OF assms])

lemma beyond_value: "st \<noteq> INTENT_CREATED \<Longrightarrow> map_of d ''state'' = Some (VStr (os_value st)) \<Longrightarrow> beyond_intent d"
  by (cases st) (simp_all add: beyond_intent_def record_state_def dget_def lower_def to_lower_def Let_def)

lemma benignD: "benign i x \<Longrightarrow> ''state'' \<notin> fst ` set x"
  by (simp add: benign_def)

lemma ledger_entry_beyond:
  "st \<noteq> INTENT_CREATED \<Longrightarrow> benign i x \<Longrightarrow> beyond_intent (ledger_entry i (os_value st) x l)"
  unfolding ledger_entry_def by (rule beyond_value, assumption) (rule state_after_write [OF benignD])

lemma set_order_orders:
  "lg_orders (snd (set_order io now i st x l)) = AList.update i (ledger_entry i (os_value st) x l) (lg_orders l)"
  by (simp add: set_order_def Let_def split: option.split prod.split)

lemma set_order_burns:
  "st \<noteq> INTENT_CREATED \<Longrightarrow> benign i x \<Longrightarrow> burnt i (snd (set_order io now i st x l))"
  by (simp add: burnt_def set_order_orders ledger_entry_beyond)

lemma burnt_kept: "kept_by_writes k (burnt i)"
  unfolding kept_by_writes_def
proof (intro allI impI)
  fix io now st x l
  assume "burnt i l" "st \<noteq> INTENT_CREATED" "benign k x"
  then show "burnt i (snd (set_order io now k st x l))"
    by (cases "i = k") (simp_all add: set_order_burns, simp add: burnt_def set_order_orders)
qed

lemma burnt_other: "burnt i l \<Longrightarrow> k \<noteq> i \<Longrightarrow> burnt i (snd (set_order io now k st x l))"
  by (simp add: burnt_def set_order_orders)

lemma submitted_world_burnt: "burnt (rq_key r) (w_ledger (submitted_world E r w))"
  by (simp add: submitted_world_def w_set_ledger set_order_burns benign_retry_fields)

section \<open>Runs of calls\<close>

text \<open>
  One later event: what happens to the broker meanwhile, and a call of an engine with the fresh
  identifiers it draws.
\<close>

record 'b call =
  ca_meanwhile :: "'b \<Rightarrow> 'b"
  ca_engine :: "'b engine"
  ca_fresh_key :: string
  ca_fresh_id :: string
  ca_request :: order_request

definition run_call :: "'b call \<Rightarrow> 'b world \<Rightarrow> 'b outcome" where
  "run_call c w =
     execute_order (ca_engine c) (ca_fresh_key c) (ca_fresh_id c) (ca_request c)
       (w\<lparr>w_broker := ca_meanwhile c (w_broker w)\<rparr>)"

definition run_calls :: "'b call list \<Rightarrow> 'b world \<Rightarrow> 'b world" where
  "run_calls cs w = foldl (\<lambda>v c. snd (run_call c v)) w cs"

definition call_key :: "'b call \<Rightarrow> string" where
  "call_key c = rq_key (prepare (ca_fresh_key c) (ca_fresh_id c) (ca_request c))"

lemma prepare_key: "rq_key q \<noteq> [] \<Longrightarrow> rq_key (prepare fk fi q) = rq_key q"
  by (simp add: prepare_def Let_def)

lemma execute_order_burnt:
  assumes "burnt i (w_ledger w)" "i \<noteq> []" "execute_order E fk fi q w = (res, w1)"
  shows "burnt i (w_ledger w1)"
proof (rule execute_order_keeps [OF burnt_kept assms(1) refl _ assms(3)])
  let ?r = "prepare fk fi q"
  assume "\<not> is_duplicate (rq_key ?r) w"
  with burnt_is_duplicate [of ?r w] assms have "rq_key ?r \<noteq> i" by metis
  then show "burnt i (w_ledger (snd (w_set E (rq_key ?r) INTENT_CREATED (retry_fields ?r 0) w)))"
    using assms(1) by (simp add: w_set_ledger burnt_other)
qed

lemma burnt_call_sends_nothing:
  assumes "burnt i (w_ledger w)" "rq_key (prepare fk fi q) = i" "i \<noteq> []"
  shows "w_sent (snd (execute_order E fk fi q w)) = w_sent w"
proof (rule ccontr)
  assume "\<not> ?thesis"
  moreover obtain res w1 where e: "execute_order E fk fi q w = (res, w1)" by fastforce
  ultimately have "\<not> is_duplicate (rq_key (prepare fk fi q)) w" using sending_call(3) [OF e _ refl] by simp
  with burnt_is_duplicate assms show False by metis
qed

lemma run_calls_Cons: "run_calls (c # cs) w = run_calls cs (snd (run_call c w))"
  by (simp add: run_calls_def)

lemma run_call_keeps:
  fixes w :: "'b world"
  assumes "\<And>w :: 'b world. \<And>E fk fi q res w1. P (w_ledger w) \<Longrightarrow> execute_order E fk fi q w = (res, w1) \<Longrightarrow> P (w_ledger w1)"
    and "P (w_ledger w)"
  shows "P (w_ledger (run_calls cs w))"
  using assms(2)
proof (induction cs arbitrary: w)
  case (Cons c cs)
  obtain res w1 where e: "run_call c w = (res, w1)" by fastforce
  with assms(1) [of "w\<lparr>w_broker := ca_meanwhile c (w_broker w)\<rparr>" "ca_engine c" "ca_fresh_key c" "ca_fresh_id c"
      "ca_request c" res w1] Cons.prems have "P (w_ledger w1)" by (simp add: run_call_def)
  with Cons.IH [of w1] e show ?case by (simp add: run_calls_Cons)
qed (simp add: run_calls_def)

lemma burnt_after_send:
  assumes "execute_order E fk fi q w = (res, w1)" "w_sent w1 \<noteq> w_sent w"
  shows "burnt (rq_key (prepare fk fi q)) (w_ledger w1)"
proof -
  let ?r = "prepare fk fi q"
  from sending_call(6) [OF assms refl] obtain w3 where
    "attempt_loop E ?r (en_max_retries E) 0 (record_pending (rq_key ?r) (submitted_world E ?r w)) = (res, w3)"
    "w1 = clear_pending (rq_key ?r) w3" by auto
  with attempt_loop_keeps [OF burnt_kept _ this(1), of "rq_key ?r"] submitted_world_burnt [of ?r E w]
  show ?thesis by simp
qed

section \<open>An example\<close>

text \<open>A broker that refuses the first order with a requote and fills the next; it counts the sends.\<close>

definition demo_send :: "pydict \<Rightarrow> nat \<Rightarrow> (exn + raw_result) \<times> nat" where
  "demo_send p n =
     (Inr (RawDict (if n = 0 then [(''success'', VBool False), (''retcode'', VInt 10004)]
                    else [(''success'', VBool True), (''ticket'', VInt 7)])), Suc n)"

definition ex_terminal :: "nat terminal" where
  "ex_terminal = \<lparr>bk_order_send = Some demo_send, bk_execute_order = None, bk_native_send = None,
     bk_armed = (\<lambda>b. False), bk_native_tick = (\<lambda>s b. None), bk_tick = (\<lambda>s b. None), bk_symbol_info = None,
     bk_positions = (\<lambda>b. []), bk_has_position = (\<lambda>t b. True), bk_resolve = (\<lambda>s. Some s), bk_locator = None\<rparr>"

definition demo_engine :: "nat engine" where
  "demo_engine = \<lparr>en_terminal = ex_terminal, en_max_retries = 2, en_spread_tolerance = 1, en_min_volume = 1 / 100,
     en_max_volume = 100, en_simulation = False, en_require_approval = True, en_require_durable = True,
     en_io = (\<lambda>n. True), en_now = (\<lambda>n. ''t''), en_ms = (\<lambda>n. n), en_repr = (\<lambda>x. ''x''), en_err = (\<lambda>e. ''e'')\<rparr>"

definition demo_request :: order_request where
  "demo_request = \<lparr>rq_symbol = ''EURUSD'', rq_order_type = ''BUY'', rq_volume = 1, rq_price = 2, rq_sl = 1,
     rq_tp = 3, rq_magic = 9, rq_comment = ''c'', rq_key = ''K'', rq_token = Some ''T'', rq_signal_id = None,
     rq_account_id = None, rq_terminal_id = None, rq_proposal_id = None, rq_execution_id = None,
     rq_strategy_version = None, rq_order_ticket = None, rq_deal_ticket = None, rq_position_ticket = None\<rparr>"

definition demo_world :: "nat world" where
  "demo_world = \<lparr>w_broker = 0, w_ledger = set_store (Some (os_init (Lines []))) empty_ledger, w_pending = [],
     w_completed = [], w_seq = 0, w_step = 0, w_sent = []\<rparr>"

definition demo_call :: "nat call" where
  "demo_call = \<lparr>ca_meanwhile = (\<lambda>b. b), ca_engine = demo_engine, ca_fresh_key = ''F'', ca_fresh_id = ''G'',
     ca_request = demo_request\<rparr>"

lemma demo_sends_twice: "length (w_sent (snd (run_call demo_call demo_world))) = 2"
  by code_simp

lemma demo_fills: "map_sum (\<lambda>e. ()) er_ticket (fst (run_call demo_call demo_world)) = Inr (Some 7)"
  by code_simp

text \<open>
  C2. An order is sent in one call only: once a call with a key has handed anything to the broker,
  whatever calls follow, on whatever engines and settings, with the broker changing in between, a
  further call with that key hands over nothing.
\<close>

theorem sent_key_is_never_sent_again:
  assumes "w_sent (snd (run_call c w)) \<noteq> w_sent w" and "call_key c \<noteq> []" and "call_key d = call_key c"
  shows "w_sent (snd (run_call d (run_calls cs (snd (run_call c w))))) = w_sent (run_calls cs (snd (run_call c w)))"
proof -
  obtain res w1 where e: "run_call c w = (res, w1)" by fastforce
  with assms(1) burnt_after_send [of "ca_engine c" "ca_fresh_key c" "ca_fresh_id c" "ca_request c" _ res w1]
  have "burnt (call_key c) (w_ledger w1)" by (auto simp: run_call_def call_key_def)
  from run_call_keeps [of "burnt (call_key c)", OF execute_order_burnt [OF _ assms(2)] this]
  have "burnt (call_key c) (w_ledger (run_calls cs w1))" .
  with burnt_call_sends_nothing [of "call_key c" "_\<lparr>w_broker := _\<rparr>"] assms(2,3) e
  show ?thesis by (simp add: run_call_def call_key_def)
qed

lemma demo_sends: "w_sent (snd (run_call demo_call demo_world)) \<noteq> w_sent demo_world"
  using demo_sends_twice by (auto simp: demo_world_def)

lemma demo_key: "call_key demo_call = ''K''"
  by code_simp

theorem sent_key_is_never_sent_again_witness:
  "w_sent (snd (run_call demo_call (run_calls [demo_call] (snd (run_call demo_call demo_world)))))
     = w_sent (run_calls [demo_call] (snd (run_call demo_call demo_world)))
   \<and> w_sent (snd (run_call demo_call demo_world)) \<noteq> w_sent demo_world"
  using sent_key_is_never_sent_again [OF demo_sends, of demo_call "[demo_call]"] demo_sends by (simp add: demo_key)

section \<open>What is on disk\<close>

text \<open>Opening the ledger's file now yields a record for the key that is beyond the intent.\<close>

definition loaded :: "jline list \<Rightarrow> (string \<times> pydict) list" where
  "loaded ls = fst (foldl os_load_line ([], True) ls)"

definition on_disk :: "string \<Rightarrow> ledger \<Rightarrow> bool" where
  "on_disk i l \<longleftrightarrow> (\<exists>s r. lg_store l = Some s \<and> map_of (loaded (os_file s)) i = Some r \<and> beyond_intent r)"

text \<open>The restart: a fresh ledger over the store opened from the file.\<close>

definition reopened :: "order_store \<Rightarrow> ledger" where
  "reopened s = set_store (Some (os_init (Lines (os_file s)))) empty_ledger"

lemma loaded_snoc:
  "loaded (ls @ [Json (VDict d)]) =
     (case map_of d ''intent_id'' of Some (VStr i) \<Rightarrow> AList.update i d (loaded ls) | _ \<Rightarrow> loaded ls)"
proof -
  obtain m h where "foldl os_load_line ([], True) ls = (m, h)" by fastforce
  then show ?thesis by (simp add: loaded_def split: option.split pyval.split)
qed

lemma os_orders_init: "os_orders (os_init (Lines ls)) = loaded ls"
  by (simp add: os_init_def loaded_def split: prod.splits)

lemma map_of_dict_update_empty: "distinct (map fst e) \<Longrightarrow> map_of (dict_update d e) k = (case map_of e k of None \<Rightarrow> map_of d k | Some v \<Rightarrow> Some v)"
proof (induction e arbitrary: d)
  case (Cons x e)
  obtain a b where x: "x = (a, b)" by (cases x)
  have "map_of e a = None" using Cons.prems by (simp add: x map_of_eq_None_iff)
  then show ?case using Cons by (auto simp: x update_conv' split: option.split)
qed simp

lemma loaded_distinct: "distinct (map fst (loaded ls))"
proof (induction ls rule: rev_induct)
  case (snoc l ls)
  obtain m h where m: "foldl os_load_line ([], True) ls = (m, h)" by fastforce
  with snoc have d: "distinct (map fst m)" by (simp add: loaded_def)
  have "distinct (map fst (fst (os_load_line (m, h) l)))"
    by (cases "((m, h), l)" rule: os_load_line.cases) (use d in \<open>auto intro: distinct_update split: option.split pyval.split\<close>)
  with m show ?case by (simp add: loaded_def)
qed (simp add: loaded_def)

lemma reopened_burnt: "on_disk i l \<Longrightarrow> lg_store l = Some s \<Longrightarrow> burnt i (reopened s)"
  by (auto simp: on_disk_def burnt_def reopened_def set_store_def empty_ledger_def os_orders_init
      map_of_dict_update_empty [OF loaded_distinct])

text \<open>A write either leaves the file or appends the record.\<close>

lemma set_order_store:
  "lg_store (snd (set_order io now i st x l)) =
     (case lg_store l of None \<Rightarrow> None | Some s \<Rightarrow> Some (snd (os_set_order io now i (os_value st) x s)))"
  by (simp add: set_order_def Let_def split: option.split prod.split)

lemma os_set_order_file:
  "os_file (snd (os_set_order io now i st x s)) =
     (if os_healthy s \<and> io then os_file s @ [Json (VDict (os_set_entry now i st x s))] else os_file s)"
  by (simp add: os_set_order_def Let_def os_append_file)

lemma entry_carries_state:
  "''state'' \<notin> fst ` set x \<Longrightarrow> map_of (os_set_entry now i st x s) ''state'' = Some (VStr st)"
  unfolding os_set_entry_def dict_update_Cons dict_update_Nil map_of_dict_update_notin
  by (simp add: map_of_dict_update_notin update_conv')

lemma set_entry_beyond: "st \<noteq> INTENT_CREATED \<Longrightarrow> benign k x \<Longrightarrow> beyond_intent (os_set_entry now i (os_value st) x s)"
  by (rule beyond_value, assumption) (rule entry_carries_state [OF benignD])

lemma on_disk_append:
  assumes "on_disk i l" "lg_store l = Some s" "beyond_intent d \<or> map_of d ''intent_id'' = Some (VStr k) \<and> k \<noteq> i"
  shows "\<exists>r. map_of (loaded (os_file s @ [Json (VDict d)])) i = Some r \<and> beyond_intent r"
  using assms by (auto simp: on_disk_def loaded_snoc update_conv' split: option.split pyval.split)

lemma on_disk_kept: "kept_by_writes k (on_disk i)"
  unfolding kept_by_writes_def
proof (intro allI impI)
  fix io now st x l
  assume d: "on_disk i l" and b: "st \<noteq> INTENT_CREATED" "benign k x"
  from d obtain s where s: "lg_store l = Some s" by (auto simp: on_disk_def)
  from on_disk_append [OF d s] set_entry_beyond [OF b] d s
  show "on_disk i (snd (set_order io now k st x l))"
    by (auto simp: on_disk_def set_order_store os_set_order_file)
qed

lemma dict_update_mem:
  "(k, v) \<in> set e \<Longrightarrow> (\<forall>u. (k, u) \<in> set e \<longrightarrow> u = v) \<Longrightarrow> map_of (dict_update d e) k = Some v"
proof (induction e arbitrary: d)
  case (Cons x e)
  obtain a b where x: "x = (a, b)" by (cases x)
  have rest: "\<forall>u. (k, u) \<in> set e \<longrightarrow> u = v" using Cons.prems(2) by (simp add: x)
  show ?case
  proof (cases "a = k")
    case True
    with Cons.prems(2) have "b = v" by (simp add: x)
    with True have "map_of (AList.update a b d) k = Some v" by (simp add: update_conv')
    from map_of_dict_update_same [OF this rest] show ?thesis by (simp add: x)
  next
    case False
    with Cons.prems(1) have "(k, v) \<in> set e" by (simp add: x)
    from Cons.IH [OF this rest] show ?thesis by (simp add: x)
  qed
qed simp

lemma retry_fields_id: "map_of (retry_fields r n) ''intent_id'' = Some (VStr (rq_key r))"
proof -
  have "''intent_id'' \<notin> fst ` set [(''retry_count'', VInt (int n))]" by simp
  from map_of_dict_update_notin [OF this, of "identity_fields r"]
  show ?thesis unfolding retry_fields_def by (simp add: identity_fields_def del: dict_update_Cons)
qed

lemma set_entry_retry_id:
  "map_of (os_set_entry now i st (retry_fields r n) s) ''intent_id'' = Some (VStr (rq_key r))"
  unfolding os_set_entry_def
proof (rule dict_update_mem)
  show "(''intent_id'', VStr (rq_key r)) \<in> set (retry_fields r n)" by (rule map_of_SomeD [OF retry_fields_id])
  show "\<forall>u. (''intent_id'', u) \<in> set (retry_fields r n) \<longrightarrow> u = VStr (rq_key r)"
    using benign_retry_fields [of r n] by (auto simp: benign_iff)
qed

lemma on_disk_other:
  assumes d: "on_disk i l" and "rq_key r \<noteq> i"
  shows "on_disk i (snd (set_order io now (rq_key r) st (retry_fields r n) l))"
proof -
  from d obtain s where s: "lg_store l = Some s" by (auto simp: on_disk_def)
  from on_disk_append [OF d s, of _ "rq_key r"] set_entry_retry_id assms(2) d s show ?thesis
    by (fastforce simp: on_disk_def set_order_store os_set_order_file)
qed

lemma set_order_accepted:
  "fst (set_order io now i st x l) \<Longrightarrow> \<exists>s. lg_store l = Some s \<and> os_healthy s \<and> io"
  by (simp add: set_order_def Let_def os_set_order_def split: option.splits prod.splits)
    (metis fst_conv os_append_ok order_store.ext_inject order_store.surjective order_store.update_convs(1))

lemma set_order_on_disk:
  assumes "fst (set_order io now (rq_key r) st (retry_fields r n) l)" "st \<noteq> INTENT_CREATED"
  shows "on_disk (rq_key r) (snd (set_order io now (rq_key r) st (retry_fields r n) l))"
proof -
  from set_order_accepted [OF assms(1)] obtain s where s: "lg_store l = Some s" "os_healthy s" "io" by blast
  have "loaded (os_file s @ [Json (VDict (os_set_entry now (rq_key r) (os_value st) (retry_fields r n) s))])
      = AList.update (rq_key r) (os_set_entry now (rq_key r) (os_value st) (retry_fields r n) s) (loaded (os_file s))"
    by (simp add: loaded_snoc set_entry_retry_id)
  with s set_entry_beyond [OF assms(2) benign_retry_fields] show ?thesis
    by (simp add: on_disk_def set_order_store os_set_order_file)
qed

lemma submitted_world_on_disk:
  assumes "fst (w_set E (rq_key r) SUBMITTING (retry_fields r 0)
        (snd (w_set E (rq_key r) RISK_APPROVED [] (snd (w_set E (rq_key r) INTENT_CREATED (retry_fields r 0) w)))))"
  shows "on_disk (rq_key r) (w_ledger (submitted_world E r w))"
proof -
  have f: "fst (w_set E i st x u) = fst (set_order (en_io E (w_step u)) (en_now E (w_step u)) i st x (w_ledger u))" for i st x u
    by (simp add: w_set_def split: prod.split)
  from assms set_order_on_disk [of _ _ r SUBMITTING 0] show ?thesis
    unfolding submitted_world_def f w_set_ledger [of E "rq_key r" SUBMITTING] by simp
qed

lemma execute_order_on_disk:
  assumes "on_disk i (w_ledger w)" "burnt i (w_ledger w)" "i \<noteq> []" "execute_order E fk fi q w = (res, w1)"
  shows "on_disk i (w_ledger w1)"
proof (rule execute_order_keeps [OF on_disk_kept assms(1) refl _ assms(4)])
  let ?r = "prepare fk fi q"
  assume "\<not> is_duplicate (rq_key ?r) w"
  with burnt_is_duplicate [of ?r w] assms have "rq_key ?r \<noteq> i" by metis
  then show "on_disk i (w_ledger (snd (w_set E (rq_key ?r) INTENT_CREATED (retry_fields ?r 0) w)))"
    using assms(1) by (simp add: w_set_ledger on_disk_other)
qed

lemma on_disk_after_send:
  assumes "execute_order E fk fi q w = (res, w1)" "w_sent w1 \<noteq> w_sent w" "en_require_durable E"
  shows "on_disk (rq_key (prepare fk fi q)) (w_ledger w1)"
proof -
  let ?r = "prepare fk fi q"
  from sending_call(6) [OF assms(1,2) refl] obtain w3 where
    "attempt_loop E ?r (en_max_retries E) 0 (record_pending (rq_key ?r) (submitted_world E ?r w)) = (res, w3)"
    "w1 = clear_pending (rq_key ?r) w3" by auto
  with attempt_loop_keeps [OF on_disk_kept _ this(1), of "rq_key ?r"]
    submitted_world_on_disk [OF sending_call(5) [OF assms(1,2) refl assms(3)]]
  show ?thesis by simp
qed

text \<open>
  C19. The ledger is written ahead. Where a durable store is required, a call that sends anything is
  exactly this: the records intent, approved and submitting are written, and from the world after
  them, which has sent nothing and whose ledger file already holds a record beyond the intent for
  the key, the attempts are run; the file still holds one when the call is over.
\<close>

theorem ledger_is_written_ahead:
  assumes "en_require_durable E" and "w_sent (snd (execute_order E fk fi q w)) \<noteq> w_sent w" and "r = prepare fk fi q"
    and "ahead = record_pending (rq_key r) (snd (w_set E (rq_key r) SUBMITTING (retry_fields r 0)
           (snd (w_set E (rq_key r) RISK_APPROVED [] (snd (w_set E (rq_key r) INTENT_CREATED (retry_fields r 0) w))))))"
  shows "execute_order E fk fi q w =
      (let (res, v) = attempt_loop E r (en_max_retries E) 0 ahead in (res, clear_pending (rq_key r) v))
    \<and> w_sent ahead = w_sent w \<and> w_broker ahead = w_broker w \<and> on_disk (rq_key r) (w_ledger ahead)
    \<and> on_disk (rq_key r) (w_ledger (snd (execute_order E fk fi q w)))"
proof -
  have ahead: "ahead = record_pending (rq_key r) (submitted_world E r w)" by (simp add: assms(4) submitted_world_def)
  obtain res w1 where e: "execute_order E fk fi q w = (res, w1)" by fastforce
  with assms(2) have sent: "w_sent w1 \<noteq> w_sent w" by simp
  from sending_call(6) [OF e sent assms(3)] obtain v where
    "attempt_loop E r (en_max_retries E) 0 ahead = (res, v)" "w1 = clear_pending (rq_key r) v" by (auto simp: ahead)
  then have "execute_order E fk fi q w =
      (let (res, v) = attempt_loop E r (en_max_retries E) 0 ahead in (res, clear_pending (rq_key r) v))" by (simp add: e)
  moreover have "on_disk (rq_key r) (w_ledger ahead)"
    using submitted_world_on_disk [OF sending_call(5) [OF e sent assms(3,1)]] by (simp add: ahead)
  moreover have "on_disk (rq_key r) (w_ledger (snd (execute_order E fk fi q w)))"
    using on_disk_after_send [OF e sent assms(1)] by (simp add: e assms(3))
  ultimately show ?thesis by (simp add: ahead)
qed

theorem ledger_is_written_ahead_witness:
  "\<exists>ahead. w_sent ahead = [] \<and> on_disk ''K'' (w_ledger ahead)
     \<and> execute_order demo_engine ''F'' ''G'' demo_request demo_world =
       (let (res, v) = attempt_loop demo_engine (prepare ''F'' ''G'' demo_request) 2 0 ahead in (res, clear_pending ''K'' v))"
proof -
  have d: "en_require_durable demo_engine" "en_max_retries demo_engine = 2" by (simp_all add: demo_engine_def)
  have s: "w_sent (snd (execute_order demo_engine ''F'' ''G'' demo_request demo_world)) \<noteq> w_sent demo_world"
    using demo_sends by (simp add: run_call_def demo_call_def)
  have k: "rq_key (prepare ''F'' ''G'' demo_request) = ''K''" "w_sent demo_world = []"
    using demo_key by (simp_all add: call_key_def demo_call_def demo_world_def)
  from ledger_is_written_ahead [OF d(1) s refl refl] show ?thesis unfolding k d(2) by blast
qed

text \<open>
  C8. A restart does not resend: where a durable store is required and a call with a key sent
  anything, then after any further calls, a restart that reopens the ledger's file with empty
  registries, and any calls of the new process, a call with that key hands over nothing.
\<close>

theorem restart_never_resends:
  assumes "en_require_durable (ca_engine c)" and "w_sent (snd (run_call c w)) \<noteq> w_sent w"
    and "call_key c \<noteq> []" and "call_key d = call_key c"
    and "lg_store (w_ledger (run_calls cs (snd (run_call c w)))) = Some s" and "w_ledger v = reopened s"
  shows "w_sent (snd (run_call d (run_calls ds v))) = w_sent (run_calls ds v)"
proof -
  let ?i = "call_key c"
  obtain res w1 where e: "run_call c w = (res, w1)" by fastforce
  note x = e [unfolded run_call_def]
  have sent: "w_sent w1 \<noteq> w_sent (w\<lparr>w_broker := ca_meanwhile c (w_broker w)\<rparr>)" using assms(2) e by simp
  have "on_disk ?i (w_ledger w1) \<and> burnt ?i (w_ledger w1)"
    using on_disk_after_send [OF x sent assms(1)] burnt_after_send [OF x sent] by (simp add: call_key_def)
  from run_call_keeps [of "\<lambda>l. on_disk ?i l \<and> burnt ?i l", OF _ this, of cs]
  have "on_disk ?i (w_ledger (run_calls cs w1))"
    using execute_order_on_disk [OF _ _ assms(3)] execute_order_burnt [OF _ assms(3)] by blast
  with assms(5,6) e have "burnt ?i (w_ledger v)" by (simp add: reopened_burnt)
  from run_call_keeps [of "burnt ?i", OF execute_order_burnt [OF _ assms(3)] this]
  have "burnt ?i (w_ledger (run_calls ds v))" .
  with burnt_call_sends_nothing [of ?i "_\<lparr>w_broker := _\<rparr>"] assms(3,4)
  show ?thesis by (simp add: run_call_def call_key_def)
qed

lemma demo_store:
  "\<exists>s. lg_store (w_ledger (run_calls [] (snd (run_call demo_call demo_world)))) = Some s \<and> os_file s \<noteq> []"
proof -
  have "(case lg_store (w_ledger (snd (run_call demo_call demo_world))) of None \<Rightarrow> False | Some s \<Rightarrow> os_file s \<noteq> [])"
    by code_simp
  then show ?thesis by (auto simp: run_calls_def split: option.splits)
qed

theorem restart_never_resends_witness:
  "\<exists>s. w_sent (snd (run_call demo_call (demo_world\<lparr>w_ledger := reopened s\<rparr>))) = [] \<and> os_file s \<noteq> []"
proof -
  from demo_store obtain s where
    s: "lg_store (w_ledger (run_calls [] (snd (run_call demo_call demo_world)))) = Some s" "os_file s \<noteq> []" by blast
  have d: "en_require_durable (ca_engine demo_call)" by (simp add: demo_call_def demo_engine_def)
  from restart_never_resends [OF d demo_sends _ refl s(1), of "demo_world\<lparr>w_ledger := reopened s\<rparr>" "[]"] s(2)
  show ?thesis by (auto simp: demo_key run_calls_def demo_world_def)
qed

section \<open>One call\<close>

text \<open>
  C10. What one call hands to the broker: at most one order per attempt, and every order but the last
  was answered with a refusal that is transient and unambiguous. After a raise, a success or an
  ambiguous answer nothing more is sent.
\<close>

theorem resend_only_after_transient_refusal:
  "\<exists>es. w_sent (snd (execute_order E fk fi q w)) = w_sent w @ es \<and> length es \<le> Suc (en_max_retries E)
     \<and> list_all (\<lambda>e. retryable E (snd e)) (butlast es)"
proof -
  let ?r = "prepare fk fi q"
  obtain res w1 where e: "execute_order E fk fi q w = (res, w1)" by fastforce
  show ?thesis
  proof (cases "w_sent w1 = w_sent w")
    case True
    with e show ?thesis by auto
  next
    case False
    from sending_call(6) [OF e False refl] obtain w3 where l:
      "attempt_loop E ?r (en_max_retries E) 0 (record_pending (rq_key ?r) (submitted_world E ?r w)) = (res, w3)"
      "w1 = clear_pending (rq_key ?r) w3" by auto
    from attempt_loop_sends [OF l(1)] l(2) e show ?thesis by (simp add: list_all_iff)
  qed
qed

text \<open>
  C20. Nothing reaches the broker unless every guard passes: the durable store is healthy where one is
  required, the request carries an approval token where one is required, its key is not in use, and
  the order passes validation against the broker's symbol, quote and volume limits.
\<close>

theorem send_needs_every_guard:
  assumes "w_sent (snd (execute_order E fk fi q w)) \<noteq> w_sent w"
  shows "(durable_ready w \<or> \<not> en_require_durable E) \<and> (\<not> missing_approval q \<or> \<not> en_require_approval E)
     \<and> \<not> is_duplicate (rq_key (prepare fk fi q)) w \<and> order_errors E (prepare fk fi q) (w_broker w) = []"
proof -
  obtain res w1 where e: "execute_order E fk fi q w = (res, w1)" by fastforce
  have "missing_approval (prepare fk fi q) = missing_approval q" by (simp add: prepare_def Let_def missing_approval_def)
  with sending_call(1-4) [OF e _ refl] assms e show ?thesis by auto
qed

theorem send_needs_every_guard_witness:
  "durable_ready demo_world \<and> \<not> missing_approval demo_request"
  using send_needs_every_guard [of demo_engine "''F''" "''G''" demo_request demo_world] demo_sends
  by (simp add: run_call_def demo_call_def demo_engine_def)

section \<open>What a success means\<close>

text \<open>The broker's log since \<open>w\<close> holds a successful answer with the ticket of the result.\<close>

definition answered_fill :: "'b world \<Rightarrow> exec_result \<Rightarrow> 'b world \<Rightarrow> bool" where
  "answered_fill w x w1 \<longleftrightarrow> (\<exists>p raw s. (p, Inr raw) \<in> set (drop (length (w_sent w)) (w_sent w1))
     \<and> parse_send_result raw = Inr s \<and> sr_success s \<and> sr_ticket s = er_ticket x)"

text \<open>The locator finds an order at the broker, with the ticket of the result.\<close>

definition located_fill :: "'b engine \<Rightarrow> order_request \<Rightarrow> exec_result \<Rightarrow> 'b \<Rightarrow> bool" where
  "located_fill E r x b \<longleftrightarrow> (\<exists>find d. bk_locator (en_terminal E) = Some find \<and> find r b = Inr (Some d) \<and> d \<noteq> []
     \<and> (if dget d ''ticket'' VNone = VNone then er_ticket x = None
        else map_option Inr (er_ticket x) = Some (py_int (dget d ''ticket'' VNone))))"

lemma finish_success_ticket: "finish_success E r s n w = (Inr x, w1) \<Longrightarrow> er_ticket x = sr_ticket s"
  by (auto simp: finish_success_def Let_def split: sum.splits)

lemma parsed_success: "parsed E res = Inr s \<Longrightarrow> \<exists>raw. res = Inr raw \<and> parse_send_result raw = Inr s"
  by (auto simp: parsed_def split: sum.splits)

text \<open>
  Fills are made up only where the engine has no way to the broker and simulation is on: no client
  with \<open>order_send\<close> or \<open>execute_order\<close>, and no native library either, unless no approval is
  required.
\<close>

definition makes_up_fills :: "'b engine \<Rightarrow> bool" where
  "makes_up_fills E \<longleftrightarrow> en_simulation E \<and> bk_order_send (en_terminal E) = None \<and> bk_execute_order (en_terminal E) = None
     \<and> (bk_native_send (en_terminal E) = None \<or> \<not> en_require_approval E)"

lemma sent_success:
  assumes "send_to_broker E r w = (Inr sr, v)" "sr_success sr" "\<not> makes_up_fills E"
  shows "\<exists>p raw. w_sent v = w_sent w @ [(p, Inr raw)] \<and> parse_send_result raw = Inr sr"
proof -
  note ho = hand_over_effect(1)
  have refuse: "\<not> sr_success (refusal c m)" for c m by (simp add: refusal_def)
  show ?thesis
  proof (cases "bk_order_send (en_terminal E)")
    case (Some f)
    with assms(1) show ?thesis by (auto simp: send_to_broker_def Let_def dest!: parsed_success ho split: prod.splits)
  next
    case no_send: None
    show ?thesis
    proof (cases "bk_execute_order (en_terminal E)")
      case (Some f)
      with assms(1) no_send show ?thesis
        by (auto simp: send_to_broker_def Let_def dest!: parsed_success ho split: prod.splits)
    next
      case no_exec: None
      show ?thesis
      proof (cases "bk_native_send (en_terminal E)")
        case None
        with assms no_send no_exec have "\<not> en_simulation E" by (simp add: makes_up_fills_def)
        with assms(1,2) None no_send no_exec refuse show ?thesis by (auto simp: send_to_broker_def)
      next
        case (Some f)
        with assms(3) no_send no_exec have no: "(en_simulation E \<and> \<not> en_require_approval E) = False"
          by (simp add: makes_up_fills_def)
        have "send_native E f r w = (Inr sr, v)"
          using assms(1) unfolding send_to_broker_def Let_def no_send no_exec Some no by simp
        with assms(2) refuse show ?thesis
          by (auto simp: send_native_def dest!: parsed_success ho split: if_splits prod.splits sum.splits)
      qed
    qed
  qed
qed

lemma attempt_once_success:
  assumes "attempt_once E r n w = (Inl x, w1)" "\<not> makes_up_fills E"
  shows "answered_fill w x w1"
proof -
  obtain sent v where s: "send_to_broker E r w = (sent, v)" by fastforce
  with assms(1) obtain sr where sr: "sent = Inr sr" "sr_success sr" "finish_success E r sr n v = (Inr x, w1)"
    by (auto simp: attempt_once_def split: sum.splits if_splits prod.splits)
  from sent_success [OF s [unfolded sr(1)] sr(2) assms(2)] obtain p raw where
    "w_sent v = w_sent w @ [(p, Inr raw)]" "parse_send_result raw = Inr sr" by blast
  with sr finish_success_sent [OF sr(3)] finish_success_ticket [OF sr(3)] show ?thesis
    by (auto simp: answered_fill_def)
qed

lemma adopted_is_located:
  assumes "adopt_lost_response E r w = Inr (Some x)"
  shows "located_fill E r x (w_broker w)"
proof -
  from assms obtain find f fs where f: "bk_locator (en_terminal E) = Some find" "find r (w_broker w) = Inr (Some (f # fs))"
    by (auto simp: adopt_lost_response_def split: option.splits sum.splits list.splits)
  let ?t = "dget (f # fs) ''ticket'' VNone"
  have "if ?t = VNone then er_ticket x = None else map_option Inr (er_ticket x) = Some (py_int ?t)"
    using assms f by (auto simp: adopt_lost_response_def Let_def split: if_splits)
  with f show ?thesis by (auto simp: located_fill_def)
qed

lemma answered_fill_later:
  assumes "answered_fill v x w1" "w_sent v = w_sent w @ es"
  shows "answered_fill w x w1"
proof -
  have "drop (length (w_sent v)) (w_sent w1) = drop (length es) (drop (length (w_sent w)) (w_sent w1))"
    by (simp add: assms(2) add.commute)
  with set_drop_subset [of "length es" "drop (length (w_sent w)) (w_sent w1)"]
  have "set (drop (length (w_sent v)) (w_sent w1)) \<subseteq> set (drop (length (w_sent w)) (w_sent w1))" by simp
  with assms(1) show ?thesis unfolding answered_fill_def by blast
qed

lemma attempt_loop_success:
  assumes "attempt_loop E r left n w = (Inr x, w1)" "er_success x"
    and p: "(if n > 0 \<and> en_require_durable E then w_set E (rq_key r) SUBMITTING (retry_fields r n) w
      else (True, w)) = (ok, w0)"
    and a: "attempt_once E r n w0 = (out, v)"
  shows "(out = Inl x \<and> w1 = v) \<or> (adopt_lost_response E r v = Inr (Some x) \<and> w1 = record_adopted E r x v)
    \<or> (\<exists>k. left = Suc k \<and> attempt_loop E r k (Suc n) v = (Inr x, w1))"
proof (cases ok)
  case False
  then show ?thesis using assms unfolding attempt_loop.simps [of E r left] by (auto simp: failed_def)
next
  case True
  show ?thesis
  proof (cases out)
    case (Inl y)
    then show ?thesis using assms True unfolding attempt_loop.simps [of E r left] by simp
  next
    case (Inr cm)
    obtain c m where cm: "cm = (c, m)" by (cases cm)
    have "(if is_ambiguous_execution c m
           then (case adopt_lost_response E r v of
               Inl e \<Rightarrow> (Inl e, v) | Inr (Some b) \<Rightarrow> (Inr b, record_adopted E r b v)
             | Inr None \<Rightarrow> unknown_outcome E r c m n v)
           else if \<not> is_transient_error c m then exhausted r c m n v
           else (case left of 0 \<Rightarrow> exhausted r c m n v
             | Suc k \<Rightarrow> (case adopt_lost_response E r v of
                 Inl e \<Rightarrow> (Inl e, v) | Inr (Some b) \<Rightarrow> (Inr b, record_adopted E r b v)
               | Inr None \<Rightarrow> attempt_loop E r k (Suc n) v))) = (Inr x, w1)"
      using assms True Inr cm unfolding attempt_loop.simps [of E r left] by simp
    then show ?thesis using assms(2)
      by (cases "adopt_lost_response E r v"; cases left)
        (auto simp: unknown_outcome_def exhausted_def failed_def Let_def split: if_splits option.splits)
  qed
qed

lemma attempt_once_extends: "attempt_once E r n w = (out, w1) \<Longrightarrow> \<exists>es. w_sent w1 = w_sent w @ es"
  using attempt_once_effect by blast

lemma record_adopted_broker [simp]: "w_broker (record_adopted E r a w) = w_broker w"
  by (simp add: record_adopted_def)

lemma attempt_loop_real:
  assumes "\<not> makes_up_fills E" "er_success x"
  shows "attempt_loop E r left n w = (Inr x, w1) \<Longrightarrow> answered_fill w x w1 \<or> located_fill E r x (w_broker w1)"
proof (induction left arbitrary: n w rule: less_induct)
  case (less left)
  obtain ok w0 where p: "(if n > 0 \<and> en_require_durable E then w_set E (rq_key r) SUBMITTING (retry_fields r n) w
      else (True, w)) = (ok, w0)" by fastforce
  have w0: "w_sent w0 = w_sent w" using p by (auto split: if_splits dest: w_setD)
  obtain out v where a: "attempt_once E r n w0 = (out, v)" by fastforce
  from attempt_once_extends [OF a] w0 obtain es where es: "w_sent v = w_sent w @ es" by auto
  consider "out = Inl x" "w1 = v" | "adopt_lost_response E r v = Inr (Some x)" "w1 = record_adopted E r x v"
    | k where "left = Suc k" "attempt_loop E r k (Suc n) v = (Inr x, w1)"
    using attempt_loop_success [OF less.prems assms(2) p a] by blast
  then show ?case
  proof cases
    case 1
    with a attempt_once_success [of E r n w0 x v] assms(1) have "answered_fill w0 x w1" by simp
    then show ?thesis using answered_fill_later [of w0 x w1 w "[]"] w0 by simp
  next
    case 2
    then show ?thesis using adopted_is_located by auto
  next
    case (3 k)
    with less.IH [of k] answered_fill_later [OF _ es] show ?thesis by blast
  qed
qed

lemma submit_order_success:
  assumes "submit_order E r w = (Inr x, w1)" "er_success x"
  shows "\<exists>v w3. attempt_loop E r (en_max_retries E) 0 v = (Inr x, w3) \<and> w_sent v = w_sent w
     \<and> w1 = clear_pending (rq_key r) w3"
proof -
  obtain ok v where v: "w_set E (rq_key r) SUBMITTING (retry_fields r 0) (snd (w_set E (rq_key r) RISK_APPROVED [] w)) = (ok, v)"
    by fastforce
  have "w_sent (record_pending (rq_key r) v) = w_sent w" using w_setD(1) [OF v] by simp
  moreover obtain y w3 where l: "attempt_loop E r (en_max_retries E) 0 (record_pending (rq_key r) v) = (y, w3)" by fastforce
  with assms v have "y = Inr x" "w1 = clear_pending (rq_key r) w3"
    by (auto simp: submit_order_def failed_def split: if_splits)
  ultimately show ?thesis using l by blast
qed

lemma execute_order_success:
  assumes "execute_order E fk fi q w = (Inr x, w1)" "er_success x" and r: "r = prepare fk fi q"
  shows "\<exists>v w3. attempt_loop E r (en_max_retries E) 0 v = (Inr x, w3) \<and> w_sent v = w_sent w
     \<and> w1 = clear_pending (rq_key r) w3"
proof -
  obtain ok v where v: "w_set E (rq_key r) INTENT_CREATED (retry_fields r 0) w = (ok, v)" by fastforce
  from assms v have "submit_order E r v = (Inr x, w1)"
    by (auto simp: execute_order_def admit_order_def failed_def Let_def split: if_splits)
  from submit_order_success [OF this assms(2)] w_setD(1) [OF v] show ?thesis by simp
qed

text \<open>
  C17. A reported success is real, in simulation mode too, unless the engine has no way to the broker
  and makes fills up (simulation on, neither a client nor, with approval required, the native
  library): the call got a successful answer for this ticket from the broker, or it found the order
  at the broker under this ticket after an answer was lost.
\<close>

theorem success_is_real:
  assumes "fst (execute_order E fk fi q w) = Inr x" and "er_success x"
    and "\<not> (en_simulation E \<and> bk_order_send (en_terminal E) = None \<and> bk_execute_order (en_terminal E) = None
           \<and> (bk_native_send (en_terminal E) = None \<or> \<not> en_require_approval E))"
  shows "answered_fill w x (snd (execute_order E fk fi q w))
     \<or> located_fill E (prepare fk fi q) x (w_broker (snd (execute_order E fk fi q w)))"
proof -
  let ?r = "prepare fk fi q"
  obtain w1 where e: "execute_order E fk fi q w = (Inr x, w1)" using assms(1) by (cases "execute_order E fk fi q w") auto
  from execute_order_success [OF e assms(2) refl] obtain v w3 where
    l: "attempt_loop E ?r (en_max_retries E) 0 v = (Inr x, w3)" "w_sent v = w_sent w" "w1 = clear_pending (rq_key ?r) w3"
    by blast
  from attempt_loop_real [OF _ assms(2) l(1)] assms(3) l(2,3) e show ?thesis by (simp add: answered_fill_def makes_up_fills_def)
qed

theorem success_is_real_witness:
  "\<exists>x. er_ticket x = Some 7
     \<and> answered_fill demo_world x (snd (execute_order demo_engine ''F'' ''G'' demo_request demo_world))"
proof -
  have "(case fst (execute_order demo_engine ''F'' ''G'' demo_request demo_world) of Inl e \<Rightarrow> False
     | Inr x \<Rightarrow> er_success x \<and> er_ticket x = Some 7)" by code_simp
  then obtain x where x: "fst (execute_order demo_engine ''F'' ''G'' demo_request demo_world) = Inr x"
    "er_success x" "er_ticket x = Some 7" by (auto split: sum.splits)
  have n: "\<not> (en_simulation demo_engine \<and> bk_order_send (en_terminal demo_engine) = None
      \<and> bk_execute_order (en_terminal demo_engine) = None
      \<and> (bk_native_send (en_terminal demo_engine) = None \<or> \<not> en_require_approval demo_engine))"
    and l: "bk_locator (en_terminal demo_engine) = None"
    by (simp_all add: demo_engine_def ex_terminal_def)
  from success_is_real [OF x(1,2) n] l x(3) show ?thesis by (auto simp: located_fill_def)
qed

section \<open>Where the record and the broker part\<close>

text \<open>
  A call without an approval token overwrites the record of a live order: whatever the ledger
  holds for its key, and although the key is in use, the state afterwards is unknown.
\<close>

theorem unapproved_call_overwrites_state:
  assumes "en_require_approval E" and "missing_approval q" and "durable_ready w"
  shows "ledger_state (rq_key (prepare fk fi q)) (snd (execute_order E fk fi q w)) = VStr ''unknown''"
proof -
  let ?r = "prepare fk fi q"
  have "missing_approval ?r" using assms(2) by (simp add: prepare_def Let_def missing_approval_def)
  with assms have "snd (execute_order E fk fi q w) = snd (w_set E (rq_key ?r) UNKNOWN [] w)"
    by (simp add: execute_order_def)
  then show ?thesis
    by (simp add: ledger_state_def get_order_def w_set_ledger set_order_orders ledger_entry_def dget_def update_conv')
qed

theorem unapproved_call_overwrites_state_witness:
  "ledger_state ''K'' (snd (run_call demo_call demo_world)) = VStr ''position_confirmed''
   \<and> ledger_state ''K'' (snd (execute_order demo_engine ''F'' ''G'' (demo_request\<lparr>rq_token := None\<rparr>)
        (snd (run_call demo_call demo_world)))) = VStr ''unknown''"
proof -
  let ?w = "snd (run_call demo_call demo_world)" and ?q = "demo_request\<lparr>rq_token := None\<rparr>"
  have s: "ledger_state ''K'' ?w = VStr ''position_confirmed''" and d: "durable_ready ?w" by code_simp+
  have "en_require_approval demo_engine" "missing_approval ?q" "rq_key (prepare ''F'' ''G'' ?q) = ''K''"
    by (simp_all add: demo_engine_def demo_request_def missing_approval_def opt_text_def prepare_def)
  from unapproved_call_overwrites_state [OF this(1,2) d, of "''F''" "''G''"] this(3) s show ?thesis by simp
qed

lemma partial_fill_unclassified: "\<not> is_ambiguous_execution 10010 [] \<and> \<not> is_transient_error 10010 []"
  by (simp add: is_ambiguous_execution_def is_transient_error_def ambiguous_retcodes_def transient_retcodes_def
      ambiguous_keywords_def transient_keywords_def not_sent_def contains_def lower_def)

text \<open>
  A partial fill of the native library (return code 10010, with the order's ticket) is read as a
  failure that is neither ambiguous nor transient: the call reports failure without a ticket, looks
  nothing up, and the ledger keeps the state it had before the send.
\<close>

theorem partial_fill_is_reported_failed:
  assumes "send_to_broker E r w = (Inr s, v)" and "parse_send_result (RawObj (Some 10010) [] (Some t) price) = Inr s"
  shows "fst (attempt_loop E r left 0 w) = Inr (failed 10010 [] 0)
     \<and> w_ledger (snd (attempt_loop E r left 0 w)) = w_ledger w"
proof -
  from assms(2) have "\<not> sr_success s" "sr_code s = 10010" "sr_message s = []" by auto
  with assms(1) have "attempt_once E r 0 w = (Inr (10010, []), v)" by (simp add: attempt_once_def)
  with partial_fill_unclassified have "attempt_loop E r left 0 w = exhausted r 10010 [] 0 v"
    unfolding attempt_loop.simps [of E r left] by simp
  with send_to_broker_effect(2) [OF assms(1)] show ?thesis by (simp add: exhausted_def Let_def)
qed

definition partial_engine :: "nat engine" where
  "partial_engine = demo_engine\<lparr>en_terminal := ex_terminal\<lparr>bk_order_send := None, bk_armed := \<lambda>b. True,
     bk_native_send := Some (\<lambda>p n. (Inr (RawObj (Some 10010) [] (Some 7) (VFloat 2)), Suc n))\<rparr>\<rparr>"

theorem partial_fill_is_reported_failed_witness:
  "fst (attempt_loop partial_engine demo_request 3 0 demo_world) = Inr (failed 10010 [] 0)"
proof -
  let ?s = "\<lparr>sr_success = False, sr_ticket = Some 7, sr_code = 10010, sr_message = [], sr_price = VFloat 2\<rparr>"
  have "fst (send_to_broker partial_engine demo_request demo_world) = Inr ?s" by code_simp
  then obtain v where "send_to_broker partial_engine demo_request demo_world = (Inr ?s, v)"
    by (cases "send_to_broker partial_engine demo_request demo_world") auto
  from partial_fill_is_reported_failed [OF this, of 7 "VFloat 2" 3] show ?thesis by simp
qed

text \<open>
  The pending buy types, which validation accepts, leave through the native path as sells at the
  market: every type but BUY itself is mapped to a sell deal.
\<close>

theorem pending_buy_is_sent_as_sell:
  "list_all (\<lambda>t. t \<in> set valid_order_types
       \<and> dget (native_payload T (r\<lparr>rq_order_type := t\<rparr>) b) ''type'' VNone = VStr ''ORDER_TYPE_SELL''
       \<and> dget (native_payload T (r\<lparr>rq_order_type := t\<rparr>) b) ''action'' VNone = VStr ''TRADE_ACTION_DEAL'')
     [''BUY_LIMIT'', ''BUY_STOP'', ''BUY_STOP_LIMIT'']"
proof -
  have "upper ''BUY_LIMIT'' \<noteq> ''BUY''" "upper ''BUY_STOP'' \<noteq> ''BUY''" "upper ''BUY_STOP_LIMIT'' \<noteq> ''BUY''"
    by (simp_all add: upper_def)
  then show ?thesis by (simp add: valid_order_types_def native_payload_def dget_def Let_def)
qed

end
