(* ===== verification/Outbox.thy ===== *)
theory Outbox
  imports Order_Once
begin

text \<open>
  The engine as an at-most-once outbox, and its progress: an abstract machine that spends each key on
  at most one burst of sends, the proof that runs of \<open>execute_order\<close> refine it, and the order that
  gets through when the broker's refusals are transient and at most as many as the
  retries.
\<close>

section \<open>The abstract outbox\<close>

text \<open>
  The state is the set of spent keys; an event is a key with the number of sends it caused. A quiet
  event sends nothing and may spend its key; a sending one needs an unspent key and spends it.
\<close>

inductive outbox_run :: "string set \<Rightarrow> (string \<times> nat) list \<Rightarrow> string set \<Rightarrow> bool" where
  ended: "outbox_run B [] B"
| quiet: "B1 \<in> {B, insert k B} \<Longrightarrow> outbox_run B1 es C \<Longrightarrow> outbox_run B ((k, 0) # es) C"
| burst: "k \<notin> B \<Longrightarrow> n > 0 \<Longrightarrow> outbox_run (insert k B) es C \<Longrightarrow> outbox_run B ((k, n) # es) C"

inductive_cases outbox_run_ConsE: "outbox_run B (e # es) C"

definition bursts :: "(string \<times> nat) list \<Rightarrow> string list" where
  "bursts es = map fst (filter (\<lambda>e. snd e > 0) es)"

lemma bursts_simps [simp]:
  "bursts [] = []" "bursts ((k, n) # es) = (if n > 0 then k # bursts es else bursts es)"
  by (simp_all add: bursts_def)

lemma outbox_run_bursts: "outbox_run B es C \<Longrightarrow> distinct (bursts es) \<and> set (bursts es) \<inter> B = {} \<and> B \<subseteq> C"
  by (induction rule: outbox_run.induct) auto

section \<open>The engine refines it\<close>

definition spent :: "'b world \<Rightarrow> string set" where
  "spent w = {k. burnt k (w_ledger w)}"

fun sends_of :: "'b call list \<Rightarrow> 'b world \<Rightarrow> (string \<times> nat) list" where
  "sends_of [] w = []"
| "sends_of (c # cs) w =
     (let w1 = snd (run_call c w) in (call_key c, length (w_sent w1) - length (w_sent w)) # sends_of cs w1)"

lemma burnt_elsewhere: "k \<noteq> i \<Longrightarrow> burnt i (snd (set_order io now k st x l)) = burnt i l"
  by (simp add: burnt_def set_order_orders)

lemma execute_order_elsewhere:
  assumes "execute_order E fk fi q w = (res, w1)" "i \<noteq> rq_key (prepare fk fi q)"
  shows "burnt i (w_ledger w1) = burnt i (w_ledger w)"
proof -
  let ?r = "prepare fk fi q"
  have k: "kept_by_writes (rq_key ?r) (\<lambda>l. burnt i l = burnt i (w_ledger w))"
    using assms(2) by (auto simp: kept_by_writes_def burnt_elsewhere)
  from execute_order_keeps [OF k refl refl _ assms(1)] assms(2) show ?thesis
    by (simp add: w_set_ledger burnt_elsewhere)
qed

lemma call_spends:
  assumes "run_call c w = (res, w1)" "call_key c \<noteq> []"
  shows "spent w1 = spent w \<or> spent w1 = insert (call_key c) (spent w)"
    and "w_sent w1 \<noteq> w_sent w \<Longrightarrow> call_key c \<notin> spent w \<and> spent w1 = insert (call_key c) (spent w)"
proof -
  let ?w = "w\<lparr>w_broker := ca_meanwhile c (w_broker w)\<rparr>"
  from assms(1) have e: "execute_order (ca_engine c) (ca_fresh_key c) (ca_fresh_id c) (ca_request c) ?w = (res, w1)"
    by (simp add: run_call_def)
  have other: "i \<in> spent w1 \<longleftrightarrow> i \<in> spent w" if "i \<noteq> call_key c" for i
    using execute_order_elsewhere [OF e, of i] that by (simp add: spent_def call_key_def)
  have kept: "call_key c \<in> spent w1" if "call_key c \<in> spent w"
    using execute_order_burnt [OF _ assms(2) e] that by (simp add: spent_def)
  have set: "spent w1 = (if call_key c \<in> spent w1 then insert (call_key c) (spent w) else spent w)"
  proof (rule set_eqI)
    fix i
    show "i \<in> spent w1 \<longleftrightarrow> i \<in> (if call_key c \<in> spent w1 then insert (call_key c) (spent w) else spent w)"
      using other [of i] kept by (cases "i = call_key c"; cases "call_key c \<in> spent w1") auto
  qed
  then show "spent w1 = spent w \<or> spent w1 = insert (call_key c) (spent w)" by presburger
  assume "w_sent w1 \<noteq> w_sent w"
  then have sent: "w_sent w1 \<noteq> w_sent ?w" by simp
  from burnt_after_send [OF e sent] have "call_key c \<in> spent w1" by (simp add: spent_def call_key_def)
  moreover have "call_key c \<notin> spent w"
  proof
    assume "call_key c \<in> spent w"
    then have "burnt (call_key c) (w_ledger ?w)" by (simp add: spent_def)
    from burnt_call_sends_nothing [OF this _ assms(2), of "ca_fresh_key c" "ca_fresh_id c" "ca_request c" "ca_engine c"] e sent
    show False by (simp add: call_key_def)
  qed
  ultimately show "call_key c \<notin> spent w \<and> spent w1 = insert (call_key c) (spent w)" using set by simp
qed

text \<open>
  C5. The engine refines the at-most-once outbox: whatever calls are made, on whatever engines and
  settings, with the broker changing between them, the events they cause are a run of the outbox from
  the keys spent in the ledger before to those spent after. In particular no key is behind two bursts.
\<close>

theorem engine_refines_at_most_once:
  assumes "list_all (\<lambda>c. call_key c \<noteq> []) cs"
  shows "outbox_run (spent w) (sends_of cs w) (spent (run_calls cs w)) \<and> distinct (bursts (sends_of cs w))"
proof -
  have "outbox_run (spent w) (sends_of cs w) (spent (run_calls cs w))"
    using assms
  proof (induction cs arbitrary: w)
    case Nil
    then show ?case by (simp add: run_calls_def outbox_run.ended)
  next
    case (Cons c cs)
    obtain res w1 where e: "run_call c w = (res, w1)" by fastforce
    from Cons.prems have key: "call_key c \<noteq> []" by simp
    from Cons.IH [of w1] Cons.prems have rest: "outbox_run (spent w1) (sends_of cs w1) (spent (run_calls cs w1))" by simp
    note call = call_spends [OF e key]
    show ?case
    proof (cases "length (w_sent w1) - length (w_sent w)")
      case 0
      from call(1) have "spent w1 \<in> {spent w, insert (call_key c) (spent w)}" by simp
      from outbox_run.quiet [OF this rest] 0 e show ?thesis by (simp add: run_calls_Cons)
    next
      case (Suc n)
      then have "w_sent w1 \<noteq> w_sent w" by auto
      from call(2) [OF this] rest e Suc show ?thesis by (simp add: run_calls_Cons outbox_run.burst)
    qed
  qed
  with outbox_run_bursts [OF this] show ?thesis by simp
qed

theorem engine_refines_at_most_once_witness:
  "distinct (bursts (sends_of [demo_call, demo_call] demo_world)) \<and> bursts (sends_of [demo_call, demo_call] demo_world) = [''K'']"
proof -
  have "call_key demo_call \<noteq> []" by (simp add: demo_key)
  moreover have "bursts (sends_of [demo_call, demo_call] demo_world) = [''K'']" by code_simp
  ultimately show ?thesis using engine_refines_at_most_once [of "[demo_call, demo_call]" demo_world] by simp
qed

section \<open>Progress\<close>

text \<open>
  One hand-over as the broker sees it: what the engine reads from the answer, and the broker's state
  afterwards. The engine reaches the broker by the client's \<open>order_send\<close>, else by its
  \<open>execute_order\<close>, else by the native library when a terminal is armed and no unapproved
  simulation comes first.
\<close>

definition reaches :: "'b engine \<Rightarrow> 'b \<Rightarrow> bool" where
  "reaches E b \<longleftrightarrow>
     (let T = en_terminal E
      in bk_order_send T \<noteq> None \<or> bk_execute_order T \<noteq> None \<or>
         (bk_native_send T \<noteq> None \<and> bk_armed T b \<and> \<not> (en_simulation E \<and> \<not> en_require_approval E)))"

definition delivery :: "'b engine \<Rightarrow> order_request \<Rightarrow> 'b \<Rightarrow> (exn + send_result) \<times> 'b" where
  "delivery E r b =
     (let T = en_terminal E
      in case bk_order_send T of
          Some f \<Rightarrow> (case f (send_payload r) b of (ans, b1) \<Rightarrow> (parsed E ans, b1))
        | None \<Rightarrow>
            (case bk_execute_order T of
               Some f \<Rightarrow> (case f (execute_payload r) b of (ans, b1) \<Rightarrow> (parsed E ans, b1))
             | None \<Rightarrow>
                 (case the (bk_native_send T) (native_payload T r b) b of
                    (ans, b1) \<Rightarrow> (case parsed E ans of
                        Inl x \<Rightarrow> (Inr (refusal (- 1) (''Native MT5 send failed: '' @ x)), b1)
                      | Inr s \<Rightarrow> (Inr s, b1)))))"

lemma send_delivers:
  assumes "reaches E (w_broker w)"
  shows "\<exists>e. send_to_broker E r w = (fst (delivery E r (w_broker w)),
      w\<lparr>w_broker := snd (delivery E r (w_broker w)), w_sent := w_sent w @ [e]\<rparr>)"
proof (cases "bk_order_send (en_terminal E)")
  case (Some f)
  show ?thesis
    unfolding send_to_broker_def delivery_def Let_def Some
    by (intro exI [of _ "(send_payload r, fst (f (send_payload r) (w_broker w)))"])
       (simp add: hand_over_def split: prod.split)
next
  case no_send: None
  show ?thesis
  proof (cases "bk_execute_order (en_terminal E)")
    case (Some f)
    show ?thesis
      unfolding send_to_broker_def delivery_def Let_def no_send Some
      by (intro exI [of _ "(execute_payload r, fst (f (execute_payload r) (w_broker w)))"])
         (simp add: hand_over_def split: prod.split)
  next
    case None
    with no_send assms obtain f where f: "bk_native_send (en_terminal E) = Some f" "bk_armed (en_terminal E) (w_broker w)"
      "\<not> (en_simulation E \<and> \<not> en_require_approval E)" by (auto simp: reaches_def Let_def)
    let ?p = "native_payload (en_terminal E) r (w_broker w)"
    from f(3) have no_sim: "(en_simulation E \<and> \<not> en_require_approval E) = False" by simp
    have s: "send_to_broker E r w = send_native E f r w"
      unfolding send_to_broker_def Let_def no_send None f(1) no_sim by simp
    have d: "delivery E r (w_broker w) = (case f ?p (w_broker w) of (ans, b1) \<Rightarrow> (case parsed E ans of
        Inl x \<Rightarrow> (Inr (refusal (- 1) (''Native MT5 send failed: '' @ x)), b1) | Inr s \<Rightarrow> (Inr s, b1)))"
      unfolding delivery_def Let_def no_send None f(1) by simp
    obtain ans b1 where h: "f ?p (w_broker w) = (ans, b1)" by fastforce
    show ?thesis
      unfolding s d send_native_def hand_over_def h
      by (intro exI [of _ "(?p, ans)"]) (cases "parsed E ans"; simp add: f(2))
  qed
qed

text \<open>Every write the call may need reaches the disk.\<close>

definition writable :: "'b engine \<Rightarrow> 'b world \<Rightarrow> bool" where
  "writable E w \<longleftrightarrow> en_require_durable E \<longrightarrow> durable_ready w \<and> (\<forall>n. en_io E n)"

lemma w_set_writable:
  assumes "writable E w"
  shows "en_require_durable E \<Longrightarrow> fst (w_set E i st x w)" "writable E (snd (w_set E i st x w))"
  using assms
  by (auto simp: writable_def durable_ready_def w_set_def set_order_def os_set_order_def Let_def split: prod.splits option.splits)
    (metis fst_conv snd_conv os_append_ok os_append_healthy order_store.ext_inject order_store.surjective
      order_store.update_convs(1))+

lemma writable_cong: "w_ledger v = w_ledger w \<Longrightarrow> writable E v = writable E w"
  by (simp add: writable_def durable_ready_def)

text \<open>A refusal worth a retry, and a locator that is not there or does not find the order.\<close>

fun transient_refusal :: "exn + send_result \<Rightarrow> bool" where
  "transient_refusal (Inl x) = False"
| "transient_refusal (Inr s) = (\<not> sr_success s \<and> is_transient_error (sr_code s) (sr_message s)
     \<and> \<not> is_ambiguous_execution (sr_code s) (sr_message s))"

definition finds_nothing :: "'b engine \<Rightarrow> order_request \<Rightarrow> 'b \<Rightarrow> bool" where
  "finds_nothing E r b =
     (case bk_locator (en_terminal E) of
        None \<Rightarrow> True
      | Some f \<Rightarrow> (case f r b of Inl x \<Rightarrow> True | Inr None \<Rightarrow> True | Inr (Some d) \<Rightarrow> d = []))"

lemma adopts_nothing: "finds_nothing E r (w_broker w) \<Longrightarrow> adopt_lost_response E r w = Inr None"
  by (auto simp: finds_nothing_def adopt_lost_response_def split: option.splits sum.splits)

lemma attempt_refused:
  assumes "reaches E (w_broker w)" "transient_refusal (fst (delivery E r (w_broker w)))"
  obtains c m e where "is_transient_error c m" "\<not> is_ambiguous_execution c m"
    "attempt_once E r n w = (Inr (c, m), w\<lparr>w_broker := snd (delivery E r (w_broker w)), w_sent := w_sent w @ [e]\<rparr>)"
proof -
  from send_delivers [OF assms(1), of r] obtain e where
    "send_to_broker E r w = (fst (delivery E r (w_broker w)),
      w\<lparr>w_broker := snd (delivery E r (w_broker w)), w_sent := w_sent w @ [e]\<rparr>)" by blast
  with assms(2) that [of _ _ e] show thesis
    by (cases "fst (delivery E r (w_broker w))") (auto simp: attempt_once_def)
qed

lemma sync_position_when:
  "sync_position E now s b = Inr pos \<Longrightarrow> \<exists>pos'. sync_position E now' s b = Inr pos'"
  by (auto simp: sync_position_def Let_def)

definition fills :: "'b engine \<Rightarrow> order_request \<Rightarrow> 'b \<Rightarrow> send_result \<Rightarrow> bool" where
  "fills E r b s \<longleftrightarrow> fst (delivery E r b) = Inr s \<and> sr_success s
     \<and> \<not> isl (sync_position E [] (rq_symbol r) (snd (delivery E r b)))
     \<and> \<not> isl (py_float (py_or (py_or (sr_price s) (VFloat (rq_price r))) (VFloat 0)))"

lemma attempt_filled:
  assumes "reaches E (w_broker w)" "fills E r (w_broker w) s"
  obtains res w1 where "attempt_once E r n w = (Inl res, w1)" "er_success res" "er_ticket res = sr_ticket s" "er_retries res = n"
    "length (w_sent w1) = Suc (length (w_sent w))"
proof -
  from assms(2) obtain pos fill where d: "fst (delivery E r (w_broker w)) = Inr s" "sr_success s"
    "sync_position E [] (rq_symbol r) (snd (delivery E r (w_broker w))) = Inr pos"
    "py_float (py_or (py_or (sr_price s) (VFloat (rq_price r))) (VFloat 0)) = Inr fill"
    unfolding fills_def
    by (cases "sync_position E [] (rq_symbol r) (snd (delivery E r (w_broker w)))";
        cases "py_float (py_or (py_or (sr_price s) (VFloat (rq_price r))) (VFloat 0))") auto
  from send_delivers [OF assms(1), of r] d(1) obtain e where
    s: "send_to_broker E r w = (Inr s, w\<lparr>w_broker := snd (delivery E r (w_broker w)), w_sent := w_sent w @ [e]\<rparr>)" by auto
  let ?w = "w\<lparr>w_broker := snd (delivery E r (w_broker w)), w_sent := w_sent w @ [e]\<rparr>"
  have b: "w_broker (record_fill E r t n c ?w) = snd (delivery E r (w_broker w))" for t c
    by (simp add: record_fill_def Let_def)
  obtain res w1 where f: "finish_success E r s n ?w = (Inr res, w1)"
    and r: "er_success res" "er_ticket res = sr_ticket s" "er_retries res = n"
  proof -
    let ?v = "record_fill E r (sr_ticket s) n
      (confirm_execution (en_terminal E) (sr_ticket s) (snd (delivery E r (w_broker w)))) ?w"
    from sync_position_when [OF d(3), of "en_now E (w_step ?v)"] b obtain pos' where
      "sync_position E (en_now E (w_step ?v)) (rq_symbol r) (w_broker ?v) = Inr pos'" by auto
    with d(4) that show thesis by (simp add: finish_success_def Let_def)
  qed
  from finish_success_sent [OF f] s f d(2) r that show thesis by (simp add: attempt_once_def)
qed

text \<open>The retry record written before an attempt, and the loop one attempt at a time.\<close>

definition retry_written :: "'b engine \<Rightarrow> order_request \<Rightarrow> nat \<Rightarrow> 'b world \<Rightarrow> bool \<times> 'b world" where
  "retry_written E r n w =
     (if n > 0 \<and> en_require_durable E then w_set E (rq_key r) SUBMITTING (retry_fields r n) w else (True, w))"

lemma retry_written_ok:
  assumes "writable E w"
  obtains w0 where "retry_written E r n w = (True, w0)" "w_broker w0 = w_broker w" "w_sent w0 = w_sent w" "writable E w0"
proof (cases "n > 0 \<and> en_require_durable E")
  case True
  obtain ok w0 where w: "w_set E (rq_key r) SUBMITTING (retry_fields r n) w = (ok, w0)" by fastforce
  with w_set_writable [OF assms, of "rq_key r" SUBMITTING "retry_fields r n"] True have "ok" "writable E w0" by simp_all
  with that [of w0] w True w_setD [OF w] show thesis by (simp add: retry_written_def)
next
  case False
  then have "retry_written E r n w = (True, w)" unfolding retry_written_def by (rule if_not_P)
  with that assms show thesis by simp
qed

lemma loop_filled:
  "retry_written E r n w = (True, w0) \<Longrightarrow> attempt_once E r n w0 = (Inl res, w1) \<Longrightarrow> attempt_loop E r left n w = (Inr res, w1)"
  unfolding attempt_loop.simps [of E r left] retry_written_def [symmetric] by simp

lemma loop_again:
  "retry_written E r n w = (True, w0) \<Longrightarrow> attempt_once E r n w0 = (Inr (c, m), w1) \<Longrightarrow> is_transient_error c m \<Longrightarrow>
   \<not> is_ambiguous_execution c m \<Longrightarrow> finds_nothing E r (w_broker w1) \<Longrightarrow>
   attempt_loop E r (Suc left) n w = attempt_loop E r left (Suc n) w1"
  unfolding attempt_loop.simps [of E r "Suc left"] retry_written_def [symmetric] by (simp add: adopts_nothing)

text \<open>
  The broker answers k times with a transient, unambiguous refusal, after which nothing of the
  order is found, and then fills it; the fill has a readable price and the open positions can be
  summarised.
\<close>

fun fills_after :: "'b engine \<Rightarrow> order_request \<Rightarrow> 'b \<Rightarrow> nat \<Rightarrow> send_result \<Rightarrow> bool" where
  "fills_after E r b 0 s = (reaches E b \<and> fills E r b s)"
| "fills_after E r b (Suc k) s =
     (let (ans, b1) = delivery E r b
      in reaches E b \<and> transient_refusal ans \<and> finds_nothing E r b1 \<and> fills_after E r b1 k s)"

lemma attempt_loop_overcomes:
  "k \<le> left \<Longrightarrow> writable E w \<Longrightarrow> fills_after E r (w_broker w) k s \<Longrightarrow>
     \<exists>res w1. attempt_loop E r left n w = (Inr res, w1) \<and> er_success res \<and> er_ticket res = sr_ticket s \<and> er_retries res = n + k
       \<and> length (w_sent w1) = length (w_sent w) + Suc k"
proof (induction k arbitrary: left n w)
  case 0
  obtain w0 where w0: "retry_written E r n w = (True, w0)" "w_broker w0 = w_broker w" "w_sent w0 = w_sent w"
    using retry_written_ok [OF 0(2)] by metis
  with 0(3) obtain res w1 where "attempt_once E r n w0 = (Inl res, w1)" "er_success res" "er_ticket res = sr_ticket s"
    "er_retries res = n" "length (w_sent w1) = Suc (length (w_sent w))"
    using attempt_filled [of E w0 r s n] by auto
  with loop_filled [OF w0(1) this(1)] show ?case by simp
next
  case (Suc k)
  then obtain l where l: "left = Suc l" by (cases left) auto
  obtain w0 where w0: "retry_written E r n w = (True, w0)" "w_broker w0 = w_broker w" "w_sent w0 = w_sent w" "writable E w0"
    using retry_written_ok [OF Suc.prems(2)] by metis
  from Suc.prems(3) w0(2) have d: "reaches E (w_broker w0)" "transient_refusal (fst (delivery E r (w_broker w0)))"
    "finds_nothing E r (snd (delivery E r (w_broker w0)))" "fills_after E r (snd (delivery E r (w_broker w0))) k s"
    by (simp_all add: case_prod_beta Let_def)
  from attempt_refused [OF d(1,2), of n] obtain c m e where a: "is_transient_error c m" "\<not> is_ambiguous_execution c m"
    "attempt_once E r n w0 = (Inr (c, m), w0\<lparr>w_broker := snd (delivery E r (w_broker w0)), w_sent := w_sent w0 @ [e]\<rparr>)" .
  let ?v = "w0\<lparr>w_broker := snd (delivery E r (w_broker w0)), w_sent := w_sent w0 @ [e]\<rparr>"
  have "writable E ?v" using w0(4) writable_cong [of ?v w0] by simp
  with Suc.IH [of l ?v "Suc n"] Suc.prems(1) d(4) l w0(3) loop_again [OF w0(1) a(3,1,2), of l] d(3) show ?case by auto
qed

text \<open>
  C16. Transient refusals are overcome: a call that passes the guards, at a broker that refuses the
  order unambiguously and transiently k times and then fills it, ends in success with the broker's
  ticket, after k retries and k + 1 sends. It holds on every way the engine has to the broker, the
  native library on an armed terminal included, under these conditions: k is at most the number of
  retries; where a durable ledger is required, every write to it reaches the disk; the order
  locator, if there is one, finds nothing after a refusal; the answer that fills has a readable
  price, and the open positions can be summarised.
\<close>

theorem transient_refusals_are_overcome:
  assumes "writable E w" and "en_require_approval E \<longrightarrow> \<not> missing_approval q"
    and "\<not> is_duplicate (rq_key (prepare fk fi q)) w" and "order_errors E (prepare fk fi q) (w_broker w) = []"
    and "fills_after E (prepare fk fi q) (w_broker w) k s" and "k \<le> en_max_retries E"
  shows "\<exists>res w1. execute_order E fk fi q w = (Inr res, w1) \<and> er_success res \<and> er_ticket res = sr_ticket s
    \<and> er_retries res = k \<and> length (w_sent w1) = length (w_sent w) + Suc k"
proof -
  let ?r = "prepare fk fi q"
  obtain ok1 w1 where s1: "w_set E (rq_key ?r) INTENT_CREATED (retry_fields ?r 0) w = (ok1, w1)" by fastforce
  obtain ok2 w2 where s2: "w_set E (rq_key ?r) RISK_APPROVED [] w1 = (ok2, w2)" by fastforce
  obtain ok3 w3 where s3: "w_set E (rq_key ?r) SUBMITTING (retry_fields ?r 0) w2 = (ok3, w3)" by fastforce
  have 1: "en_require_durable E \<longrightarrow> ok1" "writable E w1" using w_set_writable [OF assms(1)] s1 by (metis fst_conv, metis snd_conv)
  have 2: "writable E w2" using w_set_writable(2) [OF 1(2)] s2 by (metis snd_conv)
  have 3: "en_require_durable E \<longrightarrow> ok3" "writable E w3" using w_set_writable [OF 2] s3 by (metis fst_conv, metis snd_conv)
  note b = w_setD [OF s1] w_setD [OF s2] w_setD [OF s3]
  let ?w = "record_pending (rq_key ?r) w3"
  have "writable E ?w" using 3(2) writable_cong [of ?w w3] by simp
  from attempt_loop_overcomes [OF assms(6) this, of ?r s 0] assms(5) b obtain res w4 where
    l: "attempt_loop E ?r (en_max_retries E) 0 ?w = (Inr res, w4)" "er_success res" "er_ticket res = sr_ticket s"
    "er_retries res = k" "length (w_sent w4) = length (w_sent w) + Suc k" by auto
  have "submit_order E ?r w1 = (Inr res, clear_pending (rq_key ?r) w4)"
    using s2 s3 3(1) l(1) by (auto simp: submit_order_def)
  then have "admit_order E ?r w = (Inr res, clear_pending (rq_key ?r) w4)"
    using s1 1(1) assms(4) b(2) by (auto simp: admit_order_def)
  moreover have "missing_approval ?r = missing_approval q" by (simp add: prepare_def missing_approval_def Let_def)
  ultimately have "execute_order E fk fi q w = (Inr res, clear_pending (rq_key ?r) w4)"
    using assms(1-3) by (auto simp: execute_order_def writable_def Let_def)
  with l show ?thesis by simp
qed

text \<open>
  The configuration of the running system: no client, simulation on, approval and a durable ledger
  required, the native library on an armed terminal, and a locator that looks the order up.
\<close>

definition native_answers :: "pydict \<Rightarrow> nat \<Rightarrow> (exn + raw_result) \<times> nat" where
  "native_answers p n = (Inr (if n = 0 then RawObj (Some 10004) [] None VNone else RawObj (Some 10009) [] (Some 7) (VFloat 2)), Suc n)"

definition native_engine :: "nat engine" where
  "native_engine = demo_engine\<lparr>en_simulation := True,
     en_terminal := ex_terminal\<lparr>bk_order_send := None, bk_native_send := Some native_answers, bk_armed := \<lambda>b. True,
       bk_locator := Some (\<lambda>r b. Inr None)\<rparr>\<rparr>"

definition native_fill :: send_result where
  "native_fill = \<lparr>sr_success = True, sr_ticket = Some 7, sr_code = 0, sr_message = [], sr_price = VFloat 2\<rparr>"

lemma native_fills_after: "fills_after native_engine (prepare ''F'' ''G'' demo_request) (w_broker demo_world) 1 native_fill"
  by code_simp

theorem transient_refusals_are_overcome_witness:
  "\<exists>res w1. execute_order native_engine ''F'' ''G'' demo_request demo_world = (Inr res, w1) \<and> er_success res
     \<and> er_ticket res = Some 7 \<and> er_retries res = 1 \<and> length (w_sent w1) = 2"
proof -
  have "writable native_engine demo_world" unfolding writable_def by (simp add: native_engine_def demo_engine_def) code_simp
  moreover have "\<not> missing_approval demo_request" "\<not> is_duplicate (rq_key (prepare ''F'' ''G'' demo_request)) demo_world"
    "order_errors native_engine (prepare ''F'' ''G'' demo_request) (w_broker demo_world) = []" by code_simp+
  moreover have "1 \<le> en_max_retries native_engine" "w_sent demo_world = []" "sr_ticket native_fill = Some 7"
    by (simp_all add: native_engine_def demo_engine_def demo_world_def native_fill_def)
  ultimately show ?thesis using transient_refusals_are_overcome [OF _ _ _ _ native_fills_after] by auto
qed

end
