(* ===== verification/Kill_Switch.thy ===== *)
theory Kill_Switch
  imports Contracts
begin

text \<open>
  The emergency stop: \<open>risk/kill_switch.py\<close> (the switch and its events) and
  \<open>persistence/kill_switch_store.py\<close> (its snapshots on disk). A raise of an operation is
  \<open>Inl\<close>; every raise comes before the first assignment, so the switch is then unchanged. An
  operation reads the clock once (\<open>now\<close>), and \<open>io\<close> says whether the file takes the snapshot.
\<close>

section \<open>The switch\<close>

datatype ks_state = KS_ACTIVE | KS_TRIGGERED | KS_LOCKED | KS_RESET_PENDING

datatype ks_event = EV_TRIGGER | EV_RESET_REQUEST | EV_CONFIRM_RESET | EV_LOCK

fun ks_value :: "ks_state \<Rightarrow> string" where
  "ks_value KS_ACTIVE = ''active''"
| "ks_value KS_TRIGGERED = ''triggered''"
| "ks_value KS_LOCKED = ''locked''"
| "ks_value KS_RESET_PENDING = ''reset_pending''"

fun ev_value :: "ks_event \<Rightarrow> string" where
  "ev_value EV_TRIGGER = ''trigger''"
| "ev_value EV_RESET_REQUEST = ''reset_request''"
| "ev_value EV_CONFIRM_RESET = ''confirm_reset''"
| "ev_value EV_LOCK = ''lock''"

definition ks_state_of :: "string \<Rightarrow> ks_state option" where
  "ks_state_of t = find (\<lambda>s. ks_value s = t) [KS_ACTIVE, KS_TRIGGERED, KS_LOCKED, KS_RESET_PENDING]"

record ks_record =
  kr_event :: ks_event
  kr_timestamp :: string
  kr_reason :: string
  kr_by :: string

record kill_switch =
  ks_state :: ks_state
  ks_triggered_at :: "string option"
  ks_reset_at :: "string option"
  ks_history :: "ks_record list"
  ks_locked :: bool
  ks_locked_at :: "string option"

definition new_switch :: kill_switch where
  "new_switch = \<lparr>ks_state = KS_ACTIVE, ks_triggered_at = None, ks_reset_at = None, ks_history = [],
     ks_locked = False, ks_locked_at = None\<rparr>"

definition ks_log :: "ks_event \<Rightarrow> string \<Rightarrow> string \<Rightarrow> string \<Rightarrow> kill_switch \<Rightarrow> kill_switch" where
  "ks_log e now reason who k =
     k\<lparr>ks_history := ks_history k @ [\<lparr>kr_event = e, kr_timestamp = now, kr_reason = reason, kr_by = who\<rparr>]\<rparr>"

definition ks_trigger :: "string \<Rightarrow> string \<Rightarrow> string \<Rightarrow> kill_switch \<Rightarrow> pyerr + kill_switch" where
  "ks_trigger now reason who k =
     (if ks_state k = KS_LOCKED
      then Inl (RuntimeError (''Kill switch is locked '' @ em_dash @ '' cannot re-trigger without reset.''))
      else if ks_state k = KS_TRIGGERED then Inl (RuntimeError ''Kill switch already triggered.'')
      else Inr (ks_log EV_TRIGGER now reason who
                  (k\<lparr>ks_state := KS_TRIGGERED, ks_triggered_at := Some now\<rparr>)))"

definition ks_lock :: "string \<Rightarrow> string \<Rightarrow> kill_switch \<Rightarrow> pyerr + kill_switch" where
  "ks_lock now reason k =
     (if ks_state k \<noteq> KS_TRIGGERED
      then Inl (RuntimeError (''Cannot lock '' @ em_dash @ '' kill switch not triggered.''))
      else if ks_locked k then Inl (RuntimeError ''Kill switch already locked.'')
      else Inr (ks_log EV_LOCK now reason ''system''
                  (k\<lparr>ks_state := KS_LOCKED, ks_locked := True, ks_locked_at := Some now\<rparr>)))"

definition ks_request_reset :: "string \<Rightarrow> string \<Rightarrow> kill_switch \<Rightarrow> pyerr + kill_switch" where
  "ks_request_reset now who k =
     (if ks_state k = KS_ACTIVE
      then Inl (RuntimeError (''Kill switch is already active '' @ em_dash @ '' no reset needed.''))
      else if ks_state k = KS_RESET_PENDING
      then Inl (RuntimeError (''Reset already pending '' @ em_dash @ '' awaiting confirmation.''))
      else Inr (ks_log EV_RESET_REQUEST now ''Reset requested by operator'' who
                  (k\<lparr>ks_state := KS_RESET_PENDING\<rparr>)))"

definition ks_confirm_reset :: "string \<Rightarrow> kill_switch \<Rightarrow> pyerr + kill_switch" where
  "ks_confirm_reset now k =
     (if ks_state k \<noteq> KS_RESET_PENDING
      then Inl (RuntimeError (''Cannot confirm reset '' @ em_dash @ '' kill switch not in reset_pending state.''))
      else Inr (ks_log EV_CONFIRM_RESET now ''Reset confirmed by operator'' ''operator''
                  (k\<lparr>ks_state := KS_ACTIVE, ks_reset_at := Some now, ks_locked := False,
                     ks_locked_at := None\<rparr>)))"

definition ks_is_blocked :: "kill_switch \<Rightarrow> bool" where
  "ks_is_blocked k \<longleftrightarrow> ks_state k \<in> {KS_TRIGGERED, KS_LOCKED, KS_RESET_PENDING}"

definition ks_approve_trade :: "kill_switch \<Rightarrow> bool \<times> string" where
  "ks_approve_trade k =
     (if ks_is_blocked k
      then (False, ''Kill switch is '' @ ks_value (ks_state k) @ '' '' @ em_dash @ '' all trades blocked.'')
      else (True, ''Kill switch active '' @ em_dash @ '' trade approved.''))"

section \<open>Snapshots\<close>

definition opt_val :: "string option \<Rightarrow> pyval" where
  "opt_val t = (case t of None \<Rightarrow> VNone | Some s \<Rightarrow> VStr s)"

definition last_five :: "'a list \<Rightarrow> 'a list" where
  "last_five xs = drop (length xs - 5) xs"

definition ks_to_dict :: "kill_switch \<Rightarrow> pydict" where
  "ks_to_dict k =
     [(''state'', VStr (ks_value (ks_state k))),
      (''triggered_at'', opt_val (ks_triggered_at k)),
      (''reset_at'', opt_val (ks_reset_at k)),
      (''locked'', VBool (ks_locked k)),
      (''locked_at'', opt_val (ks_locked_at k)),
      (''is_blocked'', VBool (ks_is_blocked k)),
      (''history_count'', VInt (int (length (ks_history k)))),
      (''recent_events'', VList (map (\<lambda>r. VDict
          [(''event'', VStr (ev_value (kr_event r))), (''timestamp'', VStr (kr_timestamp r)),
           (''reason'', VStr (kr_reason r))]) (last_five (ks_history k))))]"

record kill_store =
  kst_state :: "pydict option"
  kst_file :: "jline list"

fun kst_load_line :: "pydict option \<Rightarrow> jline \<Rightarrow> pydict option" where
  "kst_load_line s (Json (VDict d)) = Some d"
| "kst_load_line s _ = s"

definition kst_init :: "jread \<Rightarrow> kill_store" where
  "kst_init r = (case r of
      Lines ls \<Rightarrow> \<lparr>kst_state = foldl kst_load_line None ls, kst_file = ls\<rparr>
    | _ \<Rightarrow> \<lparr>kst_state = None, kst_file = []\<rparr>)"

definition kst_save_state :: "bool \<Rightarrow> string \<Rightarrow> kill_switch \<Rightarrow> kill_store \<Rightarrow> kill_store" where
  "kst_save_state io now k s =
     (let entry = AList.update ''timestamp'' (VStr now) (ks_to_dict k)
      in s\<lparr>kst_state := Some entry,
           kst_file := (if io then kst_file s @ [Json (VDict entry)] else kst_file s)\<rparr>)"

definition kst_clear :: "bool \<Rightarrow> kill_store \<Rightarrow> kill_store" where
  "kst_clear io s = s\<lparr>kst_state := None, kst_file := (if io then [] else kst_file s)\<rparr>"

text \<open>A time field read back: text, or nothing (the snapshots hold text or null).\<close>

definition opt_of_val :: "pyval \<Rightarrow> string option" where
  "opt_of_val v = (case v of VStr s \<Rightarrow> Some s | _ \<Rightarrow> None)"

definition load_kill_switch :: "kill_store option \<Rightarrow> kill_switch" where
  "load_kill_switch st = (case st of
      None \<Rightarrow> new_switch
    | Some s \<Rightarrow> (case kst_state s of
        None \<Rightarrow> new_switch
      | Some d \<Rightarrow>
          if d = [] then new_switch
          else
            (let k = (case dget d ''state'' VNone of
                        VStr t \<Rightarrow> (case ks_state_of t of None \<Rightarrow> new_switch
                                   | Some x \<Rightarrow> new_switch\<lparr>ks_state := x\<rparr>)
                      | _ \<Rightarrow> new_switch)
             in k\<lparr>ks_triggered_at := opt_of_val (dget d ''triggered_at'' VNone),
                  ks_reset_at := opt_of_val (dget d ''reset_at'' VNone),
                  ks_locked := py_truthy (dget d ''locked'' (VBool False)),
                  ks_locked_at := opt_of_val (dget d ''locked_at'' VNone)\<rparr>)))"

section \<open>The switch with its store\<close>

record halt =
  h_switch :: kill_switch
  h_store :: "kill_store option"

definition new_halt :: halt where
  "new_halt = \<lparr>h_switch = new_switch, h_store = None\<rparr>"

definition ks_persist :: "bool \<Rightarrow> string \<Rightarrow> halt \<Rightarrow> halt" where
  "ks_persist io now h = h\<lparr>h_store := map_option (kst_save_state io now (h_switch h)) (h_store h)\<rparr>"

datatype ks_cmd =
    KTrigger string string    \<comment> \<open>reason, triggered by\<close>
  | KLock string              \<comment> \<open>reason\<close>
  | KRequestReset string      \<comment> \<open>requested by\<close>
  | KConfirmReset

fun ks_do :: "ks_cmd \<Rightarrow> string \<Rightarrow> kill_switch \<Rightarrow> pyerr + kill_switch" where
  "ks_do (KTrigger reason who) now k = ks_trigger now reason who k"
| "ks_do (KLock reason) now k = ks_lock now reason k"
| "ks_do (KRequestReset who) now k = ks_request_reset now who k"
| "ks_do KConfirmReset now k = ks_confirm_reset now k"

definition h_do :: "ks_cmd \<Rightarrow> bool \<Rightarrow> string \<Rightarrow> halt \<Rightarrow> pyerr + halt" where
  "h_do c io now h = bindE (ks_do c now (h_switch h)) (\<lambda>k. Inr (ks_persist io now (h\<lparr>h_switch := k\<rparr>)))"

text \<open>A run of calls whose callers handle the raises; a raise changes nothing.\<close>

fun h_exec :: "ks_cmd \<times> bool \<times> string \<Rightarrow> halt \<Rightarrow> halt" where
  "h_exec (c, io, now) h = catchE (h_do c io now h) h"


section \<open>Lemmas\<close>

lemmas ks_defs = ks_trigger_def ks_lock_def ks_request_reset_def ks_confirm_reset_def

lemma ks_log_fields [simp]:
  "ks_state (ks_log e now r w k) = ks_state k"
  "ks_locked (ks_log e now r w k) = ks_locked k"
  "ks_triggered_at (ks_log e now r w k) = ks_triggered_at k"
  "ks_reset_at (ks_log e now r w k) = ks_reset_at k"
  "ks_locked_at (ks_log e now r w k) = ks_locked_at k"
  by (simp_all add: ks_log_def)

lemma ks_is_blocked_iff: "ks_is_blocked k \<longleftrightarrow> ks_state k \<noteq> KS_ACTIVE"
  by (cases "ks_state k") (auto simp: ks_is_blocked_def)

lemma ks_state_of_value [simp]: "ks_state_of (ks_value s) = Some s"
  by (cases s) (simp_all add: ks_state_of_def)

lemma opt_of_opt_val [simp]: "opt_of_val (opt_val t) = t"
  by (cases t) (simp_all add: opt_of_val_def opt_val_def)

lemma h_exec_cases:
  obtains "h_exec (c, io, now) h = h"
  | k where "ks_do c now (h_switch h) = Inr k" "h_exec (c, io, now) h = ks_persist io now (h\<lparr>h_switch := k\<rparr>)"
  by (cases "ks_do c now (h_switch h)") (auto simp: h_do_def)

lemma ks_do_blocked: "ks_do c now k = Inr k' \<Longrightarrow> ks_is_blocked k' \<longleftrightarrow> c \<noteq> KConfirmReset"
  by (cases c) (auto simp: ks_defs ks_is_blocked_iff split: if_splits)

lemma h_exec_blocked:
  "c \<noteq> KConfirmReset \<Longrightarrow> ks_is_blocked (h_switch h) \<Longrightarrow> ks_is_blocked (h_switch (h_exec (c, io, now) h))"
  by (rule h_exec_cases [of c io now h]) (auto simp: ks_persist_def dest: ks_do_blocked)

lemma h_confirm_needs_request:
  "ks_state (h_switch h) \<noteq> KS_RESET_PENDING \<Longrightarrow> h_exec (KConfirmReset, io, now) h = h"
  by (simp add: h_do_def ks_confirm_reset_def)

section \<open>Properties\<close>

text \<open>
  C9. A halted switch stays halted: through any run of triggers, locks, reset requests and
  confirmations in which no confirmation directly finds a pending reset, every trade stays refused.
\<close>

theorem blocked_until_confirmed_reset:
  assumes "ks_is_blocked (h_switch h)"
    and "\<forall>n < length cs. fst (cs ! n) = KConfirmReset \<longrightarrow>
           ks_state (h_switch (fold h_exec (take n cs) h)) \<noteq> KS_RESET_PENDING"
  shows "ks_is_blocked (h_switch (fold h_exec cs h))
       \<and> \<not> fst (ks_approve_trade (h_switch (fold h_exec cs h)))"
proof -
  have "ks_is_blocked (h_switch (fold h_exec (take n cs) h))" if "n \<le> length cs" for n
    using that
  proof (induction n)
    case 0
    then show ?case using assms(1) by simp
  next
    case (Suc n)
    obtain c io now where x: "cs ! n = (c, io, now)" by (cases "cs ! n") auto
    let ?g = "fold h_exec (take n cs) h"
    have "h_switch (h_exec (cs ! n) ?g) = h_switch ?g \<or> c \<noteq> KConfirmReset"
      using assms(2) Suc.prems h_confirm_needs_request [of ?g io now] x by (metis Suc_le_lessD fst_conv)
    then have "ks_is_blocked (h_switch (h_exec (cs ! n) ?g))"
      using Suc h_exec_blocked [of c ?g io now] by (auto simp: x simp del: h_exec.simps)
    then show ?case using Suc.prems by (simp add: take_Suc_conv_app_nth del: h_exec.simps)
  qed
  from this [of "length cs"] show ?thesis by (simp add: ks_approve_trade_def)
qed

definition halted :: halt where
  "halted = h_exec (KLock ''auto'', True, ''t1'') (h_exec (KTrigger ''drawdown'' ''risk'', True, ''t0'') new_halt)"

theorem blocked_until_confirmed_reset_witness:
  "ks_is_blocked (h_switch (fold h_exec [(KConfirmReset, True, ''t2''), (KRequestReset ''op'', True, ''t3'')] halted))"
proof -
  let ?cs = "[(KConfirmReset, True, ''t2''), (KRequestReset ''op'', True, ''t3'')]"
  have b: "ks_is_blocked (h_switch halted)" by code_simp
  have "\<forall>n < length ?cs. fst (?cs ! n) = KConfirmReset \<longrightarrow>
           ks_state (h_switch (fold h_exec (take n ?cs) halted)) \<noteq> KS_RESET_PENDING"
    by (auto simp: less_Suc_eq) code_simp
  from blocked_until_confirmed_reset [OF b this] show ?thesis by blast
qed

text \<open>
  From a halted switch no single call allows trading again: a locked switch needs a reset request
  and then a confirmation, and only a confirmation that follows a request unblocks.
\<close>

theorem two_step_reset:
  assumes "ks_state (h_switch h) = KS_LOCKED"
  shows "ks_is_blocked (h_switch (h_exec (c, io, now) h))
       \<and> (\<not> ks_is_blocked (h_switch (h_exec (c2, io2, now2) (h_exec (c, io, now) h)))
            \<longleftrightarrow> (\<exists>who. c = KRequestReset who) \<and> c2 = KConfirmReset)"
  using assms
  by (cases c; cases c2) (auto simp: h_do_def ks_defs ks_is_blocked_iff ks_persist_def)

theorem two_step_reset_witness:
  "ks_is_blocked (h_switch (h_exec (KRequestReset ''op'', True, ''t2'') halted))
   \<and> \<not> ks_is_blocked (h_switch (h_exec (KConfirmReset, True, ''t3'') (h_exec (KRequestReset ''op'', True, ''t2'') halted)))"
proof -
  have h: "ks_state (h_switch halted) = KS_LOCKED" by code_simp
  from two_step_reset [OF h, of "KRequestReset ''op''" True "''t2''" KConfirmReset True "''t3''"] show ?thesis by simp
qed

subsection \<open>Recovery after a restart\<close>

definition h_lines :: "halt \<Rightarrow> jline list" where
  "h_lines h = (case h_store h of None \<Rightarrow> [] | Some s \<Rightarrow> kst_file s)"

definition h_snapshot :: "halt \<Rightarrow> pydict option" where
  "h_snapshot h = (case h_store h of None \<Rightarrow> None | Some s \<Rightarrow> kst_state s)"

fun h_durable :: "ks_cmd \<times> bool \<times> string \<Rightarrow> halt \<Rightarrow> bool" where
  "h_durable (c, io, now) h = (io \<and> h_store h \<noteq> None)"

interpretation kill_journal: journal None kst_load_line h_lines h_snapshot h_exec h_durable
proof (standard, goal_cases)
  case (1 x h)
  obtain c io now where x: "x = (c, io, now)" by (cases x) auto
  with 1 obtain s where s: "io" "h_store h = Some s" by auto
  have "\<exists>ls. h_lines (h_exec x h) = h_lines h @ ls
      \<and> foldl kst_load_line (h_snapshot h) ls = h_snapshot (h_exec x h)"
  proof (cases rule: h_exec_cases [of c io now h])
    case 1
    then show ?thesis by (simp add: x)
  next
    case (2 k)
    then show ?thesis
      using s by (simp add: x h_lines_def h_snapshot_def ks_persist_def kst_save_state_def Let_def del: h_exec.simps)
  qed
  then show ?case by simp
qed

lemma h_exec_store: "h_store g \<noteq> None \<Longrightarrow> h_store (h_exec x g) \<noteq> None"
proof -
  assume g: "h_store g \<noteq> None"
  obtain c io now where x: "x = (c, io, now)" by (cases x) auto
  show ?thesis
    by (cases rule: h_exec_cases [of c io now g]) (use g in \<open>auto simp: x ks_persist_def simp del: h_exec.simps\<close>)
qed

text \<open>The snapshot a live store holds is the switch, up to the event history.\<close>

definition h_synced :: "halt \<Rightarrow> bool" where
  "h_synced h \<longleftrightarrow> h_store h \<noteq> None \<and> load_kill_switch (h_store h) = (h_switch h)\<lparr>ks_history := []\<rparr>"

lemma load_saved:
  "load_kill_switch (Some (kst_save_state io now k s)) = k\<lparr>ks_history := []\<rparr>"
  by (cases k) (simp add: load_kill_switch_def kst_save_state_def Let_def ks_to_dict_def dget_def new_switch_def)

lemma h_exec_synced [preserves]: "h_synced h \<Longrightarrow> h_synced (h_exec x h)"
proof -
  assume h: "h_synced h"
  obtain c io now where x: "x = (c, io, now)" by (cases x) auto
  show ?thesis
  proof (cases rule: h_exec_cases [of c io now h])
    case 1
    with h show ?thesis by (simp add: x)
  next
    case (2 k)
    with h show ?thesis by (auto simp: x h_synced_def ks_persist_def load_saved simp del: h_exec.simps)
  qed
qed

lemma load_kill_switch_cong: "kst_state s = kst_state t \<Longrightarrow> load_kill_switch (Some s) = load_kill_switch (Some t)"
  by (simp add: load_kill_switch_def)

lemma load_kill_switch_history [simp]: "ks_history (load_kill_switch st) = []"
  by (simp add: load_kill_switch_def new_switch_def Let_def split: option.splits pyval.splits)

text \<open>The switch as the process starts: the store opened on the file, the switch rebuilt from it.\<close>

definition start_halt :: "jline list \<Rightarrow> halt" where
  "start_halt ls = \<lparr>h_switch = load_kill_switch (Some (kst_init (Lines ls))), h_store = Some (kst_init (Lines ls))\<rparr>"

lemma start_halt_synced: "h_synced (start_halt ls)"
  by (simp add: h_synced_def start_halt_def)

text \<open>
  C23. A restart keeps the halt: after any run of operations whose snapshots reach the file, the
  switch rebuilt from that file has the state, times and lock of the switch in memory (its event
  history is not kept), so it refuses trades exactly when that one does.
\<close>

theorem kill_switch_restart:
  assumes "list_all (\<lambda>(c, io, now). io) cs"
  shows "h_switch (start_halt (h_lines (fold h_exec cs (start_halt ls))))
         = (h_switch (fold h_exec cs (start_halt ls)))\<lparr>ks_history := []\<rparr>"
proof -
  let ?h = "fold h_exec cs (start_halt ls)"
  have "all_durable h_exec h_durable cs g" if "h_store g \<noteq> None" for g
    using assms that h_exec_store by (induction cs arbitrary: g) (auto simp del: h_exec.simps)
  then have d: "all_durable h_exec h_durable cs (start_halt ls)" by (simp add: start_halt_def)
  have "foldl kst_load_line None (h_lines (start_halt ls)) = h_snapshot (start_halt ls)"
    by (simp add: h_lines_def h_snapshot_def start_halt_def kst_init_def)
  from kill_journal.restart_run [OF this d]
  have r: "foldl kst_load_line None (h_lines ?h) = h_snapshot ?h" .
  have sync: "h_synced ?h"
    using start_halt_synced by (induction cs rule: rev_induct) (auto intro: preserves simp del: h_exec.simps)
  then obtain s where s: "h_store ?h = Some s" by (auto simp: h_synced_def)
  have "load_kill_switch (Some (kst_init (Lines (h_lines ?h)))) = load_kill_switch (Some s)"
    using r s by (intro load_kill_switch_cong) (simp add: kst_init_def h_snapshot_def)
  then show ?thesis using sync s by (simp add: start_halt_def h_synced_def)
qed

theorem kill_switch_restart_witness:
  "ks_is_blocked (h_switch (start_halt (h_lines (fold h_exec
     [(KTrigger ''dd'' ''risk'', True, ''t0''), (KLock ''auto'', True, ''t1'')] (start_halt [])))))"
proof -
  let ?cs = "[(KTrigger ''dd'' ''risk'', True, ''t0''), (KLock ''auto'', True, ''t1'')]"
  have "list_all (\<lambda>(c, io, now). io) ?cs" by simp
  note r = kill_switch_restart [OF this, of "[]"]
  have "ks_state (h_switch (fold h_exec ?cs (start_halt []))) = KS_LOCKED" by code_simp
  with r show ?thesis by (simp add: ks_is_blocked_def)
qed

text \<open>
  A lost snapshot is not noticed: when the write of a trigger fails the switch halts in this
  process, but after a restart it is what the file held before, here active, and trades are approved.
\<close>

theorem lost_trigger_restarts_active:
  assumes "h_switch h = new_switch" and "h_store h = Some (kst_init (Lines ls))"
    and "kst_state (kst_init (Lines ls)) = None"
  shows "\<exists>h' s'. h_do (KTrigger reason who) False now h = Inr h' \<and> ks_is_blocked (h_switch h')
     \<and> h_store h' = Some s'
     \<and> fst (ks_approve_trade (load_kill_switch (Some (kst_init (Lines (kst_file s'))))))"
  using assms
  by (simp add: h_do_def ks_trigger_def new_switch_def ks_persist_def kst_save_state_def kst_init_def
      load_kill_switch_def ks_approve_trade_def ks_is_blocked_def)

theorem lost_trigger_restarts_active_witness:
  "\<exists>h' s'. h_do (KTrigger ''drawdown'' ''risk'') False ''t0''
        \<lparr>h_switch = new_switch, h_store = Some (kst_init (Lines [Corrupt]))\<rparr> = Inr h'
     \<and> ks_is_blocked (h_switch h') \<and> h_store h' = Some s'"
  using lost_trigger_restarts_active
    [of "\<lparr>h_switch = new_switch, h_store = Some (kst_init (Lines [Corrupt]))\<rparr>" "[Corrupt]" "''drawdown''" "''risk''" "''t0''"]
  by (fastforce simp: kst_init_def)

text \<open>
  The lock does not survive a re-trigger: when a reset is requested from a locked switch and the
  switch is triggered again before the confirmation, it is triggered and still marked locked, so
  locking it raises; the switch can then be neither locked nor triggered, only reset.
\<close>

theorem retrigger_cannot_lock:
  assumes "ks_state k = KS_LOCKED" "ks_locked k"
    and "ks_request_reset now1 who1 k = Inr k1" and "ks_trigger now2 reason2 who2 k1 = Inr k2"
  shows "ks_state k2 = KS_TRIGGERED \<and> ks_locked k2
       \<and> ks_lock now3 reason3 k2 = Inl (RuntimeError ''Kill switch already locked.'')
       \<and> ks_trigger now3 reason3 who3 k2 = Inl (RuntimeError ''Kill switch already triggered.'')"
  using assms by (auto simp: ks_defs)

theorem retrigger_cannot_lock_witness:
  "\<exists>k1 k2. ks_request_reset ''t2'' ''op'' (h_switch halted) = Inr k1 \<and> ks_trigger ''t3'' ''dd'' ''risk'' k1 = Inr k2
     \<and> ks_lock ''t4'' ''auto'' k2 = Inl (RuntimeError ''Kill switch already locked.'')"
proof -
  have s: "ks_state (h_switch halted) = KS_LOCKED" "ks_locked (h_switch halted)" by code_simp+
  obtain k1 where k1: "ks_request_reset ''t2'' ''op'' (h_switch halted) = Inr k1" "ks_state k1 = KS_RESET_PENDING"
    using s by (simp add: ks_request_reset_def)
  obtain k2 where k2: "ks_trigger ''t3'' ''dd'' ''risk'' k1 = Inr k2"
    using k1 by (simp add: ks_trigger_def)
  from retrigger_cannot_lock [OF s k1(1) k2] k1 k2 show ?thesis by blast
qed

text \<open>A switch reached from a new one is unlocked unless it was locked and not yet reset.\<close>

definition ks_lock_inv :: "kill_switch \<Rightarrow> bool" where
  "ks_lock_inv k \<longleftrightarrow> (ks_state k = KS_LOCKED \<longrightarrow> ks_locked k) \<and> (ks_state k = KS_ACTIVE \<longrightarrow> \<not> ks_locked k)"

lemma ks_do_lock_inv [preserves]: "ks_lock_inv k \<Longrightarrow> ks_do c now k = Inr k' \<Longrightarrow> ks_lock_inv k'"
  by (cases c) (auto simp: ks_defs ks_lock_inv_def split: if_splits)

end
