(* ===== verification/Breakers.thy ===== *)
theory Breakers
  imports Kill_Switch
begin

text \<open>
  The circuit breaker (\<open>risk/circuit_breaker.py\<close>), one breaker per dependency and the execution
  guard that combines them with the kill switch (\<open>risk/dependency_breakers.py\<close>). The kill switch
  is shared by all breakers, so it is passed through every call. A call that raises after it has
  assigned returns the error together with the state it left (\<open>(error + value) \<times> state\<close>).
\<close>

section \<open>One breaker\<close>

datatype breaker_state = CB_CLOSED | CB_OPEN | CB_HALF_OPEN

datatype trip_reason = RISK_BREACH | EXECUTION_ERROR | REJECTION | CONNECTION_LOST | MANUAL_TRIP

fun reason_value :: "trip_reason \<Rightarrow> string" where
  "reason_value RISK_BREACH = ''risk_breach''"
| "reason_value EXECUTION_ERROR = ''execution_error''"
| "reason_value REJECTION = ''rejection''"
| "reason_value CONNECTION_LOST = ''connection_lost''"
| "reason_value MANUAL_TRIP = ''manual''"

text \<open>What a call sees of its surroundings: wall clock text, monotonic seconds, file writes.\<close>

record env =
  ev_now :: string
  ev_time :: pyfloat
  ev_io :: bool

record cb_event =
  ce_timestamp :: string
  ce_failure :: bool
  ce_reason :: "trip_reason option"
  ce_detail :: string

record breaker =
  cb_threshold :: int
  cb_window :: pyfloat
  cb_state :: breaker_state
  cb_failures :: int
  cb_last_at :: "string option"
  cb_last_epoch :: "pyfloat option"
  cb_events :: "cb_event list"

definition new_breaker :: "int \<Rightarrow> pyfloat \<Rightarrow> breaker" where
  "new_breaker threshold window = \<lparr>cb_threshold = threshold, cb_window = window, cb_state = CB_CLOSED,
     cb_failures = 0, cb_last_at = None, cb_last_epoch = None, cb_events = []\<rparr>"

definition cb_log :: "env \<Rightarrow> bool \<Rightarrow> trip_reason option \<Rightarrow> string \<Rightarrow> breaker \<Rightarrow> breaker" where
  "cb_log e failed reason detail b =
     b\<lparr>cb_events := cb_events b @ [\<lparr>ce_timestamp = ev_now e, ce_failure = failed, ce_reason = reason, ce_detail = detail\<rparr>]\<rparr>"

text \<open>\<open>if self.kill_switch is not None: self.kill_switch.trigger(...); self.kill_switch.lock()\<close>.\<close>

definition halt_and_lock :: "env \<Rightarrow> string \<Rightarrow> string \<Rightarrow> halt option \<Rightarrow> (pyerr + unit) \<times> halt option" where
  "halt_and_lock e reason who hs = (case hs of
      None \<Rightarrow> (Inr (), None)
    | Some h \<Rightarrow> (case h_do (KTrigger reason who) (ev_io e) (ev_now e) h of
        Inl err \<Rightarrow> (Inl err, Some h)
      | Inr h1 \<Rightarrow> (case h_do (KLock ''Automatic lock after trigger'') (ev_io e) (ev_now e) h1 of
          Inl err \<Rightarrow> (Inl err, Some h1)
        | Inr h2 \<Rightarrow> (Inr (), Some h2))))"

definition cb_record_failure ::
  "env \<Rightarrow> trip_reason \<Rightarrow> string \<Rightarrow> breaker \<Rightarrow> halt option \<Rightarrow> (pyerr + breaker_state) \<times> breaker \<times> halt option" where
  "cb_record_failure e reason detail b hs =
     (if cb_state b = CB_OPEN then (Inr CB_OPEN, cb_log e True (Some reason) detail b, hs)
      else
        let b1 = cb_log e True (Some reason) detail
                   (b\<lparr>cb_failures := cb_failures b + 1, cb_last_at := Some (ev_now e), cb_last_epoch := Some (ev_time e)\<rparr>)
        in if cb_threshold b1 \<le> cb_failures b1 then
             (case halt_and_lock e (''Circuit breaker tripped: '' @ reason_value reason) ''circuit_breaker'' hs of
                (Inl err, hs') \<Rightarrow> (Inl err, b1\<lparr>cb_state := CB_OPEN\<rparr>, hs')
              | (Inr _, hs') \<Rightarrow> (Inr CB_OPEN, b1\<lparr>cb_state := CB_OPEN\<rparr>, hs'))
           else (Inr (cb_state b1), b1, hs))"

definition cb_record_success :: "env \<Rightarrow> breaker \<Rightarrow> breaker_state \<times> breaker" where
  "cb_record_success e b =
     (let b1 = cb_log e False None [] (b\<lparr>cb_failures := 0\<rparr>);
          b2 = (if cb_state b1 = CB_HALF_OPEN then b1\<lparr>cb_state := CB_CLOSED\<rparr> else b1)
      in (cb_state b2, b2))"

definition cb_allow :: "breaker \<Rightarrow> bool" where
  "cb_allow b \<longleftrightarrow> cb_state b = CB_CLOSED"

definition cb_cooldown_elapsed :: "env \<Rightarrow> breaker \<Rightarrow> bool" where
  "cb_cooldown_elapsed e b = (case cb_last_epoch b of None \<Rightarrow> True | Some t \<Rightarrow> cb_window b \<le> ev_time e - t)"

definition cb_check_allow :: "env \<Rightarrow> breaker \<Rightarrow> bool \<times> breaker" where
  "cb_check_allow e b =
     (if cb_state b = CB_OPEN then
        (if cb_cooldown_elapsed e b then (True, b\<lparr>cb_state := CB_HALF_OPEN\<rparr>) else (False, b))
      else (True, b))"

definition cb_reset :: "env \<Rightarrow> breaker \<Rightarrow> breaker" where
  "cb_reset e b = cb_log e False (Some MANUAL_TRIP) ''manual reset'' (b\<lparr>cb_state := CB_CLOSED, cb_failures := 0\<rparr>)"

definition cb_trip_manual :: "env \<Rightarrow> breaker \<Rightarrow> halt option \<Rightarrow> (pyerr + unit) \<times> breaker \<times> halt option" where
  "cb_trip_manual e b hs =
     (let b1 = cb_log e True (Some MANUAL_TRIP) ''manual trip''
                 (b\<lparr>cb_state := CB_OPEN, cb_failures := cb_threshold b\<rparr>);
          (r, hs') = halt_and_lock e ''Manual breaker trip'' ''operator'' hs
      in (r, b1, hs'))"

section \<open>A breaker per dependency\<close>

datatype dependency = LLM | MARKET_DATA | MT5 | DB | QUEUE | EXECUTION

fun dep_value :: "dependency \<Rightarrow> string" where
  "dep_value LLM = ''llm''"
| "dep_value MARKET_DATA = ''market_data''"
| "dep_value MT5 = ''mt5''"
| "dep_value DB = ''db''"
| "dep_value QUEUE = ''queue''"
| "dep_value EXECUTION = ''execution''"

definition execution_critical :: "dependency list" where
  "execution_critical = [EXECUTION]"

type_synonym deps = "(string \<times> breaker) list"

definition new_deps :: "int \<Rightarrow> pyfloat \<Rightarrow> deps" where
  "new_deps threshold window =
     map (\<lambda>d. (dep_value d, new_breaker threshold window)) [LLM, MARKET_DATA, MT5, DB, QUEUE, EXECUTION]"

definition dep_record_success :: "env \<Rightarrow> string \<Rightarrow> deps \<Rightarrow> pyerr + breaker_state \<times> deps" where
  "dep_record_success e name ds = (case map_of ds name of
      None \<Rightarrow> Inl KeyError
    | Some b \<Rightarrow> (let (st, b') = cb_record_success e b in Inr (st, AList.update name b' ds)))"

definition dep_record_failure ::
  "env \<Rightarrow> string \<Rightarrow> trip_reason \<Rightarrow> string \<Rightarrow> deps \<Rightarrow> halt option \<Rightarrow> (pyerr + breaker_state) \<times> deps \<times> halt option" where
  "dep_record_failure e name reason detail ds hs = (case map_of ds name of
      None \<Rightarrow> (Inl KeyError, ds, hs)
    | Some b \<Rightarrow> (let (r, b', hs') = cb_record_failure e reason detail b hs
                 in (r, AList.update name b' ds, hs')))"

definition dep_is_open :: "env \<Rightarrow> string \<Rightarrow> deps \<Rightarrow> pyerr + bool \<times> deps" where
  "dep_is_open e name ds = (case map_of ds name of
      None \<Rightarrow> Inl KeyError
    | Some b \<Rightarrow> (let (ok, b') = cb_check_allow e b in Inr (\<not> ok, AList.update name b' ds)))"

definition dep_state :: "string \<Rightarrow> deps \<Rightarrow> pyerr + breaker_state" where
  "dep_state name ds = (case map_of ds name of None \<Rightarrow> Inl KeyError | Some b \<Rightarrow> Inr (cb_state b))"

fun dep_check_loop :: "env \<Rightarrow> dependency list \<Rightarrow> deps \<Rightarrow> pyerr + (bool \<times> string) \<times> deps" where
  "dep_check_loop e [] ds = Inr ((True, []), ds)"
| "dep_check_loop e (d # rest) ds =
     bindE (dep_is_open e (dep_value d) ds) (\<lambda>(opened, ds').
       if opened then
         Inr ((False, ''execution blocked '' @ em_dash @ '' '' @ dep_value d @ '' circuit breaker is OPEN''), ds')
       else dep_check_loop e rest ds')"

definition dep_check_can_execute :: "env \<Rightarrow> deps \<Rightarrow> pyerr + (bool \<times> string) \<times> deps" where
  "dep_check_can_execute e ds = dep_check_loop e execution_critical ds"

section \<open>The execution guard\<close>

record guard =
  g_halt :: halt
  g_deps :: deps

definition new_guard :: guard where
  "new_guard = \<lparr>g_halt = new_halt, g_deps = new_deps 3 60\<rparr>"

definition guard_check :: "env \<Rightarrow> guard \<Rightarrow> pyerr + (bool \<times> string) \<times> guard" where
  "guard_check e g =
     (if ks_is_blocked (h_switch (g_halt g)) then
        Inr ((False, ''execution blocked '' @ em_dash @ '' kill switch is '' @ ks_value (ks_state (h_switch (g_halt g)))), g)
      else bindE (dep_check_can_execute e (g_deps g)) (\<lambda>(r, ds). Inr (r, g\<lparr>g_deps := ds\<rparr>)))"

text \<open>
  \<open>record_execution_result\<close>: a raise while recording a failure is logged and dropped, the
  assignments made before it stay; a raise of \<open>record_success\<close> (no such dependency) is not caught.
\<close>

definition guard_record :: "env \<Rightarrow> bool \<Rightarrow> string \<Rightarrow> guard \<Rightarrow> pyerr + guard" where
  "guard_record e success detail g =
     (if success then
        bindE (dep_record_success e (dep_value EXECUTION) (g_deps g)) (\<lambda>(_, ds). Inr (g\<lparr>g_deps := ds\<rparr>))
      else (let (_, ds, hs) = dep_record_failure e (dep_value EXECUTION) EXECUTION_ERROR detail (g_deps g) (Some (g_halt g))
            in Inr (g\<lparr>g_deps := ds, g_halt := (case hs of None \<Rightarrow> g_halt g | Some h \<Rightarrow> h)\<rparr>)))"

datatype guard_op =
    GResult env bool string   \<comment> \<open>success, detail\<close>
  | GCheck env

fun guard_exec :: "guard_op \<Rightarrow> guard \<Rightarrow> guard" where
  "guard_exec (GResult e success detail) g = catchE (guard_record e success detail g) g"
| "guard_exec (GCheck e) g = (case guard_check e g of Inl _ \<Rightarrow> g | Inr (_, g') \<Rightarrow> g')"


section \<open>Lemmas\<close>

lemma cb_log_fields [simp]:
  "cb_state (cb_log e f r d b) = cb_state b"
  "cb_failures (cb_log e f r d b) = cb_failures b"
  "cb_threshold (cb_log e f r d b) = cb_threshold b"
  "cb_last_epoch (cb_log e f r d b) = cb_last_epoch b"
  "cb_window (cb_log e f r d b) = cb_window b"
  by (simp_all add: cb_log_def)

lemma dep_value_inj [simp]: "dep_value c = dep_value d \<longleftrightarrow> c = d"
  by (cases c; cases d) simp_all

lemma h_do_blocked:
  "h_do c io now h = Inr h' \<Longrightarrow> c \<noteq> KConfirmReset \<Longrightarrow> ks_is_blocked (h_switch h')"
  by (auto simp: h_do_def ks_persist_def dest: ks_do_blocked)

lemma halt_and_lock_blocked:
  "halt_and_lock e reason who (Some h) = (r, Some h') \<Longrightarrow>
   ks_is_blocked (h_switch h) \<or> ks_lock_inv (h_switch h) \<Longrightarrow> ks_is_blocked (h_switch h')"
  by (auto simp: halt_and_lock_def ks_is_blocked_iff h_do_def ks_persist_def ks_defs
      split: sum.splits if_splits)

lemma halt_and_lock_Some: "\<exists>h'. snd (halt_and_lock e reason who (Some h)) = Some h'"
  by (auto simp: halt_and_lock_def split: sum.splits)

lemma halt_and_lock_active:
  assumes "ks_state (h_switch h) = KS_ACTIVE" "ks_lock_inv (h_switch h)"
  shows "\<exists>h'. halt_and_lock e reason who (Some h) = (Inr (), Some h') \<and> ks_state (h_switch h') = KS_LOCKED
     \<and> ks_locked (h_switch h')"
  using assms by (simp add: halt_and_lock_def h_do_def ks_defs ks_lock_inv_def ks_persist_def)

lemma guard_record_blocked:
  "ks_is_blocked (h_switch (g_halt g)) \<Longrightarrow> guard_record e success detail g = Inr g' \<Longrightarrow>
   ks_is_blocked (h_switch (g_halt g'))"
  by (cases "map_of (g_deps g) (dep_value EXECUTION)")
    (auto simp: guard_record_def dep_record_failure_def cb_record_failure_def Let_def
      dest: halt_and_lock_blocked split: if_splits option.splits prod.splits sum.splits)

lemma guard_exec_blocked [preserves]:
  "ks_is_blocked (h_switch (g_halt g)) \<Longrightarrow> ks_is_blocked (h_switch (g_halt (guard_exec x g)))"
proof (cases x)
  case (GResult e success detail)
  then show "ks_is_blocked (h_switch (g_halt g)) \<Longrightarrow> ?thesis"
    by (cases "guard_record e success detail g") (auto dest: guard_record_blocked)
next
  case (GCheck e)
  then show "ks_is_blocked (h_switch (g_halt g)) \<Longrightarrow> ?thesis" by (simp add: guard_check_def)
qed

lemma guard_run_blocked:
  "ks_is_blocked (h_switch (g_halt g)) \<Longrightarrow> ks_is_blocked (h_switch (g_halt (fold guard_exec xs g)))"
  by (induction xs arbitrary: g) (auto intro: preserves)

section \<open>Properties\<close>

text \<open>
  The guard fails closed: when it allows an order, the kill switch is active and the execution
  breaker is not open, before or after the check; when the switch blocks it refuses.
\<close>

theorem guard_allows_only_when_safe:
  assumes "guard_check e g = Inr ((ok, why), g')"
  shows "(ok \<longleftrightarrow> ks_state (h_switch (g_halt g)) = KS_ACTIVE
            \<and> (\<exists>b. map_of (g_deps g) ''execution'' = Some b
                 \<and> (cb_state b = CB_OPEN \<longrightarrow> cb_cooldown_elapsed e b)))
       \<and> (ok \<longrightarrow> dep_state ''execution'' (g_deps g') \<noteq> Inr CB_OPEN)
       \<and> g_halt g' = g_halt g"
  using assms
  by (auto simp: guard_check_def ks_is_blocked_iff dep_check_can_execute_def execution_critical_def
      dep_is_open_def cb_check_allow_def dep_state_def split: if_splits option.splits prod.splits)

definition env0 :: env where
  "env0 = \<lparr>ev_now = ''t'', ev_time = 0, ev_io = True\<rparr>"

theorem guard_allows_only_when_safe_witness:
  "guard_check env0 new_guard = Inr ((True, []), new_guard)
   \<and> ks_state (h_switch (g_halt new_guard)) = KS_ACTIVE"
proof -
  have g: "guard_check env0 new_guard = Inr ((True, []), new_guard)" by code_simp
  from guard_allows_only_when_safe [OF g] g show ?thesis by simp
qed

definition guard_ready :: "guard \<Rightarrow> breaker \<Rightarrow> bool" where
  "guard_ready g b \<longleftrightarrow> ks_state (h_switch (g_halt g)) = KS_ACTIVE \<and> ks_lock_inv (h_switch (g_halt g))
     \<and> map_of (g_deps g) ''execution'' = Some b \<and> cb_state b \<noteq> CB_OPEN"

lemma guard_failure_counts:
  assumes "guard_ready g b" "cb_failures b + 1 < cb_threshold b"
  shows "\<exists>b'. guard_ready (guard_exec (GResult e False detail) g) b' \<and> cb_failures b' = cb_failures b + 1
     \<and> cb_threshold b' = cb_threshold b"
  using assms
  by (simp add: guard_ready_def guard_record_def dep_record_failure_def cb_record_failure_def Let_def)

lemma guard_failure_trips:
  assumes "guard_ready g b" "cb_threshold b \<le> cb_failures b + 1"
  shows "ks_state (h_switch (g_halt (guard_exec (GResult e False detail) g))) = KS_LOCKED"
  using assms halt_and_lock_active [of "g_halt g" e "''Circuit breaker tripped: '' @ reason_value EXECUTION_ERROR" "''circuit_breaker''"]
  by (auto simp: guard_ready_def guard_record_def dep_record_failure_def cb_record_failure_def Let_def)

lemma guard_failures_block:
  assumes "guard_ready g b" "fs \<noteq> []" "cb_threshold b - cb_failures b \<le> int (length fs)"
  shows "ks_is_blocked (h_switch (g_halt (fold guard_exec (map (\<lambda>(e, d). GResult e False d) fs) g)))"
  using assms
proof (induction fs arbitrary: g b)
  case Nil
  then show ?case by simp
next
  case (Cons f fs)
  obtain e d where f: "f = (e, d)" by (cases f)
  let ?g = "guard_exec (GResult e False d) g"
  show ?case
  proof (cases "cb_threshold b \<le> cb_failures b + 1")
    case True
    then have "ks_is_blocked (h_switch (g_halt ?g))"
      using guard_failure_trips [OF Cons.prems(1)] by (simp add: ks_is_blocked_iff)
    from guard_run_blocked [OF this] show ?thesis by (simp add: f)
  next
    case False
    then obtain b' where b': "guard_ready ?g b'" "cb_failures b' = cb_failures b + 1" "cb_threshold b' = cb_threshold b"
      using guard_failure_counts [OF Cons.prems(1)] by (metis not_le)
    have "fs \<noteq> []" using Cons.prems(3) False by auto
    then show ?thesis using Cons.IH [OF b'(1)] Cons.prems(3) b' by (simp add: f)
  qed
qed


lemma new_guard_ready: "guard_ready new_guard (new_breaker 3 60)"
  by (simp add: guard_ready_def new_guard_def new_halt_def new_switch_def ks_lock_inv_def new_deps_def new_breaker_def)


text \<open>
  Dependencies do not affect each other's breakers: recording a failure or a success of one
  dependency leaves the breaker of every other as it was; the kill switch is the only thing shared.
\<close>

theorem breakers_isolated:
  assumes "d \<noteq> name"
  shows "map_of (fst (snd (dep_record_failure e name reason detail ds hs))) d = map_of ds d
       \<and> (\<forall>st ds'. dep_record_success e name ds = Inr (st, ds') \<longrightarrow> map_of ds' d = map_of ds d)
       \<and> (\<forall>opn ds'. dep_is_open e name ds = Inr (opn, ds') \<longrightarrow> map_of ds' d = map_of ds d)"
  using assms
  by (auto simp: dep_record_failure_def dep_record_success_def dep_is_open_def Let_def
      split: option.splits prod.splits)

theorem breakers_isolated_witness:
  "map_of (fst (snd (dep_record_failure env0 ''mt5'' EXECUTION_ERROR ''x'' (new_deps 1 60) None))) ''llm''
     = map_of (new_deps 1 60) ''llm''"
  using breakers_isolated [of "''llm''" "''mt5''" env0 EXECUTION_ERROR "''x''" "new_deps 1 60" None] by simp

text \<open>
  With a shared kill switch a second trip raises: when the switch is already locked, the failure
  that opens another breaker leaves that breaker open but raises out of the recording call, which
  the registry documents as returning the new breaker state.
\<close>

theorem second_trip_raises:
  assumes "map_of ds name = Some b" "cb_state b \<noteq> CB_OPEN" "cb_threshold b \<le> cb_failures b + 1"
    and "ks_state (h_switch h) = KS_LOCKED"
  shows "\<exists>msg b'. dep_record_failure e name reason detail ds (Some h)
            = (Inl (RuntimeError msg), AList.update name b' ds, Some h) \<and> cb_state b' = CB_OPEN"
  using assms
  by (simp add: dep_record_failure_def cb_record_failure_def Let_def halt_and_lock_def h_do_def ks_trigger_def)
     (rule exI, rule conjI, rule refl, simp)

theorem second_trip_raises_witness:
  "\<exists>msg b'. dep_record_failure env0 ''llm'' EXECUTION_ERROR ''x'' (new_deps 1 60) (Some halted)
            = (Inl (RuntimeError msg), AList.update ''llm'' b' (new_deps 1 60), Some halted) \<and> cb_state b' = CB_OPEN"
proof -
  have b: "map_of (new_deps 1 60) ''llm'' = Some (new_breaker 1 60)" by (simp add: new_deps_def)
  have k: "ks_state (h_switch halted) = KS_LOCKED" by code_simp
  show ?thesis by (rule second_trip_raises [OF b _ _ k]) (simp_all add: new_breaker_def)
qed

text \<open>
  A half-open trial does not always end at its first failure: after an open breaker with a
  threshold of at least two has seen a success (which resets its counter but leaves it open) and its
  cooldown has passed, a failed trial leaves it half-open, and calls keep being allowed.
\<close>

theorem half_open_survives_failure:
  assumes "cb_state b = CB_OPEN" "2 \<le> cb_threshold b" "cb_cooldown_elapsed e b"
  shows "cb_state (snd (cb_record_success e b)) = CB_OPEN
       \<and> (let b1 = snd (cb_check_allow e (snd (cb_record_success e b)));
              (r, b2, _) = cb_record_failure e2 reason detail b1 hs
          in cb_state b1 = CB_HALF_OPEN \<and> r = Inr CB_HALF_OPEN \<and> cb_state b2 = CB_HALF_OPEN
             \<and> fst (cb_check_allow e3 b2))"
  using assms
  by (simp add: cb_record_success_def cb_check_allow_def cb_record_failure_def cb_cooldown_elapsed_def Let_def
      split: option.splits)

definition open_breaker :: breaker where
  "open_breaker = (new_breaker 3 60)\<lparr>cb_state := CB_OPEN, cb_failures := 3\<rparr>"

theorem half_open_survives_failure_witness:
  "cb_state (snd (cb_record_success env0 open_breaker)) = CB_OPEN"
proof -
  have h: "cb_state open_breaker = CB_OPEN" "2 \<le> cb_threshold open_breaker" "cb_cooldown_elapsed env0 open_breaker"
    by (simp_all add: open_breaker_def new_breaker_def cb_cooldown_elapsed_def)
  from half_open_survives_failure [OF h, of env0 REJECTION "''x''" None env0] show ?thesis by blast
qed

text \<open>
  Without a success in between the trial behaves as documented: a breaker that is open with its
  counter at the threshold and its cooldown over admits one trial, and a failure of that trial opens
  it again whatever the kill switch does.
\<close>

theorem half_open_failure_reopens:
  assumes "cb_state b = CB_OPEN" "cb_threshold b \<le> cb_failures b" "cb_cooldown_elapsed e b"
  shows "fst (cb_check_allow e b)
       \<and> cb_state (fst (snd (cb_record_failure e2 reason detail (snd (cb_check_allow e b)) hs))) = CB_OPEN"
  using assms by (simp add: cb_check_allow_def cb_record_failure_def Let_def split: prod.splits sum.splits)

theorem half_open_failure_reopens_witness:
  "cb_state (fst (snd (cb_record_failure env0 REJECTION ''x'' (snd (cb_check_allow env0 open_breaker)) None))) = CB_OPEN"
proof -
  have h: "cb_state open_breaker = CB_OPEN" "cb_threshold open_breaker \<le> cb_failures open_breaker"
    "cb_cooldown_elapsed env0 open_breaker"
    by (simp_all add: open_breaker_def new_breaker_def cb_cooldown_elapsed_def)
  from half_open_failure_reopens [OF h] show ?thesis by blast
qed

end
