(* ===== verification/Multi_Level.thy ===== *)
theory Multi_Level
  imports Contracts
begin

text \<open>
  The layered breaker of \<open>risk/multi_level_breaker.py\<close>: six ordered levels, a policy from triggers
  to levels, latched critical levels, and explicit recovery.
\<close>

section \<open>Levels\<close>

datatype level = L_NORMAL | L_CAUTION | L_RISK_REDUCED | L_ENTRY_BLOCKED | L_EMERGENCY_FLATTEN | L_HALTED

text \<open>\<open>_ORDER.index\<close>, exported as \<open>level_index\<close>; the order of the type is this severity.\<close>

fun level_index :: "level \<Rightarrow> nat" where
  "level_index L_NORMAL = 0"
| "level_index L_CAUTION = 1"
| "level_index L_RISK_REDUCED = 2"
| "level_index L_ENTRY_BLOCKED = 3"
| "level_index L_EMERGENCY_FLATTEN = 4"
| "level_index L_HALTED = 5"

lemma level_index_inj [simp]: "level_index a = level_index b \<longleftrightarrow> a = b"
  by (cases a; cases b) simp_all

instantiation level :: linorder
begin

definition less_eq_level :: "level \<Rightarrow> level \<Rightarrow> bool" where
  "less_eq_level a b \<longleftrightarrow> level_index a \<le> level_index b"

definition less_level :: "level \<Rightarrow> level \<Rightarrow> bool" where
  "less_level a b \<longleftrightarrow> level_index a < level_index b"

instance
  by standard (auto simp: less_eq_level_def less_level_def dest: antisym)

end

lemmas level_order = less_eq_level_def less_level_def

definition is_latched_level :: "level \<Rightarrow> bool" where
  "is_latched_level l \<longleftrightarrow> l \<in> {L_ENTRY_BLOCKED, L_EMERGENCY_FLATTEN, L_HALTED}"

lemma is_latched_level_iff: "is_latched_level l \<longleftrightarrow> L_ENTRY_BLOCKED \<le> l"
  by (cases l) (simp_all add: is_latched_level_def level_order)

datatype trigger =
    SPREAD_SPIKE | FEED_STALE | MT5_DISCONNECTED | DAILY_LOSS | DRAWDOWN | CONSECUTIVE_LOSSES
  | ABNORMAL_ORDER_FREQUENCY | RECONCILIATION_MISMATCH | EXECUTION_REJECTION_SPIKE
  | DATABASE_UNAVAILABLE | MODEL_FAILURE | MANUAL | RECOVERY

fun trigger_value :: "trigger \<Rightarrow> string" where
  "trigger_value SPREAD_SPIKE = ''spread_spike''"
| "trigger_value FEED_STALE = ''feed_stale''"
| "trigger_value MT5_DISCONNECTED = ''mt5_disconnected''"
| "trigger_value DAILY_LOSS = ''daily_loss''"
| "trigger_value DRAWDOWN = ''drawdown''"
| "trigger_value CONSECUTIVE_LOSSES = ''consecutive_losses''"
| "trigger_value ABNORMAL_ORDER_FREQUENCY = ''abnormal_order_frequency''"
| "trigger_value RECONCILIATION_MISMATCH = ''reconciliation_mismatch''"
| "trigger_value EXECUTION_REJECTION_SPIKE = ''execution_rejection_spike''"
| "trigger_value DATABASE_UNAVAILABLE = ''database_unavailable''"
| "trigger_value MODEL_FAILURE = ''model_failure''"
| "trigger_value MANUAL = ''manual''"
| "trigger_value RECOVERY = ''recovery''"

text \<open>\<open>_TRIGGER_LEVEL.get(trigger, CAUTION)\<close>: \<open>RECOVERY\<close> has no entry.\<close>

fun trigger_level :: "trigger \<Rightarrow> level" where
  "trigger_level SPREAD_SPIKE = L_RISK_REDUCED"
| "trigger_level FEED_STALE = L_CAUTION"
| "trigger_level MT5_DISCONNECTED = L_ENTRY_BLOCKED"
| "trigger_level DAILY_LOSS = L_ENTRY_BLOCKED"
| "trigger_level DRAWDOWN = L_EMERGENCY_FLATTEN"
| "trigger_level CONSECUTIVE_LOSSES = L_RISK_REDUCED"
| "trigger_level ABNORMAL_ORDER_FREQUENCY = L_RISK_REDUCED"
| "trigger_level RECONCILIATION_MISMATCH = L_ENTRY_BLOCKED"
| "trigger_level EXECUTION_REJECTION_SPIKE = L_ENTRY_BLOCKED"
| "trigger_level DATABASE_UNAVAILABLE = L_HALTED"
| "trigger_level MODEL_FAILURE = L_CAUTION"
| "trigger_level MANUAL = L_HALTED"
| "trigger_level RECOVERY = L_CAUTION"

section \<open>The breaker\<close>

record level_record =
  lr_from :: level
  lr_to :: level
  lr_trigger :: trigger
  lr_reason :: string
  lr_timestamp :: string
  lr_source :: string

record ml_breaker =
  ml_level :: level
  ml_risk_multiplier :: pyfloat
  ml_history :: "level_record list"
  ml_latched :: bool
  ml_trigger :: "trigger option"
  ml_reason :: string
  ml_since :: string

text \<open>The constructor: the latch starts open whatever the initial level is.\<close>

definition ml_new :: "level \<Rightarrow> pyfloat \<Rightarrow> string \<Rightarrow> ml_breaker" where
  "ml_new l mult now = \<lparr>ml_level = l, ml_risk_multiplier = mult, ml_history = [], ml_latched = False,
     ml_trigger = None, ml_reason = [], ml_since = now\<rparr>"

definition ml_set :: "string \<Rightarrow> level \<Rightarrow> trigger \<Rightarrow> string \<Rightarrow> string \<Rightarrow> ml_breaker \<Rightarrow> level_record \<times> ml_breaker" where
  "ml_set now l t reason src b =
     (let r = \<lparr>lr_from = ml_level b, lr_to = l, lr_trigger = t, lr_reason = reason,
               lr_timestamp = now, lr_source = src\<rparr>
      in (r, b\<lparr>ml_level := l, ml_trigger := Some t, ml_reason := reason, ml_since := now,
               ml_latched := is_latched_level l, ml_history := ml_history b @ [r]\<rparr>))"

definition ml_note :: "string \<Rightarrow> trigger \<Rightarrow> string \<Rightarrow> string \<Rightarrow> ml_breaker \<Rightarrow> level_record \<times> ml_breaker" where
  "ml_note now t reason src b =
     (let r = \<lparr>lr_from = ml_level b, lr_to = ml_level b, lr_trigger = t, lr_reason = reason,
               lr_timestamp = now, lr_source = src\<rparr>
      in (r, b\<lparr>ml_history := ml_history b @ [r]\<rparr>))"

definition ml_do_trigger :: "string \<Rightarrow> trigger \<Rightarrow> string \<Rightarrow> string \<Rightarrow> ml_breaker \<Rightarrow> level_record \<times> ml_breaker" where
  "ml_do_trigger now t reason src b =
     (let target = trigger_level t;
          reason = (if reason = [] then ''trigger: '' @ trigger_value t else reason)
      in if target \<le> ml_level b \<and> ml_latched b then ml_note now t (''observed while latched: '' @ reason) src b
         else if target \<le> ml_level b then ml_note now t reason src b
         else ml_set now target t reason src b)"

definition ml_escalate :: "string \<Rightarrow> level \<Rightarrow> string \<Rightarrow> string \<Rightarrow> ml_breaker \<Rightarrow> pyerr + level_record \<times> ml_breaker" where
  "ml_escalate now l reason src b =
     (if l < ml_level b \<and> ml_latched b
      then Inl (RuntimeError ''Cannot lower a latched level without recovery.'')
      else Inr (ml_set now l (if src \<noteq> ''recovery'' then MANUAL else RECOVERY) reason src b))"

definition ml_recover :: "string \<Rightarrow> bool \<Rightarrow> string \<Rightarrow> level \<Rightarrow> ml_breaker \<Rightarrow> pyerr + level_record \<times> ml_breaker" where
  "ml_recover now ok reason target b =
     (if \<not> ok then Inl (RuntimeError (''Recovery refused '' @ em_dash @ '' recovery condition not met.''))
      else if ml_level b \<le> target \<and> \<not> ml_latched b
      then Inr (ml_note now RECOVERY (''no-op recovery: '' @ reason) ''recovery'' b)
      else Inr (ml_set now target RECOVERY reason ''recovery'' b))"

definition ml_allows_new_entries :: "ml_breaker \<Rightarrow> bool" where
  "ml_allows_new_entries b \<longleftrightarrow> ml_level b < L_ENTRY_BLOCKED"

definition ml_must_flatten :: "ml_breaker \<Rightarrow> bool" where
  "ml_must_flatten b \<longleftrightarrow> L_EMERGENCY_FLATTEN \<le> ml_level b"

definition ml_size_multiplier :: "ml_breaker \<Rightarrow> pyfloat" where
  "ml_size_multiplier b =
     (if ml_level b = L_RISK_REDUCED then ml_risk_multiplier b
      else if L_ENTRY_BLOCKED \<le> ml_level b then 0
      else 1)"

datatype ml_op =
    MTrigger trigger string string    \<comment> \<open>trigger, reason, source\<close>
  | MEscalate level string string     \<comment> \<open>level, reason, source\<close>
  | MRecover bool string level        \<comment> \<open>condition, reason, target\<close>

fun ml_exec :: "ml_op \<times> string \<Rightarrow> ml_breaker \<Rightarrow> ml_breaker" where
  "ml_exec (MTrigger t reason src, now) b = snd (ml_do_trigger now t reason src b)"
| "ml_exec (MEscalate l reason src, now) b = (case ml_escalate now l reason src b of Inl _ \<Rightarrow> b | Inr (_, b') \<Rightarrow> b')"
| "ml_exec (MRecover ok reason l, now) b = (case ml_recover now ok reason l b of Inl _ \<Rightarrow> b | Inr (_, b') \<Rightarrow> b')"

section \<open>Lemmas\<close>

lemma ml_set_fields [simp]:
  "ml_level (snd (ml_set now l t r src b)) = l"
  "ml_latched (snd (ml_set now l t r src b)) = is_latched_level l"
  "ml_risk_multiplier (snd (ml_set now l t r src b)) = ml_risk_multiplier b"
  by (simp_all add: ml_set_def Let_def)

lemma ml_note_fields [simp]:
  "ml_level (snd (ml_note now t r src b)) = ml_level b"
  "ml_latched (snd (ml_note now t r src b)) = ml_latched b"
  "ml_risk_multiplier (snd (ml_note now t r src b)) = ml_risk_multiplier b"
  by (simp_all add: ml_note_def Let_def)

lemma ml_trigger_level: "ml_level (snd (ml_do_trigger now t r src b)) = max (trigger_level t) (ml_level b)"
  by (simp add: ml_do_trigger_def Let_def max_def)

interpretation ml_escalation:
  escalation "\<lambda>b. level_index (ml_level b)" "\<lambda>(now, t, r, src) b. snd (ml_do_trigger now t r src b)"
proof
  show "level_index (ml_level b) \<le> level_index (ml_level ((\<lambda>(now, t, r, src) b. snd (ml_do_trigger now t r src b)) e b))" for e b
    by (cases e) (simp add: ml_trigger_level flip: less_eq_level_def)
qed

text \<open>The latch is closed exactly at the critical levels.\<close>

definition ml_inv :: "ml_breaker \<Rightarrow> bool" where
  "ml_inv b \<longleftrightarrow> (ml_latched b \<longleftrightarrow> is_latched_level (ml_level b))"

lemma ml_new_inv: "\<not> is_latched_level l \<Longrightarrow> ml_inv (ml_new l mult now)"
  by (simp add: ml_inv_def ml_new_def)

lemma ml_exec_inv [preserves]: "ml_inv b \<Longrightarrow> ml_inv (ml_exec x b)"
proof (induction x b rule: ml_exec.induct)
  case (1 t reason src now b)
  then show ?case by (auto simp: ml_inv_def ml_do_trigger_def Let_def)
next
  case (2 l reason src now b)
  then show ?case by (auto simp: ml_inv_def ml_escalate_def split: sum.splits prod.splits if_splits)
     (metis ml_set_fields snd_conv)+
next
  case (3 ok reason l now b)
  then show ?case by (auto simp: ml_inv_def ml_recover_def split: sum.splits prod.splits if_splits)
     (metis ml_set_fields ml_note_fields snd_conv)+
qed

lemma ml_exec_keeps:
  assumes "ml_latched b" "\<forall>ok r l. fst x \<noteq> MRecover True r l"
  shows "ml_level b \<le> ml_level (ml_exec x b)"
  using assms
proof (induction x b rule: ml_exec.induct)
  case (1 t reason src now b)
  then show ?case by (simp add: ml_trigger_level)
next
  case (2 l reason src now b)
  then show ?case
    by (simp add: ml_escalate_def split: sum.splits prod.splits if_splits) (metis ml_set_fields(1) not_less snd_conv)
next
  case (3 ok reason l now b)
  then show ?case by (cases ok) (simp_all add: ml_recover_def)
qed

section \<open>Properties\<close>

text \<open>
  C24. Latched levels only go down by recovery: once new entries are blocked, no sequence of triggers,
  escalations and refused recoveries lowers the level, so entries stay blocked and the size multiplier
  stays zero.
\<close>

theorem latched_until_recovery:
  assumes "ml_inv b" "\<not> ml_allows_new_entries b"
    and "\<forall>x \<in> set xs. \<forall>r l. fst x \<noteq> MRecover True r l"
  shows "ml_level b \<le> ml_level (fold ml_exec xs b)
       \<and> \<not> ml_allows_new_entries (fold ml_exec xs b) \<and> ml_size_multiplier (fold ml_exec xs b) = 0"
proof -
  have "ml_inv (fold ml_exec xs b) \<and> ml_level b \<le> ml_level (fold ml_exec xs b)"
    using assms
  proof (induction xs arbitrary: b)
    case Nil
    then show ?case by simp
  next
    case (Cons x xs)
    have "ml_latched b" using Cons.prems by (simp add: ml_inv_def is_latched_level_iff ml_allows_new_entries_def)
    then have up: "ml_level b \<le> ml_level (ml_exec x b)" using Cons.prems(3) by (intro ml_exec_keeps) auto
    then have "\<not> ml_allows_new_entries (ml_exec x b)" using Cons.prems(2) by (simp add: ml_allows_new_entries_def)
    then have "ml_inv (fold ml_exec xs (ml_exec x b)) \<and> ml_level (ml_exec x b) \<le> ml_level (fold ml_exec xs (ml_exec x b))"
      using Cons.prems by (intro Cons.IH) (auto intro: preserves)
    then show ?case using up by auto
  qed
  moreover have "L_ENTRY_BLOCKED \<le> ml_level b" using assms(2) by (simp add: ml_allows_new_entries_def)
  ultimately have "L_ENTRY_BLOCKED \<le> ml_level (fold ml_exec xs b)" by (meson order_trans)
  then show ?thesis
    using \<open>ml_inv _ \<and> _\<close> by (auto simp: ml_allows_new_entries_def ml_size_multiplier_def level_order)
qed

definition ml_blocked :: ml_breaker where
  "ml_blocked = ml_exec (MTrigger DAILY_LOSS [] ''risk'', ''t0'') (ml_new L_NORMAL (1/2) ''t'')"

theorem latched_until_recovery_witness:
  "\<not> ml_allows_new_entries (fold ml_exec [(MTrigger FEED_STALE [] ''feed'', ''t1''), (MEscalate L_NORMAL ''x'' ''ai'', ''t2''),
      (MRecover False ''please'' L_NORMAL, ''t3'')] ml_blocked)"
proof -
  have h: "ml_inv ml_blocked" "\<not> ml_allows_new_entries ml_blocked" by code_simp+
  from latched_until_recovery [OF h, of "[(MTrigger FEED_STALE [] ''feed'', ''t1''), (MEscalate L_NORMAL ''x'' ''ai'', ''t2''),
      (MRecover False ''please'' L_NORMAL, ''t3'')]"] show ?thesis by simp
qed

text \<open>
  Triggers never lower the level and each forces at least its policy level: after any run of
  triggers the level is the maximum of the start and of the policy levels seen.
\<close>

theorem triggers_force_policy_level:
  "ml_level (fold (\<lambda>(now, t, r, src) b. snd (ml_do_trigger now t r src b)) ts b)
     = fold (\<lambda>(now, t, r, src). max (trigger_level t)) ts (ml_level b)
   \<and> ml_level b \<le> ml_level (fold (\<lambda>(now, t, r, src) b. snd (ml_do_trigger now t r src b)) ts b)"
proof
  show "ml_level (fold (\<lambda>(now, t, r, src) b. snd (ml_do_trigger now t r src b)) ts b)
     = fold (\<lambda>(now, t, r, src). max (trigger_level t)) ts (ml_level b)"
    by (induction ts arbitrary: b) (auto simp: ml_trigger_level)
  show "ml_level b \<le> ml_level (fold (\<lambda>(now, t, r, src) b. snd (ml_do_trigger now t r src b)) ts b)"
    using ml_escalation.observe_run_up [of b ts] by (simp add: less_eq_level_def)
qed

text \<open>
  Escalation, documented as unable to lower the level, lowers any level that is not latched: from
  the caution or the reduced-risk level it sets any lower level it is given, and full size with it.
\<close>

theorem escalate_lowers_unlatched:
  assumes "ml_inv b" "ml_allows_new_entries b" "l < ml_level b"
  shows "\<exists>r b'. ml_escalate now l reason src b = Inr (r, b') \<and> ml_level b' < ml_level b
     \<and> (ml_level b' \<noteq> L_RISK_REDUCED \<longrightarrow> ml_size_multiplier b' = 1)"
proof -
  have "\<not> ml_latched b" using assms by (simp add: ml_inv_def is_latched_level_iff ml_allows_new_entries_def)
  moreover have "\<not> L_ENTRY_BLOCKED \<le> l" using assms by (auto simp: ml_allows_new_entries_def level_order)
  ultimately show ?thesis using assms(3)
    by (auto simp: ml_escalate_def ml_set_def Let_def ml_size_multiplier_def)
qed

theorem escalate_lowers_unlatched_witness:
  "\<exists>r b'. ml_escalate ''t1'' L_NORMAL ''x'' ''ai'' (ml_exec (MTrigger SPREAD_SPIKE [] ''feed'', ''t0'') (ml_new L_NORMAL (1/2) ''t''))
      = Inr (r, b') \<and> ml_level b' < L_RISK_REDUCED"
proof -
  let ?b = "ml_exec (MTrigger SPREAD_SPIKE [] ''feed'', ''t0'') (ml_new L_NORMAL (1/2) ''t'')"
  have h: "ml_inv ?b" "ml_allows_new_entries ?b" "L_NORMAL < ml_level ?b" "ml_level ?b = L_RISK_REDUCED"
    by code_simp+
  from escalate_lowers_unlatched [OF h(1-3), unfolded h(4), of "''t1''" "''x''" "''ai''"] show ?thesis by blast
qed

text \<open>
  A breaker built at a critical level is not latched: the constructor leaves the latch open, so an
  escalation to the normal level is accepted and entries are allowed again without any recovery.
\<close>

theorem built_halted_not_latched:
  "\<exists>r b'. ml_escalate now L_NORMAL reason src (ml_new L_HALTED mult t0) = Inr (r, b') \<and> ml_allows_new_entries b'"
  by (simp add: ml_escalate_def ml_new_def ml_set_def Let_def ml_allows_new_entries_def level_order)

end
