(* ===== verification/Capital.thy ===== *)
theory Capital
  imports Prelude
begin

text \<open>
  Several strategies on one account: \<open>risk/capital_allocation.py\<close>. The allocator's fields
  are one record; \<open>allocate\<close> reads it and changes nothing.
\<close>

section \<open>Allocations\<close>

record strategy_allocation =
  sa_id :: string
  sa_weight :: pyfloat
  sa_gross :: pyfloat

definition allocation_amount :: "pyfloat \<Rightarrow> strategy_allocation \<Rightarrow> pyfloat" where
  "allocation_amount equity a = equity * sa_weight a"

record allocation_decision =
  ad_allowed :: bool
  ad_risk :: pyfloat
  ad_reasons :: "string list"

record allocator =
  ca_equity :: pyfloat
  ca_allocations :: "strategy_allocation list"
  ca_daily_limit :: pyfloat
  ca_dd_limit :: pyfloat
  ca_max_gross :: pyfloat
  ca_max_corr :: pyfloat
  ca_daily_loss :: pyfloat
  ca_drawdown :: pyfloat
  ca_corr :: pyfloat

definition total_weight :: "allocator \<Rightarrow> pyfloat" where
  "total_weight A = sum_list (map sa_weight (ca_allocations A))"

definition validate_weights :: "allocator \<Rightarrow> string list" where
  "validate_weights A =
     (if total_weight A > 1 + 1 / 10 ^ 9
      then [''total weight '' @ fmt_fixed (total_weight A) 4 @ '' exceeds 1.0''] else [])
     @ map (\<lambda>a. sa_id a @ '': negative weight'') (filter (\<lambda>a. sa_weight a < 0) (ca_allocations A))"

definition ca_gross_exposure :: "allocator \<Rightarrow> pyfloat" where
  "ca_gross_exposure A = sum_list (map sa_gross (ca_allocations A))"

definition ca_net_exposure :: "(string \<times> int) list option \<Rightarrow> allocator \<Rightarrow> pyfloat" where
  "ca_net_exposure directions A = (case directions of
      None \<Rightarrow> ca_gross_exposure A
    | Some ds \<Rightarrow> foldl (\<lambda>net a. net + sa_gross a * of_int
        (case map_of ds (sa_id a) of None \<Rightarrow> 1 | Some d \<Rightarrow> d)) 0 (ca_allocations A))"

section \<open>The decision\<close>

definition refuse :: "string \<Rightarrow> allocation_decision" where
  "refuse why = \<lparr>ad_allowed = False, ad_risk = 0, ad_reasons = [why]\<rparr>"

text \<open>The last two caps of \<open>allocate\<close>, which gate the amount found so far.\<close>

definition allocate_caps :: "pyfloat \<Rightarrow> string list \<Rightarrow> allocator \<Rightarrow> allocation_decision" where
  "allocate_caps risk reasons A =
     (if ca_max_gross A > 0 \<and> ca_max_gross A - ca_gross_exposure A \<le> 0
      then refuse ''max gross exposure reached''
      else if ca_max_corr A > 0 \<and> ca_corr A \<ge> ca_max_corr A
      then refuse ''correlation exposure cap reached''
      else \<lparr>ad_allowed = True, ad_risk = max risk 0, ad_reasons = reasons\<rparr>)"

definition allocate_drawdown :: "pyfloat \<Rightarrow> string list \<Rightarrow> allocator \<Rightarrow> allocation_decision" where
  "allocate_drawdown risk reasons A =
     (if ca_dd_limit A > 0
      then (let remaining = ca_dd_limit A - ca_drawdown A
            in if remaining \<le> 0 then refuse ''shared drawdown limit reached''
               else if risk > remaining
               then allocate_caps remaining (reasons @ [''clamped to remaining shared drawdown'']) A
               else allocate_caps risk reasons A)
      else allocate_caps risk reasons A)"

definition allocate_daily :: "pyfloat \<Rightarrow> string list \<Rightarrow> allocator \<Rightarrow> allocation_decision" where
  "allocate_daily risk reasons A =
     (if ca_daily_limit A > 0
      then (let remaining = ca_daily_limit A - ca_daily_loss A
            in if remaining \<le> 0 then refuse ''shared daily loss limit reached''
               else if risk > remaining
               then allocate_drawdown remaining (reasons @ [''clamped to remaining shared daily loss'']) A
               else allocate_drawdown risk reasons A)
      else allocate_drawdown risk reasons A)"

definition allocate :: "string \<Rightarrow> pyfloat \<Rightarrow> allocator \<Rightarrow> allocation_decision" where
  "allocate strategy proposed A =
     (if validate_weights A \<noteq> []
      then \<lparr>ad_allowed = False, ad_risk = 0, ad_reasons = validate_weights A\<rparr>
      else case find (\<lambda>a. sa_id a = strategy) (ca_allocations A) of
          None \<Rightarrow> refuse (strategy @ '' has no allocation'')
        | Some a \<Rightarrow>
            (let share = allocation_amount (ca_equity A) a
             in allocate_daily (min proposed share)
                  (if proposed > share then [''clamped to allocation share '' @ fmt_fixed share 2] else []) A))"

section \<open>Bounds\<close>

definition within_shared :: "allocator \<Rightarrow> pyfloat \<Rightarrow> bool" where
  "within_shared A r \<longleftrightarrow>
     (ca_daily_limit A > 0 \<longrightarrow> r \<le> ca_daily_limit A - ca_daily_loss A) \<and>
     (ca_dd_limit A > 0 \<longrightarrow> r \<le> ca_dd_limit A - ca_drawdown A) \<and>
     (ca_max_gross A > 0 \<longrightarrow> ca_gross_exposure A < ca_max_gross A) \<and>
     (ca_max_corr A > 0 \<longrightarrow> ca_corr A < ca_max_corr A)"

lemmas allocate_stages = allocate_daily_def allocate_drawdown_def allocate_caps_def refuse_def Let_def

lemma allocate_daily_bound:
  "ad_risk (allocate_daily r rs A) \<le> max r 0" "0 \<le> ad_risk (allocate_daily r rs A)"
  by (auto simp: allocate_stages max_def)

lemma allocate_daily_shared:
  "ad_allowed (allocate_daily r rs A) \<Longrightarrow> within_shared A (ad_risk (allocate_daily r rs A))"
  unfolding within_shared_def by (auto simp: allocate_stages max_def split: if_splits)

lemma allocate_daily_refused:
  "\<not> ad_allowed (allocate_daily r rs A) \<Longrightarrow> ad_risk (allocate_daily r rs A) = 0"
proof -
  have caps: "ad_allowed (allocate_caps r rs A) \<or> ad_risk (allocate_caps r rs A) = 0" for r rs
    by (simp add: allocate_caps_def refuse_def)
  have "ad_allowed (allocate_drawdown r rs A) \<or> ad_risk (allocate_drawdown r rs A) = 0" for r rs
    using caps by (simp add: allocate_drawdown_def refuse_def Let_def)
  then have "ad_allowed (allocate_daily r rs A) \<or> ad_risk (allocate_daily r rs A) = 0"
    by (simp add: allocate_daily_def refuse_def Let_def)
  then show "\<not> ad_allowed (allocate_daily r rs A) \<Longrightarrow> ad_risk (allocate_daily r rs A) = 0" by simp
qed

definition share_weight :: "strategy_allocation list \<Rightarrow> string \<Rightarrow> pyfloat" where
  "share_weight as s = (case find (\<lambda>a. sa_id a = s) as of None \<Rightarrow> 0 | Some a \<Rightarrow> sa_weight a)"

lemma share_weight_Cons:
  "share_weight (a # as) s = (if sa_id a = s then sa_weight a else share_weight as s)"
  by (simp add: share_weight_def)

lemma valid_weights:
  assumes "validate_weights A = []"
  shows "total_weight A \<le> 1 + 1 / 10 ^ 9" "a \<in> set (ca_allocations A) \<Longrightarrow> 0 \<le> sa_weight a"
  using assms by (auto simp: validate_weights_def filter_empty_conv not_less split: if_splits)

lemma allocate_share:
  assumes "0 \<le> ca_equity A"
  shows "ad_risk (allocate s p A) \<le> ca_equity A * max 0 (share_weight (ca_allocations A) s)"
proof (cases "validate_weights A = []")
  case False
  with assms show ?thesis by (simp add: allocate_def)
next
  case True
  show ?thesis
  proof (cases "find (\<lambda>a. sa_id a = s) (ca_allocations A)")
    case None
    with True assms show ?thesis by (simp add: allocate_def refuse_def)
  next
    case (Some a)
    then have "0 \<le> sa_weight a" using valid_weights(2) [OF True] by (auto simp: find_Some_iff)
    with assms have "0 \<le> allocation_amount (ca_equity A) a" by (simp add: allocation_amount_def)
    then have "max (min p (allocation_amount (ca_equity A) a)) 0 \<le> allocation_amount (ca_equity A) a"
      by simp
    with True Some \<open>0 \<le> sa_weight a\<close> show ?thesis
      using order_trans [OF allocate_daily_bound(1)]
      by (simp add: allocate_def share_weight_def Let_def allocation_amount_def)
  qed
qed

lemma share_weight_sum:
  assumes "\<forall>a\<in>set as. 0 \<le> sa_weight a" "distinct ids"
  shows "sum_list (map (share_weight as) ids) \<le> sum_list (map sa_weight as)"
  using assms
proof (induction as)
  case Nil
  show ?case by (induction ids) (auto simp: share_weight_def)
next
  case (Cons a as)
  have nonneg: "0 \<le> share_weight as s" for s
    using Cons.prems(1) by (auto simp: share_weight_def find_Some_iff split: option.split)
  have "distinct xs \<Longrightarrow> sum_list (map (share_weight (a # as)) xs)
      \<le> (if sa_id a \<in> set xs then sa_weight a else 0) + sum_list (map (share_weight as) xs)" for xs
    using nonneg [of "sa_id a"] by (induction xs) (auto simp: share_weight_Cons)
  from this [OF Cons.prems(2)] have "sum_list (map (share_weight (a # as)) ids)
      \<le> sa_weight a + sum_list (map (share_weight as) ids)"
    using Cons.prems(1) by (auto split: if_splits)
  with Cons show ?case by simp
qed

section \<open>Properties\<close>

text \<open>
  Strategies with different names, each asking for any amount, are together never allowed more
  than the account's equity (up to the tolerance of the weight check), since no strategy passes
  its own share.
\<close>

theorem shares_cannot_exceed_equity:
  assumes "0 \<le> ca_equity A" "distinct (map fst requests)"
  shows "sum_list (map (\<lambda>(s, p). ad_risk (allocate s p A)) requests) \<le> ca_equity A * (1 + 1 / 10 ^ 9)"
proof (cases "validate_weights A = []")
  case False
  then have "sum_list (map (\<lambda>(s, p). ad_risk (allocate s p A)) requests) = 0"
    by (induction requests) (auto simp: allocate_def)
  with assms(1) show ?thesis by simp
next
  case True
  let ?w = "share_weight (ca_allocations A)"
  have nn: "\<forall>a\<in>set (ca_allocations A). 0 \<le> sa_weight a" using valid_weights(2) [OF True] by auto
  then have w: "max 0 (?w s) = ?w s" for s
    by (auto simp: share_weight_def find_Some_iff split: option.split)
  have "sum_list (map (\<lambda>(s, p). ad_risk (allocate s p A)) requests)
      \<le> sum_list (map (\<lambda>r. ca_equity A * ?w (fst r)) requests)"
    using allocate_share [OF assms(1)] w by (intro sum_list_mono) (auto split: prod.split)
  also have "\<dots> = ca_equity A * sum_list (map ?w (map fst requests))"
    by (simp add: sum_list_const_mult o_def)
  also have "\<dots> \<le> ca_equity A * total_weight A"
    using share_weight_sum [OF nn assms(2)] assms(1) by (simp add: total_weight_def mult_left_mono)
  also have "\<dots> \<le> ca_equity A * (1 + 1 / 10 ^ 9)"
    using valid_weights(1) [OF True] assms(1) by (rule mult_left_mono)
  finally show ?thesis .
qed

definition demo_allocator :: allocator where
  "demo_allocator = \<lparr>ca_equity = 10000,
     ca_allocations = [\<lparr>sa_id = ''trend'', sa_weight = 3/5, sa_gross = 900\<rparr>,
                       \<lparr>sa_id = ''scalp'', sa_weight = 2/5, sa_gross = 50\<rparr>],
     ca_daily_limit = 500, ca_dd_limit = 0, ca_max_gross = 1000, ca_max_corr = 0,
     ca_daily_loss = 100, ca_drawdown = 0, ca_corr = 0\<rparr>"

lemma shares_cannot_exceed_equity_witness:
  "sum_list (map (\<lambda>(s, p). ad_risk (allocate s p demo_allocator)) [(''trend'', 9000), (''scalp'', 30)])
     \<le> 10000 * (1 + 1 / 10 ^ 9)
   \<and> ad_risk (allocate ''trend'' 9000 demo_allocator) = 400"
  using shares_cannot_exceed_equity [of demo_allocator "[(''trend'', 9000), (''scalp'', 30)]"]
  by (simp add: demo_allocator_def allocate_def validate_weights_def total_weight_def allocate_stages
      allocation_amount_def ca_gross_exposure_def)

text \<open>
  Every allowed amount is non-negative and within what remains of the shared daily loss and
  drawdown limits, and is allowed only below the gross and correlation caps; a refusal allows
  nothing.
\<close>

theorem allocation_within_shared_limits:
  "if ad_allowed (allocate s p A)
   then 0 \<le> ad_risk (allocate s p A) \<and> within_shared A (ad_risk (allocate s p A))
   else ad_risk (allocate s p A) = 0"
  using allocate_daily_bound(2) allocate_daily_shared allocate_daily_refused
  by (auto simp: allocate_def refuse_def Let_def split: option.splits)

text \<open>
  The gross exposure cap only switches allocation on and off: with one unit of room left the
  whole clamped request is still allowed.
\<close>

theorem gross_cap_does_not_clamp:
  assumes "0 < g" "ca_max_gross A = ca_gross_exposure A + g" "validate_weights A = []"
    and "ca_daily_limit A = 0" "ca_dd_limit A = 0" "ca_max_corr A = 0"
    and "find (\<lambda>a. sa_id a = s) (ca_allocations A) = Some a" "0 \<le> p" "p \<le> ca_equity A * sa_weight a"
  shows "allocate s p A = \<lparr>ad_allowed = True, ad_risk = p, ad_reasons = []\<rparr>"
  using assms by (simp add: allocate_def allocate_stages allocation_amount_def)

lemma gross_cap_does_not_clamp_witness:
  "ad_risk (allocate ''trend'' 6000 (demo_allocator\<lparr>ca_daily_limit := 0, ca_max_gross := 951\<rparr>)) = 6000"
  using gross_cap_does_not_clamp [of 1 "demo_allocator\<lparr>ca_daily_limit := 0, ca_max_gross := 951\<rparr>"
      "''trend''" "\<lparr>sa_id = ''trend'', sa_weight = 3/5, sa_gross = 900\<rparr>" 6000]
  by (simp add: demo_allocator_def validate_weights_def total_weight_def ca_gross_exposure_def)

end
