(* ===== verification/SLTP.thy ===== *)
theory SLTP
  imports Prelude
begin

text \<open>
  The ladder that moves the stop of an open position: \<open>execution/sltp_manager.py\<close>. Prices
  arrive as values of any type and go through \<open>_f\<close>, which reads 0 where \<open>float\<close> raises.
\<close>

section \<open>Configuration and decision\<close>

record sltp_config =
  cf_enabled :: bool
  cf_breakeven :: bool
  cf_bep_buffer_r :: pyfloat
  cf_tp1_lock :: bool
  cf_tp1_trigger_r :: pyfloat
  cf_tp1_lock_r :: pyfloat
  cf_trailing :: bool
  cf_tp2_trigger_r :: pyfloat
  cf_trail_atr :: pyfloat
  cf_min_move_r :: pyfloat

definition sltp_defaults :: sltp_config where
  "sltp_defaults = \<lparr>cf_enabled = True, cf_breakeven = True, cf_bep_buffer_r = 1/10, cf_tp1_lock = True,
     cf_tp1_trigger_r = 1, cf_tp1_lock_r = 1, cf_trailing = True, cf_tp2_trigger_r = 2,
     cf_trail_atr = 3/2, cf_min_move_r = 1/20\<rparr>"

record sltp_decision =
  sd_new_sl :: pyfloat
  sd_reason :: string
  sd_locked_r :: pyfloat

definition sltp_f :: "pyval \<Rightarrow> pyfloat" where
  "sltp_f v = (case py_float v of Inl e \<Rightarrow> 0 | Inr x \<Rightarrow> x)"

definition better_stop :: "bool \<Rightarrow> pyfloat \<Rightarrow> pyfloat \<Rightarrow> bool" where
  "better_stop buy candidate current \<longleftrightarrow>
     (if current \<le> 0 then True else if buy then current < candidate else candidate < current)"

section \<open>The ladder\<close>

text \<open>One R: the initial risk, else the ATR, else the distance of the current stop.\<close>

definition risk_unit :: "pyfloat \<Rightarrow> pyfloat \<Rightarrow> pyfloat \<Rightarrow> pyfloat \<Rightarrow> pyfloat" where
  "risk_unit initial atr entry cur_sl =
     (if initial \<le> 0
      then (if atr > 0 then atr else if cur_sl > 0 then \<bar>entry - cur_sl\<bar> else 0)
      else initial)"

definition progress_r :: "bool \<Rightarrow> pyfloat \<Rightarrow> pyfloat \<Rightarrow> pyfloat \<Rightarrow> pyfloat" where
  "progress_r buy entry price risk = (if buy then (price - entry) / risk else (entry - price) / risk)"

definition lock_price :: "bool \<Rightarrow> pyfloat \<Rightarrow> pyfloat \<Rightarrow> pyfloat \<Rightarrow> pyfloat" where
  "lock_price buy entry risk r = (if buy then entry + r * risk else entry - r * risk)"

definition trail_price :: "sltp_config \<Rightarrow> bool \<Rightarrow> pyfloat \<Rightarrow> pyfloat \<Rightarrow> pyfloat \<Rightarrow> pyfloat \<Rightarrow> pyfloat" where
  "trail_price cfg buy entry price risk atr =
     (let distance = atr * cf_trail_atr cfg; floor_sl = lock_price buy entry risk (cf_tp1_lock_r cfg)
      in if buy then max (price - distance) floor_sl else min (price + distance) floor_sl)"

definition sltp_candidates ::
  "sltp_config \<Rightarrow> bool \<Rightarrow> pyfloat \<Rightarrow> pyfloat \<Rightarrow> pyfloat \<Rightarrow> pyfloat \<Rightarrow> sltp_decision list" where
  "sltp_candidates cfg buy entry price risk atr =
     (let progress = progress_r buy entry price risk; sl = trail_price cfg buy entry price risk atr
      in if cf_tp1_lock cfg \<and> progress \<ge> cf_tp2_trigger_r cfg
         then \<lparr>sd_new_sl = lock_price buy entry risk (cf_tp1_lock_r cfg), sd_reason = ''tp2_lock'',
               sd_locked_r = cf_tp1_lock_r cfg\<rparr>
              # (if cf_trailing cfg \<and> atr > 0
                 then [\<lparr>sd_new_sl = sl, sd_reason = ''trailing'',
                        sd_locked_r = py_round (progress_r buy entry sl risk) 4\<rparr>]
                 else [])
         else if cf_breakeven cfg \<and> progress \<ge> cf_tp1_trigger_r cfg
         then [\<lparr>sd_new_sl = lock_price buy entry risk (cf_bep_buffer_r cfg), sd_reason = ''breakeven'',
                sd_locked_r = cf_bep_buffer_r cfg\<rparr>]
         else [])"

text \<open>\<open>max(candidates, key=locked_r)\<close>: the first of the largest.\<close>

fun best_of :: "sltp_decision list \<Rightarrow> sltp_decision option" where
  "best_of [] = None"
| "best_of (c # cs) = Some (fold (\<lambda>d b. if sd_locked_r b < sd_locked_r d then d else b) cs c)"

definition decide_stop_loss ::
  "string \<Rightarrow> pyval \<Rightarrow> pyval \<Rightarrow> pyval \<Rightarrow> pyval \<Rightarrow> pyval \<Rightarrow> sltp_config \<Rightarrow> sltp_decision option" where
  "decide_stop_loss direction entry_price current_sl current_price atr_value initial_risk cfg =
     (let d = lower direction; buy = (d = ''buy''); entry = sltp_f entry_price; cur = sltp_f current_sl;
          price = sltp_f current_price; atr = sltp_f atr_value;
          risk = risk_unit (sltp_f initial_risk) atr entry cur
      in if \<not> cf_enabled cfg then None
         else if d \<noteq> ''buy'' \<and> d \<noteq> ''sell'' then None
         else if entry \<le> 0 \<or> price \<le> 0 then None
         else if risk \<le> 0 then None
         else case best_of (sltp_candidates cfg buy entry price risk atr) of
             None \<Rightarrow> None
           | Some best \<Rightarrow>
               (if \<not> better_stop buy (sd_new_sl best) cur then None
                else if cur > 0 \<and> \<bar>sd_new_sl best - cur\<bar> / risk < cf_min_move_r cfg then None
                else Some (best\<lparr>sd_new_sl := py_round (sd_new_sl best) 5\<rparr>)))"

section \<open>Lemmas\<close>

lemma best_of_mem: "best_of cs = Some b \<Longrightarrow> b \<in> set cs"
proof -
  have "fold (\<lambda>d b. if sd_locked_r b < sd_locked_r d then d else b) xs c \<in> insert c (set xs)" for xs c
  proof (induction xs arbitrary: c)
    case (Cons x xs)
    from Cons [of x] Cons [of c] show ?case by auto
  qed simp
  then show "best_of cs = Some b \<Longrightarrow> b \<in> set cs" by (cases cs) auto
qed

text \<open>What a decision comes from: a candidate that passes the two final guards.\<close>

lemma decide_stop_loss_cases:
  assumes "decide_stop_loss direction e c p a i cfg = Some d"
  obtains raw risk where "raw \<in> set (sltp_candidates cfg (lower direction = ''buy'') (sltp_f e) (sltp_f p) risk (sltp_f a))"
    and "risk = risk_unit (sltp_f i) (sltp_f a) (sltp_f e) (sltp_f c)" "0 < risk"
    and "better_stop (lower direction = ''buy'') (sd_new_sl raw) (sltp_f c)"
    and "sltp_f c > 0 \<longrightarrow> cf_min_move_r cfg \<le> \<bar>sd_new_sl raw - sltp_f c\<bar> / risk"
    and "d = raw\<lparr>sd_new_sl := py_round (sd_new_sl raw) 5\<rparr>"
    and "lower direction = ''buy'' \<or> lower direction = ''sell''"
  using assms
  by (auto simp: decide_stop_loss_def Let_def not_le not_less split: if_splits option.splits dest!: best_of_mem)

lemma candidate_progress:
  assumes "c \<in> set (sltp_candidates cfg buy entry price risk atr)"
  shows "(cf_tp1_lock cfg \<and> cf_tp2_trigger_r cfg \<le> progress_r buy entry price risk \<and> sd_reason c \<noteq> ''breakeven'')
       \<or> (cf_tp1_trigger_r cfg \<le> progress_r buy entry price risk \<and> sd_reason c = ''breakeven'')"
  using assms by (auto simp: sltp_candidates_def Let_def split: if_splits)

text \<open>A ladder whose rungs lock no more than the price has reached, and that trails behind the price.\<close>

definition sane_ladder :: "sltp_config \<Rightarrow> bool" where
  "sane_ladder cfg \<longleftrightarrow> cf_tp1_lock_r cfg \<le> cf_tp2_trigger_r cfg \<and> cf_bep_buffer_r cfg \<le> cf_tp1_trigger_r cfg
     \<and> 0 \<le> cf_trail_atr cfg"

lemma lock_behind_price:
  assumes "0 < risk" "r \<le> progress_r buy entry price risk"
  shows "if buy then lock_price buy entry risk r \<le> price else price \<le> lock_price buy entry risk r"
  using assms by (auto simp: lock_price_def progress_r_def field_simps)

lemma candidate_behind_price:
  assumes "0 < risk" "sane_ladder cfg" "c \<in> set (sltp_candidates cfg buy entry price risk atr)"
  shows "if buy then sd_new_sl c \<le> price else price \<le> sd_new_sl c"
proof -
  have lock: "r \<le> progress_r buy entry price risk \<Longrightarrow>
      if buy then lock_price buy entry risk r \<le> price else price \<le> lock_price buy entry risk r" for r
    using assms(1) by (rule lock_behind_price)
  show ?thesis
  proof (cases "cf_tp1_lock cfg \<and> cf_tp2_trigger_r cfg \<le> progress_r buy entry price risk")
    case True
    then have l: "if buy then lock_price buy entry risk (cf_tp1_lock_r cfg) \<le> price
        else price \<le> lock_price buy entry risk (cf_tp1_lock_r cfg)"
      using assms(2) lock [of "cf_tp1_lock_r cfg"] by (simp add: sane_ladder_def)
    have "0 < atr \<Longrightarrow> 0 \<le> atr * cf_trail_atr cfg" using assms(2) by (simp add: sane_ladder_def)
    with l assms(3) True show ?thesis
      by (auto simp: sltp_candidates_def trail_price_def Let_def split: if_splits)
  next
    case False
    with assms lock [of "cf_bep_buffer_r cfg"] show ?thesis
      by (auto simp: sltp_candidates_def sane_ladder_def Let_def split: if_splits)
  qed
qed

section \<open>Properties\<close>

text \<open>
  As long as the smallest accepted move is more than half a unit of the fifth decimal, every
  proposed stop is strictly tighter than the stop in place.
\<close>

theorem stop_only_tightens:
  assumes "decide_stop_loss direction e c p a i cfg = Some d" "sltp_f c > 0"
    and "cf_min_move_r cfg * risk_unit (sltp_f i) (sltp_f a) (sltp_f e) (sltp_f c) > 1 / (2 * 10 ^ 5)"
  shows "if lower direction = ''buy'' then sltp_f c < sd_new_sl d else sd_new_sl d < sltp_f c"
proof -
  from assms(1) obtain raw risk where r: "risk = risk_unit (sltp_f i) (sltp_f a) (sltp_f e) (sltp_f c)" "0 < risk"
    and b: "better_stop (lower direction = ''buy'') (sd_new_sl raw) (sltp_f c)"
    and move: "cf_min_move_r cfg \<le> \<bar>sd_new_sl raw - sltp_f c\<bar> / risk"
    and d: "d = raw\<lparr>sd_new_sl := py_round (sd_new_sl raw) 5\<rparr>"
    using assms(2) by (elim decide_stop_loss_cases) auto
  from move r have "cf_min_move_r cfg * risk \<le> \<bar>sd_new_sl raw - sltp_f c\<bar>" by (simp add: field_simps)
  with assms(3) r have "1 / (2 * 10 ^ 5) < \<bar>sd_new_sl raw - sltp_f c\<bar>" by simp
  with py_round_bounds [of "sd_new_sl raw" 5] b assms(2) show ?thesis
    by (auto simp: d better_stop_def abs_if split: if_splits)
qed

lemmas sltp_eval = decide_stop_loss_def sltp_candidates_def risk_unit_def progress_r_def lock_price_def
  trail_price_def better_stop_def sltp_f_def sltp_defaults_def lower_def to_lower_def py_round_def
  round_half_even_def Let_def

lemma stop_only_tightens_witness:
  "(98::rat) < 101"
  using stop_only_tightens [of "''BUY''" "VInt 100" "VInt 98" "VStr ''103''" "VInt 1" "VInt 2" "sltp_defaults\<lparr>cf_bep_buffer_r := 1/2\<rparr>"
      "\<lparr>sd_new_sl = 101, sd_reason = ''breakeven'', sd_locked_r = 1/2\<rparr>"]
  by (simp add: sltp_eval parse_float_def strip_def is_space_def read_sign_def read_exponent_def digit_val_def digits_nat_def)

text \<open>
  With rungs no higher than their triggers, a proposed stop is never past the market price by
  more than the rounding of the fifth decimal.
\<close>

theorem stop_stays_behind_price:
  assumes "decide_stop_loss direction e c p a i cfg = Some d" "sane_ladder cfg"
  shows "if lower direction = ''buy'' then sd_new_sl d \<le> py_round (sltp_f p) 5
         else py_round (sltp_f p) 5 \<le> sd_new_sl d"
  using assms(1)
proof (rule decide_stop_loss_cases)
  fix raw risk
  assume "raw \<in> set (sltp_candidates cfg (lower direction = ''buy'') (sltp_f e) (sltp_f p) risk (sltp_f a))" "0 < risk"
    and d: "d = raw\<lparr>sd_new_sl := py_round (sd_new_sl raw) 5\<rparr>"
  from candidate_behind_price [OF this(2) assms(2) this(1)] show ?thesis
    by (auto simp: d py_round_mono split: if_splits)
qed

lemma stop_stays_behind_price_witness:
  "(9999 :: rat) / 100 \<le> 97 \<or> (97 :: rat) \<le> 98"
  using stop_stays_behind_price [of "''sell''" "VInt 100" "VInt 102" "VInt 97" "VNone" "VInt 1"
      "sltp_defaults" "\<lparr>sd_new_sl = 99, sd_reason = ''tp2_lock'', sd_locked_r = 1\<rparr>"]
  by (simp add: sltp_eval sane_ladder_def)

text \<open>
  The stop never moves before the first target is reached, it trails only once the second one
  is, and then it locks at least the level of the first (before rounding).
\<close>

theorem no_move_before_first_target:
  assumes "decide_stop_loss direction e c p a i cfg = Some d"
    and "risk = risk_unit (sltp_f i) (sltp_f a) (sltp_f e) (sltp_f c)"
    and "progress = progress_r (lower direction = ''buy'') (sltp_f e) (sltp_f p) risk"
  shows "min (cf_tp1_trigger_r cfg) (cf_tp2_trigger_r cfg) \<le> progress \<and>
         (sd_reason d = ''trailing'' \<longrightarrow> cf_tp2_trigger_r cfg \<le> progress) \<and>
         (sd_reason d \<noteq> ''breakeven'' \<longrightarrow>
           (if lower direction = ''buy''
            then py_round (lock_price True (sltp_f e) risk (cf_tp1_lock_r cfg)) 5 \<le> sd_new_sl d
            else sd_new_sl d \<le> py_round (lock_price False (sltp_f e) risk (cf_tp1_lock_r cfg)) 5))"
  using assms(1)
proof (rule decide_stop_loss_cases)
  fix raw r
  let ?buy = "lower direction = ''buy''"
  assume raw: "raw \<in> set (sltp_candidates cfg ?buy (sltp_f e) (sltp_f p) r (sltp_f a))"
    and r: "r = risk_unit (sltp_f i) (sltp_f a) (sltp_f e) (sltp_f c)"
    and d: "d = raw\<lparr>sd_new_sl := py_round (sd_new_sl raw) 5\<rparr>"
  have rr: "r = risk" using r assms(2) by simp
  have "sd_reason raw \<noteq> ''breakeven'' \<longrightarrow>
      (if ?buy then lock_price ?buy (sltp_f e) risk (cf_tp1_lock_r cfg) \<le> sd_new_sl raw
       else sd_new_sl raw \<le> lock_price ?buy (sltp_f e) risk (cf_tp1_lock_r cfg))"
    using raw by (auto simp: rr sltp_candidates_def trail_price_def Let_def split: if_splits)
  with candidate_progress [OF raw] show ?thesis
    by (auto simp: rr assms(3) d py_round_mono split: if_splits)
qed

lemma sell_runner:
  "decide_stop_loss ''sell'' (VInt 100) (VInt 102) (VInt 94) (VInt 1) (VInt 1) sltp_defaults
     = Some \<lparr>sd_new_sl = 191/2, sd_reason = ''trailing'', sd_locked_r = 9/2\<rparr>"
  by (simp add: sltp_eval)

lemma no_move_before_first_target_witness:
  "min 1 2 \<le> (6::rat)"
  using no_move_before_first_target [of "''sell''" "VInt 100" "VInt 102" "VInt 94" "VInt 1" "VInt 1"
      "sltp_defaults" "\<lparr>sd_new_sl = 191/2, sd_reason = ''trailing'', sd_locked_r = 9/2\<rparr>" 1 6]
    sell_runner by (simp add: progress_r_def risk_unit_def sltp_f_def sltp_defaults_def)

text \<open>
  The final rounding can undo the move: for a price of the sixth decimal the stop of a long
  position is proposed below the one in place.
\<close>

lemma rounding_can_loosen:
  "map_option sd_new_sl (decide_stop_loss ''buy'' (VFloat (100004/10^6)) (VFloat (100003/10^6))
     (VFloat (100006/10^6)) VNone (VFloat (1/10^6)) sltp_defaults) = Some (1/10)"
  by (simp add: sltp_eval)

end
