(* ===== verification/Trading_Gate.thy ===== *)
theory Trading_Gate
  imports Prelude
begin

text \<open>
  The pre-trade gate of the trading layer: \<open>trading/risk_gate.py\<close>. Each numbered check of
  \<open>validate\<close> is a definition giving the number of checks it counts as passed and the errors it
  adds; the time stamp of the result is an argument.
\<close>

section \<open>Results\<close>

datatype gate_result = GR_PASS | GR_WARN | GR_BLOCK

record gate_error =
  ge_code :: string
  ge_message :: string
  ge_severity :: string
  ge_blocking :: bool
  ge_details :: pydict

record gate_validation =
  gv_outcome :: gate_result
  gv_errors :: "gate_error list"
  gv_checked_at :: string
  gv_passed :: nat
  gv_total :: nat

definition is_safe :: "gate_validation \<Rightarrow> bool" where
  "is_safe v \<longleftrightarrow> gv_outcome v = GR_PASS"

definition has_warnings :: "gate_validation \<Rightarrow> bool" where
  "has_warnings v \<longleftrightarrow> list_ex (\<lambda>e. ge_severity e = ''WARNING'') (gv_errors v)"

record trading_gate =
  tg_max_daily_loss :: pyfloat
  tg_max_position_size :: pyfloat
  tg_max_exposure_percent :: pyfloat
  tg_max_daily_trades :: int
  tg_min_confidence :: pyfloat
  tg_max_drawdown_percent :: pyfloat
  tg_margin_threshold :: pyfloat
  tg_auto_block :: bool

definition gate_defaults :: trading_gate where
  "gate_defaults = \<lparr>tg_max_daily_loss = 500, tg_max_position_size = 1000, tg_max_exposure_percent = 20,
     tg_max_daily_trades = 20, tg_min_confidence = 1/2, tg_max_drawdown_percent = 15,
     tg_margin_threshold = 1/2, tg_auto_block = True\<rparr>"

section \<open>The nine checks\<close>

type_synonym check_result = "nat \<times> gate_error list"

definition failing :: "string \<Rightarrow> string \<Rightarrow> pydict \<Rightarrow> gate_error" where
  "failing code msg details =
     \<lparr>ge_code = code, ge_message = msg, ge_severity = ''ERROR'', ge_blocking = True, ge_details = details\<rparr>"

definition warning :: "string \<Rightarrow> string \<Rightarrow> pydict \<Rightarrow> gate_error" where
  "warning code msg details =
     \<lparr>ge_code = code, ge_message = msg, ge_severity = ''WARNING'', ge_blocking = False, ge_details = details\<rparr>"

text \<open>The UTF-8 bytes of the sign for ``at least'' in the messages.\<close>

definition geq_sign :: string where
  "geq_sign = map char_of [226, 137, 165 :: nat]"

definition check_equity :: "pyfloat \<Rightarrow> check_result" where
  "check_equity equity =
     (if equity > 0 then (1, [])
      else (0, [failing ''ACCT_EQUITY_INVALID'' ''Account equity must be positive''
                  [(''account_equity'', VFloat equity)]]))"

definition check_loss :: "trading_gate \<Rightarrow> pyfloat \<Rightarrow> check_result" where
  "check_loss T pnl =
     (if pnl \<ge> - tg_max_daily_loss T then (1, [])
      else (0, [failing ''DAILY_LOSS_LIMIT''
                  (''Daily loss limit reached: '' @ fmt_fixed pnl 2 @ '' < -'' @ fmt_fixed (tg_max_daily_loss T) 2)
                  [(''daily_pnl'', VFloat pnl), (''limit'', VFloat (- tg_max_daily_loss T))]]))"

definition check_size :: "trading_gate \<Rightarrow> pyfloat \<Rightarrow> check_result" where
  "check_size T exposure =
     (if exposure \<le> tg_max_position_size T then (1, [])
      else (0, [failing ''POSITION_SIZE_LIMIT''
                  (''Total exposure exceeds limit: '' @ fmt_fixed exposure 2 @ '' > ''
                   @ fmt_fixed (tg_max_position_size T) 2)
                  [(''total_exposure'', VFloat exposure), (''limit'', VFloat (tg_max_position_size T))]]))"

definition check_exposure_pct :: "trading_gate \<Rightarrow> pyfloat \<Rightarrow> pyfloat \<Rightarrow> check_result" where
  "check_exposure_pct T equity exposure =
     (if equity > 0
      then (let pct = exposure / equity * 100
            in if pct \<le> tg_max_exposure_percent T then (1, [])
               else (0, [warning ''EXPOSURE_LIMIT''
                  (''Exposure '' @ fmt_fixed pct 1 @ ''% exceeds limit '' @ fmt_fixed (tg_max_exposure_percent T) 1 @ ''%'')
                  [(''exposure_pct'', VFloat pct), (''limit'', VFloat (tg_max_exposure_percent T))]]))
      else (1, []))"

definition margin_text :: "trading_gate \<Rightarrow> pyfloat \<Rightarrow> string \<Rightarrow> string" where
  "margin_text T margin ending =
     ''Margin usage '' @ fmt_fixed (margin * 100) 1 @ ''% '' @ geq_sign @ '' threshold ''
     @ fmt_fixed (tg_margin_threshold T * 100) 1 @ ''% '' @ em_dash @ '' '' @ ending"

definition check_margin_call :: "trading_gate \<Rightarrow> pyfloat \<Rightarrow> check_result" where
  "check_margin_call T margin =
     (let details = [(''margin_used'', VFloat margin), (''threshold'', VFloat (tg_margin_threshold T))]
      in if margin \<ge> tg_margin_threshold T
         then (if tg_auto_block T
               then (0, [failing ''MARGIN_CALL'' (margin_text T margin ''blocked'') details])
               else (1, [warning ''MARGIN_CALL_WARN'' (margin_text T margin ''warning only'') details]))
         else (1, []))"

definition check_confidence :: "trading_gate \<Rightarrow> pyfloat \<Rightarrow> check_result" where
  "check_confidence T confidence =
     (if confidence \<ge> tg_min_confidence T then (1, [])
      else (0, [warning ''LOW_CONFIDENCE''
                  (''Signal confidence '' @ fmt_fixed confidence 2 @ '' below minimum '' @ fmt_fixed (tg_min_confidence T) 2)
                  [(''confidence'', VFloat confidence), (''min'', VFloat (tg_min_confidence T))]]))"

definition check_trades :: "trading_gate \<Rightarrow> int \<Rightarrow> check_result" where
  "check_trades T trades =
     (if trades < tg_max_daily_trades T then (1, [])
      else (0, [failing ''DAILY_TRADE_LIMIT''
                  (''Daily trade limit reached: '' @ dec_int trades @ '' '' @ geq_sign @ '' '' @ dec_int (tg_max_daily_trades T))
                  [(''trades_today'', VInt trades), (''limit'', VInt (tg_max_daily_trades T))]]))"

definition check_account_drawdown :: "trading_gate \<Rightarrow> pyfloat \<Rightarrow> check_result" where
  "check_account_drawdown T dd =
     (if dd \<le> tg_max_drawdown_percent T then (1, [])
      else (0, [failing ''DRAWDOWN_LIMIT''
                  (''Account drawdown '' @ fmt_fixed dd 1 @ ''% exceeds limit '' @ fmt_fixed (tg_max_drawdown_percent T) 1 @ ''%'')
                  [(''drawdown'', VFloat dd), (''limit'', VFloat (tg_max_drawdown_percent T))]]))"

text \<open>\<open>isinstance(e, dict) and e.get("blocking", False)\<close>.\<close>

fun is_blocking_event :: "pyval \<Rightarrow> bool" where
  "is_blocking_event (VDict d) = py_truthy (dget d ''blocking'' (VBool False))"
| "is_blocking_event _ = False"

definition check_events :: "pyval list \<Rightarrow> check_result" where
  "check_events events =
     (let blocking = filter is_blocking_event events
      in if events = [] then (1, [])
         else (0, if blocking \<noteq> []
                  then [failing ''BLOCKING_EVENTS'' (dec_int (int (length blocking)) @ '' blocking event(s) detected'')
                          [(''blocking_events'', VList blocking)]]
                  else []))"

section \<open>Validation\<close>

text \<open>The arguments of \<open>validate\<close>; no detected events and an empty list are the same to it.\<close>

record gate_input =
  gi_equity :: pyfloat
  gi_daily_pnl :: pyfloat
  gi_open_positions :: int
  gi_total_exposure :: pyfloat
  gi_margin_used :: pyfloat
  gi_confidence :: pyfloat
  gi_events :: "pyval list"
  gi_trades_today :: int
  gi_drawdown :: pyfloat

definition gate_checks :: "trading_gate \<Rightarrow> gate_input \<Rightarrow> check_result list" where
  "gate_checks T x =
     [check_equity (gi_equity x), check_loss T (gi_daily_pnl x), check_size T (gi_total_exposure x),
      check_exposure_pct T (gi_equity x) (gi_total_exposure x), check_margin_call T (gi_margin_used x),
      check_confidence T (gi_confidence x), check_trades T (gi_trades_today x),
      check_account_drawdown T (gi_drawdown x), check_events (gi_events x)]"

definition outcome_of :: "gate_error list \<Rightarrow> gate_result" where
  "outcome_of errors =
     (if filter ge_blocking errors \<noteq> [] then GR_BLOCK else if errors \<noteq> [] then GR_WARN else GR_PASS)"

definition gate_validate :: "string \<Rightarrow> trading_gate \<Rightarrow> gate_input \<Rightarrow> gate_validation" where
  "gate_validate now T x =
     (let cs = gate_checks T x; errors = concat (map snd cs)
      in \<lparr>gv_outcome = outcome_of errors, gv_errors = errors, gv_checked_at = now,
          gv_passed = sum_list (map fst cs), gv_total = length cs\<rparr>)"

definition check_account_safety ::
  "string \<Rightarrow> trading_gate \<Rightarrow> pyfloat \<Rightarrow> pyfloat \<Rightarrow> pyfloat \<Rightarrow> pyfloat \<Rightarrow> pyfloat \<Rightarrow> pyfloat \<Rightarrow> pydict" where
  "check_account_safety now T equity balance margin_used positions_value pnl dd =
     (let daily_ok = (pnl \<ge> - tg_max_daily_loss T); dd_ok = (dd \<le> tg_max_drawdown_percent T);
          margin_ok = (margin_used < tg_margin_threshold T); equity_ok = (equity > 0)
      in [(''account_equity'', VFloat equity), (''account_balance'', VFloat balance),
          (''margin_used_pct'', VFloat (margin_used * 100)),
          (''exposure_pct'', VFloat (if equity > 0 then positions_value / equity * 100 else 0)),
          (''daily_pnl'', VFloat pnl), (''current_drawdown_pct'', VFloat dd),
          (''safe'', VBool (daily_ok \<and> dd_ok \<and> margin_ok \<and> equity_ok)),
          (''flags'', VDict [(''daily_loss_ok'', VBool daily_ok), (''drawdown_ok'', VBool dd_ok),
             (''margin_ok'', VBool margin_ok), (''equity_ok'', VBool equity_ok)]),
          (''checks'', VDict [(''max_daily_loss'', VFloat (tg_max_daily_loss T)),
             (''max_drawdown_pct'', VFloat (tg_max_drawdown_percent T)),
             (''margin_threshold_pct'', VFloat (tg_margin_threshold T * 100))]),
          (''checked_at'', VStr now)])"

section \<open>Lemmas\<close>

lemmas nine_checks = check_equity_def check_loss_def check_size_def check_exposure_pct_def check_margin_call_def
  check_confidence_def check_trades_def check_account_drawdown_def check_events_def failing_def warning_def

text \<open>The limits whose breach blocks, and those whose breach only warns.\<close>

definition hard_limits_hold :: "trading_gate \<Rightarrow> gate_input \<Rightarrow> bool" where
  "hard_limits_hold T x \<longleftrightarrow>
     0 < gi_equity x \<and> - tg_max_daily_loss T \<le> gi_daily_pnl x \<and> gi_total_exposure x \<le> tg_max_position_size T \<and>
     \<not> (tg_auto_block T \<and> tg_margin_threshold T \<le> gi_margin_used x) \<and> gi_trades_today x < tg_max_daily_trades T \<and>
     gi_drawdown x \<le> tg_max_drawdown_percent T \<and> list_all (\<lambda>e. \<not> is_blocking_event e) (gi_events x)"

definition soft_limits_hold :: "trading_gate \<Rightarrow> gate_input \<Rightarrow> bool" where
  "soft_limits_hold T x \<longleftrightarrow>
     (gi_equity x \<le> 0 \<or> gi_total_exposure x / gi_equity x * 100 \<le> tg_max_exposure_percent T) \<and>
     (tg_auto_block T \<or> gi_margin_used x < tg_margin_threshold T) \<and> tg_min_confidence T \<le> gi_confidence x"

lemma hard_limits_iff:
  "hard_limits_hold T x \<longleftrightarrow> list_all (\<lambda>c. list_all (\<lambda>e. \<not> ge_blocking e) (snd c)) (gate_checks T x)"
  unfolding gate_checks_def hard_limits_hold_def
  by (simp add: nine_checks Let_def list_all_iff filter_empty_conv not_le)

lemma soft_limits_iff:
  "hard_limits_hold T x \<and> soft_limits_hold T x \<longleftrightarrow> list_all (\<lambda>c. snd c = []) (gate_checks T x)"
  unfolding gate_checks_def hard_limits_hold_def soft_limits_hold_def
  by (simp add: nine_checks Let_def list_all_iff filter_empty_conv not_le)

lemma outcome_cases:
  "outcome_of (concat ess) = GR_BLOCK \<longleftrightarrow> \<not> list_all (list_all (\<lambda>e. \<not> ge_blocking e)) ess"
  "outcome_of (concat ess) = GR_PASS \<longleftrightarrow> list_all (\<lambda>es. es = []) ess"
  by (auto simp: outcome_of_def list_all_iff filter_empty_conv)

section \<open>Properties\<close>

text \<open>
  The gate blocks exactly when a hard limit is broken (equity, daily loss, size, margin when it
  blocks, trades of the day, drawdown, blocking events), and reports the input safe exactly when
  the soft limits on exposure, margin and confidence hold as well.
\<close>

theorem gate_outcome_exact:
  "(gv_outcome (gate_validate now T x) = GR_BLOCK \<longleftrightarrow> \<not> hard_limits_hold T x) \<and>
   (is_safe (gate_validate now T x) \<longleftrightarrow> hard_limits_hold T x \<and> soft_limits_hold T x)"
proof -
  have "outcome_of (concat (map snd (gate_checks T x))) = GR_BLOCK \<longleftrightarrow> \<not> hard_limits_hold T x"
    unfolding hard_limits_iff outcome_cases by (simp add: list.pred_map o_def)
  moreover have "outcome_of (concat (map snd (gate_checks T x))) = GR_PASS
      \<longleftrightarrow> hard_limits_hold T x \<and> soft_limits_hold T x"
    unfolding soft_limits_iff outcome_cases by (simp add: list.pred_map o_def)
  ultimately show ?thesis by (simp add: gate_validate_def is_safe_def Let_def)
qed

text \<open>
  C36. The light safety check agrees with the gate: it says safe exactly when the gate raises none
  of its equity, daily loss, drawdown and margin findings on the same figures.
\<close>

theorem safety_check_agrees:
  assumes "codes = {''ACCT_EQUITY_INVALID'', ''DAILY_LOSS_LIMIT'', ''DRAWDOWN_LIMIT'', ''MARGIN_CALL'', ''MARGIN_CALL_WARN''}"
  shows "dget (check_account_safety now T (gi_equity x) balance (gi_margin_used x) v (gi_daily_pnl x) (gi_drawdown x))
           ''safe'' VNone = VBool (list_all (\<lambda>e. ge_code e \<notin> codes) (gv_errors (gate_validate now T x)))"
  unfolding assms gate_validate_def gate_checks_def
  by (simp add: check_account_safety_def nine_checks py_simps Let_def not_le)

lemma safety_check_agrees_witness:
  "dget (check_account_safety ''t'' gate_defaults 100 100 (9/10) 0 0 0) ''safe'' VNone = VBool False"
  using safety_check_agrees [OF refl, of "''t''" gate_defaults "\<lparr>gi_equity = 100, gi_daily_pnl = 0,
     gi_open_positions = 0, gi_total_exposure = 10, gi_margin_used = 9/10, gi_confidence = 1, gi_events = [],
     gi_trades_today = 0, gi_drawdown = 0\<rparr>" 100 0]
  by (simp add: gate_validate_def gate_checks_def nine_checks gate_defaults_def Let_def)

text \<open>
  The count of passed checks is not the verdict: with events that do not block, an input within
  every limit is safe although the gate counts only eight of its nine checks as passed.
\<close>

theorem safe_with_a_check_not_passed:
  assumes "hard_limits_hold T x" "soft_limits_hold T x" "gi_events x \<noteq> []"
  shows "is_safe (gate_validate now T x) \<and> gv_passed (gate_validate now T x) = 8 \<and> gv_total (gate_validate now T x) = 9"
proof -
  have "is_safe (gate_validate now T x)"
    using assms soft_limits_iff [of T x] outcome_cases(2) [of "map snd (gate_checks T x)"]
    by (simp add: gate_validate_def is_safe_def Let_def list.pred_map o_def)
  moreover have "gv_passed (gate_validate now T x) = 8"
    using assms unfolding hard_limits_hold_def soft_limits_hold_def
    by (auto simp: gate_validate_def gate_checks_def nine_checks Let_def)
  ultimately show ?thesis by (simp add: gate_validate_def gate_checks_def Let_def)
qed

lemma safe_with_a_check_not_passed_witness:
  "gv_passed (gate_validate ''t'' gate_defaults \<lparr>gi_equity = 100, gi_daily_pnl = 0,
     gi_open_positions = 0, gi_total_exposure = 10, gi_margin_used = 1/10, gi_confidence = 1, gi_events = [VDict []],
     gi_trades_today = 0, gi_drawdown = 0\<rparr>) = 8"
  using safe_with_a_check_not_passed [of gate_defaults "\<lparr>gi_equity = 100, gi_daily_pnl = 0,
     gi_open_positions = 0, gi_total_exposure = 10, gi_margin_used = 1/10, gi_confidence = 1, gi_events = [VDict []],
     gi_trades_today = 0, gi_drawdown = 0\<rparr>" "''t''"]
  by (simp add: hard_limits_hold_def soft_limits_hold_def gate_defaults_def py_simps)

end
