(* ===== verification/Reconcile.thy ===== *)
theory Reconcile
  imports Prelude
begin

text \<open>
  Reconciliation of the internal book with the broker's: \<open>execution/reconciliation.py\<close>. An item
  is the fields of a dictionary or object; a position whose volume, levels or magic number cannot
  be read as a number makes the whole comparison raise.
\<close>

section \<open>Report\<close>

record field_mismatch =
  fm_ticket :: int
  fm_field :: string
  fm_internal :: pyval
  fm_broker :: pyval

record recon_report =
  rr_matched :: "int list"
  rr_missing_in_broker :: "int list"
  rr_missing_internal :: "int list"
  rr_volume :: "field_mismatch list"
  rr_sltp :: "field_mismatch list"
  rr_symbol :: "field_mismatch list"
  rr_magic :: "field_mismatch list"
  rr_matched_orders :: "int list"
  rr_orphan_orders :: "int list"
  rr_checked_at :: string

definition empty_report :: recon_report where
  "empty_report = \<lparr>rr_matched = [], rr_missing_in_broker = [], rr_missing_internal = [], rr_volume = [],
     rr_sltp = [], rr_symbol = [], rr_magic = [], rr_matched_orders = [], rr_orphan_orders = [],
     rr_checked_at = []\<rparr>"

definition has_critical :: "recon_report \<Rightarrow> bool" where
  "has_critical r \<longleftrightarrow> rr_missing_in_broker r \<noteq> [] \<or> rr_missing_internal r \<noteq> [] \<or> rr_volume r \<noteq> []
     \<or> rr_sltp r \<noteq> [] \<or> rr_symbol r \<noteq> [] \<or> rr_magic r \<noteq> [] \<or> rr_orphan_orders r \<noteq> []"

definition total_mismatches :: "recon_report \<Rightarrow> nat" where
  "total_mismatches r = length (rr_missing_in_broker r) + length (rr_missing_internal r)
     + length (rr_volume r) + length (rr_sltp r) + length (rr_symbol r) + length (rr_magic r)
     + length (rr_orphan_orders r)"

text \<open>The kind and ticket of each entry of \<open>mismatch_list\<close>.\<close>

definition mismatch_entries :: "recon_report \<Rightarrow> (string \<times> int) list" where
  "mismatch_entries r =
     map (Pair ''missing_in_broker'') (rr_missing_in_broker r)
     @ map (Pair ''missing_internal'') (rr_missing_internal r)
     @ map (Pair ''orphan_orders'') (rr_orphan_orders r)
     @ map (\<lambda>m. (''volume_mismatches'', fm_ticket m)) (rr_volume r)
     @ map (\<lambda>m. (''sltp_mismatches'', fm_ticket m)) (rr_sltp r)
     @ map (\<lambda>m. (''symbol_mismatches'', fm_ticket m)) (rr_symbol r)
     @ map (\<lambda>m. (''magic_mismatches'', fm_ticket m)) (rr_magic r)"

text \<open>The two counts \<open>to_dict\<close> shows.\<close>

definition internal_count :: "recon_report \<Rightarrow> nat" where
  "internal_count r = length (rr_matched r) + length (rr_missing_internal r)"

definition broker_count :: "recon_report \<Rightarrow> nat" where
  "broker_count r = length (rr_matched r) + length (rr_missing_in_broker r)"

section \<open>Tickets\<close>

definition ticket_of :: "pydict \<Rightarrow> int option" where
  "ticket_of item =
     (let v = dget item ''ticket'' VNone; w = (if v = VNone then dget item ''id'' VNone else v)
      in if w = VNone then None else case py_int w of Inl e \<Rightarrow> None | Inr t \<Rightarrow> Some t)"

definition index_by_ticket :: "pydict list \<Rightarrow> (int \<times> pydict) list" where
  "index_by_ticket items =
     foldl (\<lambda>ix item. case ticket_of item of None \<Rightarrow> ix | Some t \<Rightarrow> AList.update t item ix) [] items"

definition tickets :: "(int \<times> pydict) list \<Rightarrow> int list" where
  "tickets ix = map fst ix"

definition sorted_both :: "(int \<times> pydict) list \<Rightarrow> (int \<times> pydict) list \<Rightarrow> int list" where
  "sorted_both a b = sort (remdups (filter (\<lambda>t. t \<in> set (tickets b)) (tickets a)))"

definition sorted_only :: "(int \<times> pydict) list \<Rightarrow> (int \<times> pydict) list \<Rightarrow> int list" where
  "sorted_only a b = sort (remdups (filter (\<lambda>t. t \<notin> set (tickets b)) (tickets a)))"

section \<open>Fields\<close>

definition float0 :: "pyval \<Rightarrow> pyerr + pyfloat" where
  "float0 v = py_float (py_or v (VFloat 0))"

definition int0 :: "pyval \<Rightarrow> pyerr + int" where
  "int0 v = py_int (py_or v (VInt 0))"

definition price_tol :: pyfloat where
  "price_tol = 1 / 10 ^ 9"

definition volume_field :: "pydict \<Rightarrow> pyval" where
  "volume_field p = dget p ''volume'' (dget p ''quantity'' (VFloat 0))"

definition volume_differs :: "pyfloat \<Rightarrow> pydict \<Rightarrow> pydict \<Rightarrow> pyerr + bool" where
  "volume_differs tol i b =
     bindE (float0 (volume_field i)) (\<lambda>x. bindE (float0 (volume_field b)) (\<lambda>y. Inr (\<bar>x - y\<bar> > tol)))"

text \<open>\<open>or\<close> evaluates the targets only when the stops agree.\<close>

definition level_differs :: "string \<Rightarrow> pydict \<Rightarrow> pydict \<Rightarrow> pyerr + bool" where
  "level_differs k i b =
     bindE (float0 (dget i k (VFloat 0))) (\<lambda>x. bindE (float0 (dget b k (VFloat 0))) (\<lambda>y.
       Inr (\<bar>x - y\<bar> > price_tol)))"

definition sltp_differs :: "pydict \<Rightarrow> pydict \<Rightarrow> pyerr + bool" where
  "sltp_differs i b =
     bindE (level_differs ''sl'' i b) (\<lambda>d. if d then Inr True else level_differs ''tp'' i b)"

definition symbol_differs :: "pydict \<Rightarrow> pydict \<Rightarrow> bool" where
  "symbol_differs i b \<longleftrightarrow>
     upper (py_text (dget i ''symbol'' (VStr []))) \<noteq> upper (py_text (dget b ''symbol'' (VStr [])))"

definition magic_differs :: "pydict \<Rightarrow> pydict \<Rightarrow> pyerr + bool" where
  "magic_differs i b =
     bindE (int0 (dget i ''magic'' (VInt 0))) (\<lambda>x. bindE (int0 (dget b ''magic'' (VInt 0))) (\<lambda>y.
       Inr (x \<noteq> y)))"

definition compare_fields :: "pyfloat \<Rightarrow> int \<Rightarrow> pydict \<Rightarrow> pydict \<Rightarrow> recon_report \<Rightarrow> pyerr + recon_report" where
  "compare_fields tol t i b r =
     bindE (volume_differs tol i b) (\<lambda>v. bindE (sltp_differs i b) (\<lambda>l. bindE (magic_differs i b) (\<lambda>m.
       Inr (r\<lparr>rr_volume := rr_volume r @
                (if v then [\<lparr>fm_ticket = t, fm_field = ''volume'', fm_internal = volume_field i,
                             fm_broker = volume_field b\<rparr>] else []),
              rr_sltp := rr_sltp r @
                (if l then [\<lparr>fm_ticket = t, fm_field = ''sl/tp'',
                    fm_internal = VList [dget i ''sl'' (VFloat 0), dget i ''tp'' (VFloat 0)],
                    fm_broker = VList [dget b ''sl'' (VFloat 0), dget b ''tp'' (VFloat 0)]\<rparr>] else []),
              rr_symbol := rr_symbol r @
                (if symbol_differs i b then [\<lparr>fm_ticket = t, fm_field = ''symbol'',
                    fm_internal = dget i ''symbol'' (VStr []), fm_broker = dget b ''symbol'' (VStr [])\<rparr>] else []),
              rr_magic := rr_magic r @
                (if m then [\<lparr>fm_ticket = t, fm_field = ''magic'', fm_internal = dget i ''magic'' (VInt 0),
                             fm_broker = dget b ''magic'' (VInt 0)\<rparr>] else [])\<rparr>))))"

section \<open>Comparison\<close>

fun compare_matched ::
  "pyfloat \<Rightarrow> (int \<times> pydict) list \<Rightarrow> (int \<times> pydict) list \<Rightarrow> int list \<Rightarrow> recon_report \<Rightarrow> pyerr + recon_report" where
  "compare_matched tol ix bx [] r = Inr r"
| "compare_matched tol ix bx (t # ts) r =
     bindE (compare_fields tol t (the (map_of ix t)) (the (map_of bx t)) (r\<lparr>rr_matched := rr_matched r @ [t]\<rparr>))
       (\<lambda>s. compare_matched tol ix bx ts s)"

definition compare_positions ::
  "pyfloat \<Rightarrow> pydict list \<Rightarrow> pydict list \<Rightarrow> recon_report \<Rightarrow> pyerr + recon_report" where
  "compare_positions tol internal broker r =
     (let ix = index_by_ticket internal; bx = index_by_ticket broker
      in bindE (compare_matched tol ix bx (sorted_both ix bx) r) (\<lambda>s.
         Inr (s\<lparr>rr_missing_in_broker := rr_missing_in_broker s @ sorted_only ix bx,
                rr_missing_internal := rr_missing_internal s @ sorted_only bx ix\<rparr>)))"

definition compare_orders :: "pydict list \<Rightarrow> pydict list \<Rightarrow> recon_report \<Rightarrow> recon_report" where
  "compare_orders internal broker r =
     (let ix = index_by_ticket internal; bx = index_by_ticket broker
      in r\<lparr>rr_matched_orders := rr_matched_orders r @ sorted_both ix bx,
           rr_orphan_orders := rr_orphan_orders r @ sorted_only bx ix,
           rr_missing_in_broker := sort (remdups (rr_missing_in_broker r @ sorted_only ix bx))\<rparr>)"

text \<open>All entries of one mismatch list are for the same field, so the ticket alone orders them.\<close>

definition sort_report :: "recon_report \<Rightarrow> recon_report" where
  "sort_report r =
     r\<lparr>rr_matched := sort (remdups (rr_matched r)), rr_matched_orders := sort (remdups (rr_matched_orders r)),
       rr_missing_in_broker := sort (remdups (rr_missing_in_broker r)),
       rr_missing_internal := sort (remdups (rr_missing_internal r)),
       rr_orphan_orders := sort (remdups (rr_orphan_orders r)),
       rr_volume := sort_key fm_ticket (rr_volume r), rr_sltp := sort_key fm_ticket (rr_sltp r),
       rr_symbol := sort_key fm_ticket (rr_symbol r), rr_magic := sort_key fm_ticket (rr_magic r)\<rparr>"

definition reconcile ::
  "pyfloat \<Rightarrow> pydict list \<Rightarrow> pydict list \<Rightarrow> pydict list \<Rightarrow> pydict list \<Rightarrow> pyerr + recon_report" where
  "reconcile tol int_pos brk_pos int_ord brk_ord =
     bindE (compare_positions tol int_pos brk_pos empty_report) (\<lambda>r.
       Inr (sort_report (compare_orders int_ord brk_ord r)))"

section \<open>Lemmas\<close>

lemma index_distinct: "distinct (tickets (index_by_ticket items))"
proof -
  have "distinct (map fst ix) \<Longrightarrow> distinct (map fst (foldl (\<lambda>ix item. case ticket_of item of None \<Rightarrow> ix
      | Some t \<Rightarrow> AList.update t item ix) ix items))" for ix
    by (induction items arbitrary: ix) (auto simp: distinct_update split: option.split)
  then show ?thesis by (simp add: index_by_ticket_def tickets_def)
qed

lemma set_sorted_both: "set (sorted_both a b) = set (tickets a) \<inter> set (tickets b)"
  by (auto simp: sorted_both_def)

lemma set_sorted_only: "set (sorted_only a b) = set (tickets a) - set (tickets b)"
  by (auto simp: sorted_only_def)

lemma distinct_sorted_both [simp]: "distinct (sorted_both a b)" "sorted (sorted_both a b)"
  by (simp_all add: sorted_both_def)

lemma distinct_sorted_only [simp]: "distinct (sorted_only a b)" "sorted (sorted_only a b)"
  by (simp_all add: sorted_only_def)

text \<open>Two positions agree on every compared field.\<close>

definition agree :: "pyfloat \<Rightarrow> pydict \<Rightarrow> pydict \<Rightarrow> bool" where
  "agree tol i b \<longleftrightarrow> volume_differs tol i b = Inr False \<and> sltp_differs i b = Inr False \<and> \<not> symbol_differs i b
     \<and> magic_differs i b = Inr False"

definition clean_fields :: "recon_report \<Rightarrow> bool" where
  "clean_fields r \<longleftrightarrow> rr_volume r = [] \<and> rr_sltp r = [] \<and> rr_symbol r = [] \<and> rr_magic r = []"

definition same_tickets :: "recon_report \<Rightarrow> recon_report \<Rightarrow> bool" where
  "same_tickets r s \<longleftrightarrow> rr_missing_in_broker r = rr_missing_in_broker s \<and> rr_missing_internal r = rr_missing_internal s
     \<and> rr_matched_orders r = rr_matched_orders s \<and> rr_orphan_orders r = rr_orphan_orders s"

lemma compare_fields_effect:
  assumes "compare_fields tol t i b r = Inr s"
  shows "rr_matched s = rr_matched r \<and> same_tickets r s \<and> (clean_fields s \<longleftrightarrow> clean_fields r \<and> agree tol i b)"
  using assms by (auto simp: compare_fields_def same_tickets_def clean_fields_def agree_def)

lemma compare_matched_effect:
  "compare_matched tol ix bx ts r = Inr s \<Longrightarrow>
   rr_matched s = rr_matched r @ ts \<and> same_tickets r s \<and>
   (clean_fields s \<longleftrightarrow> clean_fields r \<and> (\<forall>t\<in>set ts. agree tol (the (map_of ix t)) (the (map_of bx t))))"
proof (induction ts arbitrary: r)
  case Nil
  then show ?case by (simp add: same_tickets_def)
next
  case (Cons t ts)
  from Cons.prems obtain u where
    u: "compare_fields tol t (the (map_of ix t)) (the (map_of bx t)) (r\<lparr>rr_matched := rr_matched r @ [t]\<rparr>) = Inr u"
    and s: "compare_matched tol ix bx ts u = Inr s" by auto
  have upd: "same_tickets (r\<lparr>rr_matched := x\<rparr>) u = same_tickets r u" "clean_fields (r\<lparr>rr_matched := x\<rparr>) = clean_fields r" for x
    by (simp_all add: same_tickets_def clean_fields_def)
  from compare_fields_effect [OF u] Cons.IH [OF s] show ?case
    by (auto simp: upd same_tickets_def)
qed

lemma reconcile_effect:
  assumes "reconcile tol ip bp io bo = Inr r"
  defines "ix \<equiv> index_by_ticket ip" and "bx \<equiv> index_by_ticket bp"
    and "iox \<equiv> index_by_ticket io" and "box \<equiv> index_by_ticket bo"
  shows "rr_matched r = sorted_both ix bx" "rr_missing_internal r = sorted_only bx ix"
    "rr_missing_in_broker r = sort (remdups (sorted_only ix bx @ sorted_only iox box))"
    "rr_orphan_orders r = sorted_only box iox" "rr_matched_orders r = sorted_both iox box"
    "clean_fields r \<longleftrightarrow> (\<forall>t\<in>set (tickets ix) \<inter> set (tickets bx). agree tol (the (map_of ix t)) (the (map_of bx t)))"
proof -
  from assms(1) obtain s where s: "compare_matched tol ix bx (sorted_both ix bx) empty_report = Inr s"
    and r: "r = sort_report (compare_orders io bo (s\<lparr>rr_missing_in_broker := rr_missing_in_broker s @ sorted_only ix bx,
                rr_missing_internal := rr_missing_internal s @ sorted_only bx ix\<rparr>))"
    by (auto simp: reconcile_def compare_positions_def ix_def bx_def Let_def)
  note e = compare_matched_effect [OF s]
  from e have t: "rr_matched s = sorted_both ix bx" "rr_missing_in_broker s = []" "rr_missing_internal s = []"
      "rr_matched_orders s = []" "rr_orphan_orders s = []"
    by (auto simp: empty_report_def same_tickets_def)
  have fix_sort: "distinct xs \<Longrightarrow> sorted xs \<Longrightarrow> sort (remdups xs) = xs" for xs :: "int list"
    by (simp add: distinct_remdups_id sorted_sort_id)
  show "rr_matched r = sorted_both ix bx" "rr_missing_internal r = sorted_only bx ix"
    "rr_missing_in_broker r = sort (remdups (sorted_only ix bx @ sorted_only iox box))"
    "rr_orphan_orders r = sorted_only box iox" "rr_matched_orders r = sorted_both iox box"
    by (simp_all add: r sort_report_def compare_orders_def t fix_sort iox_def box_def Let_def)
  have "clean_fields r \<longleftrightarrow> clean_fields s"
    by (simp add: r sort_report_def compare_orders_def clean_fields_def Let_def flip: length_0_conv)
  also have "\<dots> \<longleftrightarrow> (\<forall>t\<in>set (tickets ix) \<inter> set (tickets bx). agree tol (the (map_of ix t)) (the (map_of bx t)))"
    using e by (simp add: clean_fields_def empty_report_def set_sorted_both)
  finally show "clean_fields r \<longleftrightarrow> (\<forall>t\<in>set (tickets ix) \<inter> set (tickets bx). agree tol (the (map_of ix t)) (the (map_of bx t)))" .
qed

lemma critical_iff: "has_critical r \<longleftrightarrow> rr_missing_in_broker r \<noteq> [] \<or> rr_missing_internal r \<noteq> []
    \<or> rr_orphan_orders r \<noteq> [] \<or> \<not> clean_fields r"
  by (auto simp: has_critical_def clean_fields_def)

lemma clean_report_iff:
  assumes "reconcile tol ip bp io bo = Inr r"
    and "ix = index_by_ticket ip" "bx = index_by_ticket bp"
  shows "\<not> has_critical r \<longleftrightarrow>
    set (tickets ix) = set (tickets bx) \<and>
    set (tickets (index_by_ticket io)) = set (tickets (index_by_ticket bo)) \<and>
    list_all (\<lambda>t. agree tol (the (map_of ix t)) (the (map_of bx t))) (tickets ix)"
proof -
  note e = reconcile_effect [OF assms(1), folded assms(2,3)]
  have nil: "sort (remdups xs) = [] \<longleftrightarrow> set xs = {}" for xs :: "int list"
    by (metis set_empty set_remdups set_sort)
  have only: "sorted_only a b = [] \<longleftrightarrow> set (tickets a) \<subseteq> set (tickets b)" for a b
    by (metis Diff_eq_empty_iff set_empty set_sorted_only)
  show ?thesis
    unfolding critical_iff e nil by (auto simp: only list_all_iff set_sorted_only)
qed

section \<open>Properties\<close>

text \<open>
  C25. A comparison raises no alarm exactly when both sides hold the same position tickets and the
  same order tickets, and every position agrees on volume, levels, symbol and magic number within
  the tolerances.
\<close>

theorem no_alarm_iff_books_agree:
  assumes "reconcile tol ip bp io bo = Inr r"
    and "ix = index_by_ticket ip" "bx = index_by_ticket bp"
  shows "\<not> has_critical r \<longleftrightarrow>
    set (tickets ix) = set (tickets bx) \<and>
    set (tickets (index_by_ticket io)) = set (tickets (index_by_ticket bo)) \<and>
    list_all (\<lambda>t. agree tol (the (map_of ix t)) (the (map_of bx t))) (tickets ix)"
  by (rule clean_report_iff [OF assms])

definition demo_internal :: "pydict list" where
  "demo_internal = [[(''ticket'', VInt 7), (''volume'', VFloat (1/10)), (''symbol'', VStr ''EURUSD'')],
     [(''id'', VStr ''9''), (''quantity'', VInt 1)]]"

definition demo_broker :: "pydict list" where
  "demo_broker = [[(''ticket'', VInt 7), (''volume'', VFloat (1/10)), (''symbol'', VStr ''EURUSD''), (''sl'', VFloat 0)]]"

lemmas recon_eval = reconcile_def compare_positions_def compare_orders_def sort_report_def empty_report_def
  index_by_ticket_def ticket_of_def tickets_def sorted_both_def sorted_only_def compare_fields_def
  volume_differs_def volume_field_def sltp_differs_def level_differs_def symbol_differs_def magic_differs_def
  float0_def int0_def price_tol_def demo_internal_def demo_broker_def parse_int_def strip_def is_space_def
  read_sign_def digit_val_def digits_nat_def py_simps py_text_def

definition demo_report :: recon_report where
  "demo_report = empty_report\<lparr>rr_matched := [7], rr_missing_in_broker := [9]\<rparr>"

lemma demo_reconcile: "reconcile (1 / 10 ^ 6) demo_internal demo_broker [] [] = Inr demo_report"
  by (simp add: recon_eval demo_report_def)

lemma no_alarm_iff_books_agree_witness:
  "has_critical demo_report \<longleftrightarrow> \<not> set (tickets (index_by_ticket demo_internal)) \<subseteq> set (tickets (index_by_ticket demo_broker))"
  using no_alarm_iff_books_agree [OF demo_reconcile refl refl]
  by (auto simp: recon_eval demo_report_def has_critical_def)

text \<open>
  The lists of a report are the exact differences of the two books, sorted and without
  repetition, and the number of mismatches is positive exactly when the report is critical.
\<close>

theorem report_is_exact:
  assumes "reconcile tol ip bp io bo = Inr r"
    and "I = set (tickets (index_by_ticket ip))" "B = set (tickets (index_by_ticket bp))"
    and "J = set (tickets (index_by_ticket io))" "C = set (tickets (index_by_ticket bo))"
  shows "set (rr_matched r) = I \<inter> B \<and> set (rr_missing_internal r) = B - I \<and>
    set (rr_missing_in_broker r) = (I - B) \<union> (J - C) \<and> set (rr_orphan_orders r) = C - J \<and>
    sorted (rr_matched r) \<and> distinct (rr_matched r) \<and> sorted (rr_missing_in_broker r) \<and>
    distinct (rr_missing_in_broker r) \<and>
    (has_critical r \<longleftrightarrow> 0 < total_mismatches r) \<and> length (mismatch_entries r) = total_mismatches r"
proof -
  note e = reconcile_effect [OF assms(1)]
  have "has_critical r \<longleftrightarrow> 0 < total_mismatches r" by (auto simp: has_critical_def total_mismatches_def)
  then show ?thesis
    unfolding assms(2-5)
    by (auto simp: e(1-5) set_sorted_both set_sorted_only mismatch_entries_def total_mismatches_def)
qed

lemma report_is_exact_witness:
  "0 < total_mismatches demo_report"
  using report_is_exact [OF demo_reconcile refl refl refl refl]
  by (simp add: demo_report_def has_critical_def empty_report_def)

text \<open>
  The counts a report shows are swapped: the one labelled internal is the number of positions
  of the broker, and the one labelled broker is at least the number of internal positions.
\<close>

theorem counts_are_swapped:
  assumes "reconcile tol ip bp io bo = Inr r"
  shows "internal_count r = card (set (tickets (index_by_ticket bp))) \<and>
         card (set (tickets (index_by_ticket ip))) \<le> broker_count r"
proof -
  let ?I = "set (tickets (index_by_ticket ip))" and ?B = "set (tickets (index_by_ticket bp))"
  note e = reconcile_effect [OF assms]
  have len: "distinct xs \<Longrightarrow> length xs = card (set xs)" for xs :: "int list"
    by (simp add: distinct_card)
  have both: "length (rr_matched r) = card (?I \<inter> ?B)" by (simp add: e(1) len set_sorted_both)
  have "length (rr_missing_internal r) = card (?B - ?I)" by (simp add: e(2) len set_sorted_only)
  moreover have "card ?B = card (?I \<inter> ?B) + card (?B - ?I)"
    by (metis Int_commute List.finite_set card_Int_Diff)
  ultimately have 1: "internal_count r = card ?B" using both by (simp add: internal_count_def)
  have "card (?I - ?B) \<le> length (rr_missing_in_broker r)"
    unfolding e(3) length_sort by (metis List.finite_set Un_upper1 card_mono length_remdups_card_conv
        set_append set_sorted_only)
  moreover have "card ?I = card (?I \<inter> ?B) + card (?I - ?B)" by (simp add: card_Int_Diff)
  ultimately have 2: "card ?I \<le> broker_count r" using both by (simp add: broker_count_def)
  from 1 2 show ?thesis ..
qed

lemma counts_are_swapped_witness:
  "internal_count demo_report = 1 \<and> card (set (tickets (index_by_ticket demo_internal))) = 2"
  using counts_are_swapped [OF demo_reconcile] by (simp add: recon_eval)

end
