(* ===== verification/Recovery.thy ===== *)
theory Recovery
  imports Order_State Reconcile
begin

text \<open>
  Recovery after a restart: the sequence and its gate (\<open>execution/restart_recovery.py\<close>), the
  wiring to the order ledger and the broker (\<open>system/startup_checks.py\<close>,
  \<open>execution/reconciliation_providers.py\<close>), and the periodic reconciliation with its guard
  (\<open>execution/reconciliation_runner.py\<close>). What an injected function returns in a run is a value
  of the environment; a raise of it is its text.
\<close>

section \<open>Readings of the broker\<close>

datatype reading =
    ReadRaised string
  | ReadPair pyval pyval   \<comment> \<open>a tuple of a flag and the items\<close>
  | ReadBare pyval

text \<open>\<open>list(v or [])\<close>.\<close>

definition list_or_empty :: "pyval \<Rightarrow> pyerr + pyval list" where
  "list_or_empty v =
     (if \<not> py_truthy v then Inr []
      else case v of
          VList xs \<Rightarrow> Inr xs
        | VStr s \<Rightarrow> Inr (map (\<lambda>c. VStr [c]) s)
        | VDict d \<Rightarrow> Inr (map (VStr \<circ> fst) d)
        | _ \<Rightarrow> Inl TypeError)"

fun read_with_verification :: "reading \<Rightarrow> pyerr + pyval list \<times> bool" where
  "read_with_verification (ReadRaised x) = Inr ([], False)"
| "read_with_verification (ReadPair ok items) = bindE (list_or_empty items) (\<lambda>xs. Inr (xs, py_truthy ok))"
| "read_with_verification (ReadBare v) = bindE (list_or_empty v) (\<lambda>xs. Inr (xs, True))"

text \<open>\<open>_field\<close>: plain values other than dictionaries have none of the attributes asked for.\<close>

fun field_of :: "pyval \<Rightarrow> string \<Rightarrow> pyval \<Rightarrow> pyval" where
  "field_of (VDict d) k dflt = dget d k dflt"
| "field_of _ k dflt = dflt"

definition open_states :: "string list" where
  "open_states = [''position_confirmed'', ''filled'', ''submitted'', ''acknowledged'', ''unknown'', ''submitting'']"

definition intent_is_open :: "pyval \<Rightarrow> bool" where
  "intent_is_open r \<longleftrightarrow> lower (py_text (field_of r ''state'' (VStr []))) \<in> set open_states"

section \<open>Adoption\<close>

definition no_value :: "pyval \<Rightarrow> bool" where
  "no_value v \<longleftrightarrow> v = VNone \<or> v = VStr []"

text \<open>
  The text of a ticket, as a key: two values have the same key exactly when their texts agree.
\<close>

definition ticket_key :: "pyval \<Rightarrow> pyval" where
  "ticket_key v = (case py_str v of Some t \<Rightarrow> VStr t | None \<Rightarrow> v)"

definition broker_keys :: "pyval list \<Rightarrow> pyval list" where
  "broker_keys items =
     map ticket_key (filter (\<lambda>v. \<not> no_value v)
       (concat (map (\<lambda>x. map (\<lambda>k. field_of x k VNone) [''ticket'', ''order'', ''deal'', ''position_id'', ''position'']) items)))"

definition intent_ticket :: "pyval \<Rightarrow> pyval option" where
  "intent_ticket r =
     find (\<lambda>v. \<not> no_value v)
       (map (\<lambda>k. field_of r k VNone)
          [''broker_position_ticket'', ''broker_order_ticket'', ''broker_deal_ticket'', ''ticket''])"

definition match_intents_to_broker :: "pyval list \<Rightarrow> pyval list \<Rightarrow> pyval list \<Rightarrow> pyval list \<Rightarrow> string list" where
  "match_intents_to_broker intents positions orders deals =
     (let keys = broker_keys (positions @ orders @ deals)
      in map (\<lambda>r. py_text (py_or (field_of r ''intent_id'' (VStr [])) (VStr [])))
           (filter (\<lambda>r. case intent_ticket r of None \<Rightarrow> False | Some t \<Rightarrow> ticket_key t \<in> set keys) intents))"

section \<open>The answer of the reconciler\<close>

datatype rec_answer =
    RecNone
  | RecReport "string + pyval" "string + pyval"   \<comment> \<open>\<open>has_critical()\<close>, \<open>total_mismatches()\<close>\<close>
  | RecDict pydict
  | RecOther

fun is_critical :: "rec_answer \<Rightarrow> bool" where
  "is_critical RecNone = True"
| "is_critical (RecReport hc n) = (case hc of Inl x \<Rightarrow> True | Inr v \<Rightarrow> py_truthy v)"
| "is_critical (RecDict d) =
     (case map_of d ''critical'' of Some v \<Rightarrow> py_truthy v | None \<Rightarrow> py_truthy (dget d ''total_mismatches'' (VInt 0)))"
| "is_critical RecOther = False"

fun mismatch_count :: "rec_answer \<Rightarrow> pyerr + int" where
  "mismatch_count RecNone = Inr 0"
| "mismatch_count (RecReport hc n) =
     Inr (case n of Inl x \<Rightarrow> 0 | Inr v \<Rightarrow> (case py_int v of Inl e \<Rightarrow> 0 | Inr i \<Rightarrow> i))"
| "mismatch_count (RecDict d) = py_int (py_or (dget d ''total_mismatches'' (VInt 0)) (VInt 0))"
| "mismatch_count RecOther = Inr 0"

section \<open>The recovery sequence\<close>

datatype recovery_state = RecPending | RecReconciled | RecBlocked

record recovery_report =
  rp_state :: recovery_state
  rp_steps :: "string list"
  rp_connected :: bool
  rp_read_verified :: bool
  rp_positions :: nat
  rp_orders :: nat
  rp_recovered :: nat
  rp_adopted :: "string list"
  rp_reconciled_ok :: bool
  rp_critical :: int
  rp_reason :: string

definition fresh_report :: recovery_report where
  "fresh_report = \<lparr>rp_state = RecPending, rp_steps = [], rp_connected = False, rp_read_verified = False,
     rp_positions = 0, rp_orders = 0, rp_recovered = 0, rp_adopted = [], rp_reconciled_ok = False,
     rp_critical = 0, rp_reason = []\<rparr>"

definition permits_execution :: "recovery_report \<Rightarrow> bool" where
  "permits_execution r \<longleftrightarrow> rp_state r = RecReconciled"

definition step :: "string \<Rightarrow> recovery_report \<Rightarrow> recovery_report" where
  "step name r = r\<lparr>rp_steps := rp_steps r @ [name]\<rparr>"

definition because :: "string \<Rightarrow> recovery_report \<Rightarrow> recovery_report" where
  "because text r = r\<lparr>rp_reason := text\<rparr>"

record recovery_env =
  rv_load :: "string + pyval"
  rv_connect :: "string + pyval"
  rv_positions :: reading
  rv_orders :: reading
  rv_deals :: "(string + pyval) option"
  rv_reconcile :: "(pyval list \<Rightarrow> string + rec_answer) option"
  rv_rebuild :: "(pyval list \<Rightarrow> pyval list \<Rightarrow> string option) option"
  rv_err :: "pyerr \<Rightarrow> string"

definition recover_rebuild :: "recovery_env \<Rightarrow> pyval list \<Rightarrow> pyval list \<Rightarrow> recovery_report \<Rightarrow> recovery_report" where
  "recover_rebuild E intents positions r =
     (let finish = step ''reconciled'' (because (''restart recovery complete '' @ em_dash
                     @ '' broker and internal state converged'')
                     ((step ''rebuild_internal_state'' r)\<lparr>rp_state := RecReconciled\<rparr>))
      in case rv_rebuild E of
           None \<Rightarrow> finish
         | Some f \<Rightarrow>
             (case f intents positions of
                None \<Rightarrow> finish
              | Some x \<Rightarrow> because (''state rebuild failed: '' @ x @ '' (fail-closed)'') r))"

definition recover_reconcile :: "recovery_env \<Rightarrow> pyval list \<Rightarrow> pyval list \<Rightarrow> recovery_report \<Rightarrow> recovery_report" where
  "recover_reconcile E intents positions r0 =
     (let r = step ''reconcile'' r0;
          failed = (\<lambda>x. because (''reconciliation failed: '' @ x @ '' (fail-closed)''))
      in case rv_reconcile E of
           None \<Rightarrow> recover_rebuild E intents positions (r\<lparr>rp_reconciled_ok := True\<rparr>)
         | Some f \<Rightarrow>
             (case f intents of
                Inl x \<Rightarrow> failed x r
              | Inr rec \<Rightarrow>
                  (let r1 = r\<lparr>rp_reconciled_ok := \<not> is_critical rec\<rparr>
                   in case mismatch_count rec of
                        Inl e \<Rightarrow> failed (rv_err E e) r1
                      | Inr n \<Rightarrow>
                          (let r2 = r1\<lparr>rp_critical := n\<rparr>
                           in if is_critical rec
                              then because (''reconciliation found '' @ dec_int n @ '' critical mismatch(es) '' @ em_dash
                                     @ '' new orders blocked until state converges'') r2
                              else recover_rebuild E intents positions r2))))"

definition recover_adopted :: "recovery_env \<Rightarrow> pyval list \<Rightarrow> pyval list \<Rightarrow> pyval list \<Rightarrow> string list" where
  "recover_adopted E open_intents positions orders =
     (case rv_deals E of
        Some (Inr v) \<Rightarrow>
          (case list_or_empty v of Inl e \<Rightarrow> [] | Inr deals \<Rightarrow> match_intents_to_broker open_intents positions orders deals)
      | _ \<Rightarrow> [])"

definition recover_reads :: "recovery_env \<Rightarrow> pyval list \<Rightarrow> recovery_report \<Rightarrow> pyerr + recovery_report" where
  "recover_reads E intents r =
     bindE (read_with_verification (rv_positions E)) (\<lambda>(positions, pos_ok).
       let r1 = step ''read_open_positions'' r
       in if \<not> pos_ok
          then Inr (because (''broker positions read failed '' @ em_dash
                 @ '' cannot prove broker=empty (fail-closed, internal-empty != broker-empty)'') r1)
          else bindE (read_with_verification (rv_orders E)) (\<lambda>(orders, ord_ok).
            let r2 = step ''read_orders_deals'' (r1\<lparr>rp_read_verified := True, rp_positions := length positions\<rparr>)
            in if \<not> ord_ok
               then Inr (because (''broker orders read failed '' @ em_dash @ '' state uncertain (fail-closed)'') r2)
               else Inr (recover_reconcile E intents positions
                      (r2\<lparr>rp_orders := length orders,
                          rp_adopted := recover_adopted E (filter intent_is_open intents) positions orders\<rparr>))))"

definition load_intents :: "recovery_env \<Rightarrow> string + pyval list" where
  "load_intents E = (case rv_load E of
      Inl x \<Rightarrow> Inl x
    | Inr v \<Rightarrow> (case list_or_empty v of Inl e \<Rightarrow> Inl (rv_err E e) | Inr xs \<Rightarrow> Inr xs))"

definition connected :: "recovery_env \<Rightarrow> bool" where
  "connected E \<longleftrightarrow> (case rv_connect E of Inl x \<Rightarrow> False | Inr v \<Rightarrow> py_truthy v)"

definition recover :: "recovery_env \<Rightarrow> pyerr + recovery_report" where
  "recover E =
     (let r = step ''start'' (fresh_report\<lparr>rp_state := RecBlocked\<rparr>)
      in case load_intents E of
           Inl x \<Rightarrow> Inr (because (''failed to load durable intents: '' @ x) r)
         | Inr intents \<Rightarrow>
             (let r1 = step ''connect_mt5''
                    ((step ''load_durable_intents'' r)\<lparr>rp_recovered := length (filter intent_is_open intents),
                       rp_connected := connected E\<rparr>)
              in if \<not> connected E
                 then Inr (because (''MT5 not connected '' @ em_dash @ '' broker state unverified (fail-closed)'') r1)
                 else recover_reads E intents r1))"

text \<open>The coordinator keeps the report of its last run that returned.\<close>

definition run_recovery :: "recovery_env \<Rightarrow> recovery_report \<Rightarrow> (pyerr + recovery_report) \<times> recovery_report" where
  "run_recovery E old = (case recover E of Inl e \<Rightarrow> (Inl e, old) | Inr r \<Rightarrow> (Inr r, r))"

definition check_can_execute :: "recovery_report \<Rightarrow> bool \<times> string" where
  "check_can_execute r =
     (if permits_execution r then (True, [])
      else if rp_state r = RecBlocked
      then (False, if rp_reason r = [] then ''restart recovery blocked new orders'' else rp_reason r)
      else (False, ''restart recovery pending '' @ em_dash @ '' broker state not yet reconciled''))"

section \<open>The wiring to the ledger and the broker\<close>

text \<open>\<open>internal_positions_from_store\<close>: the record inserted last for each ticket.\<close>

definition latest_by_ticket :: "(string \<times> pydict) list \<Rightarrow> (pyval \<times> pydict) list" where
  "latest_by_ticket store =
     foldl (\<lambda>m (i, r). if dget r ''ticket'' VNone = VNone then m
                       else AList.update (ticket_key (dget r ''ticket'' VNone)) r m) [] store"

definition position_states :: "string list" where
  "position_states = [''position_confirmed'', ''filled'']"

definition position_of :: "pydict \<Rightarrow> pydict" where
  "position_of r = [(''ticket'', dget r ''ticket'' VNone), (''symbol'', dget r ''symbol'' (VStr [])),
     (''volume'', dget r ''volume'' VNone)]"

definition internal_positions :: "(string \<times> pydict) list \<Rightarrow> pydict list" where
  "internal_positions store =
     map (position_of \<circ> snd) (filter (\<lambda>(k, r). record_state r \<in> set position_states) (latest_by_ticket store))"

text \<open>
  \<open>_build_restart_coordinator\<close>: the ledger's records are the intents; the positions are read once
  in the sequence and once more for the reconciliation, whose flag is not looked at. Outside live
  mode four empty books are compared.
\<close>

definition comparison_answer :: "(pyerr \<Rightarrow> string) \<Rightarrow> pyerr + recon_report \<Rightarrow> string + rec_answer" where
  "comparison_answer err c = (case c of
      Inl e \<Rightarrow> Inl (err e)
    | Inr r \<Rightarrow> Inr (RecReport (Inr (VBool (has_critical r))) (Inr (VInt (int (total_mismatches r))))))"

definition dict_items :: "pyval list \<Rightarrow> pydict list" where
  "dict_items xs = map (\<lambda>x. case x of VDict d \<Rightarrow> d | _ \<Rightarrow> []) xs"

definition startup_reconcile ::
  "(pyerr \<Rightarrow> string) \<Rightarrow> pyfloat \<Rightarrow> bool \<Rightarrow> (string \<times> pydict) list \<Rightarrow> reading \<Rightarrow> pyval list \<Rightarrow> string + rec_answer" where
  "startup_reconcile err tol live store second intents =
     (if \<not> live then comparison_answer err (reconcile tol [] [] [] [])
      else case second of
          ReadRaised x \<Rightarrow> Inl x
        | ReadPair ok items \<Rightarrow>
            (case list_or_empty items of Inl e \<Rightarrow> Inl (err e)
             | Inr xs \<Rightarrow> comparison_answer err (reconcile tol (internal_positions store) (dict_items xs) [] []))
        | ReadBare items \<Rightarrow>
            (case list_or_empty items of Inl e \<Rightarrow> Inl (err e)
             | Inr xs \<Rightarrow> comparison_answer err (reconcile tol (internal_positions store) (dict_items xs) [] [])))"

definition startup_env ::
  "(pyerr \<Rightarrow> string) \<Rightarrow> pyfloat \<Rightarrow> bool \<Rightarrow> bool \<Rightarrow> (string \<times> pydict) list \<Rightarrow> reading \<Rightarrow> reading \<Rightarrow> reading \<Rightarrow> recovery_env" where
  "startup_env err tol available live store first second orders =
     \<lparr>rv_load = Inr (VList (map (VDict \<circ> snd) store)), rv_connect = Inr (VBool available),
      rv_positions = first, rv_orders = orders, rv_deals = Some (Inr (VList [])),
      rv_reconcile = Some (startup_reconcile err tol live store second), rv_rebuild = None, rv_err = err\<rparr>"

section \<open>Periodic reconciliation\<close>

record runner =
  rn_interval :: nat
  rn_limit :: nat
  rn_cycles :: nat
  rn_runs :: nat
  rn_errors :: nat
  rn_last_ok :: bool
  rn_history :: "recon_report list"

definition new_runner :: "int \<Rightarrow> int \<Rightarrow> runner" where
  "new_runner interval limit =
     \<lparr>rn_interval = nat (max 1 interval), rn_limit = nat (max 1 limit), rn_cycles = 0, rn_runs = 0, rn_errors = 0,
      rn_last_ok = True, rn_history = []\<rparr>"

text \<open>\<open>deque.append\<close> with a maximal length drops the oldest entry.\<close>

definition bounded_append :: "nat \<Rightarrow> 'a list \<Rightarrow> 'a \<Rightarrow> 'a list" where
  "bounded_append n xs x = (let ys = xs @ [x] in drop (length ys - n) ys)"

text \<open>What the providers and the comparison give in a run, with the clock; any raise counts as an error.\<close>

definition run_once :: "string \<Rightarrow> pyerr + recon_report \<Rightarrow> runner \<Rightarrow> recon_report option \<times> runner" where
  "run_once now result st0 =
     (let st = st0\<lparr>rn_runs := Suc (rn_runs st0)\<rparr>
      in case result of
           Inl e \<Rightarrow> (None, st\<lparr>rn_errors := Suc (rn_errors st), rn_last_ok := False\<rparr>)
         | Inr r0 \<Rightarrow>
             (let r = r0\<lparr>rr_checked_at := now\<rparr>
              in (Some r, st\<lparr>rn_last_ok := \<not> has_critical r,
                             rn_history := bounded_append (rn_limit st) (rn_history st) r\<rparr>)))"

definition tick_runner :: "string \<Rightarrow> pyerr + recon_report \<Rightarrow> runner \<Rightarrow> recon_report option \<times> runner" where
  "tick_runner now result st0 =
     (let st = st0\<lparr>rn_cycles := Suc (rn_cycles st0)\<rparr>
      in if rn_cycles st mod rn_interval st \<noteq> 0 then (None, st) else run_once now result st)"

definition guard_can_execute :: "runner \<Rightarrow> bool \<times> string" where
  "guard_can_execute st =
     (if rn_last_ok st then (True, [])
      else (False, ''execution blocked '' @ em_dash @ '' reconciliation mismatch (internal state != MT5)''))"

section \<open>Lemmas\<close>

definition clean_read :: "reading \<Rightarrow> pyval list \<Rightarrow> bool" where
  "clean_read rd xs \<longleftrightarrow> read_with_verification rd = Inr (xs, True)"

lemma report_frame [simp]:
  "rp_state (step n r) = rp_state r" "rp_state (because x r) = rp_state r"
  by (simp_all add: step_def because_def)

lemma rebuild_permits:
  assumes "rp_state r = RecBlocked"
  shows "permits_execution (recover_rebuild E intents ps r) \<longleftrightarrow>
    (case rv_rebuild E of None \<Rightarrow> True | Some f \<Rightarrow> f intents ps = None)"
  using assms by (simp add: recover_rebuild_def permits_execution_def Let_def split: option.split)

lemma reconcile_permits:
  assumes "rp_state r = RecBlocked"
  shows "permits_execution (recover_reconcile E intents ps r) \<longleftrightarrow>
    (case rv_reconcile E of None \<Rightarrow> True
     | Some f \<Rightarrow> (case f intents of Inl x \<Rightarrow> False | Inr rec \<Rightarrow> \<not> is_critical rec \<and> \<not> isl (mismatch_count rec)))
    \<and> (case rv_rebuild E of None \<Rightarrow> True | Some f \<Rightarrow> f intents ps = None)"
proof -
  have b: "permits_execution (recover_rebuild E intents ps q) \<longleftrightarrow>
      (case rv_rebuild E of None \<Rightarrow> True | Some f \<Rightarrow> f intents ps = None)" if "rp_state q = RecBlocked" for q
    by (rule rebuild_permits [OF that])
  have n: "\<not> permits_execution q" if "rp_state q = RecBlocked" for q
    using that by (simp add: permits_execution_def)
  show ?thesis
    using assms by (simp add: recover_reconcile_def Let_def b n split: option.split sum.split)
qed

lemma reads_permit:
  assumes "rp_state r = RecBlocked" "recover_reads E intents r = Inr q"
  shows "permits_execution q \<longleftrightarrow> (\<exists>ps os. clean_read (rv_positions E) ps \<and> clean_read (rv_orders E) os
    \<and> (case rv_reconcile E of None \<Rightarrow> True
       | Some f \<Rightarrow> (case f intents of Inl x \<Rightarrow> False | Inr rec \<Rightarrow> \<not> is_critical rec \<and> \<not> isl (mismatch_count rec)))
    \<and> (case rv_rebuild E of None \<Rightarrow> True | Some f \<Rightarrow> f intents ps = None))"
proof -
  from assms(2) obtain ps ok where p: "read_with_verification (rv_positions E) = Inr (ps, ok)"
    by (auto simp: recover_reads_def)
  show ?thesis
  proof (cases ok)
    case False
    with assms p show ?thesis
      by (auto simp: recover_reads_def clean_read_def permits_execution_def Let_def)
  next
    case True
    with assms(2) p obtain os k where o: "read_with_verification (rv_orders E) = Inr (os, k)"
      by (auto simp: recover_reads_def Let_def)
    show ?thesis
    proof (cases k)
      case False
      with assms p o True show ?thesis
        by (auto simp: recover_reads_def clean_read_def permits_execution_def Let_def)
    next
      case k: True
      define v where "v = step ''read_orders_deals'' (step ''read_open_positions'' r
          \<lparr>rp_read_verified := True, rp_positions := length ps\<rparr>)\<lparr>rp_orders := length os,
          rp_adopted := recover_adopted E (filter intent_is_open intents) ps os\<rparr>"
      from k assms p o True have "rp_state v = RecBlocked" "q = recover_reconcile E intents ps v"
        by (simp_all add: v_def recover_reads_def step_def Let_def)
      with reconcile_permits [of v E intents ps] p o True k show ?thesis by (simp add: clean_read_def)
    qed
  qed
qed

lemma gate_permits: "fst (check_can_execute r) = permits_execution r"
  by (simp add: check_can_execute_def)

lemma fresh_not_permitted [simp]: "\<not> permits_execution fresh_report"
  by (simp add: permits_execution_def fresh_report_def)

lemma clean_recovery_iff:
  "fst (check_can_execute (snd (run_recovery E fresh_report))) \<longleftrightarrow>
    (\<exists>intents ps os. load_intents E = Inr intents \<and> connected E
       \<and> clean_read (rv_positions E) ps \<and> clean_read (rv_orders E) os
       \<and> (case rv_reconcile E of None \<Rightarrow> True
          | Some f \<Rightarrow> (case f intents of Inl x \<Rightarrow> False | Inr rec \<Rightarrow> \<not> is_critical rec \<and> \<not> isl (mismatch_count rec)))
       \<and> (case rv_rebuild E of None \<Rightarrow> True | Some f \<Rightarrow> f intents ps = None))"
proof (cases "load_intents E")
  case (Inl x)
  then show ?thesis
    by (simp add: gate_permits run_recovery_def recover_def Let_def permits_execution_def)
next
  case (Inr intents)
  let ?r = "step ''connect_mt5'' ((step ''load_durable_intents'' (step ''start'' (fresh_report\<lparr>rp_state := RecBlocked\<rparr>)))
              \<lparr>rp_recovered := length (filter intent_is_open intents), rp_connected := connected E\<rparr>)"
  have s: "rp_state ?r = RecBlocked" by (simp add: step_def)
  show ?thesis
  proof (cases "connected E")
    case False
    with Inr show ?thesis
      by (simp add: gate_permits run_recovery_def recover_def Let_def permits_execution_def step_def)
  next
    case True
    with Inr have e: "recover E = recover_reads E intents ?r" by (simp add: recover_def Let_def)
    show ?thesis
    proof (cases "recover_reads E intents ?r")
      case (Inr q)
      with reads_permit [OF s Inr] e True \<open>load_intents E = Inr intents\<close> show ?thesis
        by (simp add: gate_permits run_recovery_def)
    next
      case (Inl x)
      then have "\<not> (\<exists>ps os. clean_read (rv_positions E) ps \<and> clean_read (rv_orders E) os)"
        by (auto simp: recover_reads_def clean_read_def Let_def split: if_splits)
      with e Inl \<open>load_intents E = Inr intents\<close> show ?thesis by (auto simp: gate_permits run_recovery_def)
    qed
  qed
qed

section \<open>Properties\<close>

text \<open>
  C14. A coordinator that has run once lets orders through exactly when the run was clean: the
  intents were loaded, the terminal is connected, both reads of the broker are verified, the
  reconciler, where there is one, answered without a critical mismatch and with a readable count,
  and the rebuild, where there is one, did not fail.
\<close>

theorem execution_needs_clean_recovery:
  "fst (check_can_execute (snd (run_recovery E fresh_report))) \<longleftrightarrow>
    (\<exists>intents ps os. load_intents E = Inr intents \<and> connected E
       \<and> clean_read (rv_positions E) ps \<and> clean_read (rv_orders E) os
       \<and> (case rv_reconcile E of None \<Rightarrow> True
          | Some f \<Rightarrow> (case f intents of Inl x \<Rightarrow> False | Inr rec \<Rightarrow> \<not> is_critical rec \<and> \<not> isl (mismatch_count rec)))
       \<and> (case rv_rebuild E of None \<Rightarrow> True | Some f \<Rightarrow> f intents ps = None))"
  by (rule clean_recovery_iff)

section \<open>The wired sequence\<close>

fun second_items :: "reading \<Rightarrow> pyval option" where
  "second_items (ReadRaised x) = None"
| "second_items (ReadPair ok items) = Some items"
| "second_items (ReadBare items) = Some items"

lemma startup_reconcile_clean:
  "(case startup_reconcile err tol True store rd intents of Inl x \<Rightarrow> False
    | Inr rec \<Rightarrow> \<not> is_critical rec \<and> \<not> isl (mismatch_count rec)) \<longleftrightarrow>
   (\<exists>v xs r. second_items rd = Some v \<and> list_or_empty v = Inr xs
     \<and> reconcile tol (internal_positions store) (dict_items xs) [] [] = Inr r \<and> \<not> has_critical r)"
  by (cases rd) (auto simp: startup_reconcile_def comparison_answer_def split: sum.splits)

lemma clean_books:
  "(\<exists>r. reconcile tol ip bp [] [] = Inr r \<and> \<not> has_critical r) \<longleftrightarrow>
   (\<exists>r. reconcile tol ip bp [] [] = Inr r)
   \<and> set (tickets (index_by_ticket ip)) = set (tickets (index_by_ticket bp))
   \<and> list_all (\<lambda>t. agree tol (the (map_of (index_by_ticket ip) t)) (the (map_of (index_by_ticket bp) t)))
       (tickets (index_by_ticket ip))"
  using clean_report_iff [OF _ refl refl, of tol ip bp "[]" "[]"] by auto

text \<open>
  C18. In live mode a start lets orders through exactly when the terminal is there, the first read
  of the positions and the read of the orders are verified, and the items of the second read of the
  positions can be listed and compared, have the same tickets as the positions of the order
  ledger, and agree with them position by position on volume, levels, symbol and magic number
  within the tolerance. The flag of the second read has no part in it: where that read failed with
  an empty list, it is the empty list that is compared.
\<close>

theorem startup_permits_iff_books_match:
  "fst (check_can_execute (snd (run_recovery (startup_env err tol available True store first second orders) fresh_report)))
   \<longleftrightarrow> available \<and> (\<exists>xs. clean_read first xs) \<and> (\<exists>os. clean_read orders os) \<and>
     (\<exists>v xs. second_items second = Some v \<and> list_or_empty v = Inr xs
       \<and> (\<exists>r. reconcile tol (internal_positions store) (dict_items xs) [] [] = Inr r)
       \<and> set (tickets (index_by_ticket (internal_positions store))) = set (tickets (index_by_ticket (dict_items xs)))
       \<and> list_all (\<lambda>t. agree tol (the (map_of (index_by_ticket (internal_positions store)) t))
                                  (the (map_of (index_by_ticket (dict_items xs)) t)))
            (tickets (index_by_ticket (internal_positions store))))"
proof -
  let ?E = "startup_env err tol available True store first second orders"
  have load: "load_intents ?E = Inr (map (VDict \<circ> snd) store)"
    by (simp add: startup_env_def load_intents_def list_or_empty_def)
  have "connected ?E = available" "rv_positions ?E = first" "rv_orders ?E = orders" "rv_rebuild ?E = None"
    "rv_reconcile ?E = Some (startup_reconcile err tol True store second)"
    by (simp_all add: startup_env_def connected_def)
  then show ?thesis
    unfolding clean_recovery_iff by (simp add: load startup_reconcile_clean clean_books)
qed

text \<open>A start that the ledger and the broker agree on, and one that the missing position stops.\<close>

definition ex_store :: "(string \<times> pydict) list" where
  "ex_store = [(''K'', [(''intent_id'', VStr ''K''), (''state'', VStr ''position_confirmed''), (''ticket'', VInt 7),
     (''symbol'', VStr ''EURUSD''), (''volume'', VFloat 1)])]"

definition ex_read :: reading where
  "ex_read = ReadPair (VBool True) (VList [VDict [(''ticket'', VInt 7), (''symbol'', VStr ''EURUSD''), (''volume'', VFloat 1)]])"

definition no_orders :: reading where
  "no_orders = ReadPair (VBool True) (VList [])"

lemma startup_examples:
  "fst (check_can_execute (snd (run_recovery
      (startup_env (\<lambda>e. ''e'') (1 / 1000) True True ex_store ex_read ex_read no_orders) fresh_report)))
   \<and> \<not> fst (check_can_execute (snd (run_recovery
      (startup_env (\<lambda>e. ''e'') (1 / 1000) True True ex_store ex_read no_orders no_orders) fresh_report)))"
  by code_simp

text \<open>
  The second read of the positions is not checked: with an empty ledger, whatever positions the
  broker is verified to hold, a second read that fails with an empty list lets orders through.
\<close>

theorem failed_second_read_permits:
  "fst (check_can_execute (snd (run_recovery
     (startup_env err tol True True [] (ReadPair (VBool True) (VList held)) (ReadPair (VBool False) (VList [])) no_orders)
     fresh_report)))"
proof -
  have "reconcile tol [] [] [] [] = Inr empty_report"
    by (simp add: reconcile_def compare_positions_def compare_orders_def sort_report_def empty_report_def
        index_by_ticket_def tickets_def sorted_both_def sorted_only_def)
  then have r: "startup_reconcile err tol True [] (ReadPair (VBool False) (VList [])) intents
      = Inr (RecReport (Inr (VBool False)) (Inr (VInt 0)))" for intents
    by (simp add: startup_reconcile_def list_or_empty_def internal_positions_def latest_by_ticket_def dict_items_def
        comparison_answer_def has_critical_def empty_report_def total_mismatches_def)
  have "clean_read (ReadPair (VBool True) (VList held)) held" "clean_read no_orders []"
    by (simp_all add: clean_read_def no_orders_def list_or_empty_def)
  with r show ?thesis
    unfolding clean_recovery_iff by (auto simp: startup_env_def connected_def load_intents_def list_or_empty_def)
qed

section \<open>Closing and the books\<close>

lemma same_key: "same_str a b \<longleftrightarrow> ticket_key a = ticket_key b"
  by (cases "py_str a"; cases "py_str b") (auto simp: same_str_def ticket_key_def)

lemma latest_snoc:
  "latest_by_ticket (st @ [(i, r)]) =
     (if dget r ''ticket'' VNone = VNone then latest_by_ticket st
      else AList.update (ticket_key (dget r ''ticket'' VNone)) r (latest_by_ticket st))"
  by (simp add: latest_by_ticket_def)

lemma latest_keyed:
  "distinct (map fst (latest_by_ticket st)) \<and>
   (\<forall>(k, r) \<in> set (latest_by_ticket st). k = ticket_key (dget r ''ticket'' VNone))"
proof (induction st rule: rev_induct)
  case Nil
  show ?case by (simp add: latest_by_ticket_def)
next
  case (snoc x st)
  obtain i r where x: "x = (i, r)" by (cases x)
  from snoc set_update_subset [of "ticket_key (dget r ''ticket'' VNone)" r "latest_by_ticket st"] show ?case
    by (auto simp: x latest_snoc distinct_update)
qed

text \<open>The record filed for a ticket that has one: the last of the store's with that ticket.\<close>

lemma latest_record:
  assumes "py_str t \<noteq> Some ''None''"
  shows "map_of (latest_by_ticket st) (ticket_key t) = map_option snd (latest_for_ticket t st)"
proof (induction st rule: rev_induct)
  case Nil
  show ?case by (simp add: latest_by_ticket_def latest_for_ticket_def)
next
  case (snoc x st)
  obtain i r where x: "x = (i, r)" by (cases x)
  have "ticket_key VNone \<noteq> ticket_key t"
    using assms by (auto simp: ticket_key_def split: option.splits)
  with snoc show ?case
    by (auto simp: x latest_snoc same_key latest_for_ticket_def update_conv')
qed

lemma digits_only: "c \<in> set (dec_nat n) \<Longrightarrow> c \<noteq> CHR ''N''"
proof (induction n rule: dec_nat.induct)
  case (1 n)
  have d: "char_of (48 + k) \<noteq> CHR ''N''" if "k < 10" for k :: nat
  proof
    assume "char_of (48 + k) = CHR ''N''"
    then have "of_char (char_of (48 + k) :: char) = (of_char (CHR ''N'') :: nat)" by simp
    with that show False by simp
  qed
  show ?case
  proof (cases "n < 10")
    case True
    with 1 d show ?thesis by (simp add: dec_nat.simps [of n])
  next
    case False
    with 1 d [of "n mod 10"] show ?thesis by (auto simp: dec_nat.simps [of n])
  qed
qed

lemma dec_int_not_None: "dec_int i \<noteq> ''None''"
proof
  assume "dec_int i = ''None''"
  then have "CHR ''N'' \<in> set (dec_int i)" by simp
  then show False using digits_only by (auto simp: dec_int_def split: if_splits)
qed

text \<open>
  A closed ticket leaves the books: after the ledger marked a position's ticket closed, the
  internal positions the reconciliation reads no longer contain that ticket.
\<close>

theorem closed_ticket_leaves_the_books:
  assumes "distinct (map fst (os_orders s))" and "os_mark_closed io ts (VInt t) reason s = (True, s')"
  shows "list_all (\<lambda>p. \<not> same_str (dget p ''ticket'' VNone) (VInt t)) (internal_positions (os_orders s'))"
proof -
  from assms(2) have "fst (os_mark_closed io ts (VInt t) reason s)" by simp
  then obtain i r where l: "latest_for_ticket (VInt t) (os_orders s) = Some (i, r)"
    and o: "os_orders s' = AList.update i (closed_entry ts reason i (VInt t) r) (os_orders s)"
    by (rule os_mark_closed_orders) (simp add: assms(2))
  let ?e = "closed_entry ts reason i (VInt t) r"
  from latest_for_ticket_in [OF l] have "same_str (dget ?e ''ticket'' VNone) (VInt t)" by simp
  from latest_for_ticket_update [OF assms(1) l this] o
  have m: "map_of (latest_by_ticket (os_orders s')) (ticket_key (VInt t)) = Some ?e"
    by (simp add: latest_record dec_int_not_None)
  have closed: "record_state ?e \<notin> set position_states"
    by (simp add: position_states_def)
  have "\<not> same_str (dget q ''ticket'' VNone) (VInt t)"
    if q: "(k, q) \<in> set (latest_by_ticket (os_orders s'))" "record_state q \<in> set position_states" for k q
  proof
    assume "same_str (dget q ''ticket'' VNone) (VInt t)"
    moreover note latest_keyed [of "os_orders s'"]
    ultimately have "map_of (latest_by_ticket (os_orders s')) (ticket_key (VInt t)) = Some q"
      using q(1) by (auto simp: same_key intro!: map_of_is_SomeI)
    with m closed q(2) show False by simp
  qed
  then show ?thesis by (auto simp: internal_positions_def list_all_iff position_of_def dget_def)
qed

theorem closed_ticket_leaves_the_books_witness:
  "internal_positions ex_store \<noteq> []
   \<and> list_all (\<lambda>p. \<not> same_str (dget p ''ticket'' VNone) (VInt 7))
       (internal_positions (os_orders (snd (os_mark_closed True ''t'' (VInt 7) ''gone''
          \<lparr>os_orders = ex_store, os_healthy = True, os_file = []\<rparr>))))"
proof -
  let ?s = "\<lparr>os_orders = ex_store, os_healthy = True, os_file = []\<rparr>"
  have d: "distinct (map fst (os_orders ?s))" by (simp add: ex_store_def)
  have "fst (os_mark_closed True ''t'' (VInt 7) ''gone'' ?s)" "internal_positions ex_store \<noteq> []" by code_simp+
  then obtain s' where s': "os_mark_closed True ''t'' (VInt 7) ''gone'' ?s = (True, s')" "internal_positions ex_store \<noteq> []"
    by (cases "os_mark_closed True ''t'' (VInt 7) ''gone'' ?s") auto
  from closed_ticket_leaves_the_books [OF d s'(1)] s' show ?thesis by simp
qed

section \<open>The periodic guard\<close>

text \<open>The runs that are due: every \<open>n\<close>-th of the cycles.\<close>

definition due :: "nat \<Rightarrow> 'a list \<Rightarrow> 'a list" where
  "due n xs = map snd (filter (\<lambda>(k, x). Suc k mod n = 0) (enumerate 0 xs))"

definition run_ticks :: "(string \<times> (pyerr + recon_report)) list \<Rightarrow> runner \<Rightarrow> runner" where
  "run_ticks ins st = foldl (\<lambda>s (now, res). snd (tick_runner now res s)) st ins"

lemma due_snoc: "due n (xs @ [x]) = due n xs @ (if Suc (length xs) mod n = 0 then [x] else [])"
  by (simp add: due_def enumerate_append_eq)

lemma bounded_append_length: "length (bounded_append n xs x) \<le> n"
  by (simp add: bounded_append_def Let_def)

text \<open>
  The guard follows the last comparison that was due: a runner of any configuration, ticked with
  any outcomes, compares at every interval-th cycle only, keeps at most the configured number of
  reports, and lets orders through exactly when no comparison was due yet or the last one that was
  due returned without a critical mismatch.
\<close>

theorem guard_follows_last_comparison:
  "let st = run_ticks ins (new_runner interval limit); n = nat (max 1 interval)
   in rn_cycles st = length ins \<and> rn_runs st = length (due n ins) \<and> rn_errors st \<le> rn_runs st
      \<and> length (rn_history st) \<le> nat (max 1 limit)
      \<and> fst (guard_can_execute st) = (case rev (due n ins) of [] \<Rightarrow> True
            | (now, res) # older \<Rightarrow> (case res of Inl e \<Rightarrow> False | Inr r \<Rightarrow> \<not> has_critical r))"
proof -
  let ?n = "nat (max 1 interval)"
  have crit: "has_critical (r\<lparr>rr_checked_at := now\<rparr>) = has_critical r" for r now
    by (simp add: has_critical_def)
  have "rn_interval st = ?n \<and> rn_limit st = nat (max 1 limit) \<and> rn_cycles st = length ins
      \<and> rn_runs st = length (due ?n ins) \<and> rn_errors st \<le> rn_runs st \<and> length (rn_history st) \<le> nat (max 1 limit)
      \<and> rn_last_ok st = (case rev (due ?n ins) of [] \<Rightarrow> True
            | (now, res) # older \<Rightarrow> (case res of Inl e \<Rightarrow> False | Inr r \<Rightarrow> \<not> has_critical r))"
    if "st = run_ticks ins (new_runner interval limit)" for st
    using that
  proof (induction ins arbitrary: st rule: rev_induct)
    case Nil
    then show ?case by (simp add: run_ticks_def new_runner_def due_def)
  next
    case (snoc x ins)
    obtain now res where x: "x = (now, res)" by (cases x)
    let ?o = "run_ticks ins (new_runner interval limit)"
    have st: "st = snd (tick_runner now res ?o)" using snoc.prems by (simp add: run_ticks_def x)
    show ?case
      using snoc.IH [OF refl] unfolding st
      by (cases res) (auto simp: tick_runner_def run_once_def due_snoc x crit Let_def
          intro: bounded_append_length [THEN order_trans])
  qed
  from this [OF refl] show ?thesis by (simp add: guard_can_execute_def Let_def)
qed

end
