(* ===== verification/Lifecycle.thy ===== *)
theory Lifecycle
  imports Prelude
begin

text \<open>
  Governance of strategy versions: \<open>strategy/lifecycle.py\<close>. The registry maps a strategy and a
  version number to the version; an operation that raises changes nothing, because every raise
  comes before the first assignment. The time stamps of audit entries are arguments.
\<close>

section \<open>States and versions\<close>

datatype lc_state =
  LC_DRAFT | LC_EXPERIMENT | LC_BACKTESTED | LC_WALK_FORWARD_PASSED | LC_PAPER | LC_DEMO | LC_CANDIDATE
  | LC_APPROVED | LC_PRODUCTION | LC_REJECTED | LC_ARCHIVED

fun lc_value :: "lc_state \<Rightarrow> string" where
  "lc_value LC_DRAFT = ''DRAFT''"
| "lc_value LC_EXPERIMENT = ''EXPERIMENT''"
| "lc_value LC_BACKTESTED = ''BACKTESTED''"
| "lc_value LC_WALK_FORWARD_PASSED = ''WALK_FORWARD_PASSED''"
| "lc_value LC_PAPER = ''PAPER''"
| "lc_value LC_DEMO = ''DEMO''"
| "lc_value LC_CANDIDATE = ''CANDIDATE''"
| "lc_value LC_APPROVED = ''APPROVED''"
| "lc_value LC_PRODUCTION = ''PRODUCTION''"
| "lc_value LC_REJECTED = ''REJECTED''"
| "lc_value LC_ARCHIVED = ''ARCHIVED''"

text \<open>The successor in \<open>_FORWARD\<close>; nothing at its end or outside it.\<close>

fun lc_next :: "lc_state \<Rightarrow> lc_state option" where
  "lc_next LC_DRAFT = Some LC_EXPERIMENT"
| "lc_next LC_EXPERIMENT = Some LC_BACKTESTED"
| "lc_next LC_BACKTESTED = Some LC_WALK_FORWARD_PASSED"
| "lc_next LC_WALK_FORWARD_PASSED = Some LC_PAPER"
| "lc_next LC_PAPER = Some LC_DEMO"
| "lc_next LC_DEMO = Some LC_CANDIDATE"
| "lc_next LC_CANDIDATE = Some LC_APPROVED"
| "lc_next LC_APPROVED = Some LC_PRODUCTION"
| "lc_next LC_PRODUCTION = None"
| "lc_next LC_REJECTED = None"
| "lc_next LC_ARCHIVED = None"

definition is_production :: "lc_state \<Rightarrow> bool" where
  "is_production s \<longleftrightarrow> s = LC_APPROVED \<or> s = LC_PRODUCTION"

definition production_of :: "string \<Rightarrow> lc_state option" where
  "production_of target = find (\<lambda>s. lc_value s = target) [LC_APPROVED, LC_PRODUCTION]"

record audit_entry =
  au_action :: string
  au_actor :: string
  au_timestamp :: string

record strategy_version =
  sv_id :: string
  sv_version :: int
  sv_parameters :: pydict
  sv_risk_policy :: string
  sv_created_from :: "string option"
  sv_evidence :: "(string \<times> string) list"
  sv_status :: lc_state
  sv_audit :: "audit_entry list"
  sv_created_at :: string

type_synonym governor = "((string \<times> int) \<times> strategy_version) list"

record promotion_proposal =
  pp_id :: string
  pp_version :: int
  pp_target :: string
  pp_by :: string
  pp_reasons :: string

record promotion_result =
  pr_approved :: bool
  pr_from :: string
  pr_to :: string
  pr_reasons :: "string list"

section \<open>Operations\<close>

definition lc_audit :: "string \<Rightarrow> string \<Rightarrow> string \<Rightarrow> strategy_version \<Rightarrow> strategy_version" where
  "lc_audit now action actor v =
     v\<lparr>sv_audit := sv_audit v @ [\<lparr>au_action = action, au_actor = actor, au_timestamp = now\<rparr>]\<rparr>"

definition lc_register :: "strategy_version \<Rightarrow> governor \<Rightarrow> pyerr + governor" where
  "lc_register v g =
     (if map_of g (sv_id v, sv_version v) \<noteq> None then Inl ValueError
      else Inr (AList.update (sv_id v, sv_version v) (v\<lparr>sv_status := LC_DRAFT\<rparr>) g))"

definition lc_require :: "string \<Rightarrow> int \<Rightarrow> governor \<Rightarrow> pyerr + strategy_version" where
  "lc_require sid ver g = (case map_of g (sid, ver) of None \<Rightarrow> Inl ValueError | Some v \<Rightarrow> Inr v)"

definition lc_advance ::
  "string \<Rightarrow> string \<Rightarrow> int \<Rightarrow> (string \<times> string) list \<Rightarrow> string \<Rightarrow> governor \<Rightarrow> pyerr + governor" where
  "lc_advance now sid ver evidence actor g =
     bindE (lc_require sid ver g) (\<lambda>v.
       if sv_status v = LC_REJECTED \<or> sv_status v = LC_ARCHIVED
       then Inl (RuntimeError (''Cannot advance a '' @ lc_value (sv_status v) @ '' version.''))
       else case lc_next (sv_status v) of
           None \<Rightarrow> Inl (RuntimeError (''Already at PRODUCTION '' @ em_dash @ '' cannot advance further.''))
         | Some next_state \<Rightarrow>
             (if is_production (sv_status v) \<or> is_production next_state
              then Inl (RuntimeError ''Advancing into APPROVED/PRODUCTION requires a gated promotion (propose()).'')
              else Inr (AList.update (sid, ver)
                     (lc_audit now (''advance to '' @ lc_value next_state) actor
                        (v\<lparr>sv_evidence := dict_update (sv_evidence v) evidence, sv_status := next_state\<rparr>)) g)))"

definition lc_reject :: "string \<Rightarrow> string \<Rightarrow> int \<Rightarrow> string \<Rightarrow> string \<Rightarrow> governor \<Rightarrow> pyerr + governor" where
  "lc_reject now sid ver reason actor g =
     bindE (lc_require sid ver g) (\<lambda>v.
       Inr (AList.update (sid, ver) (lc_audit now (''rejected: '' @ reason) actor (v\<lparr>sv_status := LC_REJECTED\<rparr>)) g))"

definition lc_archive :: "string \<Rightarrow> string \<Rightarrow> int \<Rightarrow> string \<Rightarrow> governor \<Rightarrow> pyerr + governor" where
  "lc_archive now sid ver actor g =
     bindE (lc_require sid ver g) (\<lambda>v.
       if sv_status v \<noteq> LC_REJECTED then Inl (RuntimeError ''Only REJECTED versions can be archived.'')
       else Inr (AList.update (sid, ver) (lc_audit now ''archived'' actor (v\<lparr>sv_status := LC_ARCHIVED\<rparr>)) g))"

definition required_evidence :: "string list" where
  "required_evidence = [''backtest'', ''walk_forward'', ''monte_carlo'', ''paper'', ''demo'']"

text \<open>\<open>not sv.evidence.get(k)\<close>.\<close>

definition lacks :: "strategy_version \<Rightarrow> string \<Rightarrow> bool" where
  "lacks v k \<longleftrightarrow> (case map_of (sv_evidence v) k of None \<Rightarrow> True | Some e \<Rightarrow> e = [])"

definition promotion_gaps :: "strategy_version \<Rightarrow> string list" where
  "promotion_gaps v =
     (let missing = filter (lacks v) required_evidence
      in (if missing \<noteq> [] then [''missing evidence: '' @ join '', '' missing] else [])
         @ (if sv_risk_policy v = [] then [''missing risk compatibility (risk_policy_id)''] else [])
         @ (if lacks v ''test'' then [''missing test evidence''] else [])
         @ (if sv_audit v = [] then [''missing audit record''] else []))"

definition lc_propose ::
  "string \<Rightarrow> promotion_proposal \<Rightarrow> governor \<Rightarrow> pyerr + promotion_result \<times> governor" where
  "lc_propose now p g =
     bindE (lc_require (pp_id p) (pp_version p) g) (\<lambda>v.
       let here = lc_value (sv_status v); key = (pp_id p, pp_version p)
       in case production_of (pp_target p) of
            None \<Rightarrow> Inr (\<lparr>pr_approved = False, pr_from = here, pr_to = here,
                pr_reasons = [''target is not a production state; use advance() instead'']\<rparr>, g)
          | Some target \<Rightarrow>
              (let reasons = promotion_gaps v
               in if reasons \<noteq> []
                  then Inr (\<lparr>pr_approved = False, pr_from = here, pr_to = here, pr_reasons = reasons\<rparr>,
                    AList.update key (lc_audit now
                      (''promotion refused ('' @ pp_by p @ ''): '' @ join ''; '' reasons) (pp_by p) v) g)
                  else Inr (\<lparr>pr_approved = True, pr_from = here, pr_to = pp_target p,
                      pr_reasons = [''all promotion checks passed'']\<rparr>,
                    AList.update key (lc_audit now
                      (''promotion approved ('' @ pp_by p @ '') to '' @ pp_target p) (pp_by p)
                      (v\<lparr>sv_status := target\<rparr>)) g)))"

section \<open>Runs\<close>

inductive lc_step :: "governor \<Rightarrow> governor \<Rightarrow> bool" where
  register: "lc_register v g = Inr h \<Longrightarrow> lc_step g h"
| advance: "lc_advance now sid ver ev actor g = Inr h \<Longrightarrow> lc_step g h"
| reject: "lc_reject now sid ver reason actor g = Inr h \<Longrightarrow> lc_step g h"
| archive: "lc_archive now sid ver actor g = Inr h \<Longrightarrow> lc_step g h"
| propose: "lc_propose now p g = Inr (r, h) \<Longrightarrow> lc_step g h"

inductive lc_run :: "governor \<Rightarrow> governor \<Rightarrow> bool" where
  stop: "lc_run g g"
| more: "lc_run g h \<Longrightarrow> lc_step h k \<Longrightarrow> lc_run g k"

inductive_cases lc_stepE: "lc_step g h"

definition evidence_complete :: "strategy_version \<Rightarrow> bool" where
  "evidence_complete v \<longleftrightarrow> promotion_gaps v = []"

lemma evidence_complete_iff:
  "evidence_complete v \<longleftrightarrow> list_all (\<lambda>k. \<not> lacks v k) (''test'' # required_evidence)
     \<and> sv_risk_policy v \<noteq> [] \<and> sv_audit v \<noteq> []"
  by (auto simp: evidence_complete_def promotion_gaps_def Let_def list_all_iff filter_empty_conv)

lemma complete_audit: "evidence_complete v \<Longrightarrow> evidence_complete (lc_audit now a b (v\<lparr>sv_status := s\<rparr>))"
  by (simp add: evidence_complete_iff lc_audit_def lacks_def list_all_iff)

definition production_earned :: "strategy_version \<Rightarrow> bool" where
  "production_earned v \<longleftrightarrow> (is_production (sv_status v) \<longrightarrow> evidence_complete v)"

definition all_earned :: "governor \<Rightarrow> bool" where
  "all_earned g \<longleftrightarrow> (\<forall>k v. map_of g k = Some v \<longrightarrow> production_earned v)"

lemma all_earned_update: "all_earned g \<Longrightarrow> production_earned v \<Longrightarrow> all_earned (AList.update k v g)"
  by (auto simp: all_earned_def)

lemma production_of_Some: "production_of t = Some s \<Longrightarrow> is_production s \<and> lc_value s = t"
  by (auto simp: production_of_def is_production_def find_Some_iff split: if_splits)

lemma step_earned [preserves]: "lc_step g h \<Longrightarrow> all_earned g \<Longrightarrow> all_earned h"
proof (erule lc_stepE)
  fix v assume "all_earned g" "lc_register v g = Inr h"
  then show "all_earned h"
    by (auto simp: lc_register_def production_earned_def is_production_def intro: all_earned_update split: if_splits)
next
  fix now sid ver ev actor assume "all_earned g" "lc_advance now sid ver ev actor g = Inr h"
  then show "all_earned h"
    by (auto simp: lc_advance_def production_earned_def lc_audit_def intro: all_earned_update
        split: if_splits option.splits)
next
  fix now sid ver reason actor assume "all_earned g" "lc_reject now sid ver reason actor g = Inr h"
  then show "all_earned h"
    by (auto simp: lc_reject_def production_earned_def lc_audit_def is_production_def intro: all_earned_update)
next
  fix now sid ver actor assume "all_earned g" "lc_archive now sid ver actor g = Inr h"
  then show "all_earned h"
    by (auto simp: lc_archive_def production_earned_def lc_audit_def is_production_def intro: all_earned_update
        split: if_splits)
next
  fix now p r assume e: "all_earned g" and p: "lc_propose now p g = Inr (r, h)"
  then obtain v where v: "map_of g (pp_id p, pp_version p) = Some v"
    by (auto simp: lc_propose_def lc_require_def split: option.splits)
  then have pe: "production_earned v" using e by (auto simp: all_earned_def)
  have same: "production_earned (lc_audit now a b v)" for a b
    using pe complete_audit [of v now a b "sv_status v"]
    by (auto simp: production_earned_def lc_audit_def)
  show "all_earned h"
  proof (cases "production_of (pp_target p)")
    case None
    with p v e show ?thesis by (simp add: lc_propose_def lc_require_def Let_def)
  next
    case (Some t)
    have new: "promotion_gaps v = [] \<Longrightarrow> production_earned (lc_audit now a b (v\<lparr>sv_status := t\<rparr>))" for a b
      using complete_audit by (simp add: production_earned_def evidence_complete_def)
    from p v Some e same new show ?thesis
      by (auto simp: lc_propose_def lc_require_def Let_def intro: all_earned_update split: if_splits)
  qed
qed

lemma run_earned: "lc_run g h \<Longrightarrow> all_earned g \<Longrightarrow> all_earned h"
  by (induction rule: lc_run.induct) (auto intro: step_earned)

section \<open>Properties\<close>

text \<open>
  C35. Whatever the sequence of registrations, advances, rejections, archivings and proposals from an
  empty registry, a version that is approved or in production has evidence of its tests, backtest,
  walk-forward run, Monte Carlo run, paper trading and demo trading, a risk policy and an audit
  record.
\<close>

theorem production_has_full_evidence:
  assumes "lc_run [] g" "map_of g k = Some v" "sv_status v = LC_APPROVED \<or> sv_status v = LC_PRODUCTION"
  shows "list_all (\<lambda>e. case map_of (sv_evidence v) e of None \<Rightarrow> False | Some found \<Rightarrow> found \<noteq> [])
           [''test'', ''backtest'', ''walk_forward'', ''monte_carlo'', ''paper'', ''demo''] \<and>
         sv_risk_policy v \<noteq> [] \<and> sv_audit v \<noteq> []"
proof -
  have "all_earned []" by (simp add: all_earned_def)
  from run_earned [OF assms(1) this] assms(2,3) have "evidence_complete v"
    by (cases k) (auto simp: all_earned_def production_earned_def is_production_def)
  then show ?thesis
    by (auto simp: evidence_complete_iff required_evidence_def lacks_def split: option.splits)
qed

definition demo_version :: strategy_version where
  "demo_version = \<lparr>sv_id = ''s'', sv_version = 1, sv_parameters = [], sv_risk_policy = ''r'', sv_created_from = None,
     sv_evidence = map (\<lambda>k. (k, ''ok'')) (''test'' # required_evidence), sv_status = LC_DEMO,
     sv_audit = [\<lparr>au_action = ''import'', au_actor = ''op'', au_timestamp = ''t0''\<rparr>], sv_created_at = ''t0''\<rparr>"

definition demo_target :: promotion_proposal where
  "demo_target = \<lparr>pp_id = ''s'', pp_version = 1, pp_target = ''PRODUCTION'', pp_by = ''ai'', pp_reasons = []\<rparr>"

definition live_version :: strategy_version where
  "live_version = lc_audit ''t1'' ''promotion approved (ai) to PRODUCTION'' ''ai'' (demo_version\<lparr>sv_status := LC_PRODUCTION\<rparr>)"

lemma demo_gaps: "promotion_gaps (demo_version\<lparr>sv_status := s\<rparr>) = []"
  by (simp add: promotion_gaps_def lacks_def required_evidence_def demo_version_def)

lemma lifecycle_run: "lc_run [] [((''s'', 1), live_version)]"
proof (rule lc_run.more [OF lc_run.more [OF lc_run.stop]])
  show "lc_step [] [((''s'', 1), demo_version\<lparr>sv_status := LC_DRAFT\<rparr>)]"
    by (rule lc_step.register [of demo_version]) (simp add: lc_register_def demo_version_def)
  show "lc_step [((''s'', 1), demo_version\<lparr>sv_status := LC_DRAFT\<rparr>)] [((''s'', 1), live_version)]"
    by (rule lc_step.propose [of "''t1''" demo_target])
       (simp add: lc_propose_def lc_require_def demo_target_def demo_gaps production_of_def live_version_def Let_def)
qed

lemma production_has_full_evidence_witness:
  "sv_status live_version = LC_PRODUCTION \<and> sv_audit live_version \<noteq> [] \<and> sv_risk_policy live_version \<noteq> [] \<and>
   (case map_of (sv_evidence live_version) ''walk_forward'' of None \<Rightarrow> False | Some found \<Rightarrow> found \<noteq> [])"
proof -
  have s: "sv_status live_version = LC_PRODUCTION" by (simp add: live_version_def lc_audit_def)
  from production_has_full_evidence [OF lifecycle_run, of "(''s'', 1)" live_version] s show ?thesis by simp
qed

text \<open>
  A proposal looks at the evidence and never at the current state: with the checklist complete it
  moves a version in any state, rejected and archived ones included, straight to production,
  whoever proposes it.
\<close>

theorem promotion_ignores_the_state:
  assumes "map_of g (pp_id p, pp_version p) = Some v" "evidence_complete v" "pp_target p = ''PRODUCTION''"
  shows "\<exists>h w. lc_propose now p g =
      Inr (\<lparr>pr_approved = True, pr_from = lc_value (sv_status v), pr_to = ''PRODUCTION'',
            pr_reasons = [''all promotion checks passed'']\<rparr>, h)
    \<and> map_of h (pp_id p, pp_version p) = Some w \<and> sv_status w = LC_PRODUCTION"
  using assms
  by (simp add: lc_propose_def lc_require_def evidence_complete_def production_of_def lc_audit_def Let_def)

lemma promotion_ignores_the_state_witness:
  "\<exists>r h. lc_propose ''t'' demo_target [((''s'', 1), demo_version\<lparr>sv_status := LC_ARCHIVED\<rparr>)] = Inr (r, h)
     \<and> pr_from r = ''ARCHIVED'' \<and> pr_approved r"
  using promotion_ignores_the_state [of "[((''s'', 1), demo_version\<lparr>sv_status := LC_ARCHIVED\<rparr>)]" demo_target
      "demo_version\<lparr>sv_status := LC_ARCHIVED\<rparr>" "''t''"] demo_gaps [of LC_ARCHIVED]
  by (auto simp: demo_target_def evidence_complete_def)

definition audit_extends :: "strategy_version \<Rightarrow> strategy_version \<Rightarrow> bool" where
  "audit_extends v w \<longleftrightarrow> take (length (sv_audit v)) (sv_audit w) = sv_audit v \<and>
     (if sv_status w = sv_status v then length (sv_audit v) \<le> length (sv_audit w)
      else length (sv_audit w) = Suc (length (sv_audit v)))"

lemma audit_extends_refl [simp]: "audit_extends v v"
  by (simp add: audit_extends_def)

lemma audit_extends_log: "sv_audit u = sv_audit v \<Longrightarrow> audit_extends v (lc_audit now a b u)"
  by (simp add: audit_extends_def lc_audit_def)

text \<open>
  No step of the registry removes a version or shortens its audit trail, and a version whose
  state a step changes has gained an audit entry in that step.
\<close>

theorem state_changes_are_audited:
  assumes "lc_step g h" "map_of g k = Some v"
  shows "\<exists>w. map_of h k = Some w \<and> audit_extends v w"
  using assms(1)
proof (cases rule: lc_step.cases)
  case (register u)
  with assms(2) have "map_of h k = Some v" by (auto simp: lc_register_def split: if_splits)
  then show ?thesis by simp
next
  case (advance now sid ver ev actor)
  with assms(2) show ?thesis
    by (auto simp: lc_advance_def lc_require_def audit_extends_log split: if_splits option.splits)
next
  case (reject now sid ver reason actor)
  with assms(2) show ?thesis by (auto simp: lc_reject_def lc_require_def audit_extends_log split: option.splits)
next
  case (archive now sid ver actor)
  with assms(2) show ?thesis
    by (auto simp: lc_archive_def lc_require_def audit_extends_log split: if_splits option.splits)
next
  case (propose now p r)
  with assms(2) show ?thesis
    by (auto simp: lc_propose_def lc_require_def Let_def audit_extends_log split: if_splits option.splits)
qed

lemma state_changes_are_audited_witness:
  "\<exists>w. map_of [((''s'', 1), live_version)] (''s'', 1 :: int) = Some w \<and> length (sv_audit w) = 2"
proof -
  have "lc_step [((''s'', 1), demo_version\<lparr>sv_status := LC_DRAFT\<rparr>)] [((''s'', 1), live_version)]"
    by (rule lc_step.propose [of "''t1''" demo_target])
       (simp add: lc_propose_def lc_require_def demo_target_def demo_gaps production_of_def live_version_def Let_def)
  from state_changes_are_audited [OF this, of "(''s'', 1)"] show ?thesis
    by (simp add: audit_extends_def live_version_def lc_audit_def demo_version_def)
qed

end
