(* ===== verification/Risk_Engine.thy ===== *)
theory Risk_Engine
  imports Prelude
begin

text \<open>
  Account, position and portfolio risk: \<open>risk/base.py\<close> and \<open>risk/engine.py\<close>. Accounts and
  positions are dictionaries of any values, read as the code reads them: \<open>float\<close> of a missing
  key takes the default, \<open>float\<close> of a bad value raises. The result dictionaries of the
  calculations, whose keys are fixed, are records.
\<close>

section \<open>Thresholds and metrics\<close>

datatype risk_level = RL_LOW | RL_MEDIUM | RL_HIGH | RL_CRITICAL

datatype risk_threshold =
  MAX_DRAWDOWN | DAILY_LOSS_LIMIT | MAX_EXPOSURE | MARGIN_THRESHOLD | MAX_POSITIONS | MAX_POSITION_SIZE

record risk_metrics =
  rm_drawdown_pct :: pyfloat
  rm_daily_loss_pct :: pyfloat
  rm_equity :: pyfloat
  rm_balance :: pyfloat
  rm_total_exposure_pct :: pyfloat
  rm_used_margin_pct :: pyfloat
  rm_position_count :: int
  rm_peak_equity :: pyfloat
  rm_max_drawdown_pct :: pyfloat
  rm_correlation_risk :: pyfloat
  rm_sector_concentration :: pyfloat
  rm_leverage_used :: pyfloat
  rm_available_margin :: pyfloat
  rm_spread_cost :: pyfloat

definition metrics_to_dict :: "risk_metrics \<Rightarrow> pydict" where
  "metrics_to_dict m =
     [(''drawdown_pct'', VFloat (rm_drawdown_pct m)), (''daily_loss_pct'', VFloat (rm_daily_loss_pct m)),
      (''equity'', VFloat (rm_equity m)), (''balance'', VFloat (rm_balance m)),
      (''total_exposure_pct'', VFloat (rm_total_exposure_pct m)),
      (''used_margin_pct'', VFloat (rm_used_margin_pct m)),
      (''position_count'', VInt (rm_position_count m)), (''peak_equity'', VFloat (rm_peak_equity m)),
      (''max_drawdown_pct'', VFloat (rm_max_drawdown_pct m)),
      (''correlation_risk'', VFloat (rm_correlation_risk m)),
      (''sector_concentration'', VFloat (rm_sector_concentration m)),
      (''leverage_used'', VFloat (rm_leverage_used m)),
      (''available_margin'', VFloat (rm_available_margin m)), (''spread_cost'', VFloat (rm_spread_cost m))]"

type_synonym risk_engine = "(risk_threshold \<times> pyfloat) list"

definition new_engine ::
  "pyfloat \<Rightarrow> pyfloat \<Rightarrow> pyfloat \<Rightarrow> pyfloat \<Rightarrow> int \<Rightarrow> pyfloat \<Rightarrow> risk_engine" where
  "new_engine max_drawdown daily_loss_limit max_exposure margin_threshold max_positions max_position_size =
     [(MAX_DRAWDOWN, max_drawdown), (DAILY_LOSS_LIMIT, daily_loss_limit), (MAX_EXPOSURE, max_exposure),
      (MARGIN_THRESHOLD, margin_threshold), (MAX_POSITIONS, of_int max_positions),
      (MAX_POSITION_SIZE, max_position_size)]"

definition threshold_or :: "risk_engine \<Rightarrow> risk_threshold \<Rightarrow> pyfloat \<Rightarrow> pyfloat" where
  "threshold_or E t dflt = (case map_of E t of None \<Rightarrow> dflt | Some x \<Rightarrow> x)"

definition get_threshold :: "risk_engine \<Rightarrow> risk_threshold \<Rightarrow> pyfloat" where
  "get_threshold E t = threshold_or E t 0"

definition set_threshold :: "risk_threshold \<Rightarrow> pyfloat \<Rightarrow> risk_engine \<Rightarrow> risk_engine" where
  "set_threshold t x E = AList.update t x E"

lemma get_set_threshold:
  "get_threshold (set_threshold t x E) u = (if u = t then x else get_threshold E u)"
  by (simp add: get_threshold_def threshold_or_def set_threshold_def)

section \<open>Account\<close>

record account_risk =
  ar_drawdown_pct :: pyfloat
  ar_daily_loss_pct :: pyfloat
  ar_equity :: pyfloat
  ar_balance :: pyfloat

definition calculate_account_risk :: "pydict \<Rightarrow> pyerr + account_risk" where
  "calculate_account_risk a =
     bindE (get_float a ''equity'' (VFloat 0)) (\<lambda>equity.
     bindE (get_float a ''balance'' (VFloat 0)) (\<lambda>balance.
     bindE (get_float a ''peak_equity'' (VFloat equity)) (\<lambda>peak.
     bindE (get_float a ''daily_pnl'' (VFloat 0)) (\<lambda>pnl.
       Inr \<lparr>ar_drawdown_pct = (if peak > 0 then (peak - equity) / peak else 0),
            ar_daily_loss_pct = (if balance > 0 then \<bar>min pnl 0\<bar> / balance else 0),
            ar_equity = equity, ar_balance = balance\<rparr>))))"

definition check_margin :: "pydict \<Rightarrow> pyfloat \<Rightarrow> pyerr + bool" where
  "check_margin a margin_threshold =
     bindE (get_float a ''equity'' (VFloat 0)) (\<lambda>equity.
     bindE (get_float a ''used_margin'' (VFloat 0)) (\<lambda>used.
     bindE (get_float a ''margin_call_level'' (VFloat 0)) (\<lambda>call_level.
       Inr (if equity \<le> 0 then False
            else if call_level > 0 \<and> equity \<le> call_level then False
            else used / equity \<le> margin_threshold))))"

definition check_max_positions :: "pydict list \<Rightarrow> int \<Rightarrow> bool" where
  "check_max_positions positions max_count \<longleftrightarrow> int (length positions) \<le> max_count"

definition check_drawdown :: "pydict \<Rightarrow> pyfloat \<Rightarrow> pyerr + bool" where
  "check_drawdown a max_drawdown =
     bindE (get_float a ''equity'' (VFloat 0)) (\<lambda>equity.
     bindE (get_float a ''peak_equity'' (VFloat equity)) (\<lambda>peak.
       Inr (if peak \<le> 0 then False else (peak - equity) / peak \<le> max_drawdown)))"

definition check_daily_loss :: "pydict \<Rightarrow> pyfloat \<Rightarrow> pyerr + bool" where
  "check_daily_loss a daily_loss_limit =
     bindE (get_float a ''balance'' (VFloat 0)) (\<lambda>balance.
     bindE (get_float a ''daily_pnl'' (VFloat 0)) (\<lambda>pnl.
       Inr (if balance \<le> 0 then False else \<bar>min pnl 0\<bar> / balance \<le> daily_loss_limit)))"

section \<open>Positions\<close>

record position_risk =
  pr_pnl :: pyfloat
  pr_risk_per_unit :: pyfloat
  pr_rr :: pyfloat
  pr_value :: pyfloat
  pr_pnl_pct :: pyfloat

text \<open>\<open>position.get("side", "long").lower()\<close> raises on anything but text.\<close>

definition side_lower :: "pyval \<Rightarrow> pyerr + string" where
  "side_lower v = (case v of VStr s \<Rightarrow> Inr (lower s) | _ \<Rightarrow> Inl AttributeError)"

definition calculate_position_risk :: "pydict \<Rightarrow> pyerr + position_risk" where
  "calculate_position_risk p =
     bindE (get_float p ''size'' (VFloat 0)) (\<lambda>sz.
     bindE (get_float p ''entry_price'' (VFloat 0)) (\<lambda>entry.
     bindE (get_float p ''current_price'' (VFloat entry)) (\<lambda>current.
     bindE (side_lower (dget p ''side'' (VStr ''long''))) (\<lambda>side.
     bindE (get_float p ''stop_loss'' (VFloat 0)) (\<lambda>sl.
       let long = (side = ''long'');
           pnl = (if long then (current - entry) * sz else (entry - current) * sz);
           rpu = (if sl > 0 then (if long then entry - sl else sl - entry) else 0)
       in Inr \<lparr>pr_pnl = pnl, pr_risk_per_unit = rpu,
               pr_rr = (if rpu > 0 then \<bar>current - entry\<bar> / rpu else 0),
               pr_value = sz * current,
               pr_pnl_pct = (if sz * entry > 0 then pnl / (sz * entry) else 0)\<rparr>)))))"

definition check_position_size :: "pydict \<Rightarrow> pyfloat \<Rightarrow> pyfloat \<Rightarrow> pyerr + bool" where
  "check_position_size p account_equity max_position_size =
     (if account_equity \<le> 0 then Inr False
      else bindE (get_float p ''size'' (VFloat 0)) (\<lambda>sz.
           bindE (get_float p ''current_price'' (dget p ''entry_price'' (VFloat 0))) (\<lambda>price.
             Inr (sz * price / account_equity \<le> max_position_size))))"

text \<open>
  The notional of a position, or nothing when its units are unknown: \<open>size\<close> counts units,
  \<open>quantity\<close> and \<open>volume\<close> count lots and need a contract size.
\<close>

definition position_price_val :: "pydict \<Rightarrow> pyval" where
  "position_price_val p = dget p ''current_price'' (dget p ''price_current''
     (dget p ''entry_price'' (dget p ''price_open'' (VFloat 0))))"

definition notional_of :: "pydict \<Rightarrow> bool \<Rightarrow> pyval \<Rightarrow> pyerr + pyfloat option" where
  "notional_of p is_lots size_value =
     bindE (py_float (py_or size_value (VFloat 0))) (\<lambda>sz.
     bindE (py_float (py_or (position_price_val p) (VFloat 0))) (\<lambda>price.
     bindE (get_float_or0 p ''contract_size'') (\<lambda>contract.
       Inr (if sz < 0 \<or> price < 0 then None
            else if is_lots \<and> contract \<le> 0 then None
            else Some (sz * price * (if contract \<le> 0 then 1 else contract))))))"

definition position_notional :: "pydict \<Rightarrow> pyfloat option" where
  "position_notional p =
     (if dget p ''_notional_valid'' VNone = VBool False then None
      else let explicit = dget p ''notional_value'' VNone
           in if explicit \<noteq> VNone
              then (case py_float explicit of Inl e \<Rightarrow> None | Inr x \<Rightarrow> if x \<ge> 0 then Some x else None)
              else let given = dget p ''size'' VNone;
                       is_lots = (given = VNone \<and> (map_of p ''quantity'' \<noteq> None \<or> map_of p ''volume'' \<noteq> None));
                       sv = (if given = VNone then dget p ''quantity'' (dget p ''volume'' (VFloat 0)) else given)
                   in catchE (notional_of p is_lots sv) None)"

section \<open>Portfolio\<close>

record portfolio_risk =
  po_exposure_pct :: pyfloat
  po_correlation :: pyfloat
  po_sector :: pyfloat
  po_leverage :: pyfloat
  po_notional :: pyfloat
  po_projected_pct :: pyfloat
  po_projected_if_added :: pyfloat
  po_valid :: bool

definition known_notional :: "pydict list \<Rightarrow> pyfloat" where
  "known_notional ps = sum_list (map (\<lambda>p. case position_notional p of None \<Rightarrow> 0 | Some x \<Rightarrow> x) ps)"

text \<open>The number of times the most frequent key occurs.\<close>

definition max_count :: "pyval list \<Rightarrow> nat" where
  "max_count ks = foldl max 0 (map (\<lambda>k. length (filter ((=) k) ks)) ks)"

definition calculate_portfolio_risk :: "pydict list \<Rightarrow> pyfloat \<Rightarrow> pyerr + portfolio_risk" where
  "calculate_portfolio_risk ps equity =
     (if ps = [] \<or> equity \<le> 0
      then Inr \<lparr>po_exposure_pct = 0, po_correlation = 0, po_sector = 0, po_leverage = 0, po_notional = 0,
                po_projected_pct = 0, po_projected_if_added = 0, po_valid = (equity > 0)\<rparr>
      else let total = known_notional ps; pct = total / equity
           in bindE (mapE (\<lambda>p. hash_key (dget p ''symbol'' (VStr []))) ps) (\<lambda>symbols.
              bindE (mapE (\<lambda>p. hash_key (dget p ''sector'' (VStr ''unknown''))) ps) (\<lambda>sectors.
                Inr \<lparr>po_exposure_pct = pct,
                     po_correlation = 1 - of_nat (length (remdups symbols)) / of_nat (length symbols),
                     po_sector = of_nat (max_count sectors) / of_nat (length ps),
                     po_leverage = pct, po_notional = total, po_projected_pct = pct,
                     po_projected_if_added = pct,
                     po_valid = list_all (\<lambda>p. position_notional p \<noteq> None) ps\<rparr>)))"

definition check_projected_exposure ::
  "pydict list \<Rightarrow> pydict \<Rightarrow> pydict option \<Rightarrow> pyfloat \<Rightarrow> pyerr + bool \<times> pyfloat \<times> pyfloat" where
  "check_projected_exposure ps a proposed max_exposure =
     bindE (get_float a ''equity'' (VFloat 0)) (\<lambda>equity.
       if equity \<le> 0 then Inr (False, 0, 0)
       else bindE (calculate_portfolio_risk ps equity) (\<lambda>r.
         if \<not> po_valid r then Inr (False, 0, 0)
         else let current = po_exposure_pct r
              in case proposed of
                   None \<Rightarrow> Inr (current \<le> max_exposure, current, current)
                 | Some t \<Rightarrow>
                     bindE (py_float (py_or (dget t ''size'' (dget t ''quantity'' (dget t ''volume'' (VInt 0))))
                                            (VFloat 0))) (\<lambda>sz.
                       if sz > 0
                       then (case position_notional t of
                               None \<Rightarrow> Inr (False, current, current)
                             | Some n \<Rightarrow>
                                 if n \<le> 0 then Inr (False, current, current)
                                 else let projected = (po_notional r + n) / equity
                                      in Inr (projected \<le> max_exposure, current, projected))
                       else Inr (current \<le> max_exposure, current, current))))"

definition check_exposure :: "pydict list \<Rightarrow> pyfloat \<Rightarrow> pyfloat option \<Rightarrow> pyerr + bool" where
  "check_exposure ps max_exposure account_equity =
     (case account_equity of
        None \<Rightarrow> Inr False
      | Some e \<Rightarrow>
          (if e \<le> 0 then Inr False
           else bindE (calculate_portfolio_risk ps e) (\<lambda>r. Inr (po_exposure_pct r \<le> max_exposure))))"

section \<open>Risk level\<close>

definition tier :: "pyfloat \<Rightarrow> pyfloat \<Rightarrow> pyfloat \<Rightarrow> pyfloat \<Rightarrow> int" where
  "tier x hi mid lo = (if x > hi then 3 else if x > mid then 2 else if x > lo then 1 else 0)"

definition risk_score :: "risk_engine \<Rightarrow> risk_metrics \<Rightarrow> int" where
  "risk_score E m =
     (let dd = threshold_or E MAX_DRAWDOWN (15/100); dl = threshold_or E DAILY_LOSS_LIMIT (5/100);
          ex = threshold_or E MAX_EXPOSURE (30/100); mg = threshold_or E MARGIN_THRESHOLD (20/100);
          mp = threshold_or E MAX_POSITIONS 5; n = of_int (rm_position_count m)
      in tier (rm_drawdown_pct m) (dd * (8/10)) (dd * (5/10)) (dd * (2/10))
       + tier (rm_daily_loss_pct m) (dl * (8/10)) (dl * (5/10)) (dl * (2/10))
       + tier (rm_total_exposure_pct m) (ex * (9/10)) (ex * (7/10)) (ex * (5/10))
       + tier (rm_used_margin_pct m) (mg * (9/10)) (mg * (7/10)) (mg * (5/10))
       + (if n \<ge> mp then 2 else if n \<ge> mp * (8/10) then 1 else 0)
       + (if rm_correlation_risk m > 8/10 then 2 else if rm_correlation_risk m > 5/10 then 1 else 0)
       + (if rm_sector_concentration m > 8/10 then 2 else if rm_sector_concentration m > 5/10 then 1 else 0))"

definition assess_risk_level :: "risk_engine \<Rightarrow> risk_metrics \<Rightarrow> risk_level" where
  "assess_risk_level E m =
     (let s = risk_score E m
      in if s \<ge> 10 then RL_CRITICAL else if s \<ge> 6 then RL_HIGH else if s \<ge> 3 then RL_MEDIUM else RL_LOW)"

fun rl_rank :: "risk_level \<Rightarrow> nat" where
  "rl_rank RL_LOW = 0"
| "rl_rank RL_MEDIUM = 1"
| "rl_rank RL_HIGH = 2"
| "rl_rank RL_CRITICAL = 3"

lemma rl_rank_inj: "rl_rank a = rl_rank b \<Longrightarrow> a = b"
  by (cases a; cases b) simp_all

instantiation risk_level :: linorder
begin

definition less_eq_risk_level :: "risk_level \<Rightarrow> risk_level \<Rightarrow> bool" where
  "less_eq_risk_level a b \<longleftrightarrow> rl_rank a \<le> rl_rank b"

definition less_risk_level :: "risk_level \<Rightarrow> risk_level \<Rightarrow> bool" where
  "less_risk_level a b \<longleftrightarrow> rl_rank a < rl_rank b"

instance
  by standard (auto simp: less_eq_risk_level_def less_risk_level_def intro: rl_rank_inj)

end

section \<open>Lemmas\<close>

lemma notional_of_nonneg: "notional_of p l v = Inr (Some n) \<Longrightarrow> 0 \<le> n"
  by (auto simp: notional_of_def not_less not_le split: if_splits)

lemma position_notional_nonneg: "position_notional p = Some n \<Longrightarrow> 0 \<le> n"
proof (cases "dget p ''notional_value'' VNone = VNone")
  case True
  assume "position_notional p = Some n"
  with True obtain l v where "catchE (notional_of p l v) None = Some n"
    by (auto simp: position_notional_def Let_def split: if_splits)
  then show ?thesis by (cases "notional_of p l v") (auto intro: notional_of_nonneg)
next
  case False
  assume "position_notional p = Some n"
  with False show ?thesis
    by (auto simp: position_notional_def Let_def split: if_splits sum.splits)
qed

lemma known_notional_nonneg: "0 \<le> known_notional ps"
  unfolding known_notional_def
  by (rule sum_list_nonneg) (auto dest: position_notional_nonneg split: option.splits)

lemma portfolio_facts:
  assumes "calculate_portfolio_risk ps e = Inr r" "0 < e"
  shows "po_notional r = known_notional ps" "po_exposure_pct r = known_notional ps / e"
    "po_valid r \<longleftrightarrow> (\<forall>p\<in>set ps. position_notional p \<noteq> None)"
  using assms
  by (auto simp: calculate_portfolio_risk_def known_notional_def list_all_iff Let_def split: if_splits)

lemma check_drawdown_True:
  assumes "check_drawdown a m = Inr True"
  shows "\<exists>e p. get_float a ''equity'' (VFloat 0) = Inr e \<and> get_float a ''peak_equity'' (VFloat e) = Inr p
     \<and> 0 < p \<and> p - e \<le> m * p"
  using assms by (auto simp: check_drawdown_def not_le divide_le_eq split: if_splits)

lemma check_daily_loss_True:
  assumes "check_daily_loss a m = Inr True"
  shows "\<exists>b p. get_float a ''balance'' (VFloat 0) = Inr b \<and> get_float a ''daily_pnl'' (VFloat 0) = Inr p
     \<and> 0 < b \<and> \<bar>min p 0\<bar> \<le> m * b"
  proof -
  have ratio: "0 < b \<Longrightarrow> m < - (x / b) \<longleftrightarrow> m * b < - x" for x b :: pyfloat
    using pos_less_divide_eq [of b m "- x"] by simp
  show ?thesis using assms
    by (auto simp: check_daily_loss_def not_le ratio split: if_splits)
qed

lemma check_margin_True:
  assumes "check_margin a m = Inr True"
  shows "\<exists>e u c. get_float a ''equity'' (VFloat 0) = Inr e \<and> get_float a ''used_margin'' (VFloat 0) = Inr u
     \<and> get_float a ''margin_call_level'' (VFloat 0) = Inr c
     \<and> 0 < e \<and> u \<le> m * e \<and> (c \<le> 0 \<or> c < e)"
  using assms by (auto simp: check_margin_def not_le divide_le_eq split: if_splits)

text \<open>What a proposed trade adds to the exposure.\<close>

definition added_notional :: "pydict option \<Rightarrow> pyfloat" where
  "added_notional proposed = (case proposed of None \<Rightarrow> 0 | Some t \<Rightarrow>
     (if float_or (py_or (dget t ''size'' (dget t ''quantity'' (dget t ''volume'' (VInt 0)))) (VFloat 0)) 0 > 0
      then (case position_notional t of None \<Rightarrow> 0 | Some n \<Rightarrow> n) else 0))"

lemma check_projected_exposure_True:
  assumes "check_projected_exposure ps a proposed m = Inr (True, cur, proj)"
  shows "\<exists>e. get_float a ''equity'' (VFloat 0) = Inr e \<and> 0 < e
     \<and> (\<forall>p\<in>set ps. position_notional p \<noteq> None)
     \<and> cur = known_notional ps / e \<and> proj = (known_notional ps + added_notional proposed) / e
     \<and> known_notional ps + added_notional proposed \<le> m * e"
proof -
  from assms obtain e r where e: "get_float a ''equity'' (VFloat 0) = Inr e" "0 < e"
    and r: "calculate_portfolio_risk ps e = Inr r" "po_valid r"
    by (auto simp: check_projected_exposure_def not_le split: if_splits)
  note pf = portfolio_facts [OF r(1) e(2)]
  have "cur = known_notional ps / e \<and> proj = (known_notional ps + added_notional proposed) / e \<and> proj \<le> m"
    using assms e r pf
    by (auto simp: check_projected_exposure_def added_notional_def float_or_def Let_def split: option.splits if_splits)
  moreover from this have "known_notional ps + added_notional proposed \<le> m * e"
    using pos_divide_le_eq [OF e(2), of "known_notional ps + added_notional proposed" m] by auto
  ultimately show ?thesis using e pf(3) r(2) by auto
qed

section \<open>Properties\<close>

text \<open>
  An accepted projection means that the account's equity is positive, the notional of every
  open position is known, and all of them with the proposed trade stay within the exposure limit.
\<close>

theorem accepted_projection_within_limit:
  assumes "check_projected_exposure ps a proposed m = Inr (True, cur, proj)"
  shows "\<exists>e. get_float a ''equity'' (VFloat 0) = Inr e \<and> 0 < e \<and> list_all (\<lambda>p. position_notional p \<noteq> None) ps
     \<and> known_notional ps + added_notional proposed \<le> m * e \<and> cur \<le> proj \<and> proj \<le> m"
proof -
  from check_projected_exposure_True [OF assms] obtain e where
    e: "get_float a ''equity'' (VFloat 0) = Inr e" "0 < e" "\<forall>p\<in>set ps. position_notional p \<noteq> None"
    and v: "cur = known_notional ps / e" "proj = (known_notional ps + added_notional proposed) / e"
    and le: "known_notional ps + added_notional proposed \<le> m * e" by blast
  have "0 \<le> added_notional proposed"
    by (auto simp: added_notional_def dest: position_notional_nonneg split: option.splits)
  with e v le show ?thesis by (auto simp: list_all_iff divide_right_mono pos_divide_le_eq)
qed

lemma accepted_projection_within_limit_witness:
  "check_projected_exposure [[(''volume'', VFloat (1/10)), (''price_open'', VInt 2000), (''contract_size'', VInt 1)]]
     [(''equity'', VInt 1000)] (Some [(''size'', VInt 1), (''current_price'', VInt 100)]) (3/10)
     = Inr (True, 1/5, 3/10) \<and> (1/5 :: rat) \<le> 3/10"
proof -
  have "check_projected_exposure [[(''volume'', VFloat (1/10)), (''price_open'', VInt 2000), (''contract_size'', VInt 1)]]
     [(''equity'', VInt 1000)] (Some [(''size'', VInt 1), (''current_price'', VInt 100)]) (3/10)
     = Inr (True, 1/5, 3/10)"
    by (simp add: check_projected_exposure_def calculate_portfolio_risk_def known_notional_def
        position_notional_def notional_of_def position_price_val_def py_simps Let_def)
  with accepted_projection_within_limit [OF this] show ?thesis by simp
qed

text \<open>
  The older exposure check counts a position of unknown notional as nothing: a portfolio in
  which no notional is known passes it, while the projection refuses that portfolio.
\<close>

theorem unknown_notionals_pass_the_old_check:
  assumes "ps \<noteq> []" "list_all (\<lambda>p. position_notional p = None) ps" "0 < e" "0 \<le> m"
    and "calculate_portfolio_risk ps e = Inr r"
  shows "check_exposure ps m (Some e) = Inr True \<and>
         check_projected_exposure ps [(''equity'', VFloat e)] t m = Inr (False, 0, 0)"
proof -
  note pf = portfolio_facts [OF assms(5,3)]
  have "known_notional ps = 0"
    using assms(2) by (induction ps) (auto simp: known_notional_def)
  moreover have "\<not> po_valid r" using pf(3) assms(1,2) by (cases ps) auto
  ultimately show ?thesis
    using assms pf by (simp add: check_exposure_def check_projected_exposure_def py_simps)
qed

lemma unknown_notionals_pass_the_old_check_witness:
  "check_exposure [[(''volume'', VInt 50), (''price_open'', VInt 2000)]] (3/10) (Some 100) = Inr True"
  using unknown_notionals_pass_the_old_check [of "[[(''volume'', VInt 50), (''price_open'', VInt 2000)]]" 100 "3/10"
      "\<lparr>po_exposure_pct = 0, po_correlation = 0, po_sector = 1, po_leverage = 0, po_notional = 0,
        po_projected_pct = 0, po_projected_if_added = 0, po_valid = False\<rparr>"]
  by (simp add: calculate_portfolio_risk_def known_notional_def max_count_def
      position_notional_def notional_of_def position_price_val_def py_simps Let_def)

definition metrics_le :: "risk_metrics \<Rightarrow> risk_metrics \<Rightarrow> bool" where
  "metrics_le m n \<longleftrightarrow> rm_drawdown_pct m \<le> rm_drawdown_pct n \<and> rm_daily_loss_pct m \<le> rm_daily_loss_pct n
     \<and> rm_total_exposure_pct m \<le> rm_total_exposure_pct n \<and> rm_used_margin_pct m \<le> rm_used_margin_pct n
     \<and> rm_position_count m \<le> rm_position_count n \<and> rm_correlation_risk m \<le> rm_correlation_risk n
     \<and> rm_sector_concentration m \<le> rm_sector_concentration n"

lemma tier_mono: "x \<le> y \<Longrightarrow> tier x hi mid lo \<le> tier y hi mid lo"
  by (auto simp: tier_def)

lemma step_mono:
  fixes x y :: "'a :: linorder"
  shows "x \<le> y \<Longrightarrow> (if x > b then 2 else if x > c then 1 else 0 :: int) \<le> (if y > b then 2 else if y > c then 1 else 0)"
    "x \<le> y \<Longrightarrow> (if x \<ge> b then 2 else if x \<ge> c then 1 else 0 :: int) \<le> (if y \<ge> b then 2 else if y \<ge> c then 1 else 0)"
  by auto

lemma risk_score_mono: "metrics_le m n \<Longrightarrow> risk_score E m \<le> risk_score E n"
  unfolding risk_score_def Let_def metrics_le_def
  by (intro add_mono tier_mono step_mono) auto

text \<open>
  Riskier metrics never get a lower risk level, whatever the thresholds.
\<close>

theorem risk_level_monotone:
  assumes "metrics_le m n"
  shows "assess_risk_level E m \<le> assess_risk_level E n"
  using risk_score_mono [OF assms, of E]
  by (auto simp: assess_risk_level_def Let_def less_eq_risk_level_def)

definition calm :: risk_metrics where
  "calm = \<lparr>rm_drawdown_pct = 0, rm_daily_loss_pct = 0, rm_equity = 100, rm_balance = 100,
     rm_total_exposure_pct = 0, rm_used_margin_pct = 0, rm_position_count = 1, rm_peak_equity = 100,
     rm_max_drawdown_pct = 0, rm_correlation_risk = 0, rm_sector_concentration = 0, rm_leverage_used = 0,
     rm_available_margin = 100, rm_spread_cost = 0\<rparr>"

lemma risk_level_monotone_witness:
  "assess_risk_level [(MAX_POSITIONS, 5)] calm
     \<le> assess_risk_level [(MAX_POSITIONS, 5)] (calm\<lparr>rm_drawdown_pct := 1/2, rm_position_count := 7\<rparr>)"
  using risk_level_monotone [of calm "calm\<lparr>rm_drawdown_pct := 1/2, rm_position_count := 7\<rparr>"]
  by (simp add: metrics_le_def calm_def)

end
