(* ===== verification/Money.thy ===== *)
theory Money
  imports Prelude
begin

text \<open>
  Sizing: \<open>risk/money_management.py\<close> (\<open>MoneyManager\<close>) and \<open>trading/position_sizing.py\<close>.
  All parameters annotated \<open>float\<close> are numbers; a division by zero is the error it raises.
\<close>

section \<open>Money manager\<close>

record size_result =
  sz_lot :: pyfloat
  sz_risk :: pyfloat
  sz_sl_pips :: pyfloat
  sz_tp_pips :: pyfloat
  sz_rr :: pyfloat
  sz_sl_price :: pyfloat
  sz_tp_price :: pyfloat
  sz_capped :: bool

definition size_result_of :: "pyfloat \<Rightarrow> pyfloat \<Rightarrow> pyfloat \<Rightarrow> size_result" where
  "size_result_of lot risk sl_pips =
     \<lparr>sz_lot = lot, sz_risk = risk, sz_sl_pips = sl_pips, sz_tp_pips = 0, sz_rr = 0, sz_sl_price = 0,
      sz_tp_price = 0, sz_capped = False\<rparr>"

definition loss_per_lot :: "pyfloat \<Rightarrow> pyfloat \<Rightarrow> pyfloat \<Rightarrow> pyfloat \<Rightarrow> pyfloat \<Rightarrow> pyfloat" where
  "loss_per_lot sl_pips point_value contract_size commission spread_cost =
     sl_pips * point_value * contract_size + max commission 0 + max spread_cost 0"

definition calculate_lot_size ::
  "pyfloat \<Rightarrow> pyfloat \<Rightarrow> pyfloat \<Rightarrow> pyfloat \<Rightarrow> pyfloat \<Rightarrow> pyfloat option \<Rightarrow> pyfloat \<Rightarrow> pyfloat
   \<Rightarrow> pyerr + size_result" where
  "calculate_lot_size balance risk_pct sl_pips point_value contract_size equity commission spread_cost =
     (if sl_pips \<le> 0 then Inl ValueError
      else let base = (case equity of Some e \<Rightarrow> e | None \<Rightarrow> balance);
               risk_amount = base * risk_pct;
               lpl = loss_per_lot sl_pips point_value contract_size commission spread_cost
           in if risk_amount \<le> 0 then Inr (size_result_of 0 0 sl_pips)
              else if lpl \<le> 0 then Inr (size_result_of 0 0 sl_pips)
              else Inr (size_result_of (risk_amount / lpl) risk_amount sl_pips))"

text \<open>The stop and target distances, from the ATR when there is one, else from the pips.\<close>

definition sl_tp_distances ::
  "pyfloat option \<Rightarrow> pyfloat \<Rightarrow> pyfloat \<Rightarrow> pyfloat option \<Rightarrow> pyfloat option \<Rightarrow> pyerr + pyfloat \<times> pyfloat" where
  "sl_tp_distances atr slm tpm pips point =
     (case atr of
        Some a \<Rightarrow> Inr (a * slm, a * tpm)
      | None \<Rightarrow> (case pips of
            None \<Rightarrow> Inl ValueError
          | Some p \<Rightarrow> (case point of
                None \<Rightarrow> Inl ValueError
              | Some pv \<Rightarrow> Inr (p * pv, p * tpm * pv))))"

definition calculate_sl_tp ::
  "pyfloat \<Rightarrow> string \<Rightarrow> pyfloat option \<Rightarrow> pyfloat \<Rightarrow> pyfloat \<Rightarrow> pyfloat option \<Rightarrow> pyfloat option
   \<Rightarrow> pyfloat \<Rightarrow> pyerr + pyfloat \<times> pyfloat" where
  "calculate_sl_tp entry direction atr slm tpm pips point spread =
     (let d = lower direction in
      if d \<notin> {''long'', ''short''} then Inl ValueError
      else bindE (sl_tp_distances atr slm tpm pips point) (\<lambda>(risk, reward).
        let s = max spread 0
        in if d = ''long'' then Inr (entry + s - risk, entry + s + reward)
           else Inr (entry - s + risk, entry - s - reward)))"

definition validate_rr_ratio :: "pyfloat \<Rightarrow> pyfloat \<Rightarrow> pyfloat \<Rightarrow> pyfloat \<Rightarrow> pyerr + bool \<times> pyfloat" where
  "validate_rr_ratio entry sl tp min_rr =
     (let risk = \<bar>entry - sl\<bar>
      in if risk \<le> 0 then Inl ValueError
         else let rr = \<bar>tp - entry\<bar> / risk in Inr (rr \<ge> min_rr, rr))"

definition cap_lot_size :: "pyfloat \<Rightarrow> pyfloat \<Rightarrow> pyfloat \<Rightarrow> pyfloat \<Rightarrow> pyfloat" where
  "cap_lot_size lot max_per_trade current_total max_total =
     (if lot \<le> 0 then 0
      else min (min lot max_per_trade) (max 0 (max_total - current_total)))"

section \<open>Position sizing\<close>

definition fixed_fractional_size ::
  "pyfloat \<Rightarrow> pyfloat \<Rightarrow> pyfloat \<Rightarrow> pyfloat \<Rightarrow> pyfloat \<Rightarrow> pyfloat option" where
  "fixed_fractional_size equity risk_percent entry stop pip_value =
     (if equity \<le> 0 \<or> risk_percent \<le> 0 \<or> entry \<le> 0 \<or> stop \<le> 0 then None
      else let price_risk = \<bar>entry - stop\<bar>
           in if price_risk = 0 \<or> pip_value \<le> 0 then None
              else Some (equity * (risk_percent / 100) / (price_risk * pip_value)))"

definition atr_position_size ::
  "pyfloat \<Rightarrow> pyfloat \<Rightarrow> pyfloat \<Rightarrow> pyfloat \<Rightarrow> pyfloat \<Rightarrow> pyerr + pyfloat option" where
  "atr_position_size equity risk_percent atr mult pip_value =
     (if equity \<le> 0 \<or> risk_percent \<le> 0 \<or> atr \<le> 0 \<or> mult \<le> 0 then Inr None
      else let stop_distance = atr * mult
           in if stop_distance * pip_value = 0 then Inl ZeroDivisionError
              else Inr (Some (equity * (risk_percent / 100) / (stop_distance * pip_value))))"

definition normalize_lot_size :: "pyfloat \<Rightarrow> pyfloat \<Rightarrow> pyfloat \<Rightarrow> pyfloat \<Rightarrow> pyerr + pyfloat" where
  "normalize_lot_size raw min_lot max_lot lot_step =
     (if raw \<le> 0 then Inr min_lot
      else if lot_step = 0 then Inl ZeroDivisionError
      else let bounded = max min_lot (min raw max_lot);
               steps = round_half_even (bounded / lot_step)
           in Inr (py_round (of_int steps * lot_step) 8))"

definition max_position_by_margin :: "pyfloat \<Rightarrow> int \<Rightarrow> pyfloat \<Rightarrow> pyfloat \<Rightarrow> pyfloat option" where
  "max_position_by_margin free_margin leverage price contract_size =
     (if free_margin \<le> 0 \<or> leverage \<le> 0 \<or> price \<le> 0 \<or> contract_size \<le> 0 then None
      else Some (free_margin * of_int leverage / (price * contract_size)))"

definition calculate_stop_loss :: "pyfloat \<Rightarrow> string \<Rightarrow> pyfloat \<Rightarrow> pyfloat \<Rightarrow> pyfloat option" where
  "calculate_stop_loss entry side atr mult =
     (if entry \<le> 0 \<or> atr \<le> 0 \<or> mult \<le> 0 then None
      else if upper side = ''BUY'' then Some (entry - atr * mult)
      else if upper side = ''SELL'' then Some (entry + atr * mult)
      else None)"

definition calculate_take_profit :: "pyfloat \<Rightarrow> pyfloat \<Rightarrow> string \<Rightarrow> pyfloat \<Rightarrow> pyfloat option" where
  "calculate_take_profit entry stop side ratio =
     (if entry \<le> 0 \<or> stop \<le> 0 \<or> ratio \<le> 0 then None
      else let risk = \<bar>entry - stop\<bar>
           in if upper side = ''BUY'' then Some (entry + risk * ratio)
              else if upper side = ''SELL'' then Some (entry - risk * ratio)
              else None)"

section \<open>Properties\<close>

lemma long_or_short: "lower direction = ''long'' \<or> lower direction = ''short'' \<Longrightarrow>
   lower direction \<in> {''long'', ''short''}"
  by auto

text \<open>
  ATR levels bracket the price the order fills at, on the side of the trade, and measured from
  that price the reward to risk ratio is exactly the quotient of the two multipliers.
\<close>

theorem atr_levels_bracket_the_fill:
  assumes "0 < a" "0 < slm" "0 < tpm" "lower direction = ''long'' \<or> lower direction = ''short''"
    and "fill = (if lower direction = ''long'' then entry + max spread 0 else entry - max spread 0)"
    and "calculate_sl_tp entry direction (Some a) slm tpm pips point spread = Inr (sl, tp)"
  shows "(if lower direction = ''long'' then sl < fill \<and> fill < tp else tp < fill \<and> fill < sl) \<and>
         validate_rr_ratio fill sl tp m = Inr (tpm / slm \<ge> m, tpm / slm)"
  using assms
proof -
  have pos: "0 < a * slm" "0 < a * tpm" using assms(1-3) by simp_all
  define base where "base = (if lower direction = ''long'' then entry + max spread 0 else entry - max spread 0)"
  have f: "fill = base" using assms(5) by (simp add: base_def)
  have lv: "(sl, tp) = (if lower direction = ''long'' then (base - a * slm, base + a * tpm)
      else (base + a * slm, base - a * tpm))"
    using assms(4,6) by (auto simp: calculate_sl_tp_def sl_tp_distances_def base_def Let_def split: if_splits)
  have q: "\<bar>a * tpm\<bar> / \<bar>a * slm\<bar> = tpm / slm" using assms(1-3) by simp
  show ?thesis
  proof (cases "lower direction = ''long''")
    case True
    with lv f pos q show ?thesis by (simp add: validate_rr_ratio_def Let_def)
  next
    case False
    with lv f pos q show ?thesis by (simp add: validate_rr_ratio_def Let_def)
  qed
qed

lemma atr_levels_bracket_the_fill_witness:
  "validate_rr_ratio (101::rat) 98 107 (3/2) = Inr (True, 2)"
  using atr_levels_bracket_the_fill [of 2 "3/2" 3 "''LONG''" 101 100 1 None None 98 107 "3/2"]
  by (simp add: calculate_sl_tp_def sl_tp_distances_def lower_def to_lower_def Let_def validate_rr_ratio_def)

text \<open>
  A capped lot is never negative, never above the lot asked for or the limit per trade, and
  never brings the total above the portfolio limit, as long as the limits are not negative and
  the total was within its limit.
\<close>

theorem capped_lot_within_limits:
  assumes "0 \<le> max_trade" "open_lots \<le> max_total"
  shows "0 \<le> cap_lot_size lot max_trade open_lots max_total \<and>
         cap_lot_size lot max_trade open_lots max_total \<le> max 0 lot \<and>
         cap_lot_size lot max_trade open_lots max_total \<le> max_trade \<and>
         open_lots + cap_lot_size lot max_trade open_lots max_total \<le> max_total"
  using assms by (auto simp: cap_lot_size_def min_def max_def)

lemma capped_lot_within_limits_witness:
  "4 + cap_lot_size 7 2 4 5 \<le> (5::rat) \<and> cap_lot_size 7 2 4 5 = 1"
  using capped_lot_within_limits [of 2 4 5 7] by (simp add: cap_lot_size_def)

lemma round_steps_error:
  "0 < step \<Longrightarrow> \<bar>of_int (round_half_even (x / step)) * step - x\<bar> \<le> step / 2"
proof -
  assume s: "0 < step"
  then have "of_int (round_half_even (x / step)) * step - x = (of_int (round_half_even (x / step)) - x / step) * step"
    by (simp add: left_diff_distrib)
  then have "\<bar>of_int (round_half_even (x / step)) * step - x\<bar> = \<bar>of_int (round_half_even (x / step)) - x / step\<bar> * step"
    using s by (simp add: abs_mult)
  also have "\<dots> \<le> 1/2 * step" using s round_half_even_error by (intro mult_right_mono) auto
  finally show ?thesis by simp
qed

text \<open>
  A normalised lot is within half a step (and half a rounding unit) of the requested size
  clamped to the lot limits; for a request that is not positive it is the minimum lot.
\<close>

theorem normalized_lot_near_clamped:
  assumes "0 < lot_step" "normalize_lot_size raw min_lot max_lot lot_step = Inr q"
  shows "if 0 < raw then \<bar>q - max min_lot (min raw max_lot)\<bar> \<le> lot_step / 2 + 1 / (2 * 10 ^ 8)
         else q = min_lot"
proof (cases "0 < raw")
  case False
  with assms show ?thesis by (simp add: normalize_lot_size_def)
next
  case True
  let ?b = "max min_lot (min raw max_lot)"
  let ?k = "of_int (round_half_even (?b / lot_step)) * lot_step"
  have q: "q = py_round ?k 8" using assms True by (simp add: normalize_lot_size_def Let_def)
  have "\<bar>?k - ?b\<bar> \<le> lot_step / 2" using round_steps_error [OF assms(1)] .
  moreover have "\<bar>q - ?k\<bar> \<le> 1 / (2 * 10 ^ 8)" unfolding q by (rule py_round_error)
  ultimately have "\<bar>q - ?b\<bar> \<le> lot_step / 2 + 1 / (2 * 10 ^ 8)" by linarith
  with True show ?thesis by simp
qed

lemma normalized_lot_near_clamped_witness:
  "\<bar>(1/10) - max (1/100) (min (13/100) (5::rat))\<bar> \<le> (1/10) / 2 + 1 / (2 * 10 ^ 8)"
  using normalized_lot_near_clamped [of "1/10" "13/100" "1/100" 5 "1/10"]
  by (simp add: normalize_lot_size_def round_half_even_def py_round_def Let_def)

text \<open>
  The stop and the target of an order lie on opposite sides of the entry, the stop on the
  losing side, and the target's distance is the ratio times the stop's.
\<close>

theorem stop_and_target_straddle_entry:
  assumes "calculate_stop_loss entry side atr mult = Some sl"
    and "calculate_take_profit entry sl side ratio = Some tp"
  shows "\<bar>tp - entry\<bar> = ratio * \<bar>entry - sl\<bar> \<and> (tp - entry) * (entry - sl) > 0 \<and>
         (sl < entry \<longleftrightarrow> upper side = ''BUY'')"
proof -
  have am: "0 < atr * mult" and r: "0 < ratio"
    using assms by (auto simp: calculate_stop_loss_def calculate_take_profit_def split: if_splits)
  from am have nl: "\<not> atr * mult < 0" by (simp only: not_less order_less_imp_le)
  show ?thesis
    using assms r am by (auto simp: calculate_stop_loss_def calculate_take_profit_def abs_of_pos [OF am] nl Let_def
        mult.commute split: if_splits)
qed

lemma stop_and_target_straddle_entry_witness:
  "\<bar>108 - 100 :: rat\<bar> = 2 * \<bar>100 - 96\<bar>"
  using stop_and_target_straddle_entry [of 100 "''buy''" 2 2 96 2 108]
  by (simp add: calculate_stop_loss_def calculate_take_profit_def upper_def to_upper_def)

end
