(* ===== verification/Symbol_Spec.thy ===== *)
theory Symbol_Spec
  imports Prelude
begin

text \<open>
  Broker metadata per symbol: \<open>market/symbol_spec.py\<close> and \<open>paper/contract_size.py\<close>. What the
  terminal reports, \<open>get_symbol_info\<close> of the connector, is the argument \<open>info\<close>: the fields of the
  symbol, or nothing. The connector itself turns every failure of the terminal into nothing; outside
  live mode it answers \<open>simulated_info\<close>.
\<close>

section \<open>Asset classes\<close>

definition is_alpha :: "char \<Rightarrow> bool" where
  "is_alpha c \<longleftrightarrow> (let n = of_char c :: nat in (65 \<le> n \<and> n \<le> 90) \<or> (97 \<le> n \<and> n \<le> 122))"

definition asset_class_prefixes :: "(string \<times> string) list" where
  "asset_class_prefixes = [(''XAU'', ''XAU''), (''GOLD'', ''XAU''), (''BTC'', ''BTC''), (''ETH'', ''BTC'')]"

definition classify_asset_class :: "string \<Rightarrow> string" where
  "classify_asset_class symbol =
     (let sym = upper symbol
      in case find (\<lambda>(p, c). has_prefix p sym \<or> contains p sym) asset_class_prefixes of
          Some (p, c) \<Rightarrow> c
        | None \<Rightarrow> (if length sym \<ge> 6 \<and> list_all is_alpha (take 6 sym) then ''FX'' else ''OTHER''))"

definition asset_class_spread_limit :: "(string \<times> pyfloat) list" where
  "asset_class_spread_limit = [(''BTC'', 8000), (''XAU'', 200), (''FX'', 5), (''OTHER'', 50000)]"

section \<open>Specifications\<close>

record symbol_spec =
  sp_symbol :: string
  sp_asset_class :: string
  sp_point :: pyfloat
  sp_digits :: int
  sp_tick_size :: pyfloat
  sp_tick_value :: pyfloat
  sp_contract_size :: pyfloat
  sp_min_volume :: pyfloat
  sp_max_volume :: pyfloat
  sp_volume_step :: pyfloat
  sp_spread_limit :: pyfloat
  sp_commission :: pyfloat
  sp_commission_source :: string
  sp_source :: string
  sp_raw :: pydict

definition spec_defaults :: pydict where
  "spec_defaults = [(''volume_min'', VFloat (1/100)), (''volume_max'', VFloat 100), (''volume_step'', VFloat (1/100)),
     (''stops_level'', VInt 0), (''freeze_level'', VInt 0), (''filling_mode'', VStr ''instant''),
     (''margin_mode'', VStr ''gross''), (''swap_long'', VFloat 0), (''swap_short'', VFloat 0)]"

text \<open>A key of the optional configuration; no configuration reads as an absent key.\<close>

definition cfg_get :: "pydict option \<Rightarrow> string \<Rightarrow> pyval" where
  "cfg_get config k = (case config of None \<Rightarrow> VNone | Some c \<Rightarrow> dget c k VNone)"

definition resolve_spread_limit :: "string \<Rightarrow> pydict option \<Rightarrow> pyfloat" where
  "resolve_spread_limit ac config =
     (let fallback = (case map_of asset_class_spread_limit ac of Some x \<Rightarrow> x | None \<Rightarrow> 50000)
      in if cfg_get config ''spread_limit'' \<noteq> VNone then float_or (cfg_get config ''spread_limit'') fallback
         else fallback)"

definition config_commission :: "pydict option \<Rightarrow> pyfloat \<times> string" where
  "config_commission config =
     (if cfg_get config ''commission'' \<noteq> VNone then (float_or (cfg_get config ''commission'') 0, ''CONFIG'')
      else (0, ''UNKNOWN''))"

definition build_from_broker ::
  "(string \<Rightarrow> pydict option) \<Rightarrow> string \<Rightarrow> pydict option \<Rightarrow> symbol_spec option" where
  "build_from_broker info symbol config =
     (case info symbol of
        None \<Rightarrow> None
      | Some base \<Rightarrow>
          (let ac = classify_asset_class symbol;
               bc = dget base ''commission'' VNone;
               (commission, source) = (if bc \<noteq> VNone then (float_or bc 0, ''BROKER'') else config_commission config);
               pt = float_or (dget base ''point'' VNone) 0;
               ts = float_or (dget base ''tick_size'' VNone) pt
           in Some \<lparr>sp_symbol = py_text (py_or (dget base ''symbol'' VNone) (VStr symbol)),
                sp_asset_class = ac, sp_point = pt,
                sp_digits = py_trunc (float_or (dget base ''digits'' VNone) 5),
                sp_tick_size = (if ts \<noteq> 0 then ts else pt),
                sp_tick_value = float_or (dget base ''tick_value'' VNone) 0,
                sp_contract_size = float_or (dget base ''contract_size'' VNone) 0,
                sp_min_volume = float_or (dget base ''volume_min'' VNone) (1/100),
                sp_max_volume = float_or (dget base ''volume_max'' VNone) 100,
                sp_volume_step = float_or (dget base ''volume_step'' VNone) (1/100),
                sp_spread_limit = resolve_spread_limit ac config,
                sp_commission = commission, sp_commission_source = source, sp_source = ''broker'',
                sp_raw = base\<rparr>))"

definition build_fallback :: "string \<Rightarrow> pydict option \<Rightarrow> symbol_spec" where
  "build_fallback symbol config =
     (let ac = classify_asset_class symbol
      in \<lparr>sp_symbol = symbol, sp_asset_class = ac, sp_point = 0, sp_digits = 5, sp_tick_size = 0,
          sp_tick_value = 0, sp_contract_size = 0,
          sp_min_volume = float_or (cfg_get config ''volume_min'') (1/100),
          sp_max_volume = float_or (cfg_get config ''volume_max'') 100,
          sp_volume_step = float_or (cfg_get config ''volume_step'') (1/100),
          sp_spread_limit = resolve_spread_limit ac config,
          sp_commission = fst (config_commission config),
          sp_commission_source = snd (config_commission config),
          sp_source = ''fallback'', sp_raw = dict_update [(''symbol'', VStr symbol)] spec_defaults\<rparr>)"

definition get_symbol_specification ::
  "(string \<Rightarrow> pydict option) \<Rightarrow> string \<Rightarrow> pydict option \<Rightarrow> symbol_spec" where
  "get_symbol_specification info symbol config =
     (if symbol = [] then build_fallback [] config
      else case build_from_broker info symbol config of
          Some s \<Rightarrow> s
        | None \<Rightarrow> build_fallback symbol config)"

section \<open>What the connector answers without a terminal\<close>

text \<open>
  The second half of \<open>get_symbol_info\<close> in \<open>mt5/connector.py\<close>, taken when live mode is off: the table
  of simulated prices, each price moved by \<open>jitter\<close>, a random function of the price and the spread.
  The first half asks the terminal and gives nothing when that raises.
\<close>

definition simulated_prices :: "(string \<times> pyfloat \<times> pyfloat \<times> pyfloat) list" where
  "simulated_prices =
     [(''EURUSD'', 10850/10000, 10852/10000, 1/10000), (''GBPUSD'', 12650/10000, 12653/10000, 3/10000),
      (''USDJPY'', 14730/100, 14733/100, 1/100), (''AUDUSD'', 6520/10000, 6522/10000, 2/10000),
      (''USDCAD'', 13680/10000, 13683/10000, 3/10000), (''NZDUSD'', 5980/10000, 5982/10000, 2/10000),
      (''USDCHF'', 8050/10000, 8052/10000, 2/10000), (''EURGBP'', 8600/10000, 8603/10000, 3/10000),
      (''EURJPY'', 16010/100, 16014/100, 1/100), (''GBPJPY'', 18620/100, 18624/100, 1/100),
      (''XAUUSD'', 234550/100, 2346, 50/100), (''XAGUSD'', 2785/100, 2787/100, 2/100),
      (''BTCUSD'', 64250, 64280, 10), (''ETHUSD'', 3420, 34225/10, 5/10)]"

definition simulated_info :: "(pyfloat \<Rightarrow> pyfloat \<Rightarrow> pyfloat) \<Rightarrow> string \<Rightarrow> pydict option" where
  "simulated_info jitter symbol =
     (case map_of simulated_prices symbol of
        None \<Rightarrow> None
      | Some (bid, ask, spread) \<Rightarrow>
          (let digits = (if symbol = ''XAUUSD'' \<or> symbol = ''XAGUSD'' then 2
                         else if contains ''.'' symbol \<and> length symbol \<le> 6 then 5 else 2 :: int);
               unit = (if symbol \<notin> {''XAUUSD'', ''XAGUSD'', ''BTCUSD'', ''ETHUSD''} then 100000 else 1);
               pt = (if digits = 5 then 1/100000 else 1/100)
           in Some [(''symbol'', VStr symbol), (''bid'', VFloat (jitter bid spread)), (''ask'', VFloat (jitter ask spread)),
                (''spread'', VInt (py_trunc (spread * (if digits \<le> 2 then 100 else 10000)))), (''digits'', VInt digits),
                (''contract_size'', VFloat unit), (''point'', VFloat pt), (''volume_min'', VFloat (1/100)),
                (''volume_max'', VFloat 100), (''volume_step'', VFloat (1/100)), (''tick_size'', VFloat pt),
                (''tick_value'', VFloat 0), (''trade_mode'', VStr ''FULL''), (''currency_profit'', VStr ''USD''),
                (''currency_margin'', VStr ''USD'')]))"

section \<open>Contract sizes for paper P\&L\<close>

definition resolve_contract_size :: "(string \<Rightarrow> pydict option) \<Rightarrow> string \<Rightarrow> pyfloat \<Rightarrow> pyfloat" where
  "resolve_contract_size info symbol dflt =
     (let c = sp_contract_size (get_symbol_specification info symbol None)
      in if c > 0 then c else dflt)"

section \<open>Lemmas\<close>

lemma spec_source:
  "sp_source (get_symbol_specification info symbol config) = ''broker'' \<longleftrightarrow> symbol \<noteq> [] \<and> info symbol \<noteq> None"
  by (auto simp: get_symbol_specification_def build_from_broker_def build_fallback_def Let_def
      split: option.split prod.split)

lemma spec_contract:
  "sp_contract_size (get_symbol_specification info symbol config) =
     (case (if symbol = [] then None else info symbol) of
        None \<Rightarrow> 0 | Some base \<Rightarrow> float_or (dget base ''contract_size'' VNone) 0)"
  by (auto simp: get_symbol_specification_def build_from_broker_def build_fallback_def Let_def
      split: option.split prod.split)

text \<open>
  The decimals are looked for in the name of the symbol, not in its price, so every simulated
  symbol gets two of them, and a specification built on simulated data is labelled a broker's.
\<close>

lemma simulated_point:
  assumes "simulated_info jitter symbol = Some base"
  shows "dget base ''digits'' VNone = VInt 2 \<and> dget base ''point'' VNone = VFloat (1/100)"
proof -
  have dots: "list_all (\<lambda>(k, p). \<not> contains ''.'' k) simulated_prices"
    by code_simp
  from assms obtain p where p: "map_of simulated_prices symbol = Some p"
    by (auto simp: simulated_info_def split: option.splits)
  then have "(symbol, p) \<in> set simulated_prices" by (rule map_of_SomeD)
  with dots have "\<not> contains ''.'' symbol" by (auto simp: list_all_iff)
  with assms p show ?thesis by (cases p) (auto simp: simulated_info_def dget_def Let_def)
qed

lemma simulated_data_is_labelled_broker:
  "simulated_info jitter symbol \<noteq> None \<Longrightarrow> symbol \<noteq> [] \<Longrightarrow>
   sp_source (get_symbol_specification (simulated_info jitter) symbol config) = ''broker''"
  by (simp add: spec_source)

lemma resolve_contract_size_pos: "0 < dflt \<Longrightarrow> 0 < resolve_contract_size info symbol dflt"
  by (simp add: resolve_contract_size_def Let_def)

text \<open>
  A positive contract size only ever comes from the terminal's data for that symbol, and a
  specification without such data is labelled a fallback and has no point, tick or contract size.
\<close>

theorem specs_are_never_invented:
  "let sp = get_symbol_specification info symbol config
   in if symbol \<noteq> [] \<and> info symbol \<noteq> None
      then sp_source sp = ''broker'' \<and>
           sp_contract_size sp = float_or (dget (the (info symbol)) ''contract_size'' VNone) 0
      else sp_source sp = ''fallback'' \<and> sp_point sp = 0 \<and> sp_tick_size sp = 0 \<and>
           sp_tick_value sp = 0 \<and> sp_contract_size sp = 0"
  by (auto simp: get_symbol_specification_def build_from_broker_def build_fallback_def Let_def
      split: option.split prod.split)

end
