(* ===== verification/Risk_Gate.thy ===== *)
theory Risk_Gate
  imports Risk_Engine Money Symbol_Spec
begin

text \<open>
  The pre-execution gate: \<open>risk/gate.py\<close>. \<open>validate_proposal\<close> is one definition per numbered
  block of the method; a block gives the checks and the metrics it adds, in the order the code
  adds them, and any \<open>float\<close> that raises ends the whole validation. \<open>info\<close> is what the terminal
  reports of a symbol.
\<close>

section \<open>The gate and its inputs\<close>

record gate_decision =
  gd_approved :: bool
  gd_reason :: string
  gd_checks :: "(string \<times> bool) list"
  gd_metrics :: pydict

record risk_gate =
  rg_engine :: risk_engine
  rg_max_spread :: pyfloat
  rg_min_rr :: pyfloat
  rg_symbol_limits :: "(string \<times> pyfloat) list"
  rg_max_risk :: "pyfloat option"

definition new_gate ::
  "risk_engine \<Rightarrow> pyfloat \<Rightarrow> pyfloat \<Rightarrow> (string \<times> pyfloat) list \<Rightarrow> pyfloat option \<Rightarrow> risk_gate" where
  "new_gate E max_spread min_rr limits max_risk =
     \<lparr>rg_engine = E, rg_max_spread = max_spread, rg_min_rr = min_rr, rg_symbol_limits = limits,
      rg_max_risk = (case max_risk of None \<Rightarrow> None | Some r \<Rightarrow> if r = 0 then None else Some r)\<rparr>"

definition max_spread_for_symbol :: "risk_gate \<Rightarrow> pyval \<Rightarrow> pyfloat" where
  "max_spread_for_symbol G symbol =
     (let sym = upper (py_text (py_or symbol (VStr [])))
      in case find (\<lambda>(k, l). contains (upper k) sym) (rg_symbol_limits G) of
          Some (k, l) \<Rightarrow> l
        | None \<Rightarrow> rg_max_spread G)"

definition broker_contract_size ::
  "(string \<Rightarrow> pydict option) \<Rightarrow> pyval \<Rightarrow> pydict \<Rightarrow> pyfloat \<times> string" where
  "broker_contract_size info symbol mi =
     (let given = float_or (py_or (dget mi ''contract_size'' VNone) (VFloat 0)) 0;
          sym = py_text (py_or symbol (py_or (dget mi ''symbol'' VNone) (VStr [])));
          spec = get_symbol_specification info sym None
      in if given > 0 then (given, ''market_info'')
         else if sym \<noteq> [] \<and> sp_source spec = ''broker'' \<and> sp_contract_size spec > 0
         then (sp_contract_size spec, ''broker'')
         else (0, ''missing''))"

type_synonym gate_part = "(string \<times> bool) list \<times> pydict"

definition opt_float :: "pyfloat option \<Rightarrow> pyval" where
  "opt_float x = (case x of None \<Rightarrow> VNone | Some y \<Rightarrow> VFloat y)"

section \<open>Blocks 1 to 5: account, positions, exposure, margin\<close>

definition gate_account :: "risk_gate \<Rightarrow> pydict \<Rightarrow> pydict list \<Rightarrow> pyerr + gate_part" where
  "gate_account G a ps =
     (let max_dd = get_threshold (rg_engine G) MAX_DRAWDOWN;
          daily = get_threshold (rg_engine G) DAILY_LOSS_LIMIT;
          max_pos = get_threshold (rg_engine G) MAX_POSITIONS
      in bindE (check_drawdown a max_dd) (\<lambda>dd_ok.
         bindE (calculate_account_risk a) (\<lambda>r.
         bindE (check_daily_loss a daily) (\<lambda>daily_ok.
           Inr ([(''drawdown_limit'', dd_ok), (''daily_loss_limit'', daily_ok),
                 (''max_positions'', of_nat (length ps) < max_pos)],
                [(''drawdown_pct'', VFloat (ar_drawdown_pct r)), (''max_drawdown'', VFloat max_dd),
                 (''daily_loss_pct'', VFloat (ar_daily_loss_pct r)), (''daily_loss_limit'', VFloat daily),
                 (''position_count'', VInt (int (length ps))), (''max_positions'', VFloat max_pos)])))))"

text \<open>The price the exposure of the proposal is measured at: the quote of its side, else its entry.\<close>

definition quoted_price :: "pydict \<Rightarrow> pydict \<Rightarrow> pyerr + pyfloat" where
  "quoted_price prop mi =
     (let side = (if upper (py_text (dget prop ''direction'' (VStr []))) = ''BUY'' then ''ask'' else ''bid'')
      in py_float (py_or (py_or (dget mi side VNone) (dget prop ''entry_price'' (VFloat 0))) (VFloat 0)))"

definition equity_or_balance :: "pydict \<Rightarrow> pyerr + pyfloat" where
  "equity_or_balance a = get_float a ''equity'' (dget a ''balance'' (VFloat 0))"

definition proposed_trade :: "pyfloat \<Rightarrow> pyfloat \<Rightarrow> pyfloat \<Rightarrow> pydict option" where
  "proposed_trade sz price contract =
     (if sz > 0 \<and> price > 0 \<and> contract > 0
      then Some [(''size'', VFloat sz), (''current_price'', VFloat price), (''contract_size'', VFloat contract),
                 (''notional_value'', VFloat (sz * price * contract))]
      else None)"

definition gate_exposure ::
  "risk_gate \<Rightarrow> pydict \<Rightarrow> pydict \<Rightarrow> pydict list \<Rightarrow> pydict \<Rightarrow> pyfloat \<times> string \<Rightarrow> pyerr + gate_part" where
  "gate_exposure G prop a ps mi cs =
     (let max_exp = get_threshold (rg_engine G) MAX_EXPOSURE; contract = fst cs
      in bindE (quoted_price prop mi) (\<lambda>price.
         bindE (get_float_or0 prop ''size'') (\<lambda>sz.
         bindE (equity_or_balance a) (\<lambda>equity.
         bindE (check_projected_exposure ps [(''equity'', VFloat equity)] (proposed_trade sz price contract) max_exp)
           (\<lambda>(fits, cur, proj).
         bindE (calculate_portfolio_risk ps equity) (\<lambda>r.
           Inr ([(''max_exposure'', fits \<and> \<not> (sz > 0 \<and> price > 0 \<and> contract \<le> 0))],
                [(''risk_contract_size'', VFloat contract), (''risk_contract_source'', VStr (snd cs)),
                 (''total_exposure_pct'', VFloat (po_exposure_pct r)), (''max_exposure'', VFloat max_exp),
                 (''current_exposure_pct'', VFloat cur), (''projected_exposure_pct'', VFloat proj)])))))))"

definition gate_margin :: "risk_gate \<Rightarrow> pydict \<Rightarrow> pyerr + gate_part" where
  "gate_margin G a =
     (let thr = get_threshold (rg_engine G) MARGIN_THRESHOLD
      in bindE (check_margin a thr) (\<lambda>m.
         bindE (get_float a ''equity'' (VFloat 0)) (\<lambda>equity.
         bindE (get_float a ''used_margin'' (VFloat 0)) (\<lambda>used.
           Inr ([(''margin_level'', m)],
                [(''margin_used_pct'', VFloat (if equity > 0 then used / equity else 1)),
                 (''margin_threshold'', VFloat thr)])))))"

section \<open>Block 6: spread\<close>

text \<open>The spread in pips and whether it is known: as given when positive, else from the quotes.\<close>

definition derived_spread :: "pydict \<Rightarrow> pyerr + pyfloat option" where
  "derived_spread mi =
     bindE (get_float_or0 mi ''bid'') (\<lambda>bid.
     bindE (get_float_or0 mi ''ask'') (\<lambda>ask.
     bindE (get_float_or0 mi ''spread_price'') (\<lambda>given.
     bindE (get_float_or0 mi ''point_value'') (\<lambda>point.
       let sp = (if given \<le> 0 \<and> bid > 0 \<and> ask > 0 \<and> ask \<ge> bid then ask - bid else given)
       in Inr (if sp > 0 \<and> point > 0 then Some (sp / (point * 10)) else None)))))"

definition spread_in_pips :: "pydict \<Rightarrow> pyfloat \<times> bool" where
  "spread_in_pips mi =
     (let raw = dget mi ''spread_pips'' VNone;
          pips = (if raw \<noteq> VNone then float_or raw 0 else 0)
      in if raw \<noteq> VNone \<and> pips > 0 then (pips, True)
         else case catchE (derived_spread mi) None of
             Some d \<Rightarrow> (d, d > 0)
           | None \<Rightarrow> (pips, False))"

text \<open>\<open>max(0.0, ask - bid) if ask >= bid else 0.0\<close>, where no spread price is given.\<close>

definition spread_price_of :: "pyfloat \<Rightarrow> pyfloat \<Rightarrow> pyfloat" where
  "spread_price_of bid ask = (if ask \<ge> bid then max 0 (ask - bid) else 0)"

record spread_costs =
  sc_price :: pyfloat
  sc_points :: "pyfloat option"
  sc_ticks :: "pyfloat option"
  sc_atr :: "pyfloat option"
  sc_per_lot :: pyfloat

definition spread_costs_of :: "pyfloat \<Rightarrow> pydict \<Rightarrow> pyerr + spread_costs" where
  "spread_costs_of contract mi =
     bindE (get_float_or0 mi ''spread_price'') (\<lambda>given.
     bindE (if given \<le> 0
            then bindE (get_float_or0 mi ''bid'') (\<lambda>bid. bindE (get_float_or0 mi ''ask'') (\<lambda>ask.
                   Inr (spread_price_of bid ask)))
            else Inr given) (\<lambda>sp.
     bindE (get_float_or0 mi ''point_value'') (\<lambda>point.
     bindE (get_float_or0 mi ''tick_size'') (\<lambda>ts.
     bindE (get_float_or0 mi ''tick_value'') (\<lambda>tv.
     bindE (get_float_or0 mi ''atr'') (\<lambda>atr.
     bindE (get_float_or0 mi ''spread_cost_per_lot'') (\<lambda>cost.
       Inr \<lparr>sc_price = sp, sc_points = (if point > 0 then Some (sp / point) else None),
            sc_ticks = (if ts > 0 then Some (sp / ts) else None),
            sc_atr = (if atr > 0 then Some (sp / atr) else None),
            sc_per_lot = (if cost \<le> 0 \<and> ts > 0 \<and> tv > 0 then sp / ts * tv
                          else if cost \<le> 0 \<and> contract > 0 then sp * contract else cost)\<rparr>)))))))"

definition gate_spread :: "risk_gate \<Rightarrow> pyval \<Rightarrow> pydict \<Rightarrow> pyfloat \<Rightarrow> gate_part" where
  "gate_spread G symbol mi contract =
     (let limit = max_spread_for_symbol G symbol; (pips, known) = spread_in_pips mi;
          c = catchE (spread_costs_of contract mi)
                \<lparr>sc_price = 0, sc_points = None, sc_ticks = None, sc_atr = None, sc_per_lot = 0\<rparr>
      in ([(''spread'', known \<and> pips \<le> limit)],
          [(''spread_price'', VFloat (sc_price c)), (''spread_points'', opt_float (sc_points c)),
           (''spread_ticks'', opt_float (sc_ticks c)), (''spread_atr'', opt_float (sc_atr c)),
           (''spread_cost_per_lot'', VFloat (sc_per_lot c)), (''spread_pips'', VFloat pips),
           (''max_spread_pips'', VFloat limit), (''symbol_specific_max_spread'', VFloat limit),
           (''spread_known'', VBool known)]))"

section \<open>Blocks 7 and 8: reward to risk, stop\<close>

definition gate_levels :: "risk_gate \<Rightarrow> pyfloat \<Rightarrow> pyfloat \<Rightarrow> pyfloat \<Rightarrow> pyerr + gate_part" where
  "gate_levels G entry sl tp =
     bindE (if entry > 0 \<and> sl > 0 \<and> tp > 0 \<and> sl \<noteq> entry
            then validate_rr_ratio entry sl tp (rg_min_rr G) else Inr (False, 0)) (\<lambda>(ok, rr).
       Inr ([(''risk_reward'', ok), (''stop_loss'', sl > 0 \<and> sl \<noteq> entry)],
            [(''risk_reward_ratio'', VFloat rr), (''min_rr'', VFloat (rg_min_rr G)),
             (''stop_loss'', VFloat sl), (''entry_price'', VFloat entry)]))"

section \<open>Block 8b: monetary risk at the stop\<close>

text \<open>The costs per lot of a loss at the stop: the move, the spread and the commission.\<close>

definition stop_costs ::
  "pydict \<Rightarrow> pyfloat \<Rightarrow> pyfloat \<Rightarrow> pyerr + pyfloat \<times> pyfloat" where
  "stop_costs mi distance contract =
     bindE (get_float_or0 mi ''tick_size'') (\<lambda>ts.
     bindE (get_float_or0 mi ''tick_value'') (\<lambda>tv.
     bindE (get_float_or0 mi ''spread_price'') (\<lambda>given.
     let sp = (if given \<le> 0
               then catchE (bindE (get_float_or0 mi ''bid'') (\<lambda>bid. bindE (get_float_or0 mi ''ask'') (\<lambda>ask.
                      Inr (spread_price_of bid ask)))) 0
               else given)
     in bindE (get_float_or0 mi ''spread_cost_per_lot'') (\<lambda>cost.
        if ts > 0 \<and> tv > 0
        then Inr (distance / ts * tv, if cost \<noteq> 0 then cost else sp / ts * tv)
        else Inr (distance * contract, if cost \<noteq> 0 then cost else sp * contract)))))"

definition raw_commission :: "pydict \<Rightarrow> pydict \<Rightarrow> pyval" where
  "raw_commission prop mi =
     (let c = dget mi ''commission_per_lot'' VNone
      in if c = VNone then dget prop ''commission_per_lot'' VNone else c)"

definition commission_per_lot :: "pydict \<Rightarrow> pydict \<Rightarrow> pyfloat" where
  "commission_per_lot prop mi =
     (case py_float (py_or (raw_commission prop mi) (VFloat 0)) of Inl e \<Rightarrow> 0 | Inr x \<Rightarrow> max x 0)"

definition commission_known :: "pydict \<Rightarrow> pydict \<Rightarrow> bool" where
  "commission_known prop mi \<longleftrightarrow>
     raw_commission prop mi \<noteq> VNone \<and> dget prop ''commission_known'' VNone \<noteq> VBool False"

text \<open>The budget: the configured fraction, else that of a proposal sized deterministically.\<close>

definition risk_budget_pct :: "risk_gate \<Rightarrow> pydict \<Rightarrow> pyfloat option \<times> string option" where
  "risk_budget_pct G prop =
     (let configured = (case rg_max_risk G of Some r \<Rightarrow> r > 0 | None \<Rightarrow> False);
          from_size = float_or (py_or (dget prop ''risk_pct'' VNone) (VFloat 0)) 0
      in if configured then (rg_max_risk G, Some ''config'')
         else if dget prop ''risk_sizing_verified'' VNone = VBool True
         then (Some from_size, if from_size > 0 then Some ''deterministic_sizing'' else None)
         else (rg_max_risk G, None))"

definition gate_monetary ::
  "risk_gate \<Rightarrow> pydict \<Rightarrow> pydict \<Rightarrow> pydict \<Rightarrow> pyfloat \<times> string \<Rightarrow> pyfloat \<Rightarrow> pyfloat \<Rightarrow> pyerr + gate_part" where
  "gate_monetary G prop a mi cs entry sl =
     (let contract = fst cs; distance = (if entry > 0 \<and> sl > 0 then \<bar>entry - sl\<bar> else 0)
      in bindE (py_float (py_or (py_or (dget prop ''size'' VNone) (dget prop ''volume'' VNone)) (VFloat 0))) (\<lambda>volume.
         bindE (stop_costs mi distance contract) (\<lambda>(sl_cost, spread_cost).
         bindE (equity_or_balance a) (\<lambda>equity.
           let commission = commission_per_lot prop mi;
               money = (sl_cost + spread_cost + commission) * volume;
               (pct, source) = risk_budget_pct G prop;
               budgeted = (case pct of Some p \<Rightarrow> p > 0 | None \<Rightarrow> False);
               budget = equity * (case pct of Some p \<Rightarrow> p | None \<Rightarrow> 0);
               ok = (if budgeted
                     then (if contract \<le> 0 \<or> distance \<le> 0 \<or> volume \<le> 0 then False
                           else if equity \<le> 0 then False
                           else money \<le> budget \<and> commission_known prop mi)
                     else True)
           in Inr ([(''monetary_risk'', ok)],
                [(''risk_price_distance'', VFloat distance), (''risk_money'', VFloat money),
                 (''risk_sl_cost_per_lot'', VFloat sl_cost), (''risk_spread_cost_per_lot'', VFloat spread_cost),
                 (''risk_commission_per_lot'', VFloat commission),
                 (''risk_commission_known'', VBool (commission_known prop mi)),
                 (''max_risk_pct'', opt_float pct),
                 (''risk_budget_source'', case source of None \<Rightarrow> VNone | Some s \<Rightarrow> VStr s)]
                @ (if budgeted then [(''risk_budget'', VFloat budget)] else []))))))"

section \<open>Block 9: position size\<close>

definition gate_size ::
  "risk_gate \<Rightarrow> pydict \<Rightarrow> pydict \<Rightarrow> pydict \<Rightarrow> pyfloat \<Rightarrow> pyerr + gate_part" where
  "gate_size G prop a mi contract =
     (let limit = get_threshold (rg_engine G) MAX_POSITION_SIZE
      in bindE (get_float_or0 prop ''size'') (\<lambda>sz.
         bindE (py_float (py_or (py_or (dget prop ''entry_price'' VNone) (dget mi ''price'' VNone)) (VFloat 0))) (\<lambda>price.
         bindE (equity_or_balance a) (\<lambda>equity.
           let able = (equity > 0 \<and> price > 0 \<and> sz > 0 \<and> contract > 0);
               pct = (if able then sz * price * contract / equity else 0)
           in Inr ([(''max_position_size'', able \<and> pct \<le> limit)],
                   [(''position_size_pct'', VFloat pct), (''max_position_size'', VFloat limit)])))))"

section \<open>The whole gate\<close>

definition decide :: "gate_part list \<Rightarrow> gate_decision" where
  "decide parts =
     (let checks = concat (map fst parts);
          failed = map fst (filter (\<lambda>(k, v). \<not> v) checks)
      in \<lparr>gd_approved = list_all snd checks,
          gd_reason = (if list_all snd checks then ''All risk checks passed''
                       else ''REJECTED: failed checks '' @ em_dash @ '' '' @ join '', '' failed),
          gd_checks = checks, gd_metrics = concat (map snd parts)\<rparr>)"

definition validate_proposal ::
  "(string \<Rightarrow> pydict option) \<Rightarrow> risk_gate \<Rightarrow> pydict \<Rightarrow> pydict \<Rightarrow> pydict list \<Rightarrow> pydict \<Rightarrow> pyerr + gate_decision" where
  "validate_proposal info G prop a ps mi =
     bindE (gate_account G a ps) (\<lambda>p1.
     let symbol = py_or (dget prop ''symbol'' VNone) (dget mi ''symbol'' (VStr []));
         cs = broker_contract_size info symbol mi
     in bindE (gate_exposure G prop a ps mi cs) (\<lambda>p2.
        bindE (gate_margin G a) (\<lambda>p3.
        let p4 = gate_spread G symbol mi (fst cs)
        in bindE (get_float prop ''entry_price'' (VFloat 0)) (\<lambda>entry.
           bindE (get_float prop ''stop_loss'' (VFloat 0)) (\<lambda>sl.
           bindE (get_float prop ''take_profit'' (VFloat 0)) (\<lambda>tp.
           bindE (gate_levels G entry sl tp) (\<lambda>p5.
           bindE (gate_monetary G prop a mi cs entry sl) (\<lambda>p6.
           bindE (gate_size G prop a mi (fst cs)) (\<lambda>p7.
             Inr (decide [p1, p2, p3, p4, p5, p6, p7]))))))))))"

section \<open>Lemmas\<close>

definition passes :: "gate_part \<Rightarrow> bool" where
  "passes p \<longleftrightarrow> list_all snd (fst p)"

definition accepts :: "pyerr + gate_part \<Rightarrow> bool" where
  "accepts m \<longleftrightarrow> (case m of Inl e \<Rightarrow> False | Inr p \<Rightarrow> passes p)"

lemma accepts_iff: "accepts m \<longleftrightarrow> (\<exists>p. m = Inr p \<and> passes p)"
  by (cases m) (simp_all add: accepts_def)

lemma decide_approved: "gd_approved (decide ps) \<longleftrightarrow> list_all passes ps"
  by (induction ps) (auto simp: decide_def passes_def Let_def)

text \<open>The blocks an approval rests on.\<close>

definition approving ::
  "(string \<Rightarrow> pydict option) \<Rightarrow> risk_gate \<Rightarrow> pydict \<Rightarrow> pydict \<Rightarrow> pydict list \<Rightarrow> pydict \<Rightarrow> pyfloat \<times> string
   \<Rightarrow> pyfloat \<Rightarrow> pyfloat \<Rightarrow> pyfloat \<Rightarrow> bool" where
  "approving info G prop a ps mi cs entry sl tp \<longleftrightarrow>
     (let symbol = py_or (dget prop ''symbol'' VNone) (dget mi ''symbol'' (VStr []))
      in cs = broker_contract_size info symbol mi \<and> accepts (gate_account G a ps) \<and> accepts (gate_exposure G prop a ps mi cs)
         \<and> accepts (gate_margin G a) \<and> passes (gate_spread G symbol mi (fst cs))
         \<and> get_float prop ''entry_price'' (VFloat 0) = Inr entry \<and> get_float prop ''stop_loss'' (VFloat 0) = Inr sl
         \<and> get_float prop ''take_profit'' (VFloat 0) = Inr tp
         \<and> accepts (gate_levels G entry sl tp) \<and> accepts (gate_monetary G prop a mi cs entry sl)
         \<and> accepts (gate_size G prop a mi (fst cs)))"

lemma approved_approving:
  assumes "validate_proposal info G prop a ps mi = Inr d" "gd_approved d"
  obtains cs entry sl tp where "approving info G prop a ps mi cs entry sl tp"
proof -
  from assms obtain entry sl tp where
    "approving info G prop a ps mi
       (broker_contract_size info (py_or (dget prop ''symbol'' VNone) (dget mi ''symbol'' (VStr []))) mi) entry sl tp"
    by (auto simp: validate_proposal_def approving_def accepts_iff Let_def decide_approved)
  then show ?thesis by (rule that)
qed

lemma account_passes:
  assumes "gate_account G a ps = Inr p" "passes p"
  shows "check_drawdown a (get_threshold (rg_engine G) MAX_DRAWDOWN) = Inr True"
    "check_daily_loss a (get_threshold (rg_engine G) DAILY_LOSS_LIMIT) = Inr True"
    "of_nat (length ps) < get_threshold (rg_engine G) MAX_POSITIONS"
  using assms by (auto simp: gate_account_def passes_def Let_def)

lemma margin_passes:
  assumes "gate_margin G a = Inr p" "passes p"
  shows "check_margin a (get_threshold (rg_engine G) MARGIN_THRESHOLD) = Inr True"
  using assms by (auto simp: gate_margin_def passes_def Let_def)

lemma exposure_passes:
  assumes "gate_exposure G prop a ps mi cs = Inr p" "passes p"
  shows "\<exists>price sz equity cur proj. quoted_price prop mi = Inr price \<and> get_float_or0 prop ''size'' = Inr sz
     \<and> equity_or_balance a = Inr equity
     \<and> check_projected_exposure ps [(''equity'', VFloat equity)] (proposed_trade sz price (fst cs))
          (get_threshold (rg_engine G) MAX_EXPOSURE) = Inr (True, cur, proj)
     \<and> (sz > 0 \<and> price > 0 \<longrightarrow> fst cs > 0)"
  using assms by (auto simp: gate_exposure_def passes_def Let_def not_le)

lemma size_passes:
  assumes "gate_size G prop a mi contract = Inr p" "passes p"
  shows "\<exists>sz price equity. get_float_or0 prop ''size'' = Inr sz
     \<and> py_float (py_or (py_or (dget prop ''entry_price'' VNone) (dget mi ''price'' VNone)) (VFloat 0)) = Inr price
     \<and> equity_or_balance a = Inr equity \<and> 0 < equity \<and> 0 < price \<and> 0 < sz \<and> 0 < contract
     \<and> sz * price * contract \<le> get_threshold (rg_engine G) MAX_POSITION_SIZE * equity"
  using assms by (auto simp: gate_size_def passes_def Let_def pos_divide_le_eq split: if_splits)

lemma levels_pass:
  assumes "gate_levels G entry sl tp = Inr p" "passes p"
  shows "0 < entry \<and> 0 < sl \<and> 0 < tp \<and> sl \<noteq> entry \<and> rg_min_rr G * \<bar>entry - sl\<bar> \<le> \<bar>tp - entry\<bar>"
  using assms
  by (auto simp: gate_levels_def passes_def validate_rr_ratio_def Let_def pos_le_divide_eq split: if_splits)

lemma monetary_passes:
  assumes "gate_monetary G prop a mi cs entry sl = Inr p" "passes p"
    and "risk_budget_pct G prop = (Some pct, src)" "0 < pct"
  shows "\<exists>volume sl_cost spread_cost equity.
     py_float (py_or (py_or (dget prop ''size'' VNone) (dget prop ''volume'' VNone)) (VFloat 0)) = Inr volume
     \<and> stop_costs mi \<bar>entry - sl\<bar> (fst cs) = Inr (sl_cost, spread_cost) \<and> equity_or_balance a = Inr equity
     \<and> 0 < volume \<and> 0 < fst cs \<and> commission_known prop mi
     \<and> (sl_cost + spread_cost + commission_per_lot prop mi) * volume \<le> equity * pct"
  using assms by (auto simp: gate_monetary_def passes_def Let_def split: if_splits)

section \<open>What the limits mean\<close>

text \<open>
  The gate's promise, stated apart from its blocks. The contract traded is the one of the
  proposal's own symbol: the positive one of the caller's market data, else what the terminal
  answers for that symbol.
\<close>

definition traded_symbol :: "pydict \<Rightarrow> pydict \<Rightarrow> string" where
  "traded_symbol prop mi =
     py_text (py_or (py_or (dget prop ''symbol'' VNone) (dget mi ''symbol'' (VStr [])))
       (py_or (dget mi ''symbol'' VNone) (VStr [])))"

definition genuine_contract :: "(string \<Rightarrow> pydict option) \<Rightarrow> pydict \<Rightarrow> pydict \<Rightarrow> pyfloat \<Rightarrow> bool" where
  "genuine_contract info prop mi c \<longleftrightarrow>
     (let given = float_or (py_or (dget mi ''contract_size'' VNone) (VFloat 0)) 0; sym = traded_symbol prop mi
      in 0 < c \<and> (if 0 < given then c = given
                   else sym \<noteq> [] \<and> (case info sym of None \<Rightarrow> False
                                    | Some base \<Rightarrow> c = float_or (dget base ''contract_size'' VNone) 0)))"

text \<open>
  The money one lot makes for a price move of one: from the tick when the market data give both
  its size and its value, else the contract. A loss at the stop is the move to it, the spread
  (as given in money, else in price, else between the quotes) and the commission, which is never
  negative, for every lot.
\<close>

definition number_at :: "pydict \<Rightarrow> string \<Rightarrow> pyfloat" where
  "number_at d k = float_or (py_or (dget d k VNone) (VFloat 0)) 0"

definition money_per_price :: "pydict \<Rightarrow> pyfloat \<Rightarrow> pyfloat" where
  "money_per_price mi contract =
     (let ts = number_at mi ''tick_size''; tv = number_at mi ''tick_value''
      in if 0 < ts \<and> 0 < tv then tv / ts else contract)"

definition spread_in_price :: "pydict \<Rightarrow> pyfloat" where
  "spread_in_price mi =
     (let given = number_at mi ''spread_price''
      in if 0 < given then given
         else case (get_float_or0 mi ''bid'', get_float_or0 mi ''ask'') of
             (Inr bid, Inr ask) \<Rightarrow> max 0 (ask - bid) | _ \<Rightarrow> 0)"

definition stated_commission :: "pydict \<Rightarrow> pydict \<Rightarrow> pyval" where
  "stated_commission prop mi =
     dget (if dget mi ''commission_per_lot'' VNone = VNone then prop else mi) ''commission_per_lot'' VNone"

definition loss_at_stop :: "pydict \<Rightarrow> pydict \<Rightarrow> pyfloat \<Rightarrow> pyfloat \<Rightarrow> pyfloat \<Rightarrow> pyfloat" where
  "loss_at_stop prop mi contract distance lots =
     (let unit = money_per_price mi contract; cost = number_at mi ''spread_cost_per_lot''
      in lots * (distance * unit + (if cost = 0 then spread_in_price mi * unit else cost)
                 + max 0 (float_or (py_or (stated_commission prop mi) (VFloat 0)) 0)))"

lemma broker_contract_genuine:
  assumes "symbol = py_or (dget prop ''symbol'' VNone) (dget mi ''symbol'' (VStr []))"
  shows "genuine_contract info prop mi c \<longleftrightarrow> 0 < c \<and> fst (broker_contract_size info symbol mi) = c"
  by (auto simp: genuine_contract_def traded_symbol_def broker_contract_size_def spec_source spec_contract
      assms Let_def split: option.splits)

lemma stop_costs_loss:
  assumes "stop_costs mi distance contract = Inr (sl_cost, spread_cost)"
  shows "(sl_cost + spread_cost + commission_per_lot prop mi) * lots = loss_at_stop prop mi contract distance lots"
proof -
  have com: "commission_per_lot prop mi = max 0 (float_or (py_or (stated_commission prop mi) (VFloat 0)) 0)"
    by (auto simp: commission_per_lot_def raw_commission_def stated_commission_def float_or_def max_def Let_def
        split: sum.splits)
  have sp: "(if x \<le> 0 then catchE (bindE (get_float_or0 mi ''bid'') (\<lambda>bid. bindE (get_float_or0 mi ''ask'')
              (\<lambda>ask. Inr (spread_price_of bid ask)))) 0 else x) = spread_in_price mi"
    if "get_float_or0 mi ''spread_price'' = Inr x" for x
    using that by (auto simp: spread_in_price_def number_at_def float_or_def get_float_or0_def [symmetric]
        spread_price_of_def max_def not_less split: sum.splits)
  from assms obtain ts tv given cost where
    r: "get_float_or0 mi ''tick_size'' = Inr ts" "get_float_or0 mi ''tick_value'' = Inr tv"
      "get_float_or0 mi ''spread_price'' = Inr given" "get_float_or0 mi ''spread_cost_per_lot'' = Inr cost"
    by (auto simp: stop_costs_def Let_def)
  have n: "number_at mi ''tick_size'' = ts" "number_at mi ''tick_value'' = tv"
    "number_at mi ''spread_cost_per_lot'' = cost"
    using r by (simp_all add: number_at_def float_or_def get_float_or0_def)
  have "stop_costs mi distance contract = Inr (distance * money_per_price mi contract,
      if cost = 0 then spread_in_price mi * money_per_price mi contract else cost)"
    by (simp add: stop_costs_def r sp [OF r(3)] money_per_price_def n Let_def)
  with assms show ?thesis
    by (simp add: com loss_at_stop_def n Let_def mult.commute)
qed

lemma commission_known_iff:
  "commission_known prop mi \<longleftrightarrow>
     stated_commission prop mi \<noteq> VNone \<and> dget prop ''commission_known'' VNone \<noteq> VBool False"
  by (auto simp: commission_known_def raw_commission_def stated_commission_def Let_def)

section \<open>What each block decides\<close>

lemma ratio_within: "(if e \<le> 0 then False else x / e \<le> m) \<longleftrightarrow> 0 < e \<and> x \<le> m * (e :: pyfloat)"
  by (cases "e \<le> 0") (simp_all add: pos_divide_le_eq)

lemma account_passes_iff:
  assumes "gate_account G a ps = Inr p" "get_float a ''equity'' (VFloat 0) = Inr equity"
    "get_float a ''balance'' (VFloat 0) = Inr balance" "get_float a ''peak_equity'' (VFloat equity) = Inr peak"
    "get_float a ''daily_pnl'' (VFloat 0) = Inr pnl"
  shows "passes p \<longleftrightarrow> 0 < peak \<and> peak - equity \<le> get_threshold (rg_engine G) MAX_DRAWDOWN * peak \<and>
    0 < balance \<and> \<bar>min pnl 0\<bar> \<le> get_threshold (rg_engine G) DAILY_LOSS_LIMIT * balance \<and>
    of_nat (length ps) < get_threshold (rg_engine G) MAX_POSITIONS"
proof -
  have "passes p \<longleftrightarrow> (if peak \<le> 0 then False else (peak - equity) / peak \<le> get_threshold (rg_engine G) MAX_DRAWDOWN) \<and>
    (if balance \<le> 0 then False else \<bar>min pnl 0\<bar> / balance \<le> get_threshold (rg_engine G) DAILY_LOSS_LIMIT) \<and>
    of_nat (length ps) < get_threshold (rg_engine G) MAX_POSITIONS"
    using assms by (simp add: gate_account_def calculate_account_risk_def check_drawdown_def check_daily_loss_def
      Let_def passes_def) (elim subst, simp)
  then show ?thesis unfolding ratio_within by blast
qed

lemma margin_passes_iff:
  assumes "gate_margin G a = Inr p" "get_float a ''equity'' (VFloat 0) = Inr equity"
    "get_float a ''used_margin'' (VFloat 0) = Inr used" "get_float a ''margin_call_level'' (VFloat 0) = Inr call_level"
  shows "passes p \<longleftrightarrow> 0 < equity \<and> (call_level \<le> 0 \<or> call_level < equity) \<and>
    used \<le> get_threshold (rg_engine G) MARGIN_THRESHOLD * equity"
proof -
  have "passes p \<longleftrightarrow> (if equity \<le> 0 then False else if 0 < call_level \<and> equity \<le> call_level then False
      else used / equity \<le> get_threshold (rg_engine G) MARGIN_THRESHOLD)"
    using assms by (simp add: gate_margin_def check_margin_def Let_def passes_def) (elim subst, simp)
  then show ?thesis using pos_divide_le_eq [of equity used] by auto
qed

lemma exposure_passes_iff:
  assumes "gate_exposure G prop a ps mi cs = Inr p" "quoted_price prop mi = Inr price"
    "get_float_or0 prop ''size'' = Inr lots" "equity_or_balance a = Inr equity"
    "0 < lots" "0 < fst cs" "0 < equity"
  shows "passes p \<longleftrightarrow> list_all (\<lambda>p. position_notional p \<noteq> None) ps \<and>
    known_notional ps + lots * max price 0 * fst cs \<le> get_threshold (rg_engine G) MAX_EXPOSURE * equity"
proof -
  obtain r where r: "calculate_portfolio_risk ps equity = Inr r"
    using assms by (auto simp: gate_exposure_def Let_def)
  note pf = portfolio_facts [OF r assms(7)]
  have div: "x / equity \<le> y \<longleftrightarrow> x \<le> y * equity" for x y :: pyfloat using assms(7) by (simp add: pos_divide_le_eq)
  have reads: "get_float [(''equity'', VFloat equity)] ''equity'' (VFloat 0) = Inr equity" by (simp add: py_simps)
  let ?m = "get_threshold (rg_engine G) MAX_EXPOSURE"
  let ?t = "[(''size'', VFloat lots), (''current_price'', VFloat price), (''contract_size'', VFloat (fst cs)),
    (''notional_value'', VFloat (lots * price * fst cs))]"
  have trade: "proposed_trade lots price (fst cs) = (if 0 < price then Some ?t else None)"
    using assms(5,6) by (simp add: proposed_trade_def)
  have lots: "py_float (py_or (dget ?t ''size'' (dget ?t ''quantity'' (dget ?t ''volume'' (VInt 0)))) (VFloat 0)) = Inr lots"
    using assms(5) by (simp add: py_simps)
  have notional: "0 < price \<Longrightarrow> 0 < lots * price * fst cs \<and> position_notional ?t = Some (lots * price * fst cs)"
    using assms(5,6) by (simp add: position_notional_def py_simps)
  have "\<exists>cur proj. check_projected_exposure ps [(''equity'', VFloat equity)] (proposed_trade lots price (fst cs)) ?m
     = Inr (list_all (\<lambda>p. position_notional p \<noteq> None) ps \<and>
            known_notional ps + lots * max price 0 * fst cs \<le> ?m * equity, cur, proj)"
  proof (cases "0 < price")
    case True
    then show ?thesis using notional [OF True] assms(5,7)
      by (simp add: check_projected_exposure_def reads r pf trade lots div list_all_iff Let_def max_def not_le)
  next
    case False
    then show ?thesis using assms(7)
      by (simp add: check_projected_exposure_def reads r pf trade div list_all_iff Let_def max_def)
  qed
  then show ?thesis using assms(1-4) assms(5-7)
    by (auto simp: gate_exposure_def Let_def passes_def)
qed

lemma levels_pass_iff:
  assumes "gate_levels G entry sl tp = Inr p"
  shows "passes p \<longleftrightarrow> 0 < entry \<and> 0 < sl \<and> 0 < tp \<and> sl \<noteq> entry \<and> rg_min_rr G * \<bar>entry - sl\<bar> \<le> \<bar>tp - entry\<bar>"
  using assms by (auto simp: gate_levels_def passes_def validate_rr_ratio_def Let_def pos_le_divide_eq split: if_splits)

lemma size_passes_iff:
  assumes "gate_size G prop a mi contract = Inr p" "get_float_or0 prop ''size'' = Inr lots"
    "py_float (py_or (py_or (dget prop ''entry_price'' VNone) (dget mi ''price'' VNone)) (VFloat 0)) = Inr price"
    "equity_or_balance a = Inr equity"
  shows "passes p \<longleftrightarrow> 0 < equity \<and> 0 < price \<and> 0 < lots \<and> 0 < contract \<and>
    lots * price * contract \<le> get_threshold (rg_engine G) MAX_POSITION_SIZE * equity"
  using assms by (auto simp: gate_size_def passes_def Let_def pos_divide_le_eq)

lemma monetary_passes_iff:
  assumes "gate_monetary G prop a mi cs entry sl = Inr p" "equity_or_balance a = Inr equity"
    "py_float (py_or (py_or (dget prop ''size'' VNone) (dget prop ''volume'' VNone)) (VFloat 0)) = Inr lots"
    "0 < equity" "0 < lots" "0 < fst cs" "0 < entry" "0 < sl" "sl \<noteq> entry"
  shows "passes p \<longleftrightarrow> (case fst (risk_budget_pct G prop) of None \<Rightarrow> True | Some pct \<Rightarrow>
    if 0 < pct then stated_commission prop mi \<noteq> VNone \<and> dget prop ''commission_known'' VNone \<noteq> VBool False \<and>
      loss_at_stop prop mi (fst cs) \<bar>entry - sl\<bar> lots \<le> equity * pct else True)"
proof -
  obtain c1 c2 where c: "stop_costs mi \<bar>entry - sl\<bar> (fst cs) = Inr (c1, c2)"
    using assms by (auto simp: gate_monetary_def Let_def)
  obtain pct src where b: "risk_budget_pct G prop = (pct, src)" by (cases "risk_budget_pct G prop")
  show ?thesis using assms c
    by (auto simp: gate_monetary_def passes_def Let_def b stop_costs_loss [OF c] commission_known_iff
        split: option.splits)
qed

text \<open>Where a price or a size is positive, the fallbacks the code reads it with do not matter.\<close>

lemma positive_present:
  assumes "get_float d k (VFloat 0) = Inr x" "0 < x"
  shows "get_float d k v = Inr x" "py_truthy (dget d k w)" "dget d k w = dget d k VNone"
proof -
  obtain u where u: "map_of d k = Some u" "py_float u = Inr x" using assms by (auto simp: py_simps split: option.splits)
  moreover from u(2) assms(2) have "py_truthy u"
    by (cases u) (auto simp: parse_float_def strip_def read_sign_def Let_def split: if_splits)
  ultimately show "get_float d k v = Inr x" "py_truthy (dget d k w)" "dget d k w = dget d k VNone"
    by (simp_all add: get_float_def dget_def)
qed

lemma funds_are_equity:
  "get_float a ''equity'' (VFloat 0) = Inr equity \<Longrightarrow> 0 < equity \<Longrightarrow> equity_or_balance a = Inr equity"
  unfolding equity_or_balance_def by (rule positive_present(1))

lemma sizing_price_is_entry:
  assumes "get_float prop ''entry_price'' (VFloat 0) = Inr entry" "0 < entry"
  shows "py_float (py_or (py_or (dget prop ''entry_price'' VNone) (dget mi ''price'' VNone)) (VFloat 0)) = Inr entry"
  using positive_present [OF assms, of VNone] by (simp add: py_or_def get_float_def)

lemma lots_are_size:
  assumes "get_float_or0 prop ''size'' = Inr lots" "0 < lots"
  shows "py_float (py_or (py_or (dget prop ''size'' VNone) (dget prop ''volume'' VNone)) (VFloat 0)) = Inr lots"
  using assms by (auto simp: get_float_or0_def py_or_def split: if_splits)

lemma decide_parts:
  assumes "validate_proposal info G prop a ps mi = Inr d"
    and "symbol = py_or (dget prop ''symbol'' VNone) (dget mi ''symbol'' (VStr []))"
    and "cs = broker_contract_size info symbol mi"
  obtains p1 p2 p3 p5 p6 p7 entry sl tp where
    "gate_account G a ps = Inr p1" "gate_exposure G prop a ps mi cs = Inr p2" "gate_margin G a = Inr p3"
    "get_float prop ''entry_price'' (VFloat 0) = Inr entry" "get_float prop ''stop_loss'' (VFloat 0) = Inr sl"
    "get_float prop ''take_profit'' (VFloat 0) = Inr tp" "gate_levels G entry sl tp = Inr p5"
    "gate_monetary G prop a mi cs entry sl = Inr p6" "gate_size G prop a mi (fst cs) = Inr p7"
    "gd_approved d \<longleftrightarrow> passes p1 \<and> passes p2 \<and> passes p3 \<and> passes (gate_spread G symbol mi (fst cs)) \<and>
       passes p5 \<and> passes p6 \<and> passes p7"
proof -
  from assms obtain p1 p2 p3 p5 p6 p7 entry sl tp where b:
    "gate_account G a ps = Inr p1" "gate_exposure G prop a ps mi cs = Inr p2" "gate_margin G a = Inr p3"
    "get_float prop ''entry_price'' (VFloat 0) = Inr entry" "get_float prop ''stop_loss'' (VFloat 0) = Inr sl"
    "get_float prop ''take_profit'' (VFloat 0) = Inr tp" "gate_levels G entry sl tp = Inr p5"
    "gate_monetary G prop a mi cs entry sl = Inr p6" "gate_size G prop a mi (fst cs) = Inr p7"
    "d = decide [p1, p2, p3, gate_spread G symbol mi (fst cs), p5, p6, p7]"
    by (auto simp: validate_proposal_def Let_def)
  show thesis by (rule that [OF b(1-9)]) (simp add: b(10) decide_approved)
qed

lemma readings:
  "gate_account G a ps = Inr p \<Longrightarrow> \<exists>equity balance peak pnl. get_float a ''equity'' (VFloat 0) = Inr equity \<and>
     get_float a ''balance'' (VFloat 0) = Inr balance \<and> get_float a ''peak_equity'' (VFloat equity) = Inr peak \<and>
     get_float a ''daily_pnl'' (VFloat 0) = Inr pnl"
  "gate_margin G a = Inr p \<Longrightarrow> \<exists>used call_level. get_float a ''used_margin'' (VFloat 0) = Inr used \<and>
     get_float a ''margin_call_level'' (VFloat 0) = Inr call_level"
  "gate_exposure G prop a ps mi cs = Inr p \<Longrightarrow>
     \<exists>price lots. quoted_price prop mi = Inr price \<and> get_float_or0 prop ''size'' = Inr lots"
  by (auto simp: gate_account_def calculate_account_risk_def check_drawdown_def check_daily_loss_def
      gate_margin_def check_margin_def gate_exposure_def Let_def)

section \<open>Properties\<close>

text \<open>
  C3. A validation that returns approves exactly when the proposal is inside every one of the ten
  limits, each stated over the raw readings: drawdown, loss of the day, number of positions,
  exposure with the new trade (nothing of it counts at a price that is not positive), margin and
  margin call level, known spread, reward to risk and stop, the loss at the stop for the whole
  size against the risk budget where there is one, and position size, on the contract size of the
  proposal's own symbol.
\<close>

theorem gate_approves_iff_within_limits:
  assumes "validate_proposal info G prop a ps mi = Inr d"
    and "symbol = py_or (dget prop ''symbol'' VNone) (dget mi ''symbol'' (VStr []))"
  shows "\<exists>equity balance peak pnl used call_level entry sl tp lots price contract.
    get_float a ''equity'' (VFloat 0) = Inr equity \<and> get_float a ''balance'' (VFloat 0) = Inr balance \<and>
    get_float a ''peak_equity'' (VFloat equity) = Inr peak \<and> get_float a ''daily_pnl'' (VFloat 0) = Inr pnl \<and>
    get_float a ''used_margin'' (VFloat 0) = Inr used \<and>
    get_float a ''margin_call_level'' (VFloat 0) = Inr call_level \<and>
    get_float prop ''entry_price'' (VFloat 0) = Inr entry \<and> get_float prop ''stop_loss'' (VFloat 0) = Inr sl \<and>
    get_float prop ''take_profit'' (VFloat 0) = Inr tp \<and> get_float_or0 prop ''size'' = Inr lots \<and>
    quoted_price prop mi = Inr price \<and> fst (broker_contract_size info symbol mi) = contract \<and>
    (gd_approved d \<longleftrightarrow>
      0 < equity \<and> 0 < balance \<and> 0 < peak \<and>
      peak - equity \<le> get_threshold (rg_engine G) MAX_DRAWDOWN * peak \<and>
      \<bar>min pnl 0\<bar> \<le> get_threshold (rg_engine G) DAILY_LOSS_LIMIT * balance \<and>
      of_nat (length ps) < get_threshold (rg_engine G) MAX_POSITIONS \<and>
      list_all (\<lambda>p. position_notional p \<noteq> None) ps \<and>
      known_notional ps + lots * max price 0 * contract \<le> get_threshold (rg_engine G) MAX_EXPOSURE * equity \<and>
      used \<le> get_threshold (rg_engine G) MARGIN_THRESHOLD * equity \<and> (call_level \<le> 0 \<or> call_level < equity) \<and>
      snd (spread_in_pips mi) \<and> fst (spread_in_pips mi) \<le> max_spread_for_symbol G symbol \<and>
      0 < entry \<and> 0 < sl \<and> 0 < tp \<and> sl \<noteq> entry \<and> rg_min_rr G * \<bar>entry - sl\<bar> \<le> \<bar>tp - entry\<bar> \<and>
      (case fst (risk_budget_pct G prop) of None \<Rightarrow> True | Some pct \<Rightarrow>
        if 0 < pct then stated_commission prop mi \<noteq> VNone \<and> dget prop ''commission_known'' VNone \<noteq> VBool False \<and>
          loss_at_stop prop mi contract \<bar>entry - sl\<bar> lots \<le> equity * pct else True) \<and>
      0 < lots \<and> genuine_contract info prop mi contract \<and>
      lots * entry * contract \<le> get_threshold (rg_engine G) MAX_POSITION_SIZE * equity)"
proof -
  define cs where "cs = broker_contract_size info symbol mi"
  obtain p1 p2 p3 p5 p6 p7 entry sl tp where b:
    "gate_account G a ps = Inr p1" "gate_exposure G prop a ps mi cs = Inr p2" "gate_margin G a = Inr p3"
    "get_float prop ''entry_price'' (VFloat 0) = Inr entry" "get_float prop ''stop_loss'' (VFloat 0) = Inr sl"
    "get_float prop ''take_profit'' (VFloat 0) = Inr tp" "gate_levels G entry sl tp = Inr p5"
    "gate_monetary G prop a mi cs entry sl = Inr p6" "gate_size G prop a mi (fst cs) = Inr p7"
    and ok: "gd_approved d \<longleftrightarrow> passes p1 \<and> passes p2 \<and> passes p3 \<and>
       passes (gate_spread G symbol mi (fst cs)) \<and> passes p5 \<and> passes p6 \<and> passes p7"
    by (rule decide_parts [OF assms cs_def]) (rule that)
  from readings(1) [OF b(1)] readings(2) [OF b(3)] readings(3) [OF b(2)]
  obtain equity balance peak pnl used call_level price lots where r:
    "get_float a ''equity'' (VFloat 0) = Inr equity" "get_float a ''balance'' (VFloat 0) = Inr balance"
    "get_float a ''peak_equity'' (VFloat equity) = Inr peak" "get_float a ''daily_pnl'' (VFloat 0) = Inr pnl"
    "get_float a ''used_margin'' (VFloat 0) = Inr used" "get_float a ''margin_call_level'' (VFloat 0) = Inr call_level"
    "quoted_price prop mi = Inr price" "get_float_or0 prop ''size'' = Inr lots" by blast
  have spread: "passes (gate_spread G symbol mi (fst cs)) \<longleftrightarrow>
      snd (spread_in_pips mi) \<and> fst (spread_in_pips mi) \<le> max_spread_for_symbol G symbol"
    by (auto simp: gate_spread_def passes_def Let_def split: prod.splits)
  note contract = broker_contract_genuine [OF assms(2), of info "fst cs", folded cs_def]
  note first = account_passes_iff [OF b(1) r(1-4)] margin_passes_iff [OF b(3) r(1,5,6)] levels_pass_iff [OF b(7)] spread
  have rest: "passes p2 \<and> passes p6 \<and> passes p7 \<longleftrightarrow>
      list_all (\<lambda>p. position_notional p \<noteq> None) ps \<and>
      known_notional ps + lots * max price 0 * fst cs \<le> get_threshold (rg_engine G) MAX_EXPOSURE * equity \<and>
      (case fst (risk_budget_pct G prop) of None \<Rightarrow> True | Some pct \<Rightarrow>
        if 0 < pct then stated_commission prop mi \<noteq> VNone \<and> dget prop ''commission_known'' VNone \<noteq> VBool False \<and>
          loss_at_stop prop mi (fst cs) \<bar>entry - sl\<bar> lots \<le> equity * pct else True) \<and>
      0 < lots \<and> genuine_contract info prop mi (fst cs) \<and>
      lots * entry * fst cs \<le> get_threshold (rg_engine G) MAX_POSITION_SIZE * equity"
    if "0 < equity" "0 < entry" "0 < sl" "sl \<noteq> entry"
  proof -
    note funds = funds_are_equity [OF r(1) that(1)]
    note size = size_passes_iff [OF b(9) r(8) sizing_price_is_entry [OF b(4) that(2)] funds]
    show ?thesis
    proof (cases "0 < lots \<and> 0 < fst cs")
      case True
      then show ?thesis using that
        exposure_passes_iff [OF b(2) r(7,8) funds] monetary_passes_iff [OF b(8) funds lots_are_size [OF r(8)]]
        by (simp add: size contract)
    next
      case False
      then show ?thesis by (auto simp: size contract)
    qed
  qed
  show ?thesis
    apply (intro exI conjI)
    apply (rule r b(4-6) refl)+
    unfolding cs_def [symmetric] ok first
    using rest by (cases "0 < equity \<and> 0 < entry \<and> 0 < sl \<and> sl \<noteq> entry") blast+
qed

definition demo_gate :: risk_gate where
  "demo_gate = new_gate (new_engine (15/100) (5/100) (30/100) (20/100) 5 (30/100)) 5 (3/2) [(''XAU'', 40)] (Some (2/100))"

definition demo_proposal :: pydict where
  "demo_proposal = [(''symbol'', VStr ''XAUUSD''), (''direction'', VStr ''BUY''), (''entry_price'', VInt 2000),
     (''stop_loss'', VInt 1990), (''take_profit'', VInt 2020), (''size'', VFloat (1/10))]"

definition demo_account :: pydict where
  "demo_account = [(''equity'', VInt 100000), (''balance'', VInt 100000), (''daily_pnl'', VInt (-200)),
     (''used_margin'', VInt 1000)]"

definition demo_market :: pydict where
  "demo_market = [(''bid'', VFloat (19998/10)), (''ask'', VInt 2000), (''point_value'', VFloat (1/100)),
     (''commission_per_lot'', VInt 7)]"

definition demo_terminal :: "string \<Rightarrow> pydict option" where
  "demo_terminal s = (if s = ''XAUUSD'' then Some [(''contract_size'', VInt 100)] else None)"

lemmas demo_defs = demo_gate_def demo_proposal_def demo_account_def demo_market_def demo_terminal_def
  new_gate_def new_engine_def

lemmas gate_eval = get_threshold_def threshold_or_def float_or_def py_simps Let_def passes_def accepts_def

lemma demo_symbol: "py_or (dget demo_proposal ''symbol'' VNone) (dget demo_market ''symbol'' (VStr [])) = VStr ''XAUUSD''"
  by (simp add: demo_defs py_simps)

lemma demo_contract: "broker_contract_size demo_terminal (VStr ''XAUUSD'') demo_market = (100, ''broker'')"
  by (simp add: broker_contract_size_def spec_source spec_contract demo_defs py_simps float_or_def)

lemma demo_account_ok: "accepts (gate_account demo_gate demo_account [])"
  by (simp add: gate_account_def check_drawdown_def calculate_account_risk_def check_daily_loss_def
      gate_eval demo_defs)

lemma demo_exposure_ok:
  "accepts (gate_exposure demo_gate demo_proposal demo_account [] demo_market (100, ''broker''))"
  by (simp add: gate_exposure_def quoted_price_def equity_or_balance_def proposed_trade_def
      check_projected_exposure_def calculate_portfolio_risk_def position_notional_def upper_def to_upper_def
      gate_eval demo_defs)

lemma demo_margin_ok: "accepts (gate_margin demo_gate demo_account)"
  by (simp add: gate_margin_def check_margin_def gate_eval demo_defs)

lemma demo_spread_ok: "passes (gate_spread demo_gate (VStr ''XAUUSD'') demo_market 100)"
  by (simp add: gate_spread_def max_spread_for_symbol_def spread_in_pips_def derived_spread_def upper_def
      to_upper_def gate_eval demo_defs)

lemma demo_levels_ok: "accepts (gate_levels demo_gate 2000 1990 2020)"
  by (simp add: gate_levels_def validate_rr_ratio_def gate_eval demo_defs)

lemma demo_budget: "risk_budget_pct demo_gate demo_proposal = (Some (2/100), Some ''config'')"
  by (simp add: risk_budget_pct_def gate_eval demo_defs)

lemma demo_stop_costs: "stop_costs demo_market 10 100 = Inr (1000, 20)"
  by (simp add: stop_costs_def spread_price_of_def gate_eval demo_defs)

lemma demo_monetary_ok:
  "accepts (gate_monetary demo_gate demo_proposal demo_account demo_market (100, ''broker'') 2000 1990)"
  by (simp add: gate_monetary_def demo_budget demo_stop_costs equity_or_balance_def commission_per_lot_def
      raw_commission_def commission_known_def get_float_def py_or_def dget_def Let_def passes_def accepts_def)
     (simp add: demo_defs passes_def commission_known_def raw_commission_def py_simps)

lemma demo_size_ok:
  "accepts (gate_size demo_gate demo_proposal demo_account demo_market 100)"
  by (simp add: gate_size_def equity_or_balance_def gate_eval demo_defs)

definition demo_decision :: gate_decision where
  "demo_decision = (case validate_proposal demo_terminal demo_gate demo_proposal demo_account [] demo_market of
      Inr d \<Rightarrow> d | Inl e \<Rightarrow> decide [])"

lemma demo_levels: "get_float demo_proposal ''entry_price'' (VFloat 0) = Inr 2000"
  "get_float demo_proposal ''stop_loss'' (VFloat 0) = Inr 1990"
  "get_float demo_proposal ''take_profit'' (VFloat 0) = Inr 2020"
  by (simp_all add: demo_defs py_simps)

lemma demo_validates:
  "\<exists>d. validate_proposal demo_terminal demo_gate demo_proposal demo_account [] demo_market = Inr d \<and> gd_approved d"
  using demo_account_ok demo_exposure_ok demo_margin_ok demo_spread_ok demo_levels_ok demo_monetary_ok demo_size_ok
  by (auto simp: validate_proposal_def demo_symbol demo_contract demo_levels accepts_iff decide_approved)

lemma demo_approved:
  "validate_proposal demo_terminal demo_gate demo_proposal demo_account [] demo_market = Inr demo_decision"
  "gd_approved demo_decision"
  using demo_validates by (auto simp: demo_decision_def)

lemma gate_approves_iff_within_limits_witness:
  "\<exists>lots contract. get_float_or0 demo_proposal ''size'' = Inr lots \<and> 0 < lots \<and>
     genuine_contract demo_terminal demo_proposal demo_market contract \<and>
     loss_at_stop demo_proposal demo_market contract 10 lots \<le> 100000 * (2/100)"
proof -
  have e: "get_float demo_account ''equity'' (VFloat 0) = Inr 100000" by (simp add: demo_defs py_simps)
  from gate_approves_iff_within_limits [OF demo_approved(1) demo_symbol [symmetric]] show ?thesis
    by (auto simp: demo_approved(2) demo_levels demo_budget e)
qed

text \<open>
  An approved proposal comes from an account with positive equity and balance whose drawdown
  from its peak, loss of the day and margin in use are within their limits, which is above its
  margin call level, and which has room for one more position.
\<close>

theorem approved_account_is_healthy:
  assumes "validate_proposal info G prop a ps mi = Inr d" "gd_approved d"
  shows "\<exists>equity balance peak pnl used call_level.
    get_float a ''equity'' (VFloat 0) = Inr equity \<and> get_float a ''balance'' (VFloat 0) = Inr balance \<and>
    get_float a ''peak_equity'' (VFloat equity) = Inr peak \<and> get_float a ''daily_pnl'' (VFloat 0) = Inr pnl \<and>
    get_float a ''used_margin'' (VFloat 0) = Inr used \<and>
    get_float a ''margin_call_level'' (VFloat 0) = Inr call_level \<and>
    0 < equity \<and> 0 < balance \<and> peak - equity \<le> get_threshold (rg_engine G) MAX_DRAWDOWN * peak \<and>
    \<bar>min pnl 0\<bar> \<le> get_threshold (rg_engine G) DAILY_LOSS_LIMIT * balance \<and>
    used \<le> get_threshold (rg_engine G) MARGIN_THRESHOLD * equity \<and> (call_level \<le> 0 \<or> call_level < equity) \<and>
    of_nat (length ps) < get_threshold (rg_engine G) MAX_POSITIONS"
proof -
  from assms obtain cs entry sl tp where "approving info G prop a ps mi cs entry sl tp"
    by (rule approved_approving)
  then obtain p1 p3 where p: "gate_account G a ps = Inr p1" "passes p1" "gate_margin G a = Inr p3" "passes p3"
    by (auto simp: approving_def accepts_iff Let_def)
  note acc = account_passes [OF p(1,2)]
  from check_drawdown_True [OF acc(1)] check_daily_loss_True [OF acc(2)]
    check_margin_True [OF margin_passes [OF p(3,4)]] acc(3)
  show ?thesis by auto
qed

lemma approved_account_is_healthy_witness:
  "of_nat (length ([] :: pydict list)) < get_threshold (rg_engine demo_gate) MAX_POSITIONS"
  using approved_account_is_healthy [OF demo_approved] by blast

text \<open>
  C4. When the quote (or, without one, the entry price) the gate measures exposure at is positive,
  approval means that the notional of every open position is known and that all of them with the
  new one stay within the exposure limit on the equity, on the contract size of the proposal's own
  symbol: the positive one of the caller's market data, else what the terminal answers for that
  very symbol. The terminal's answer is taken as it comes.
\<close>

theorem approved_exposure_within_limit:
  assumes "validate_proposal info G prop a ps mi = Inr d" "gd_approved d"
    and "quoted_price prop mi = Inr price" "0 < price"
  shows "\<exists>sz contract equity. get_float_or0 prop ''size'' = Inr sz \<and> equity_or_balance a = Inr equity \<and>
    0 < sz \<and> 0 < contract \<and> 0 < equity \<and> list_all (\<lambda>p. position_notional p \<noteq> None) ps \<and>
    known_notional ps + sz * price * contract \<le> get_threshold (rg_engine G) MAX_EXPOSURE * equity \<and>
    genuine_contract info prop mi contract"
proof -
  from assms(1,2) obtain cs entry sl tp where ap: "approving info G prop a ps mi cs entry sl tp"
    by (rule approved_approving)
  then obtain p2 p7 where p: "gate_exposure G prop a ps mi cs = Inr p2" "passes p2"
      "gate_size G prop a mi (fst cs) = Inr p7" "passes p7"
    by (auto simp: approving_def accepts_iff Let_def)
  from exposure_passes [OF p(1,2)] assms(3) obtain sz equity cur proj where
    e: "get_float_or0 prop ''size'' = Inr sz" "equity_or_balance a = Inr equity"
    and chk: "check_projected_exposure ps [(''equity'', VFloat equity)] (proposed_trade sz price (fst cs))
          (get_threshold (rg_engine G) MAX_EXPOSURE) = Inr (True, cur, proj)" by auto
  from size_passes [OF p(3,4)] e have pos: "0 < sz" "0 < fst cs" "0 < equity" by auto
  have "added_notional (proposed_trade sz price (fst cs)) = sz * price * fst cs"
    using pos assms(4)
    by (simp add: added_notional_def proposed_trade_def position_notional_def float_or_def py_simps)
  with check_projected_exposure_True [OF chk] have lim:
    "list_all (\<lambda>p. position_notional p \<noteq> None) ps"
    "known_notional ps + sz * price * fst cs \<le> get_threshold (rg_engine G) MAX_EXPOSURE * equity"
    by (auto simp: list_all_iff py_simps)
  have "genuine_contract info prop mi (fst cs)"
    using ap pos(2) by (simp add: broker_contract_genuine [OF refl] approving_def Let_def)
  with e pos lim show ?thesis by blast
qed

lemma approved_exposure_within_limit_witness:
  "\<exists>sz contract equity. known_notional [] + sz * 2000 * contract \<le> get_threshold (rg_engine demo_gate) MAX_EXPOSURE * equity
     \<and> 0 < sz \<and> genuine_contract demo_terminal demo_proposal demo_market contract \<and> equity_or_balance demo_account = Inr equity"
proof -
  have "quoted_price demo_proposal demo_market = Inr 2000"
    by (simp add: quoted_price_def demo_defs py_simps upper_def to_upper_def)
  from approved_exposure_within_limit [OF demo_approved this] show ?thesis by auto
qed

text \<open>
  An approved proposal has a stop and a target at positive prices, a reward to risk ratio of at
  least the minimum, a positive size whose value is within the size limit, and a known spread
  within the limit of its symbol.
\<close>

theorem approved_trade_is_bounded:
  assumes "validate_proposal info G prop a ps mi = Inr d" "gd_approved d"
    and "symbol = py_or (dget prop ''symbol'' VNone) (dget mi ''symbol'' (VStr []))"
  shows "\<exists>entry sl tp sz equity.
    get_float prop ''entry_price'' (VFloat 0) = Inr entry \<and> get_float prop ''stop_loss'' (VFloat 0) = Inr sl \<and>
    get_float prop ''take_profit'' (VFloat 0) = Inr tp \<and> get_float_or0 prop ''size'' = Inr sz \<and>
    equity_or_balance a = Inr equity \<and> 0 < entry \<and> 0 < sl \<and> 0 < tp \<and> sl \<noteq> entry \<and> 0 < sz \<and> 0 < equity \<and>
    rg_min_rr G * \<bar>entry - sl\<bar> \<le> \<bar>tp - entry\<bar> \<and>
    sz * entry * fst (broker_contract_size info symbol mi) \<le> get_threshold (rg_engine G) MAX_POSITION_SIZE * equity \<and>
    snd (spread_in_pips mi) \<and> fst (spread_in_pips mi) \<le> max_spread_for_symbol G symbol"
proof -
  from assms(1,2) obtain cs entry sl tp where ap: "approving info G prop a ps mi cs entry sl tp"
    by (rule approved_approving)
  then obtain p5 p7 where p: "gate_levels G entry sl tp = Inr p5" "passes p5"
      "gate_size G prop a mi (fst cs) = Inr p7" "passes p7" "passes (gate_spread G symbol mi (fst cs))"
    and v: "get_float prop ''entry_price'' (VFloat 0) = Inr entry" "get_float prop ''stop_loss'' (VFloat 0) = Inr sl"
      "get_float prop ''take_profit'' (VFloat 0) = Inr tp" and cs: "cs = broker_contract_size info symbol mi"
    by (auto simp: approving_def accepts_iff assms(3) Let_def)
  note lv = levels_pass [OF p(1,2)]
  have "py_or (py_or (dget prop ''entry_price'' VNone) (dget mi ''price'' VNone)) (VFloat 0) = dget prop ''entry_price'' VNone"
  proof -
    have "dget prop ''entry_price'' VNone = dget prop ''entry_price'' (VFloat 0)"
      using v(1) lv by (auto simp: py_simps split: option.splits)
    moreover have "py_truthy (dget prop ''entry_price'' (VFloat 0))"
      using v(1) lv by (cases "dget prop ''entry_price'' (VFloat 0)") (auto simp: get_float_def parse_float_def strip_def read_sign_def Let_def split: if_splits)
    ultimately show ?thesis by (simp add: py_or_def)
  qed
  moreover have "get_float prop ''entry_price'' VNone = Inr entry"
    using v(1) lv by (auto simp: py_simps split: option.splits)
  ultimately have "py_float (py_or (py_or (dget prop ''entry_price'' VNone) (dget mi ''price'' VNone)) (VFloat 0)) = Inr entry"
    by (simp add: get_float_def)
  with size_passes [OF p(3,4)] obtain sz equity where sz: "get_float_or0 prop ''size'' = Inr sz"
    "equity_or_balance a = Inr equity" "0 < equity" "0 < sz"
    "sz * entry * fst cs \<le> get_threshold (rg_engine G) MAX_POSITION_SIZE * equity" by auto
  have "snd (spread_in_pips mi) \<and> fst (spread_in_pips mi) \<le> max_spread_for_symbol G symbol"
    using p(5) by (auto simp: gate_spread_def passes_def Let_def split: prod.splits)
  with sz v lv cs show ?thesis by blast
qed

lemma approved_trade_is_bounded_witness:
  "fst (spread_in_pips demo_market) \<le> max_spread_for_symbol demo_gate (VStr ''XAUUSD'')"
  using approved_trade_is_bounded [OF demo_approved demo_symbol [symmetric]] by blast

text \<open>
  C22. With a risk budget, configured or taken from a proposal sized deterministically, approval
  means that the money lost at the stop by the whole volume (the move to the stop at what the tick
  or the contract is worth, the spread and the commission) is within that fraction of the equity,
  on the contract size of the proposal's own symbol and with a known commission.
\<close>

theorem approved_loss_within_budget:
  assumes "validate_proposal info G prop a ps mi = Inr d" "gd_approved d"
    and "risk_budget_pct G prop = (Some pct, src)" "0 < pct"
  shows "\<exists>entry sl volume contract equity.
    get_float prop ''entry_price'' (VFloat 0) = Inr entry \<and> get_float prop ''stop_loss'' (VFloat 0) = Inr sl \<and>
    py_float (py_or (py_or (dget prop ''size'' VNone) (dget prop ''volume'' VNone)) (VFloat 0)) = Inr volume \<and>
    equity_or_balance a = Inr equity \<and> 0 < volume \<and> genuine_contract info prop mi contract \<and>
    stated_commission prop mi \<noteq> VNone \<and> dget prop ''commission_known'' VNone \<noteq> VBool False \<and>
    loss_at_stop prop mi contract \<bar>entry - sl\<bar> volume \<le> equity * pct"
proof -
  from assms(1,2) obtain cs entry sl tp where ap: "approving info G prop a ps mi cs entry sl tp"
    by (rule approved_approving)
  then obtain p6 where p: "gate_monetary G prop a mi cs entry sl = Inr p6" "passes p6"
    and v: "get_float prop ''entry_price'' (VFloat 0) = Inr entry" "get_float prop ''stop_loss'' (VFloat 0) = Inr sl"
    by (auto simp: approving_def accepts_iff Let_def)
  from monetary_passes [OF p assms(3,4)] obtain volume c1 c2 equity where m:
    "py_float (py_or (py_or (dget prop ''size'' VNone) (dget prop ''volume'' VNone)) (VFloat 0)) = Inr volume"
    "stop_costs mi \<bar>entry - sl\<bar> (fst cs) = Inr (c1, c2)" "equity_or_balance a = Inr equity" "0 < volume" "0 < fst cs"
    "commission_known prop mi" "(c1 + c2 + commission_per_lot prop mi) * volume \<le> equity * pct" by blast
  have "genuine_contract info prop mi (fst cs)"
    using ap m(5) by (simp add: broker_contract_genuine [OF refl] approving_def Let_def)
  with m v stop_costs_loss [OF m(2), of "prop" volume] commission_known_iff [of "prop" mi] show ?thesis by auto
qed

lemma approved_loss_within_budget_witness:
  "\<exists>contract volume. genuine_contract demo_terminal demo_proposal demo_market contract \<and> 0 < volume \<and>
     loss_at_stop demo_proposal demo_market contract 10 volume \<le> 100000 * (2/100)"
proof -
  have e: "equity_or_balance demo_account = Inr 100000" by (simp add: equity_or_balance_def demo_defs py_simps)
  have "(0 :: pyfloat) < 2 / 100" by simp
  from approved_loss_within_budget [OF demo_approved demo_budget this] show ?thesis
    by (auto simp: demo_levels e)
qed

end
