(* ===== verification/Write_Guard.thy ===== *)
theory Write_Guard
  imports Risk_Gate
begin

text \<open>
  Who may write: \<open>agents/permissions.py\<close>, \<open>mt5/write_guard.py\<close> and the guarded write path of
  \<open>mt5/connector.py\<close>. The executor, which talks to the terminal, is a state transformer given as
  an argument; a message built from numbers is represented by the check that produced it.
\<close>

section \<open>Permissions\<close>

record agent =
  ag_name :: string
  ag_permissions :: "string list"

definition require_permission :: "agent \<Rightarrow> string \<Rightarrow> pyerr + unit" where
  "require_permission a p =
     (if p \<notin> set (ag_permissions a) then Inl (AgentPermissionError (ag_name a) p) else Inr ())"

definition can_invoke :: "agent \<Rightarrow> string \<Rightarrow> bool" where
  "can_invoke a p \<longleftrightarrow> p \<in> set (ag_permissions a)"

record submission =
  su_accepted :: bool
  su_agent :: string
  su_reason :: string
  su_checks :: "(string \<times> bool) list"
  su_metrics :: pydict

text \<open>Without a gate the answer has no checks and no metrics, and is a refusal.\<close>

definition submit_to_risk_gate ::
  "(string \<Rightarrow> pydict option) \<Rightarrow> agent \<Rightarrow> pydict \<Rightarrow> risk_gate option \<Rightarrow> pydict option \<Rightarrow> pydict list option
   \<Rightarrow> pydict option \<Rightarrow> pyerr + submission" where
  "submit_to_risk_gate info a payload gate account positions market =
     bindE (require_permission a ''SUBMIT_TO_RISK_GATE'') (\<lambda>_.
       case gate of
         Some G \<Rightarrow>
           bindE (validate_proposal info G payload (case account of None \<Rightarrow> [] | Some d \<Rightarrow> d)
                    (case positions of None \<Rightarrow> [] | Some ps \<Rightarrow> ps) (case market of None \<Rightarrow> [] | Some d \<Rightarrow> d)) (\<lambda>d.
             Inr \<lparr>su_accepted = gd_approved d, su_agent = ag_name a, su_reason = gd_reason d,
                  su_checks = gd_checks d, su_metrics = gd_metrics d\<rparr>)
       | None \<Rightarrow>
           Inr \<lparr>su_accepted = False, su_agent = ag_name a,
                su_reason = ''No RiskGate supplied '' @ em_dash @ '' refusing to approve (fail-closed).'',
                su_checks = [], su_metrics = []\<rparr>)"

definition propose_execution :: "agent \<Rightarrow> pydict \<Rightarrow> pyerr + bool \<times> string \<times> pydict" where
  "propose_execution a proposal =
     bindE (require_permission a ''PROPOSE_EXECUTION'') (\<lambda>_. Inr (False, ag_name a, proposal))"

section \<open>Order checks\<close>

datatype guard_reason =
    NoPermission string string
  | VolumeBelow
  | VolumeAbove
  | NoAccountState
  | DailyLossExceeded
  | NoPositions
  | NoBalance
  | ExposureExceeded

record guard_verdict =
  gw_valid :: bool
  gw_reason :: "guard_reason option"
  gw_checked :: "string list"

text \<open>An operand of arithmetic or an ordering: a number, or the \<open>TypeError\<close> of anything else.\<close>

fun py_num :: "pyval \<Rightarrow> pyerr + pyfloat" where
  "py_num (VBool b) = Inr (if b then 1 else 0)"
| "py_num (VInt i) = Inr (of_int i)"
| "py_num (VFloat x) = Inr x"
| "py_num _ = Inl TypeError"

definition validate_volume :: "pyval \<Rightarrow> pyfloat \<Rightarrow> pyfloat \<Rightarrow> pyerr + guard_reason option" where
  "validate_volume volume min_volume max_volume =
     bindE (py_num volume) (\<lambda>v.
       Inr (if v < min_volume then Some VolumeBelow else if v > max_volume then Some VolumeAbove else None))"

definition validate_daily_loss :: "pydict \<Rightarrow> pyfloat \<Rightarrow> pyerr + guard_reason option" where
  "validate_daily_loss account limit =
     (let balance = dget account ''balance'' (VFloat 1)
      in bindE (if py_truthy balance
                then bindE (py_num (dget account ''daily_pnl'' (VFloat 0))) (\<lambda>p. bindE (py_num balance) (\<lambda>b. Inr (p / b)))
                else Inr 0) (\<lambda>ratio.
         Inr (if ratio < - limit then Some DailyLossExceeded else None)))"

definition position_value :: "pydict \<Rightarrow> pyerr + pyfloat" where
  "position_value p =
     bindE (py_num (dget p ''volume'' (VInt 0))) (\<lambda>v. bindE (py_num (dget p ''price'' (VFloat 1))) (\<lambda>q. Inr \<bar>v * q\<bar>))"

definition validate_exposure :: "pydict list \<Rightarrow> pyfloat \<Rightarrow> pyfloat \<Rightarrow> pyerr + guard_reason option" where
  "validate_exposure positions max_pct balance =
     (if balance \<le> 0 then Inr (Some NoBalance)
      else bindE (mapE position_value positions) (\<lambda>vs.
        Inr (if sum_list vs / balance * 100 > max_pct * 100 then Some ExposureExceeded else None)))"

section \<open>The guard\<close>

record write_guard =
  wg_min_volume :: pyfloat
  wg_max_volume :: pyfloat
  wg_daily_loss_limit :: pyfloat
  wg_max_exposure_pct :: pyfloat

definition default_guard :: write_guard where
  "default_guard = \<lparr>wg_min_volume = 1/100, wg_max_volume = 100, wg_daily_loss_limit = 1/10, wg_max_exposure_pct = 1/5\<rparr>"

definition invalid :: "guard_reason \<Rightarrow> string list \<Rightarrow> guard_verdict" where
  "invalid r checked = \<lparr>gw_valid = False, gw_reason = Some r, gw_checked = checked\<rparr>"

definition order_volume :: "pydict \<Rightarrow> pyval" where
  "order_volume order = dget order ''volume'' (dget order ''quantity'' (VInt 0))"

text \<open>One check: a raise ends the validation, a reason makes the verdict invalid.\<close>

definition verdict_check :: "pyerr + guard_reason option \<Rightarrow> string list \<Rightarrow> pyerr + guard_verdict \<Rightarrow> pyerr + guard_verdict" where
  "verdict_check m checked rest =
     bindE m (\<lambda>r. case r of Some x \<Rightarrow> Inr (invalid x checked) | None \<Rightarrow> rest)"

definition check_positions :: "write_guard \<Rightarrow> pydict \<Rightarrow> pydict list option \<Rightarrow> pyerr + guard_reason option" where
  "check_positions W acc positions =
     (case positions of
        None \<Rightarrow> Inr (Some NoPositions)
      | Some ps \<Rightarrow> bindE (get_float_or0 acc ''balance'') (validate_exposure ps (wg_max_exposure_pct W)))"

definition validate_order ::
  "write_guard \<Rightarrow> agent \<Rightarrow> pydict \<Rightarrow> pydict list option \<Rightarrow> pydict option \<Rightarrow> pyerr + guard_verdict" where
  "validate_order W a order positions account =
     (let acc = (case account of None \<Rightarrow> [] | Some d \<Rightarrow> d)
      in verdict_check (Inr (if can_invoke a ''SEND_TO_MT5'' then None else Some (NoPermission (ag_name a) ''SEND_TO_MT5'')))
           [''permission'']
         (verdict_check (validate_volume (order_volume order) (wg_min_volume W) (wg_max_volume W)) [''permission'']
         (verdict_check (Inr (if acc = [] then Some NoAccountState else None)) [''permission'', ''volume'']
         (verdict_check (validate_daily_loss acc (wg_daily_loss_limit W)) [''permission'', ''volume'']
         (verdict_check (check_positions W acc positions) [''permission'', ''volume'', ''daily_loss'']
           (Inr \<lparr>gw_valid = True, gw_reason = None,
                 gw_checked = [''permission'', ''volume'', ''daily_loss'', ''exposure'']\<rparr>))))))"

text \<open>\<open>out.setdefault("checked", ...)\<close> on a dictionary, and the answer for an empty result.\<close>

definition executor_answer :: "string list \<Rightarrow> pyval \<Rightarrow> pyval" where
  "executor_answer checked out =
     (let c = VList (map VStr checked);
          seen = (case out of VDict d \<Rightarrow> (if map_of d ''checked'' = None then VDict (d @ [(''checked'', c)]) else VDict d)
                  | v \<Rightarrow> v)
      in if py_truthy seen then seen
         else VDict [(''success'', VBool False), (''order_id'', VNone),
                (''message'', VStr ''MT5 executor returned no result''), (''checked'', c)])"

definition send_order ::
  "write_guard \<Rightarrow> (pydict \<Rightarrow> 's \<Rightarrow> (pyerr + pyval) \<times> 's) \<Rightarrow> agent \<Rightarrow> pydict \<Rightarrow> pydict list option
   \<Rightarrow> pydict option \<Rightarrow> 's \<Rightarrow> (pyerr + pyval) \<times> 's" where
  "send_order W run a order positions account s =
     (case bindE (require_permission a ''SEND_TO_MT5'') (\<lambda>_. validate_order W a order positions account) of
        Inl e \<Rightarrow> (Inl e, s)
      | Inr v \<Rightarrow>
          (if \<not> gw_valid v then (Inl ValueError, s)
           else case run order s of
               (Inl e, t) \<Rightarrow> (Inl e, t)
             | (Inr out, t) \<Rightarrow> (Inr (executor_answer (gw_checked v) out), t)))"

text \<open>The wrapper of the connector: it refuses with a value, and copies the volume to \<open>quantity\<close>.\<close>

definition normalized_order :: "pydict \<Rightarrow> pydict" where
  "normalized_order order =
     (case (map_of order ''quantity'', map_of order ''volume'') of
        (None, Some v) \<Rightarrow> order @ [(''quantity'', v)]
      | _ \<Rightarrow> order)"

definition guarded_execute_order ::
  "write_guard \<Rightarrow> (pydict \<Rightarrow> 's \<Rightarrow> (pyerr + pyval) \<times> 's) \<Rightarrow> agent \<Rightarrow> pydict \<Rightarrow> pydict list option
   \<Rightarrow> pydict option \<Rightarrow> 's \<Rightarrow> (pyerr + (guard_verdict + pyval)) \<times> 's" where
  "guarded_execute_order W run a order positions account s =
     (case validate_order W a order positions account of
        Inl e \<Rightarrow> (Inl e, s)
      | Inr v \<Rightarrow>
          (if \<not> gw_valid v then (Inr (Inl v), s)
           else case run (normalized_order order) s of
               (Inl e, t) \<Rightarrow> (Inl e, t)
             | (Inr out, t) \<Rightarrow> (Inr (Inr (executor_answer (gw_checked v) out)), t)))"

definition send_to_mt5 ::
  "(pydict \<Rightarrow> 's \<Rightarrow> (pyerr + pyval) \<times> 's) \<Rightarrow> agent \<Rightarrow> pydict \<Rightarrow> pydict list option
   \<Rightarrow> pydict option \<Rightarrow> 's \<Rightarrow> (pyerr + (guard_verdict + pyval)) \<times> 's" where
  "send_to_mt5 run a order positions account s =
     (case require_permission a ''SEND_TO_MT5'' of
        Inl e \<Rightarrow> (Inl e, s)
      | Inr u \<Rightarrow> guarded_execute_order default_guard run a order positions account s)"

section \<open>Lemmas\<close>

lemma position_value_nonneg: "position_value p = Inr v \<Longrightarrow> 0 \<le> v"
  by (auto simp: position_value_def)

lemma verdict_check_valid:
  "verdict_check m c rest = Inr v \<and> gw_valid v \<longleftrightarrow> m = Inr None \<and> rest = Inr v \<and> gw_valid v"
proof (cases m)
  case (Inr r)
  then show ?thesis by (cases r) (auto simp: verdict_check_def invalid_def)
qed (simp add: verdict_check_def)

lemma valid_orderE:
  assumes "validate_order W a order positions account = Inr v" "gw_valid v"
  obtains vol acc ps balance vs where "can_invoke a ''SEND_TO_MT5''" "py_num (order_volume order) = Inr vol"
    "wg_min_volume W \<le> vol" "vol \<le> wg_max_volume W" "account = Some acc" "acc \<noteq> []"
    "validate_daily_loss acc (wg_daily_loss_limit W) = Inr None" "positions = Some ps"
    "get_float_or0 acc ''balance'' = Inr balance" "0 < balance" "mapE position_value ps = Inr vs"
    "sum_list vs \<le> wg_max_exposure_pct W * balance"
proof -
  define acc where "acc = (case account of None \<Rightarrow> [] | Some d \<Rightarrow> d)"
  from conjI [OF assms] have c: "can_invoke a ''SEND_TO_MT5''" "acc \<noteq> []"
      "validate_volume (order_volume order) (wg_min_volume W) (wg_max_volume W) = Inr None"
      "validate_daily_loss acc (wg_daily_loss_limit W) = Inr None" "check_positions W acc positions = Inr None"
    unfolding validate_order_def acc_def [symmetric] Let_def verdict_check_valid
    by (simp_all split: if_splits)
  from c(2) have a: "account = Some acc" by (auto simp: acc_def split: option.splits)
  from c(3) obtain vol where vol: "py_num (order_volume order) = Inr vol" "wg_min_volume W \<le> vol" "vol \<le> wg_max_volume W"
    by (auto simp: validate_volume_def split: if_splits)
  from c(5) obtain ps balance where ps: "positions = Some ps" "get_float_or0 acc ''balance'' = Inr balance"
      "validate_exposure ps (wg_max_exposure_pct W) balance = Inr None"
    by (auto simp: check_positions_def split: option.splits)
  from ps(3) obtain vs where vs: "0 < balance" "mapE position_value ps = Inr vs"
      "sum_list vs * 100 \<le> wg_max_exposure_pct W * 100 * balance"
    by (auto simp: validate_exposure_def not_le not_less pos_divide_le_eq split: if_splits)
  from vs(3) have "sum_list vs \<le> wg_max_exposure_pct W * balance" by simp
  with c a vol ps vs show thesis by (intro that)
qed

text \<open>A verdict that lets the executor run.\<close>

definition cleared :: "write_guard \<Rightarrow> agent \<Rightarrow> pydict \<Rightarrow> pydict list option \<Rightarrow> pydict option \<Rightarrow> bool" where
  "cleared W a order positions account \<longleftrightarrow>
     (case validate_order W a order positions account of Inl e \<Rightarrow> False | Inr v \<Rightarrow> gw_valid v)"

section \<open>Properties\<close>

text \<open>
  Every write path calls the executor exactly once when the guard clears the order and not at
  all otherwise: an order without the permission, without account state or positions, or failing
  any check leaves the terminal untouched and the caller with an error or a refusal.
\<close>

theorem executor_runs_only_when_cleared:
  "(if cleared W a order positions account
    then snd (send_order W run a order positions account s) = snd (run order s) \<and>
         snd (guarded_execute_order W run a order positions account s) = snd (run (normalized_order order) s)
    else snd (send_order W run a order positions account s) = s \<and>
         (\<exists>e. fst (send_order W run a order positions account s) = Inl e) \<and>
         snd (guarded_execute_order W run a order positions account s) = s)"
proof (cases "validate_order W a order positions account")
  case (Inl e)
  then show ?thesis
    by (cases "require_permission a ''SEND_TO_MT5''") (simp_all add: cleared_def send_order_def guarded_execute_order_def)
next
  case (Inr v)
  have "gw_valid v \<Longrightarrow> require_permission a ''SEND_TO_MT5'' = Inr ()"
    using valid_orderE [OF Inr] by (auto simp: require_permission_def can_invoke_def)
  then show ?thesis
    using Inr by (cases "require_permission a ''SEND_TO_MT5''")
      (auto simp: cleared_def send_order_def guarded_execute_order_def split: prod.split sum.split)
qed

text \<open>
  A cleared order comes from an agent with the write permission, has a volume within the
  guard's limits, and finds an account with a positive balance on which the open positions stay
  within the exposure limit and the loss of the day within its own.
\<close>

theorem cleared_order_is_covered:
  assumes "cleared W a order positions account"
  shows "can_invoke a ''SEND_TO_MT5'' \<and>
    (\<exists>vol acc ps balance vs. py_num (order_volume order) = Inr vol \<and> wg_min_volume W \<le> vol \<and> vol \<le> wg_max_volume W \<and>
       account = Some acc \<and> positions = Some ps \<and> get_float_or0 acc ''balance'' = Inr balance \<and> 0 < balance \<and>
       mapE position_value ps = Inr vs \<and> sum_list vs \<le> wg_max_exposure_pct W * balance \<and>
       validate_daily_loss acc (wg_daily_loss_limit W) = Inr None)"
proof -
  from assms obtain v where "validate_order W a order positions account = Inr v" "gw_valid v"
    by (auto simp: cleared_def split: sum.splits)
  then show ?thesis by (rule valid_orderE) blast
qed

definition writer :: agent where
  "writer = \<lparr>ag_name = ''execution'', ag_permissions = [''SEND_TO_MT5'']\<rparr>"

lemma cleared_order_is_covered_witness:
  "can_invoke writer ''SEND_TO_MT5'' \<and> cleared default_guard writer [(''volume'', VInt 2)] (Some [[(''volume'', VInt 1), (''price'', VInt 100)]])
     (Some [(''balance'', VInt 1000), (''daily_pnl'', VInt (-50))])"
proof -
  have "cleared default_guard writer [(''volume'', VInt 2)] (Some [[(''volume'', VInt 1), (''price'', VInt 100)]])
     (Some [(''balance'', VInt 1000), (''daily_pnl'', VInt (-50))])"
    by (simp add: cleared_def validate_order_def validate_volume_def validate_daily_loss_def validate_exposure_def
        verdict_check_def check_positions_def position_value_def order_volume_def default_guard_def writer_def can_invoke_def py_simps)
  with cleared_order_is_covered [OF this] show ?thesis by simp
qed

text \<open>
  C0. The guard checks \<open>volume\<close> when an order carries both sizes, while the wrapper hands the order
  on with its own \<open>quantity\<close>: any quantity reaches the executor unchecked.
\<close>

theorem quantity_beside_volume_is_unchecked:
  assumes "cleared W a [(''volume'', v)] positions account"
  shows "cleared W a [(''volume'', v), (''quantity'', q)] positions account \<and>
         normalized_order [(''volume'', v), (''quantity'', q)] = [(''volume'', v), (''quantity'', q)]"
proof -
  have "order_volume [(''volume'', v), (''quantity'', q)] = order_volume [(''volume'', v)]"
    by (simp add: order_volume_def py_simps)
  then have "validate_order W a [(''volume'', v), (''quantity'', q)] positions account
      = validate_order W a [(''volume'', v)] positions account"
    by (simp only: validate_order_def)
  with assms show ?thesis by (simp add: cleared_def normalized_order_def)
qed

lemma quantity_beside_volume_is_unchecked_witness:
  "cleared default_guard writer [(''volume'', VInt 2), (''quantity'', VInt 5000)] (Some []) (Some [(''balance'', VInt 1000)])"
proof -
  have "cleared default_guard writer [(''volume'', VInt 2)] (Some []) (Some [(''balance'', VInt 1000)])"
    by (simp add: cleared_def validate_order_def validate_volume_def validate_daily_loss_def validate_exposure_def
        verdict_check_def check_positions_def order_volume_def default_guard_def writer_def can_invoke_def py_simps)
  from quantity_beside_volume_is_unchecked [OF this] show ?thesis by simp
qed

text \<open>
  An agent's submission is accepted only if the agent holds the permission and a risk gate was
  given and approved that very proposal; without a gate it is refused, and a proposed execution is
  never accepted.
\<close>

theorem submission_needs_the_gate:
  assumes "submit_to_risk_gate info a payload gate account positions market = Inr r" "su_accepted r"
  shows "can_invoke a ''SUBMIT_TO_RISK_GATE'' \<and>
    (\<exists>G d. gate = Some G \<and> gd_approved d \<and> su_checks r = gd_checks d \<and>
      validate_proposal info G payload (case account of None \<Rightarrow> [] | Some x \<Rightarrow> x)
        (case positions of None \<Rightarrow> [] | Some x \<Rightarrow> x) (case market of None \<Rightarrow> [] | Some x \<Rightarrow> x) = Inr d)"
  using assms
  by (auto simp: submit_to_risk_gate_def require_permission_def can_invoke_def split: if_splits option.splits)

lemma submission_needs_the_gate_witness:
  "\<exists>r. submit_to_risk_gate demo_terminal \<lparr>ag_name = ''supervisor'', ag_permissions = [''SUBMIT_TO_RISK_GATE'']\<rparr>
      demo_proposal (Some demo_gate) (Some demo_account) None (Some demo_market) = Inr r \<and> su_accepted r
    \<and> can_invoke \<lparr>ag_name = ''supervisor'', ag_permissions = [''SUBMIT_TO_RISK_GATE'']\<rparr> ''SUBMIT_TO_RISK_GATE''"
proof -
  let ?a = "\<lparr>ag_name = ''supervisor'', ag_permissions = [''SUBMIT_TO_RISK_GATE'']\<rparr>"
  have "\<exists>r. submit_to_risk_gate demo_terminal ?a demo_proposal (Some demo_gate) (Some demo_account) None (Some demo_market) = Inr r
      \<and> su_accepted r"
    using demo_approved by (simp add: submit_to_risk_gate_def require_permission_def)
  with submission_needs_the_gate show ?thesis by blast
qed

end
