(* ===== verification/Signals.thy ===== *)
theory Signals
  imports Contracts
begin

text \<open>
  The lifecycle of a trading signal: \<open>trading/signal_state_machine.py\<close>. States are the texts the
  class attributes name; a signal may carry any text as its state, a default one starts detected.
\<close>

section \<open>States\<close>

datatype signal_state =
    DETECTED | ANALYZING | CANDIDATE | VALIDATED | ARMED | WAITING_TRIGGER
  | EXECUTING | OPEN | MANAGING | SIG_CLOSED | REJECTED | EXPIRED

fun sig_value :: "signal_state \<Rightarrow> string" where
  "sig_value DETECTED = ''DETECTED''"
| "sig_value ANALYZING = ''ANALYZING''"
| "sig_value CANDIDATE = ''CANDIDATE''"
| "sig_value VALIDATED = ''VALIDATED''"
| "sig_value ARMED = ''ARMED''"
| "sig_value WAITING_TRIGGER = ''WAITING_TRIGGER''"
| "sig_value EXECUTING = ''EXECUTING''"
| "sig_value OPEN = ''OPEN''"
| "sig_value MANAGING = ''MANAGING''"
| "sig_value SIG_CLOSED = ''CLOSED''"
| "sig_value REJECTED = ''REJECTED''"
| "sig_value EXPIRED = ''EXPIRED''"

definition signal_states :: "signal_state list" where
  "signal_states = [DETECTED, ANALYZING, CANDIDATE, VALIDATED, ARMED, WAITING_TRIGGER, EXECUTING, OPEN, MANAGING,
     SIG_CLOSED, REJECTED, EXPIRED]"

fun valid_transitions :: "signal_state \<Rightarrow> signal_state list" where
  "valid_transitions DETECTED = [ANALYZING, REJECTED]"
| "valid_transitions ANALYZING = [CANDIDATE, REJECTED]"
| "valid_transitions CANDIDATE = [VALIDATED, REJECTED]"
| "valid_transitions VALIDATED = [ARMED, WAITING_TRIGGER, REJECTED]"
| "valid_transitions ARMED = [WAITING_TRIGGER, EXPIRED]"
| "valid_transitions WAITING_TRIGGER = [EXECUTING, EXPIRED]"
| "valid_transitions EXECUTING = [OPEN]"
| "valid_transitions OPEN = [MANAGING, SIG_CLOSED]"
| "valid_transitions MANAGING = [SIG_CLOSED]"
| "valid_transitions SIG_CLOSED = []"
| "valid_transitions REJECTED = []"
| "valid_transitions EXPIRED = []"

text \<open>The state a text names, where it names one.\<close>

definition signal_state_of :: "string \<Rightarrow> signal_state option" where
  "signal_state_of t = find (\<lambda>s. sig_value s = t) signal_states"

definition is_valid_transition :: "string \<Rightarrow> string \<Rightarrow> bool" where
  "is_valid_transition cur new \<longleftrightarrow>
     (case signal_state_of (upper cur) of None \<Rightarrow> False | Some s \<Rightarrow> new \<in> set (map sig_value (valid_transitions s)))"

fun sig_rank :: "signal_state \<Rightarrow> nat" where
  "sig_rank DETECTED = 0"
| "sig_rank ANALYZING = 1"
| "sig_rank CANDIDATE = 2"
| "sig_rank VALIDATED = 3"
| "sig_rank ARMED = 4"
| "sig_rank WAITING_TRIGGER = 5"
| "sig_rank EXECUTING = 6"
| "sig_rank OPEN = 7"
| "sig_rank MANAGING = 8"
| "sig_rank SIG_CLOSED = 9"
| "sig_rank REJECTED = 9"
| "sig_rank EXPIRED = 9"

interpretation signal_life: ranked_lifecycle valid_transitions sig_rank 9
proof
  show "sig_rank s < sig_rank t" if "t \<in> set (valid_transitions s)" for s t
    using that by (cases s) auto
  show "sig_rank s \<le> 9" for s by (cases s) auto
qed

section \<open>Signals\<close>

record history_entry =
  he_from :: string
  he_to :: string
  he_reason :: string
  he_at :: string

record signal =
  sg_id :: string
  sg_trace :: string
  sg_symbol :: string
  sg_direction :: string
  sg_state :: string
  sg_decision :: string
  sg_setup :: string
  sg_proposal :: string
  sg_reason :: string
  sg_created :: string
  sg_updated :: string
  sg_history :: "history_entry list"

definition new_signal :: "string \<Rightarrow> string \<Rightarrow> signal" where
  "new_signal i now = \<lparr>sg_id = i, sg_trace = [], sg_symbol = [], sg_direction = ''WAIT'', sg_state = ''DETECTED'',
     sg_decision = [], sg_setup = [], sg_proposal = [], sg_reason = [], sg_created = now, sg_updated = now, sg_history = []\<rparr>"

definition transition :: "string \<Rightarrow> string \<Rightarrow> string \<Rightarrow> signal \<Rightarrow> bool \<times> signal" where
  "transition now new0 reason s =
     (let new = upper new0
      in if signal_state_of new = None then (False, s)
         else if \<not> is_valid_transition (sg_state s) new then (False, s)
         else (True, s\<lparr>sg_history := sg_history s
                 @ [\<lparr>he_from = sg_state s, he_to = new, he_reason = reason, he_at = now\<rparr>],
                 sg_state := new, sg_reason := reason, sg_updated := now\<rparr>))"

definition is_terminal_signal :: "signal \<Rightarrow> bool" where
  "is_terminal_signal s \<longleftrightarrow> sg_state s \<in> set (map sig_value [SIG_CLOSED, REJECTED, EXPIRED])"

text \<open>Any run of transition calls, refused ones included.\<close>

definition run_signal :: "(string \<times> string \<times> string) list \<Rightarrow> signal \<Rightarrow> signal" where
  "run_signal calls s = foldl (\<lambda>s (now, new, reason). snd (transition now new reason s)) s calls"

section \<open>Lemmas\<close>

lemma signal_state_of_value [simp]: "signal_state_of (sig_value s) = Some s"
  by (cases s) (simp_all add: signal_state_of_def signal_states_def)

lemma sig_value_inj [simp]: "sig_value s = sig_value t \<longleftrightarrow> s = t"
  using signal_state_of_value by (metis option.inject)

lemma signal_state_ofD: "signal_state_of t = Some s \<Longrightarrow> t = sig_value s"
  by (auto simp: signal_state_of_def find_Some_iff)

lemma upper_sig_value [simp]: "upper (sig_value s) = sig_value s"
  by (cases s) (simp_all add: upper_def to_upper_def Let_def)

lemma transition_cases:
  assumes "sg_state s = sig_value a"
  shows "transition now new reason s = (False, s) \<or>
    (\<exists>b. b \<in> set (valid_transitions a) \<and> upper new = sig_value b \<and>
       transition now new reason s = (True, s\<lparr>sg_history := sg_history s
         @ [\<lparr>he_from = sig_value a, he_to = sig_value b, he_reason = reason, he_at = now\<rparr>],
         sg_state := sig_value b, sg_reason := reason, sg_updated := now\<rparr>))"
  using assms
  by (auto simp: transition_def is_valid_transition_def Let_def dest!: signal_state_ofD)

lemma walk_snoc: "walk f (xs @ [x]) \<Longrightarrow> y \<in> set (f x) \<Longrightarrow> walk f (xs @ [x, y])"
  by (induction xs rule: induct_list012) auto

text \<open>The states a run went through, read from the history.\<close>

definition tracks :: "signal \<Rightarrow> signal_state list \<Rightarrow> bool" where
  "tracks s xs \<longleftrightarrow> xs \<noteq> [] \<and> hd xs = DETECTED \<and> walk valid_transitions xs \<and> sg_state s = sig_value (last xs)
     \<and> map he_to (sg_history s) = map sig_value (tl xs) \<and> map he_from (sg_history s) = map sig_value (butlast xs)"

lemma run_tracks: "\<exists>xs. tracks (run_signal calls (new_signal i t0)) xs"
proof (induction calls rule: rev_induct)
  case Nil
  show ?case by (rule exI [of _ "[DETECTED]"]) (simp add: tracks_def run_signal_def new_signal_def)
next
  case (snoc c calls)
  obtain now new reason where c: "c = (now, new, reason)" by (cases c)
  from snoc obtain xs where xs: "tracks (run_signal calls (new_signal i t0)) xs" by blast
  let ?s = "run_signal calls (new_signal i t0)"
  have step: "run_signal (calls @ [c]) (new_signal i t0) = snd (transition now new reason ?s)"
    by (simp add: run_signal_def c)
  from xs have "sg_state ?s = sig_value (last xs)" by (simp add: tracks_def)
  from transition_cases [OF this, of now new reason] show ?case
  proof
    assume "transition now new reason ?s = (False, ?s)"
    with xs step show ?thesis by auto
  next
    assume "\<exists>b. b \<in> set (valid_transitions (last xs)) \<and> upper new = sig_value b \<and>
       transition now new reason ?s = (True, ?s\<lparr>sg_history := sg_history ?s
         @ [\<lparr>he_from = sig_value (last xs), he_to = sig_value b, he_reason = reason, he_at = now\<rparr>],
         sg_state := sig_value b, sg_reason := reason, sg_updated := now\<rparr>)"
    then obtain b where b: "b \<in> set (valid_transitions (last xs))"
      and t: "transition now new reason ?s = (True, ?s\<lparr>sg_history := sg_history ?s
         @ [\<lparr>he_from = sig_value (last xs), he_to = sig_value b, he_reason = reason, he_at = now\<rparr>],
         sg_state := sig_value b, sg_reason := reason, sg_updated := now\<rparr>)" by blast
    from xs have ne: "xs \<noteq> []" by (simp add: tracks_def)
    then obtain ys z where z: "xs = ys @ [z]" by (metis append_butlast_last_id)
    with xs b walk_snoc [of valid_transitions ys z b] have "walk valid_transitions (xs @ [b])"
      by (simp add: tracks_def)
    with xs step t show ?thesis
      by (intro exI [of _ "xs @ [b]"]) (cases ys, auto simp: tracks_def z butlast_append)
  qed
qed

section \<open>Properties\<close>

text \<open>
  The history of a signal is its walk: after any run of transition calls, valid or not, the
  states from detection to the current one form a walk of the transition table that visits no state
  twice, and the history holds exactly its steps, at most nine.
\<close>

theorem history_is_the_walk:
  "\<exists>xs. tracks (run_signal calls (new_signal i t0)) xs \<and> distinct xs
     \<and> length (sg_history (run_signal calls (new_signal i t0))) \<le> 9"
proof -
  from run_tracks obtain xs where xs: "tracks (run_signal calls (new_signal i t0)) xs" by blast
  let ?s = "run_signal calls (new_signal i t0)"
  from xs have w: "walk valid_transitions xs" "map he_to (sg_history ?s) = map sig_value (tl xs)" by (simp_all add: tracks_def)
  from w(2) have "length (sg_history ?s) = length (tl xs)" by (metis length_map)
  with signal_life.walk_length [OF w(1)] signal_life.walk_distinct [OF w(1)] xs show ?thesis by auto
qed

text \<open>The states a walk from detection to a state cannot avoid.\<close>

fun must_pass :: "signal_state \<Rightarrow> signal_state list" where
  "must_pass ANALYZING = [ANALYZING]"
| "must_pass CANDIDATE = [CANDIDATE, ANALYZING]"
| "must_pass VALIDATED = VALIDATED # [CANDIDATE, ANALYZING]"
| "must_pass ARMED = [ARMED, VALIDATED, CANDIDATE, ANALYZING]"
| "must_pass WAITING_TRIGGER = [WAITING_TRIGGER, VALIDATED, CANDIDATE, ANALYZING]"
| "must_pass EXECUTING = [EXECUTING, WAITING_TRIGGER, VALIDATED, CANDIDATE, ANALYZING]"
| "must_pass OPEN = [OPEN, EXECUTING, WAITING_TRIGGER, VALIDATED, CANDIDATE, ANALYZING]"
| "must_pass MANAGING = [MANAGING, OPEN, EXECUTING, WAITING_TRIGGER, VALIDATED, CANDIDATE, ANALYZING]"
| "must_pass SIG_CLOSED = [SIG_CLOSED, OPEN, EXECUTING, WAITING_TRIGGER, VALIDATED, CANDIDATE, ANALYZING]"
| "must_pass _ = []"

lemma must_pass_step: "b \<in> set (valid_transitions a) \<Longrightarrow> set (must_pass b) \<subseteq> insert b (set (must_pass a))"
  by (cases a) auto

lemma walk_butlast: "walk f (xs @ [x, y]) \<Longrightarrow> walk f (xs @ [x]) \<and> y \<in> set (f x)"
  by (induction xs rule: induct_list012) auto

lemma walk_must_pass:
  "walk valid_transitions xs \<Longrightarrow> xs \<noteq> [] \<Longrightarrow> hd xs = DETECTED \<Longrightarrow> set (must_pass (last xs)) \<subseteq> set (tl xs)"
proof (induction xs rule: rev_induct)
  case (snoc b xs)
  show ?case
  proof (cases xs rule: rev_cases)
    case Nil
    with snoc.prems show ?thesis by simp
  next
    case (snoc ys a)
    with snoc.prems walk_butlast [of valid_transitions ys a b] have w: "walk valid_transitions xs" "b \<in> set (valid_transitions a)"
      by simp_all
    have "hd xs = DETECTED" using snoc.prems snoc by (cases ys) auto
    with snoc.IH [OF w(1)] must_pass_step [OF w(2)] snoc show ?thesis by (cases ys) auto
  qed
qed simp

text \<open>
  A signal counts as open, managed or closed only after an execution: after any run of transition
  calls, such a signal has gone through analysis, candidacy, validation, the wait for its trigger and
  the execution, each recorded in its history.
\<close>

theorem open_signal_was_executed:
  assumes "sg_state (run_signal calls (new_signal i t0)) \<in> set (map sig_value [OPEN, MANAGING, SIG_CLOSED])"
  shows "list_all (\<lambda>k. sig_value k \<in> set (map he_to (sg_history (run_signal calls (new_signal i t0)))))
     [ANALYZING, CANDIDATE, VALIDATED, WAITING_TRIGGER, EXECUTING, OPEN]"
proof -
  from run_tracks obtain xs where xs: "tracks (run_signal calls (new_signal i t0)) xs" by blast
  with assms have "sig_value (last xs) \<in> sig_value ` {OPEN, MANAGING, SIG_CLOSED}" by (simp add: tracks_def)
  then have l: "last xs \<in> {OPEN, MANAGING, SIG_CLOSED}" by (subst (asm) inj_image_mem_iff) (simp_all add: inj_def)
  from xs walk_must_pass [of xs] have "set (must_pass (last xs)) \<subseteq> set (tl xs)" by (simp add: tracks_def)
  with l have "set [ANALYZING, CANDIDATE, VALIDATED, WAITING_TRIGGER, EXECUTING, OPEN] \<subseteq> set (tl xs)" by auto
  moreover from xs have "map he_to (sg_history (run_signal calls (new_signal i t0))) = map sig_value (tl xs)"
    by (simp add: tracks_def)
  ultimately show ?thesis unfolding list_all_iff set_map [of sig_value] by (simp only: set_map) blast
qed

definition full_run :: "(string \<times> string \<times> string) list" where
  "full_run = map (\<lambda>n. (''t'', n, ''r''))
     [''ANALYZING'', ''CLOSED'', ''CANDIDATE'', ''VALIDATED'', ''WAITING_TRIGGER'', ''EXECUTING'', ''OPEN'']"

theorem open_signal_was_executed_witness:
  "''EXECUTING'' \<in> set (map he_to (sg_history (run_signal full_run (new_signal ''s'' ''t0''))))"
proof -
  have "sg_state (run_signal full_run (new_signal ''s'' ''t0'')) \<in> set (map sig_value [OPEN, MANAGING, SIG_CLOSED])"
    by code_simp
  from open_signal_was_executed [OF this] show ?thesis by simp
qed

end
