(* ===== verification/Entries.thy ===== *)
theory Entries
  imports Prelude
begin

text \<open>
  Price zones and the registry of setups: \<open>trading/entry_zones.py\<close> and
  \<open>trading/entry_lifecycle.py\<close>. The clock is an argument \<open>now\<close>, the digest of a zone's
  identity and Python's text of a float are functions \<open>digest\<close> and \<open>repr\<close>. Objects are shared
  by reference in the code; the registry owns its records here, and a zone lives in one record.
\<close>

section \<open>Zones\<close>

datatype mitigation = Fresh | Touched | Partially_Mitigated | Fully_Mitigated | Invalidated

record zone =
  zn_id :: string
  zn_symbol :: string
  zn_direction :: string
  zn_type :: string
  zn_timeframe :: string
  zn_top :: pyfloat
  zn_bottom :: pyfloat
  zn_invalidation :: pyfloat
  zn_rule :: string
  zn_created_at :: string
  zn_created :: pyfloat
  zn_expires :: pyfloat
  zn_mitigation :: mitigation
  zn_touches :: int
  zn_first_touch :: pyfloat
  zn_last_touch :: pyfloat
  zn_displacement :: pyfloat
  zn_gap :: pyfloat
  zn_structure_break :: string
  zn_origin :: int
  zn_metadata :: pydict

definition text_or :: "string \<Rightarrow> string \<Rightarrow> string" where
  "text_or t alt = (if t = [] then alt else t)"

definition zone_identity :: "(string \<Rightarrow> string) \<Rightarrow> string \<Rightarrow> string \<Rightarrow> string \<Rightarrow> string \<Rightarrow> pyfloat \<Rightarrow> int \<Rightarrow> string" where
  "zone_identity digest symbol timeframe direction zone_type anchor index =
     (let sym = upper (text_or symbol ''UNK''); tf = upper (text_or timeframe ''M15'');
          d = upper direction; zt = upper zone_type;
          raw = join ''|'' [sym, tf, d, zt, fmt_fixed anchor 5, dec_int index]
      in join ''-'' [sym, tf, d, zt, take 8 (digest raw)])"

definition zone_mid :: "zone \<Rightarrow> pyfloat" where
  "zone_mid z = (zn_top z + zn_bottom z) / 2"

definition zone_height :: "zone \<Rightarrow> pyfloat" where
  "zone_height z = max (zn_top z - zn_bottom z) 0"

definition zone_is_live :: "pyfloat \<Rightarrow> zone \<Rightarrow> bool" where
  "zone_is_live now z \<longleftrightarrow>
     (if zn_mitigation z = Fully_Mitigated \<or> zn_mitigation z = Invalidated then False
      else if zn_expires z \<noteq> 0 \<and> now > zn_expires z then False else True)"

definition record_touch :: "pyfloat \<Rightarrow> zone \<Rightarrow> zone" where
  "record_touch now z =
     z\<lparr>zn_touches := zn_touches z + 1,
       zn_first_touch := (if zn_first_touch z = 0 then now else zn_first_touch z),
       zn_last_touch := now,
       zn_mitigation := (case zn_mitigation z of Fresh \<Rightarrow> Touched | Touched \<Rightarrow> Partially_Mitigated | m \<Rightarrow> m)\<rparr>"

definition mark_fully_mitigated :: "zone \<Rightarrow> zone" where
  "mark_fully_mitigated z = z\<lparr>zn_mitigation := Fully_Mitigated\<rparr>"

definition mark_invalidated :: "string \<Rightarrow> zone \<Rightarrow> zone" where
  "mark_invalidated reason z =
     z\<lparr>zn_mitigation := Invalidated,
       zn_metadata := (if reason = [] then zn_metadata z
                       else AList.update ''invalidation_reason'' (VStr reason) (zn_metadata z))\<rparr>"

definition retests_exceeded :: "int \<Rightarrow> zone \<Rightarrow> bool" where
  "retests_exceeded limit z \<longleftrightarrow> zn_touches z > max 0 limit"

definition is_long :: "zone \<Rightarrow> bool" where
  "is_long z \<longleftrightarrow> upper (zn_direction z) \<in> set [''LONG'', ''BUY'', ''BULLISH'']"

record zone_touch =
  zt_touched :: bool
  zt_zone :: string
  zt_price :: pyfloat
  zt_kind :: string
  zt_reason :: string

definition detect_zone_touch :: "zone \<Rightarrow> pyfloat \<Rightarrow> pyfloat \<Rightarrow> pyfloat \<Rightarrow> pyfloat \<Rightarrow> pyfloat \<Rightarrow> zone_touch" where
  "detect_zone_touch z bid ask high low tolerance =
     (let top = zn_top z + max tolerance 0; bottom = zn_bottom z - max tolerance 0;
          ref = (if is_long z then bid else ask); kind = (if is_long z then ''bid'' else ''ask'')
      in if ref > 0 \<and> bottom \<le> ref \<and> ref \<le> top
         then \<lparr>zt_touched = True, zt_zone = zn_id z, zt_price = ref, zt_kind = kind, zt_reason = kind @ '' inside zone''\<rparr>
         else if high > 0 \<and> low > 0 \<and> low \<le> top \<and> high \<ge> bottom
         then \<lparr>zt_touched = True, zt_zone = zn_id z, zt_price = (high + low) / 2, zt_kind = ''candle_range'',
               zt_reason = ''candle range intersects zone''\<rparr>
         else \<lparr>zt_touched = False, zt_zone = zn_id z, zt_price = 0, zt_kind = [], zt_reason = ''no intersection''\<rparr>)"

definition evaluate_invalidation :: "(pyfloat \<Rightarrow> string) \<Rightarrow> zone \<Rightarrow> pyfloat \<Rightarrow> bool \<times> string" where
  "evaluate_invalidation repr z close =
     (let rest = repr (zn_invalidation z) @ '' ('' @ zn_rule z @ '')''
      in if close \<le> 0 then (False, ''no close price'')
         else if is_long z \<and> close < zn_invalidation z
         then (True, ''LONG invalidated: close '' @ repr close @ '' below invalidation '' @ rest)
         else if \<not> is_long z \<and> close > zn_invalidation z
         then (True, ''SHORT invalidated: close '' @ repr close @ '' above invalidation '' @ rest)
         else (False, ''close inside invalidation boundary''))"

definition is_zone_expired :: "pyfloat \<Rightarrow> zone \<Rightarrow> bool" where
  "is_zone_expired now z \<longleftrightarrow> zn_expires z \<noteq> 0 \<and> now > zn_expires z"

section \<open>The registry\<close>

record setup_record =
  su_id :: string
  su_symbol :: string
  su_direction :: string
  su_zone :: "zone option"
  su_created :: pyfloat
  su_expires :: pyfloat
  su_status :: string
  su_fired :: "string list"

definition dead_statuses :: "string list" where
  "dead_statuses = [''INVALID'', ''EXPIRED'', ''CLOSED'']"

definition setup_is_live :: "pyfloat \<Rightarrow> setup_record \<Rightarrow> bool" where
  "setup_is_live now r \<longleftrightarrow>
     (if su_status r \<in> set dead_statuses then False
      else if su_expires r \<noteq> 0 \<and> now > su_expires r then False else True)"

record setup_registry =
  sy_records :: "(string \<times> setup_record) list"
  sy_max :: nat

definition new_registry :: "int \<Rightarrow> setup_registry" where
  "new_registry max_records = \<lparr>sy_records = [], sy_max = nat (max 1 max_records)\<rparr>"

definition register_setup ::
  "pyfloat \<Rightarrow> string \<Rightarrow> string \<Rightarrow> string \<Rightarrow> zone option \<Rightarrow> pyfloat \<Rightarrow> setup_registry \<Rightarrow> setup_record \<times> setup_registry" where
  "register_setup now i symbol direction z expires g =
     (case map_of (sy_records g) i of
        Some r \<Rightarrow> (r, g)
      | None \<Rightarrow>
          (let kept = (if length (sy_records g) \<ge> sy_max g then tl (sy_records g) else sy_records g);
               r = \<lparr>su_id = i, su_symbol = symbol, su_direction = direction, su_zone = z, su_created = now, su_expires = expires,
                    su_status = ''CANDIDATE'', su_fired = []\<rparr>
           in (r, g\<lparr>sy_records := kept @ [(i, r)]\<rparr>)))"

definition put_record :: "string \<Rightarrow> setup_record \<Rightarrow> setup_registry \<Rightarrow> setup_registry" where
  "put_record i r g = g\<lparr>sy_records := AList.update i r (sy_records g)\<rparr>"

definition evaluate_record :: "(pyfloat \<Rightarrow> string) \<Rightarrow> pyfloat \<Rightarrow> pyfloat \<Rightarrow> setup_record \<Rightarrow> (string \<times> string) \<times> setup_record" where
  "evaluate_record repr close now r =
     (if su_expires r \<noteq> 0 \<and> now > su_expires r
      then ((''EXPIRED'', ''setup time expired''), r\<lparr>su_status := ''EXPIRED''\<rparr>)
      else case su_zone r of
          None \<Rightarrow> ((su_status r, ''ok''), r)
        | Some z \<Rightarrow>
            (if is_zone_expired now z then ((''EXPIRED'', ''zone time expired''), r\<lparr>su_status := ''EXPIRED''\<rparr>)
             else let (inv, reason) = evaluate_invalidation repr z close
                  in if inv
                     then ((''INVALID'', reason), r\<lparr>su_zone := Some (mark_invalidated reason z), su_status := ''INVALID''\<rparr>)
                     else ((su_status r, ''ok''), r)))"

definition evaluate_lifecycle ::
  "(pyfloat \<Rightarrow> string) \<Rightarrow> string \<Rightarrow> pyfloat \<Rightarrow> pyfloat \<Rightarrow> setup_registry \<Rightarrow> (string \<times> string) \<times> setup_registry" where
  "evaluate_lifecycle repr i close now g =
     (case map_of (sy_records g) i of
        None \<Rightarrow> ((''UNKNOWN'', ''setup not registered''), g)
      | Some r \<Rightarrow> (let (answer, r') = evaluate_record repr close now r in (answer, put_record i r' g)))"

definition entry_key :: "string \<Rightarrow> pyfloat \<Rightarrow> string" where
  "entry_key trigger candle = trigger @ ''@'' @ fmt_fixed candle 3"

definition claim_entry :: "string \<Rightarrow> string \<Rightarrow> pyfloat \<Rightarrow> setup_registry \<Rightarrow> bool \<times> setup_registry" where
  "claim_entry i trigger candle g =
     (case map_of (sy_records g) i of
        None \<Rightarrow> (False, g)
      | Some r \<Rightarrow>
          (let key = entry_key trigger candle
           in if key \<in> set (su_fired r) then (False, g)
              else (True, put_record i (r\<lparr>su_fired := key # su_fired r\<rparr>) g)))"

definition has_fired :: "string \<Rightarrow> string \<Rightarrow> pyfloat \<Rightarrow> setup_registry \<Rightarrow> bool" where
  "has_fired i trigger candle g \<longleftrightarrow>
     (case map_of (sy_records g) i of None \<Rightarrow> False | Some r \<Rightarrow> entry_key trigger candle \<in> set (su_fired r))"

definition mark_status :: "string \<Rightarrow> string \<Rightarrow> setup_registry \<Rightarrow> setup_registry" where
  "mark_status i status g =
     (case map_of (sy_records g) i of None \<Rightarrow> g | Some r \<Rightarrow> put_record i (r\<lparr>su_status := status\<rparr>) g)"

definition clear_setup :: "string \<Rightarrow> setup_registry \<Rightarrow> setup_registry" where
  "clear_setup i g = g\<lparr>sy_records := AList.delete i (sy_records g)\<rparr>"

definition clear_setups :: "setup_registry \<Rightarrow> setup_registry" where
  "clear_setups g = g\<lparr>sy_records := []\<rparr>"

section \<open>Runs\<close>

datatype entry_op =
    Register pyfloat string string string "zone option" pyfloat
  | Evaluate string pyfloat pyfloat
  | Claim string string pyfloat
  | Mark string string
  | Clear string
  | ClearAll

fun entry_exec :: "(pyfloat \<Rightarrow> string) \<Rightarrow> entry_op \<Rightarrow> setup_registry \<Rightarrow> setup_registry" where
  "entry_exec repr (Register now i symbol direction z e) g = snd (register_setup now i symbol direction z e g)"
| "entry_exec repr (Evaluate i close now) g = snd (evaluate_lifecycle repr i close now g)"
| "entry_exec repr (Claim i trigger candle) g = snd (claim_entry i trigger candle g)"
| "entry_exec repr (Mark i status) g = mark_status i status g"
| "entry_exec repr (Clear i) g = clear_setup i g"
| "entry_exec repr ClearAll g = clear_setups g"

section \<open>Lemmas\<close>

lemma put_record_frame [simp]:
  "sy_max (put_record i r g) = sy_max g" "sy_records (put_record i r g) = AList.update i r (sy_records g)"
  by (simp_all add: put_record_def)

lemma map_of_put [simp]: "map_of (sy_records (put_record i r g)) j = (if j = i then Some r else map_of (sy_records g) j)"
  by (simp add: put_record_def)

lemma length_update_present: "k \<in> dom (map_of m) \<Longrightarrow> length (AList.update k v m) = length m"
  by (induction m) (auto split: if_splits)

text \<open>An operation that neither drops nor may evict the setup \<open>i\<close>.\<close>

fun quiet :: "string \<Rightarrow> entry_op \<Rightarrow> bool" where
  "quiet i (Clear j) = (j \<noteq> i)"
| "quiet i ClearAll = False"
| "quiet i _ = True"

text \<open>Nor sets its status.\<close>

fun undisturbed :: "string \<Rightarrow> entry_op \<Rightarrow> bool" where
  "undisturbed i (Mark j status) = (j \<noteq> i)"
| "undisturbed i x = quiet i x"

lemma undisturbed_quiet: "undisturbed i x \<Longrightarrow> quiet i x"
  by (cases x) auto

fun registers :: "entry_op \<Rightarrow> nat" where
  "registers (Register now i symbol direction z e) = 1"
| "registers _ = 0"

definition room :: "entry_op list \<Rightarrow> setup_registry \<Rightarrow> bool" where
  "room xs g \<longleftrightarrow> length (sy_records g) + sum_list (map registers xs) \<le> sy_max g"

inductive evolves :: "(pyfloat \<Rightarrow> string) \<Rightarrow> string \<Rightarrow> entry_op \<Rightarrow> setup_record \<Rightarrow> setup_record \<Rightarrow> bool" for repr i where
  same: "evolves repr i x r r"
| evaluated: "evolves repr i x r (snd (evaluate_record repr close now r))"
| claimed: "evolves repr i x r (r\<lparr>su_fired := key # su_fired r\<rparr>)"
| marked: "evolves repr i (Mark i status) r (r\<lparr>su_status := status\<rparr>)"

inductive_cases evolvesE: "evolves repr i x r r'"

lemma length_delete: "length (AList.delete k m) \<le> length m"
  by (induction m) auto

lemma exec_step:
  assumes "map_of (sy_records g) i = Some r" "quiet i x" "length (sy_records g) + registers x \<le> sy_max g"
  shows "(\<exists>r'. map_of (sy_records (entry_exec repr x g)) i = Some r' \<and> evolves repr i x r r')
    \<and> length (sy_records (entry_exec repr x g)) \<le> length (sy_records g) + registers x
    \<and> sy_max (entry_exec repr x g) = sy_max g"
proof (cases x)
  case (Register now j symbol direction z e)
  with assms have "\<not> length (sy_records g) \<ge> sy_max g" by simp
  with Register assms show ?thesis
    by (cases "map_of (sy_records g) j") (auto simp: register_setup_def map_add_def Let_def intro: evolves.same)
next
  case (Evaluate j close now)
  show ?thesis
  proof (cases "map_of (sy_records g) j")
    case None
    with Evaluate assms show ?thesis by (auto simp: evaluate_lifecycle_def intro: evolves.same)
  next
    case (Some q)
    obtain a q' where e: "evaluate_record repr close now q = (a, q')" by fastforce
    have "evolves repr i x q q'" using evolves.evaluated [of repr i x q close now] e by simp
    with Some Evaluate assms e show ?thesis
      by (auto simp: evaluate_lifecycle_def length_update_present dom_def intro: evolves.same)
  qed
next
  case (Claim j trigger candle)
  with assms show ?thesis
    by (cases "map_of (sy_records g) j")
      (auto simp: claim_entry_def Let_def length_update_present dom_def intro: evolves.same evolves.claimed)
next
  case (Mark j status)
  with assms show ?thesis
    by (cases "map_of (sy_records g) j")
      (auto simp: mark_status_def length_update_present dom_def intro: evolves.same evolves.marked)
next
  case (Clear j)
  with assms show ?thesis by (auto simp: clear_setup_def delete_conv' length_delete intro: evolves.same)
next
  case ClearAll
  with assms show ?thesis by simp
qed

lemma exec_run:
  assumes "map_of (sy_records g) i = Some r" "list_all (quiet i) xs" "room xs g" "Q r"
    and "\<And>x r r'. x \<in> set xs \<Longrightarrow> evolves repr i x r r' \<Longrightarrow> Q r \<Longrightarrow> Q r'"
  shows "\<exists>r'. map_of (sy_records (fold (entry_exec repr) xs g)) i = Some r' \<and> Q r'"
  using assms
proof (induction xs arbitrary: g r)
  case (Cons x xs)
  from Cons.prems(3) have "length (sy_records g) + registers x \<le> sy_max g" by (simp add: room_def)
  with exec_step [OF Cons.prems(1), of x repr] Cons.prems(2) obtain q where
    q: "map_of (sy_records (entry_exec repr x g)) i = Some q" "evolves repr i x r q"
    and n: "length (sy_records (entry_exec repr x g)) \<le> length (sy_records g) + registers x"
      "sy_max (entry_exec repr x g) = sy_max g" by auto
  have "room xs (entry_exec repr x g)" using Cons.prems(3) n by (simp add: room_def)
  moreover have "Q q" using Cons.prems(5) [of x r q] q(2) Cons.prems(4) by simp
  moreover have "list_all (quiet i) xs" using Cons.prems(2) by simp
  moreover have "\<And>y r r'. y \<in> set xs \<Longrightarrow> evolves repr i y r r' \<Longrightarrow> Q r \<Longrightarrow> Q r'"
    using Cons.prems(5) by (meson list.set_intros(2))
  ultimately show ?case using Cons.IH [OF q(1), of] by simp
qed simp

lemma evaluate_record_fired [simp]: "su_fired (snd (evaluate_record repr close now r)) = su_fired r"
  by (simp add: evaluate_record_def Let_def split: option.split prod.split)

lemma evaluate_record_dead:
  "su_status r \<in> {''INVALID'', ''EXPIRED''} \<Longrightarrow> su_status (snd (evaluate_record repr close now r)) \<in> {''INVALID'', ''EXPIRED''}"
  by (auto simp: evaluate_record_def Let_def split: option.split prod.split)

lemma evolves_dead:
  "evolves repr i x r r' \<Longrightarrow> undisturbed i x \<Longrightarrow> su_status r \<in> {''INVALID'', ''EXPIRED''} \<Longrightarrow>
   su_status r' \<in> {''INVALID'', ''EXPIRED''}"
  by (induction rule: evolves.induct) (use evaluate_record_dead in \<open>blast, simp_all\<close>)

section \<open>Properties\<close>

text \<open>
  C32. An entry is claimed once: after a granted claim, through any further registrations,
  evaluations, claims and status changes that neither drop the setup nor overfill the registry,
  the same claim is refused.
\<close>

theorem entry_is_claimed_once:
  assumes "fst (claim_entry i trigger candle g)" and "list_all (quiet i) xs"
    and "room xs (snd (claim_entry i trigger candle g))"
  shows "\<not> fst (claim_entry i trigger candle (fold (entry_exec repr) xs (snd (claim_entry i trigger candle g))))"
proof -
  let ?k = "entry_key trigger candle"
  from assms(1) obtain r where "map_of (sy_records g) i = Some r" "?k \<notin> set (su_fired r)"
    by (auto simp: claim_entry_def Let_def split: option.splits if_splits)
  then have "map_of (sy_records (snd (claim_entry i trigger candle g))) i = Some (r\<lparr>su_fired := ?k # su_fired r\<rparr>)"
    by (simp add: claim_entry_def Let_def)
  moreover have "?k \<in> set (su_fired r')" if "evolves repr i x r r'" "?k \<in> set (su_fired r)" for x r r'
    using that by (cases rule: evolves.cases) auto
  ultimately obtain r' where "map_of (sy_records (fold (entry_exec repr) xs (snd (claim_entry i trigger candle g)))) i = Some r'"
    "?k \<in> set (su_fired r')"
    using exec_run [OF _ assms(2,3), of _ "\<lambda>r. ?k \<in> set (su_fired r)" repr] by fastforce
  then show ?thesis by (simp add: claim_entry_def Let_def)
qed

definition demo_registry :: setup_registry where
  "demo_registry = snd (register_setup 0 ''A'' ''EURUSD'' ''LONG'' None 0 (new_registry 2))"

theorem entry_is_claimed_once_witness:
  "fst (claim_entry ''A'' ''T'' 5 demo_registry) \<and>
   \<not> fst (claim_entry ''A'' ''T'' 5 (fold (entry_exec (\<lambda>x. [])) [Register 1 ''B'' ''X'' ''LONG'' None 0, Mark ''A'' ''CLOSED'']
       (snd (claim_entry ''A'' ''T'' 5 demo_registry))))"
proof -
  have c: "fst (claim_entry ''A'' ''T'' 5 demo_registry)"
    and r: "room [Register 1 ''B'' ''X'' ''LONG'' None 0, Mark ''A'' ''CLOSED''] (snd (claim_entry ''A'' ''T'' 5 demo_registry))"
    by (simp_all add: claim_entry_def demo_registry_def register_setup_def new_registry_def room_def Let_def)
  from entry_is_claimed_once [OF c _ r] c show ?thesis by simp
qed

text \<open>
  A dead setup stays dead: once an evaluation found a setup invalid or expired, any further
  registrations, evaluations and claims leave it invalid or expired, whatever prices and times come.
\<close>

theorem dead_setup_stays_dead:
  assumes "fst (fst (evaluate_lifecycle repr i close now g)) \<in> {''INVALID'', ''EXPIRED''}"
    and "list_all (undisturbed i) xs"
    and "room xs (snd (evaluate_lifecycle repr i close now g))"
  shows "fst (fst (evaluate_lifecycle repr i close' now'
    (fold (entry_exec repr) xs (snd (evaluate_lifecycle repr i close now g))))) \<in> {''INVALID'', ''EXPIRED''}"
proof -
  have answer: "fst (fst (evaluate_record repr c n r)) = su_status (snd (evaluate_record repr c n r))" for c n r
    by (simp add: evaluate_record_def Let_def split: option.split prod.split)
  from assms(1) obtain r where r: "map_of (sy_records g) i = Some r"
    by (auto simp: evaluate_lifecycle_def split: option.splits)
  obtain a q where e: "evaluate_record repr close now r = (a, q)" by fastforce
  with assms(1) r answer [of close now r] have d: "su_status q \<in> {''INVALID'', ''EXPIRED''}"
    by (simp add: evaluate_lifecycle_def)
  have q: "map_of (sy_records (snd (evaluate_lifecycle repr i close now g))) i = Some q"
    using r e by (simp add: evaluate_lifecycle_def)
  have quiet: "list_all (quiet i) xs" using assms(2) undisturbed_quiet by (auto simp: list_all_iff)
  have ev: "su_status r' \<in> {''INVALID'', ''EXPIRED''}"
    if "x \<in> set xs" "evolves repr i x r r'" "su_status r \<in> {''INVALID'', ''EXPIRED''}" for x r r'
    using evolves_dead [OF that(2) _ that(3)] that(1) assms(2) by (simp only: list_all_iff)
  obtain r' where r': "map_of (sy_records (fold (entry_exec repr) xs (snd (evaluate_lifecycle repr i close now g)))) i = Some r'"
    "su_status r' \<in> {''INVALID'', ''EXPIRED''}"
    using exec_run [OF q quiet assms(3), of "\<lambda>r. su_status r \<in> {''INVALID'', ''EXPIRED''}" repr] d ev by blast
  obtain a' q' where e': "evaluate_record repr close' now' r' = (a', q')" by fastforce
  with answer [of close' now' r'] evaluate_record_dead [OF r'(2), of repr close' now'] r'(1) show ?thesis
    by (simp add: evaluate_lifecycle_def)
qed

definition demo_zone :: zone where
  "demo_zone = \<lparr>zn_id = ''Z'', zn_symbol = ''EURUSD'', zn_direction = ''LONG'', zn_type = ''FVG'', zn_timeframe = ''M15'',
     zn_top = 5, zn_bottom = 4, zn_invalidation = 3, zn_rule = ''close'', zn_created_at = ''t0'', zn_created = 0, zn_expires = 0, zn_mitigation = Fresh,
     zn_touches = 0, zn_first_touch = 0, zn_last_touch = 0, zn_displacement = 0, zn_gap = 0,
     zn_structure_break = [], zn_origin = - 1, zn_metadata = []\<rparr>"

definition zone_registry :: setup_registry where
  "zone_registry = snd (register_setup 0 ''A'' ''EURUSD'' ''LONG'' (Some demo_zone) 0 (new_registry 2))"

lemma demo_zone_invalid: "fst (fst (evaluate_lifecycle (\<lambda>x. ''x'') ''A'' 2 1 zone_registry)) = ''INVALID''"
  by code_simp

theorem dead_setup_stays_dead_witness:
  "fst (fst (evaluate_lifecycle (\<lambda>x. ''x'') ''A'' 9 2 (fold (entry_exec (\<lambda>x. ''x'')) [Evaluate ''A'' 9 2, Claim ''A'' ''T'' 2]
     (snd (evaluate_lifecycle (\<lambda>x. ''x'') ''A'' 2 1 zone_registry))))) \<in> {''INVALID'', ''EXPIRED''}"
proof -
  have r: "room [Evaluate ''A'' 9 2, Claim ''A'' ''T'' 2] (snd (evaluate_lifecycle (\<lambda>x. ''x'') ''A'' 2 1 zone_registry))"
    by code_simp
  from dead_setup_stays_dead [OF _ _ r, of 9 2] demo_zone_invalid show ?thesis by simp
qed

text \<open>
  A full registry forgets claims: registering a further setup evicts the oldest one with its
  fired entries, so that after it is registered again the same entry is granted a second time.
\<close>

theorem eviction_grants_the_entry_again:
  assumes "sy_records g = (i, r) # rest" and "length (sy_records g) = sy_max g"
    and "distinct (map fst (sy_records g))" and "map_of (sy_records g) j = None"
  shows "fst (claim_entry i trigger candle
    (snd (register_setup now i symbol direction z e (snd (register_setup now' j symbol' direction' z' e' g)))))"
proof -
  let ?g1 = "snd (register_setup now' j symbol' direction' z' e' g)"
  obtain r1 where r1: "sy_records ?g1 = rest @ [(j, r1)]" using assms by (simp add: register_setup_def Let_def)
  have ij: "i \<noteq> j" using assms(1,4) by auto
  have absent: "i \<notin> fst ` set (sy_records ?g1)" using assms(1,3) ij r1 by auto
  then have n: "map_of (sy_records ?g1) i = None" by (simp add: map_of_eq_None_iff)
  have "i \<notin> fst ` set (tl (sy_records ?g1))" using absent by (cases "sy_records ?g1") auto
  then have "map_of (tl (sy_records ?g1)) i = None" by (simp add: map_of_eq_None_iff)
  with n have "map_of (sy_records (snd (register_setup now i symbol direction z e ?g1))) i =
      Some \<lparr>su_id = i, su_symbol = symbol, su_direction = direction, su_zone = z, su_created = now, su_expires = e,
        su_status = ''CANDIDATE'', su_fired = []\<rparr>"
    by (simp add: register_setup_def Let_def map_add_def)
  then show ?thesis by (simp add: claim_entry_def Let_def)
qed

theorem eviction_grants_the_entry_again_witness:
  "let g = snd (claim_entry ''A'' ''T'' 5 (snd (register_setup 0 ''A'' ''X'' ''LONG'' None 0 (new_registry 1))))
   in \<not> fst (claim_entry ''A'' ''T'' 5 g)
      \<and> fst (claim_entry ''A'' ''T'' 5 (snd (register_setup 2 ''A'' ''X'' ''LONG'' None 0
             (snd (register_setup 1 ''B'' ''Y'' ''LONG'' None 0 g)))))"
proof -
  let ?g = "snd (claim_entry ''A'' ''T'' 5 (snd (register_setup 0 ''A'' ''X'' ''LONG'' None 0 (new_registry 1))))"
  obtain r where g: "sy_records ?g = (''A'', r) # []" "length (sy_records ?g) = sy_max ?g"
    by (simp add: register_setup_def new_registry_def claim_entry_def Let_def)
  have "\<not> fst (claim_entry ''A'' ''T'' 5 ?g)"
    by (simp add: register_setup_def new_registry_def claim_entry_def Let_def)
  with eviction_grants_the_entry_again [OF g, of "''B''" "''T''" 5 2] g(1) show ?thesis by simp
qed

text \<open>
  A zone counts as touched exactly when the price met it: some price of the zone, widened by the
  tolerance, lies in the candle's range or is the executable price of the zone's side.
\<close>

theorem touch_iff_contact:
  assumes "zn_bottom z \<le> zn_top z" and "0 < low" and "low \<le> high"
  shows "zt_touched (detect_zone_touch z bid ask high low tolerance) \<longleftrightarrow>
    (\<exists>p. zn_bottom z - max tolerance 0 \<le> p \<and> p \<le> zn_top z + max tolerance 0
       \<and> (low \<le> p \<and> p \<le> high \<or> 0 < p \<and> p = (if is_long z then bid else ask)))"
proof -
  let ?b = "zn_bottom z - max tolerance 0" and ?t = "zn_top z + max tolerance 0"
  have bt: "?b \<le> ?t" using assms(1) by simp
  have "(\<exists>p. ?b \<le> p \<and> p \<le> ?t \<and> low \<le> p \<and> p \<le> high) \<longleftrightarrow> low \<le> ?t \<and> ?b \<le> high"
  proof
    assume "low \<le> ?t \<and> ?b \<le> high"
    with bt assms(3) show "\<exists>p. ?b \<le> p \<and> p \<le> ?t \<and> low \<le> p \<and> p \<le> high"
      by (intro exI [of _ "max low ?b"]) (simp only: max.bounded_iff max.cobounded1 max.cobounded2 simp_thms)
  qed force
  then have r: "(\<exists>p. ?b \<le> p \<and> p \<le> ?t \<and> (low \<le> p \<and> p \<le> high \<or> 0 < p \<and> p = ref)) \<longleftrightarrow>
      low \<le> ?t \<and> ?b \<le> high \<or> 0 < ref \<and> ?b \<le> ref \<and> ref \<le> ?t" for ref
    by blast
  have "high > 0" using assms by linarith
  with assms(2) show ?thesis unfolding r detect_zone_touch_def Let_def by (auto split: if_splits)
qed

theorem touch_iff_contact_witness:
  "zt_touched (detect_zone_touch demo_zone 0 0 7 (9 / 2) 0)"
  using touch_iff_contact [of demo_zone "9 / 2" 7 0 0 0]
  by (simp add: demo_zone_def) (rule exI [of _ 5], simp)

end
