(* ===== verification/Order_Builder.thy ===== *)
theory Order_Builder
  imports Contracts Execution
begin

text \<open>
  From an approved proposal to an order request, and the recovery engine of the same file:
  \<open>execution/order_builder.py\<close>. The symbol specification provider is a parameter; an
  \<open>OrderBuilderError\<close> is a \<open>ValueError\<close>.
\<close>

section \<open>Broker constraints\<close>

text \<open>\<open>round(x, d)\<close> for any integer number of digits.\<close>

definition py_round_to :: "pyfloat \<Rightarrow> int \<Rightarrow> pyfloat" where
  "py_round_to x d =
     (if 0 \<le> d then py_round x (nat d) else of_int (round_half_even (x / 10 ^ nat (- d))) * 10 ^ nat (- d))"

definition snap_volume :: "pyfloat \<Rightarrow> pyfloat \<Rightarrow> pyfloat \<Rightarrow> pyfloat \<Rightarrow> pyfloat" where
  "snap_volume step vmin vmax v =
     (let v1 = if vmax > 0 then min v vmax else v;
          v2 = if step > 0 then py_round (of_int \<lfloor>(v1 + step * (1 / 10 ^ 12)) / step\<rfloor> * step) 8 else v1
      in if vmin > 0 \<and> v2 < vmin then 0 else v2)"

definition normalised_volume :: "pydict \<Rightarrow> pyfloat \<Rightarrow> pyfloat" where
  "normalised_volume spec v =
     (case bindE (get_float_or0 spec ''volume_step'') (\<lambda>step.
           bindE (get_float_or0 spec ''volume_min'') (\<lambda>vmin.
           bindE (get_float_or0 spec ''volume_max'') (\<lambda>vmax. Inr (snap_volume step vmin vmax v)))) of
        Inl e \<Rightarrow> v | Inr v1 \<Rightarrow> v1)"

definition spec_digits :: "pydict \<Rightarrow> int option" where
  "spec_digits spec =
     (case dget spec ''digits'' VNone of
        VNone \<Rightarrow> None
      | d \<Rightarrow> (case py_int d of Inl e \<Rightarrow> None | Inr i \<Rightarrow> Some i))"

definition round_price :: "int option \<Rightarrow> pyfloat \<Rightarrow> pyfloat" where
  "round_price digits p = (case digits of None \<Rightarrow> p | Some d \<Rightarrow> if p > 0 then py_round_to p d else p)"

record order_builder =
  ob_magic :: int
  ob_prefix :: string
  ob_suffix :: string
  ob_spec :: "(string \<Rightarrow> exn + pydict) option"

definition normalise_to_spec ::
  "order_builder \<Rightarrow> string \<Rightarrow> pyfloat \<times> pyfloat \<times> pyfloat \<times> pyfloat \<Rightarrow> pyfloat \<times> pyfloat \<times> pyfloat \<times> pyfloat" where
  "normalise_to_spec B symbol vals =
     (case ob_spec B of
        None \<Rightarrow> vals
      | Some provider \<Rightarrow> (case provider symbol of
          Inl e \<Rightarrow> vals
        | Inr spec \<Rightarrow>
            if spec = [] then vals
            else case vals of (v, p, s, t) \<Rightarrow>
              let d = spec_digits spec
              in (normalised_volume spec v, round_price d p, round_price d s, round_price d t)))"

section \<open>Building the request\<close>

definition limit_types :: "string list" where
  "limit_types = [''BUY_LIMIT'', ''SELL_LIMIT'', ''BUY_STOP'', ''SELL_STOP'', ''BUY_STOP_LIMIT'', ''SELL_STOP_LIMIT'']"

definition clean_symbol :: "order_builder \<Rightarrow> pydict \<Rightarrow> pyerr + string" where
  "clean_symbol B prop =
     (case py_or (dget prop ''symbol'' VNone) (dget prop ''pair'' VNone) of
        VStr s \<Rightarrow>
          if strip s = [] then Inl ValueError
          else let c = upper (strip s);
                   c1 = if ob_prefix B \<noteq> [] \<and> \<not> has_prefix (ob_prefix B) c then ob_prefix B @ c else c;
                   c2 = if ob_suffix B \<noteq> [] \<and> \<not> has_prefix (rev (ob_suffix B)) (rev c1) then c1 @ ob_suffix B else c1
               in Inr c2
      | _ \<Rightarrow> Inl ValueError)"

definition order_side :: "pydict \<Rightarrow> pyerr + string" where
  "order_side prop =
     (case py_or (py_or (dget prop ''order_type'' VNone) (dget prop ''side'' VNone)) (dget prop ''action'' VNone) of
        VStr s \<Rightarrow>
          (let c = upper (strip s)
           in if s = [] then Inl ValueError
              else if c \<in> {''BUY'', ''LONG''} then Inr ''BUY''
              else if c \<in> {''SELL'', ''SHORT''} then Inr ''SELL''
              else if c \<in> set limit_types then Inr c
              else Inl ValueError)
      | _ \<Rightarrow> Inl ValueError)"

definition request_volume :: "pydict \<Rightarrow> pyerr + pyfloat" where
  "request_volume prop =
     (let raw0 = (case map_of prop ''volume'' of Some v \<Rightarrow> v | None \<Rightarrow> dget prop ''lots'' VNone);
          raw = (if raw0 = VNone then dget prop ''size'' (VFloat 0) else raw0)
      in bindE (py_float raw) (\<lambda>v. if v \<le> 0 then Inl ValueError else Inr v))"

definition order_price :: "string \<Rightarrow> pydict \<Rightarrow> pydict \<Rightarrow> pyerr + pyfloat" where
  "order_price side prop quote =
     (let p = float_or (dget prop ''price'' (VFloat 0)) 0
      in if p \<le> 0 \<and> quote \<noteq> []
         then (if contains ''BUY'' side \<and> map_of quote ''ask'' \<noteq> None then py_float (dget quote ''ask'' VNone)
               else if contains ''SELL'' side \<and> map_of quote ''bid'' \<noteq> None then py_float (dget quote ''bid'' VNone)
               else Inr p)
         else Inr p)"

definition text_of_either :: "pydict \<Rightarrow> string \<Rightarrow> string \<Rightarrow> string \<Rightarrow> string" where
  "text_of_either prop a b alt = py_text (py_or (py_or (dget prop a VNone) (dget prop b VNone)) (VStr alt))"

definition opt_meta :: "pydict \<Rightarrow> string \<Rightarrow> string option" where
  "opt_meta prop k =
     (case dget prop k VNone of VNone \<Rightarrow> None | v \<Rightarrow> if v = VStr [] then None else Some (py_text v))"

definition build_order_request :: "order_builder \<Rightarrow> string \<Rightarrow> pydict \<Rightarrow> pydict \<Rightarrow> pyerr + order_request" where
  "build_order_request B fresh prop quote =
     bindE (clean_symbol B prop) (\<lambda>sym.
     bindE (order_side prop) (\<lambda>side.
     bindE (request_volume prop) (\<lambda>v.
     bindE (order_price side prop quote) (\<lambda>p.
     bindE (py_float (py_or (py_or (dget prop ''sl'' VNone) (dget prop ''stop_loss'' VNone)) (VFloat 0))) (\<lambda>s.
     bindE (py_float (py_or (py_or (dget prop ''tp'' VNone) (dget prop ''take_profit'' VNone)) (VFloat 0))) (\<lambda>t.
     bindE (py_int (py_or (dget prop ''magic'' VNone) (VInt (ob_magic B)))) (\<lambda>magic.
       let key = text_of_either prop ''idempotency_key'' ''client_order_id'' []
       in case normalise_to_spec B sym (v, p, s, t) of (v1, p1, s1, t1) \<Rightarrow>
         Inr \<lparr>rq_symbol = sym, rq_order_type = side, rq_volume = v1, rq_price = p1, rq_sl = s1, rq_tp = t1,
              rq_magic = magic, rq_comment = text_of_either prop ''comment'' ''tag'' (''EA-Bot-'' @ side),
              rq_key = (if key = [] then fresh else key), rq_token = None,
              rq_signal_id = opt_meta prop ''signal_id'', rq_account_id = opt_meta prop ''account_id'',
              rq_terminal_id = opt_meta prop ''terminal_id'', rq_proposal_id = opt_meta prop ''proposal_id'',
              rq_execution_id = opt_meta prop ''execution_id'', rq_strategy_version = opt_meta prop ''strategy_version'',
              rq_order_ticket = None, rq_deal_ticket = None, rq_position_ticket = None\<rparr>)))))))"

section \<open>The recovery engine\<close>

datatype book_state = BOOK_NORMAL | BOOK_WARN | BOOK_BLOCKED

record book_event =
  be_symbol :: string
  be_type :: string
  be_internal :: pyval
  be_broker :: pyval
  be_severity :: string
  be_resolved :: bool
  be_notes :: string

record book_engine =
  bo_threshold :: nat
  bo_state :: book_state
  bo_history :: "book_event list"

definition new_book_engine :: "nat \<Rightarrow> book_engine" where
  "new_book_engine n = \<lparr>bo_threshold = n, bo_state = BOOK_NORMAL, bo_history = []\<rparr>"

definition critical_event :: "pydict \<Rightarrow> string \<Rightarrow> pyval \<Rightarrow> pyval \<Rightarrow> book_event" where
  "critical_event pos kind internal broker =
     \<lparr>be_symbol = py_text (dget pos ''symbol'' (VStr ''UNKNOWN'')), be_type = kind, be_internal = internal,
      be_broker = broker, be_severity = ''CRITICAL'', be_resolved = False, be_notes = []\<rparr>"

text \<open>\<open>{int(p["ticket"]): p for p in positions if "ticket" in p and p["ticket"]}\<close>.\<close>

definition by_ticket :: "pydict list \<Rightarrow> pyerr + (int \<times> pydict) list" where
  "by_ticket ps =
     bindE (mapE (\<lambda>p. bindE (py_int (dget p ''ticket'' VNone)) (\<lambda>i. Inr (i, p)))
              (filter (\<lambda>p. py_truthy (dget p ''ticket'' VNone)) ps))
       (\<lambda>xs. Inr (foldl (\<lambda>d (i, p). AList.update i p d) [] xs))"

definition level_event :: "string \<Rightarrow> string \<Rightarrow> pydict \<Rightarrow> pydict \<Rightarrow> pyerr + book_event list" where
  "level_event k kind ip bp =
     bindE (get_float_or0 ip k) (\<lambda>i.
     bindE (get_float_or0 bp k) (\<lambda>b.
       Inr (if \<bar>i - b\<bar> > 1 / 10 ^ 6 then [critical_event ip kind (VFloat i) (VFloat b)] else [])))"

definition position_events :: "pydict \<Rightarrow> pydict \<Rightarrow> pyerr + book_event list" where
  "position_events ip bp =
     bindE (get_float ip ''volume'' (VFloat 0)) (\<lambda>i.
     bindE (get_float bp ''volume'' (VFloat 0)) (\<lambda>b.
     bindE (level_event ''sl'' ''SL_MISMATCH'' ip bp) (\<lambda>es.
     bindE (level_event ''tp'' ''TP_MISMATCH'' ip bp) (\<lambda>et.
       Inr ((if \<bar>i - b\<bar> > 1 / 10000 then [critical_event ip ''VOLUME_MISMATCH'' (VFloat i) (VFloat b)] else [])
            @ es @ et)))))"

definition audit_events :: "pydict list \<Rightarrow> pydict list \<Rightarrow> pyerr + book_event list" where
  "audit_events internal broker =
     bindE (by_ticket internal) (\<lambda>I.
     bindE (by_ticket broker) (\<lambda>B.
     bindE (mapE (\<lambda>(t, ip). case map_of B t of None \<Rightarrow> Inr [] | Some bp \<Rightarrow> position_events ip bp) I) (\<lambda>diffs.
       Inr (map (\<lambda>(t, p). critical_event p ''ORPHAN_BROKER_POSITION'' VNone (VDict p)) (filter (\<lambda>(t, p). map_of I t = None) B)
            @ map (\<lambda>(t, p). critical_event p ''MISSING_INTERNAL_POSITION'' (VDict p) VNone) (filter (\<lambda>(t, p). map_of B t = None) I)
            @ concat diffs))))"

definition open_criticals :: "book_event list \<Rightarrow> nat" where
  "open_criticals es = length (filter (\<lambda>e. \<not> be_resolved e \<and> be_severity e = ''CRITICAL'') es)"

definition judged :: "book_engine \<Rightarrow> book_engine" where
  "judged X =
     X\<lparr>bo_state := (if open_criticals (bo_history X) \<ge> bo_threshold X then BOOK_BLOCKED
                    else if open_criticals (bo_history X) > 0 then BOOK_WARN else BOOK_NORMAL)\<rparr>"

definition audit_reconciliation :: "pydict list \<Rightarrow> pydict list \<Rightarrow> book_engine \<Rightarrow> (pyerr + book_event list) \<times> book_engine" where
  "audit_reconciliation internal broker X =
     (case audit_events internal broker of
        Inl e \<Rightarrow> (Inl e, X)
      | Inr es \<Rightarrow> (Inr es, judged (X\<lparr>bo_history := bo_history X @ es\<rparr>)))"

definition is_execution_blocked :: "book_engine \<Rightarrow> bool" where
  "is_execution_blocked X \<longleftrightarrow> bo_state X = BOOK_BLOCKED"

definition clear_recovery_block :: "string \<Rightarrow> book_engine \<Rightarrow> book_engine" where
  "clear_recovery_block notes X =
     X\<lparr>bo_history := map (\<lambda>e. if be_resolved e then e else e\<lparr>be_resolved := True, be_notes := notes\<rparr>) (bo_history X),
       bo_state := BOOK_NORMAL\<rparr>"

section \<open>Lemmas\<close>

lemma build_order_request_Inr:
  assumes "build_order_request B fresh prop quote = Inr r"
  obtains sym side v p s t where
    "clean_symbol B prop = Inr sym" "order_side prop = Inr side" "request_volume prop = Inr v"
    "order_price side prop quote = Inr p"
    "py_float (py_or (py_or (dget prop ''sl'' VNone) (dget prop ''stop_loss'' VNone)) (VFloat 0)) = Inr s"
    "py_float (py_or (py_or (dget prop ''tp'' VNone) (dget prop ''take_profit'' VNone)) (VFloat 0)) = Inr t"
    "rq_symbol r = sym" "rq_order_type r = side"
    "normalise_to_spec B sym (v, p, s, t) = (rq_volume r, rq_price r, rq_sl r, rq_tp r)"
    "rq_key r = (if text_of_either prop ''idempotency_key'' ''client_order_id'' [] = [] then fresh
                 else text_of_either prop ''idempotency_key'' ''client_order_id'' [])"
    "rq_token r = None"
proof -
  from assms obtain sym side v p s t magic where parts: "clean_symbol B prop = Inr sym" "order_side prop = Inr side"
    "request_volume prop = Inr v" "order_price side prop quote = Inr p"
    "py_float (py_or (py_or (dget prop ''sl'' VNone) (dget prop ''stop_loss'' VNone)) (VFloat 0)) = Inr s"
    "py_float (py_or (py_or (dget prop ''tp'' VNone) (dget prop ''take_profit'' VNone)) (VFloat 0)) = Inr t"
    and rest: "(let key = text_of_either prop ''idempotency_key'' ''client_order_id'' []
       in case normalise_to_spec B sym (v, p, s, t) of (v1, p1, s1, t1) \<Rightarrow>
         Inr \<lparr>rq_symbol = sym, rq_order_type = side, rq_volume = v1, rq_price = p1, rq_sl = s1, rq_tp = t1,
              rq_magic = magic, rq_comment = text_of_either prop ''comment'' ''tag'' (''EA-Bot-'' @ side),
              rq_key = (if key = [] then fresh else key), rq_token = None,
              rq_signal_id = opt_meta prop ''signal_id'', rq_account_id = opt_meta prop ''account_id'',
              rq_terminal_id = opt_meta prop ''terminal_id'', rq_proposal_id = opt_meta prop ''proposal_id'',
              rq_execution_id = opt_meta prop ''execution_id'', rq_strategy_version = opt_meta prop ''strategy_version'',
              rq_order_ticket = None, rq_deal_ticket = None, rq_position_ticket = None\<rparr>) = (Inr r :: pyerr + order_request)"
    unfolding build_order_request_def bindE_Inr_iff by blast
  obtain v1 p1 s1 t1 where n: "normalise_to_spec B sym (v, p, s, t) = (v1, p1, s1, t1)" by (metis prod_cases4)
  from rest n have "rq_symbol r = sym" "rq_order_type r = side" "rq_volume r = v1" "rq_price r = p1" "rq_sl r = s1"
    "rq_tp r = t1" "rq_token r = None"
    "rq_key r = (if text_of_either prop ''idempotency_key'' ''client_order_id'' [] = [] then fresh
                 else text_of_either prop ''idempotency_key'' ''client_order_id'' [])"
    by (auto simp: Let_def)
  with parts n that show ?thesis by blast
qed

lemma open_criticals_append [simp]: "open_criticals (xs @ ys) = open_criticals xs + open_criticals ys"
  by (simp add: open_criticals_def)

lemma audit_events_criticals:
  "audit_events internal broker = Inr es \<Longrightarrow> open_criticals es = length es"
proof -
  assume a: "audit_events internal broker = Inr es"
  have crit: "be_severity (critical_event p k x y) = ''CRITICAL'' \<and> \<not> be_resolved (critical_event p k x y)" for p k x y
    by (simp add: critical_event_def)
  have lev: "level_event k kind ip bp = Inr ds \<Longrightarrow> \<forall>e \<in> set ds. be_severity e = ''CRITICAL'' \<and> \<not> be_resolved e" for k kind ip bp ds
    by (auto simp: level_event_def bindE_Inr_iff crit split: if_splits)
  have pos: "position_events ip bp = Inr ds \<Longrightarrow> \<forall>e \<in> set ds. be_severity e = ''CRITICAL'' \<and> \<not> be_resolved e" for ip bp ds
    using lev by (fastforce simp: position_events_def bindE_Inr_iff crit split: if_splits)
  have all: "mapE (\<lambda>(t, ip). case map_of B t of None \<Rightarrow> Inr [] | Some bp \<Rightarrow> position_events ip bp) I = Inr dss
      \<Longrightarrow> \<forall>e \<in> set (concat dss). be_severity e = ''CRITICAL'' \<and> \<not> be_resolved e" for B I dss
  proof (induction I arbitrary: dss)
    case (Cons x I)
    then show ?case using pos by (cases x) (fastforce simp: bindE_Inr_iff split: option.splits)
  qed simp
  from a have "\<forall>e \<in> set es. be_severity e = ''CRITICAL'' \<and> \<not> be_resolved e"
    using all by (fastforce simp: audit_events_def bindE_Inr_iff crit)
  then show ?thesis by (simp add: open_criticals_def filter_True)
qed

definition audit_step :: "pydict list \<times> pydict list \<Rightarrow> book_engine \<Rightarrow> book_engine" where
  "audit_step bk X = snd (audit_reconciliation (fst bk) (snd bk) X)"

interpretation audit_run: escalation "\<lambda>X. open_criticals (bo_history X)" audit_step
  by unfold_locales (simp add: audit_step_def audit_reconciliation_def judged_def split: sum.split)

end
