(* ===== verification/Level_Plan.thy ===== *)
theory Level_Plan
  imports Prelude
begin

text \<open>
  The ladder of entry, stop and targets, and the price and ATR read from a context:
  \<open>trading/level_plan.py\<close>. Values are Python values in dictionaries; an attribute read of a value
  that is no dictionary finds nothing.
\<close>

section \<open>Reading numbers and directions\<close>

definition num :: "pyval \<Rightarrow> pyfloat" where
  "num v = float_or v 0"

fun direction_from_text :: "pyval list \<Rightarrow> string" where
  "direction_from_text [] = []"
| "direction_from_text (t # ts) =
     (let u = upper (py_text (py_or t (VStr [])))
      in if contains ''BULLISH'' u then ''BUY'' else if contains ''BEARISH'' u then ''SELL'' else direction_from_text ts)"

definition state_value :: "pyval \<Rightarrow> string \<Rightarrow> pyfloat" where
  "state_value st k = (case st of VDict d \<Rightarrow> num (dget d k VNone) | _ \<Rightarrow> 0)"

definition as_dict :: "pyval \<Rightarrow> pydict" where
  "as_dict v = (case v of VDict d \<Rightarrow> d | _ \<Rightarrow> [])"

definition last_item :: "pyval \<Rightarrow> pyval" where
  "last_item v = (case v of VList xs \<Rightarrow> if xs = [] then VNone else last xs | _ \<Rightarrow> VNone)"

text \<open>The loop over candidates: it stops at the first positive number, else the last one read stays.\<close>

fun first_positive :: "pyfloat \<Rightarrow> pyfloat list \<Rightarrow> pyfloat" where
  "first_positive x [] = x"
| "first_positive x (y # ys) = (if y > 0 then y else first_positive y ys)"

definition extract_price_atr :: "pydict \<Rightarrow> pyfloat \<times> pyfloat" where
  "extract_price_atr ctx =
     (let st = dget ctx ''market_state'' VNone;
          vol = as_dict (dget ctx ''volatility'' VNone);
          mi = as_dict (dget ctx ''market_info'' VNone);
          price = first_positive 0
            [num (dget ctx ''price'' VNone), num (dget ctx ''close'' VNone), state_value st ''close'',
             num (dget vol ''price'' VNone), num (last_item (dget ctx ''prices'' VNone)),
             num (dget mi ''ask'' VNone), num (dget mi ''bid'' VNone), num (dget mi ''price'' VNone)];
          atr = first_positive 0 [num (dget ctx ''atr'' VNone), num (dget vol ''atr'' VNone), state_value st ''atr'']
      in (price, atr))"

section \<open>Ladders\<close>

definition ladder :: "string \<Rightarrow> pyfloat \<Rightarrow> pyfloat \<Rightarrow> pydict" where
  "ladder direction entry risk =
     (let sign = if direction = ''BUY'' then 1 else - 1
      in [(''direction'', VStr direction), (''entry'', VFloat (py_round entry 5)),
          (''sl'', VFloat (py_round (entry - sign * risk) 5)),
          (''tp1'', VFloat (py_round (entry + sign * 1 * risk) 5)),
          (''tp2'', VFloat (py_round (entry + sign * 2 * risk) 5)),
          (''tpmax'', VFloat (py_round (entry + sign * 3 * risk) 5)),
          (''risk_distance'', VFloat (py_round risk 5)),
          (''rr'', VDict [(''tp1'', VFloat 1), (''tp2'', VFloat 2), (''tpmax'', VFloat 3)])])"

definition is_side :: "string \<Rightarrow> bool" where
  "is_side s \<longleftrightarrow> s \<in> {''BUY'', ''SELL''}"

definition build_level_plan :: "pyval \<Rightarrow> pyval \<Rightarrow> pyval \<Rightarrow> pyval \<Rightarrow> pyval \<Rightarrow> pydict option" where
  "build_level_plan direction entry stop_loss take_profit atr =
     (let side = upper (py_text (py_or direction (VStr []))); e = num entry; s = num stop_loss; risk = \<bar>e - s\<bar>;
          l0 = AList.update ''sl'' (VFloat (py_round s 5)) (ladder side e risk);
          l1 = (if num take_profit > 0 then AList.update ''tp'' (VFloat (py_round (num take_profit) 5)) l0 else l0);
          l2 = (if num atr > 0 then AList.update ''atr'' (VFloat (py_round (num atr) 5)) l1 else l1)
      in if \<not> is_side side then None
         else if e \<le> 0 \<or> s \<le> 0 then None
         else if risk \<le> 0 then None
         else Some (AList.update ''source'' (VStr ''order'') l2))"

definition indicative_levels :: "pyval \<Rightarrow> pyval \<Rightarrow> pyval \<Rightarrow> pydict option" where
  "indicative_levels direction price atr =
     (let side = upper (py_text (py_or direction (VStr []))); p = num price; a = num atr
      in if \<not> is_side side then None
         else if p \<le> 0 \<or> a \<le> 0 then None
         else Some (AList.update ''source'' (VStr ''analysis'')
                (AList.update ''atr'' (VFloat (py_round a 5)) (ladder side p (3/2 * a)))))"

section \<open>Lemmas\<close>

lemma first_positive_cases: "first_positive x ys > 0 \<Longrightarrow> first_positive x ys \<in> set (x # ys)"
  by (induction x ys rule: first_positive.induct) (auto split: if_splits)

lemma first_positive_found: "y \<in> set ys \<Longrightarrow> y > 0 \<Longrightarrow> first_positive x ys > 0"
  by (induction x ys rule: first_positive.induct) auto

end
