(* ===== verification/Freshness.thy ===== *)
theory Freshness
  imports Prelude
begin

text \<open>
  When a market snapshot counts as fresh: \<open>trading/market_freshness.py\<close>. Time is in seconds since
  the epoch; \<open>isot\<close> is \<open>datetime.fromisoformat\<close> of the standard library, naive times read as
  UTC. The printed fields of a verdict are left out.
\<close>

section \<open>Thresholds\<close>

definition timeframe_seconds :: "(string \<times> nat) list" where
  "timeframe_seconds = [(''M1'', 60), (''M2'', 120), (''M3'', 180), (''M5'', 300), (''M10'', 600), (''M15'', 900),
     (''M30'', 1800), (''H1'', 3600), (''H2'', 7200), (''H3'', 10800), (''H4'', 14400), (''H6'', 21600),
     (''H8'', 28800), (''H12'', 43200), (''D1'', 86400), (''W1'', 604800), (''MN1'', 2592000)]"

definition default_max_age :: pyfloat where
  "default_max_age = 360"

definition max_allowed_age :: "string \<Rightarrow> pyfloat" where
  "max_allowed_age timeframe =
     (case map_of timeframe_seconds (upper (strip timeframe)) of None \<Rightarrow> default_max_age | Some s \<Rightarrow> of_nat s + 60)"

definition skew_tolerance :: pyfloat where
  "skew_tolerance = 5"

section \<open>Timestamps\<close>

text \<open>The seconds a \<open>datetime\<close> can hold: the years 1 to 9999.\<close>

definition in_datetime_range :: "pyfloat \<Rightarrow> bool" where
  "in_datetime_range x \<longleftrightarrow> - 62135596800 \<le> x \<and> x < 253402300800"

definition utc_marker :: "string \<Rightarrow> string" where
  "utc_marker t = (if t \<noteq> [] \<and> last t = CHR ''Z'' then butlast t @ ''+00:00'' else t)"

fun parse_ts :: "(string \<Rightarrow> pyfloat option) \<Rightarrow> pyval \<Rightarrow> pyfloat option" where
  "parse_ts isot VNone = None"
| "parse_ts isot (VBool b) = Some (if b then 1 else 0)"
| "parse_ts isot (VInt i) = (if in_datetime_range (of_int i) then Some (of_int i) else None)"
| "parse_ts isot (VFloat x) = (if in_datetime_range x then Some x else None)"
| "parse_ts isot (VStr s) = (if strip s = [] then None else isot (utc_marker (strip s)))"
| "parse_ts isot (VList xs) = None"
| "parse_ts isot (VDict d) = None"

section \<open>The verdict\<close>

record freshness_verdict =
  fv_accepted :: bool
  fv_reason :: string
  fv_age :: "pyfloat option"
  fv_max_age :: "pyfloat option"
  fv_timeframe :: string
  fv_symbol :: string
  fv_clock_anomaly :: bool

definition stale_reason :: "string \<Rightarrow> string" where
  "stale_reason code = ''stale_market_data:'' @ code"

definition given_or :: "pyval \<Rightarrow> pydict \<Rightarrow> string \<Rightarrow> string" where
  "given_or v d k = upper (strip (py_text (if v \<noteq> VNone then v else py_or (dget d k (VStr [])) (VStr []))))"

definition evaluate_freshness ::
  "(string \<Rightarrow> pyfloat option) \<Rightarrow> pyfloat \<Rightarrow> pyval \<Rightarrow> pyval \<Rightarrow> pyfloat option \<Rightarrow> pydict \<Rightarrow> freshness_verdict" where
  "evaluate_freshness isot now timeframe symbol override snapshot =
     (let tf = given_or timeframe snapshot ''timeframe''; sym = given_or symbol snapshot ''symbol'';
          limit = (case override of Some x \<Rightarrow> x | None \<Rightarrow> max_allowed_age tf);
          verdict = (\<lambda>ok reason age clock. \<lparr>fv_accepted = ok, fv_reason = reason, fv_age = age, fv_max_age = Some limit,
                       fv_timeframe = tf, fv_symbol = sym, fv_clock_anomaly = clock\<rparr>)
      in if snapshot = []
         then \<lparr>fv_accepted = False, fv_reason = ''snapshot_missing'', fv_age = None, fv_max_age = None,
               fv_timeframe = [], fv_symbol = [], fv_clock_anomaly = False\<rparr>
         else case (parse_ts isot (dget snapshot ''bar_timestamp'' VNone), parse_ts isot (dget snapshot ''received_at'' VNone)) of
           (Some bar, Some recv) \<Rightarrow>
             (let age = recv - bar
              in if recv < bar then verdict False (stale_reason ''clock_anomaly_received_before_bar'') None True
                 else if age < 0 then verdict False (stale_reason ''negative_age'') None True
                 else if recv - now > skew_tolerance then verdict False (stale_reason ''received_at_in_future'') None True
                 else if bar - now > skew_tolerance then verdict False (stale_reason ''bar_timestamp_in_future'') None True
                 else if age > limit then verdict False (stale_reason ''age_exceeded'') (Some age) False
                 else verdict True [] (Some age) False)
         | _ \<Rightarrow> verdict False ''timestamp_unknown'' None False)"

section \<open>The cache of latest snapshots\<close>

text \<open>\<open>trading/market_snapshot.py\<close>: one snapshot per normalised symbol.\<close>

type_synonym snapshots = "(string \<times> pydict) list"

definition set_latest_snapshot :: "string \<Rightarrow> pydict \<Rightarrow> snapshots \<Rightarrow> snapshots" where
  "set_latest_snapshot symbol snap C = (if snap = [] then C else AList.update (upper (strip symbol)) snap C)"

definition get_latest_snapshot :: "string \<Rightarrow> snapshots \<Rightarrow> pydict option" where
  "get_latest_snapshot symbol C =
     (let k = upper (strip symbol)
      in if k \<noteq> []
         then (case map_of C k of
                 Some s \<Rightarrow> Some s
               | None \<Rightarrow> if length C = 1 then Some (snd (hd C)) else None)
         else if length C = 1 then Some (snd (hd C)) else None)"

definition clear_latest_snapshots :: "snapshots \<Rightarrow> snapshots" where
  "clear_latest_snapshots C = []"

section \<open>Lemmas\<close>

text \<open>The two instants of a snapshot that is fresh by itself, whatever the time is.\<close>

definition fresh_times ::
  "(string \<Rightarrow> pyfloat option) \<Rightarrow> pyval \<Rightarrow> pyfloat option \<Rightarrow> pydict \<Rightarrow> (pyfloat \<times> pyfloat) option" where
  "fresh_times isot timeframe override snapshot =
     (case (parse_ts isot (dget snapshot ''bar_timestamp'' VNone), parse_ts isot (dget snapshot ''received_at'' VNone)) of
        (Some bar, Some recv) \<Rightarrow>
          if snapshot \<noteq> [] \<and> bar \<le> recv
             \<and> recv - bar \<le> (case override of Some x \<Rightarrow> x | None \<Rightarrow> max_allowed_age (given_or timeframe snapshot ''timeframe''))
          then Some (bar, recv) else None
      | _ \<Rightarrow> None)"

lemma fresh_times_accepted:
  "fv_accepted (evaluate_freshness isot now timeframe symbol override snapshot) \<longleftrightarrow>
     (case fresh_times isot timeframe override snapshot of
        None \<Rightarrow> False | Some (bar, recv) \<Rightarrow> recv - now \<le> 5 \<and> bar - now \<le> 5)"
  by (simp add: evaluate_freshness_def fresh_times_def Let_def skew_tolerance_def split: option.split)

lemma max_allowed_age_bounds: "120 \<le> max_allowed_age tf \<and> max_allowed_age tf \<le> 2592060"
proof (cases "map_of timeframe_seconds (upper (strip tf))")
  case None
  then show ?thesis by (simp add: max_allowed_age_def default_max_age_def)
next
  case (Some s)
  then have "(upper (strip tf), s) \<in> set timeframe_seconds" by (rule map_of_SomeD)
  then have "s \<in> snd ` set timeframe_seconds" by (rule image_eqI [rotated]) simp
  then have "60 \<le> s \<and> s \<le> 2592000" by (auto simp: timeframe_seconds_def)
  with Some show ?thesis by (auto simp: max_allowed_age_def)
qed

lemma rejected_has_reason: "\<not> fv_accepted (evaluate_freshness isot now tf symb ov s) \<Longrightarrow>
    fv_reason (evaluate_freshness isot now tf symb ov s) \<noteq> []"
  by (auto simp: evaluate_freshness_def Let_def stale_reason_def split: option.splits if_splits)

lemma accepted_no_reason: "fv_accepted (evaluate_freshness isot now tf symb ov s) \<Longrightarrow>
    fv_reason (evaluate_freshness isot now tf symb ov s) = []"
  by (auto simp: evaluate_freshness_def Let_def split: option.splits if_splits)

section \<open>Properties\<close>

text \<open>
  A snapshot that was once fresh is fresh at every later time: its age is the delay between the
  bar and its receipt, and the present instant only bounds timestamps from the future. Evidence kept
  in the cache while the feed is down is never found stale.
\<close>

theorem fresh_snapshot_never_turns_stale:
  assumes "fv_accepted (evaluate_freshness isot now timeframe symbol override snapshot)" and "now \<le> later"
  shows "fv_accepted (evaluate_freshness isot later timeframe symbol override snapshot)"
  using assms by (cases "fresh_times isot timeframe override snapshot") (auto simp: fresh_times_accepted)

definition old_snapshot :: pydict where
  "old_snapshot = [(''symbol'', VStr ''EURUSD''), (''timeframe'', VStr ''M1''), (''bar_timestamp'', VInt 1000),
     (''received_at'', VInt 1060)]"

lemma old_snapshot_fresh:
  "fv_accepted (evaluate_freshness (\<lambda>t. None) 1060 (VStr ''M1'') VNone None old_snapshot)"
  by (simp add: fresh_times_accepted fresh_times_def old_snapshot_def dget_def in_datetime_range_def)
     (use max_allowed_age_bounds [of "given_or (VStr ''M1'') _ _"] in \<open>simp add: order_trans [of _ 120]\<close>)

theorem fresh_snapshot_never_turns_stale_witness:
  "fv_accepted (evaluate_freshness (\<lambda>t. None) 1000000 (VStr ''M1'') VNone None old_snapshot)"
  using fresh_snapshot_never_turns_stale [OF old_snapshot_fresh, of 1000000] by simp

text \<open>
  Evidence for one symbol is handed out for another: when a single symbol is in the cache, asking
  for any other symbol returns its snapshot, and the freshness check with the symbol that was asked
  for gives the same acceptance.
\<close>

theorem foreign_snapshot_is_accepted:
  "get_latest_snapshot symbol (set_latest_snapshot other snap []) = (if snap = [] then None else Some snap)
   \<and> fv_accepted (evaluate_freshness isot now timeframe (VStr symbol) override snap)
     = fv_accepted (evaluate_freshness isot now timeframe (VStr other) override snap)"
  by (simp add: get_latest_snapshot_def set_latest_snapshot_def Let_def fresh_times_accepted)

end
