(* ===== verification/Signal_Registry.thy ===== *)
theory Signal_Registry
  imports Contracts
begin

text \<open>
  The registry of live trade signals: \<open>orchestration/signal_registry.py\<close>. It is a dictionary from
  the normalised symbol to its current record; the lock makes each call one step, and a call reads
  the clock once. Its contract is the history of each symbol (\<open>standing_of\<close>).
\<close>

section \<open>Phases and records\<close>

datatype sig_phase = PH_PENDING | PH_EXECUTING | PH_OPEN | PH_CLOSED | PH_FAILED | PH_SKIPPED

fun phase_value :: "sig_phase \<Rightarrow> string" where
  "phase_value PH_PENDING = ''PENDING''"
| "phase_value PH_EXECUTING = ''EXECUTING''"
| "phase_value PH_OPEN = ''OPEN''"
| "phase_value PH_CLOSED = ''CLOSED''"
| "phase_value PH_FAILED = ''FAILED''"
| "phase_value PH_SKIPPED = ''SKIPPED''"

definition active_phases :: "sig_phase list" where
  "active_phases = [PH_PENDING, PH_EXECUTING, PH_OPEN]"

record active_signal =
  as_symbol :: string
  as_direction :: string
  as_phase :: sig_phase
  as_confidence :: pyfloat
  as_entry :: "pyfloat option"
  as_sl :: "pyfloat option"
  as_tp1 :: "pyfloat option"
  as_tp2 :: "pyfloat option"
  as_tpmax :: "pyfloat option"
  as_ticket :: pyval
  as_reason :: string
  as_proposal :: string
  as_created :: pyfloat
  as_updated :: pyfloat

type_synonym signals = "(string \<times> active_signal) list"

definition is_active :: "active_signal \<Rightarrow> bool" where
  "is_active s \<longleftrightarrow> as_phase s \<in> set active_phases"

definition failure_cooldown_s :: pyfloat where
  "failure_cooldown_s = 900"

text \<open>\<open>None\<close> and the empty text carry no price, nor does anything \<open>float\<close> refuses.\<close>

definition coerce_px :: "pyval \<Rightarrow> pyfloat option" where
  "coerce_px v = (if v = VNone \<or> v = VStr [] then None else case py_float v of Inl e \<Rightarrow> None | Inr x \<Rightarrow> Some x)"

definition reg_key :: "string \<Rightarrow> string" where
  "reg_key symbol = upper (strip symbol)"

section \<open>Queries\<close>

definition reg_get :: "string \<Rightarrow> signals \<Rightarrow> active_signal option" where
  "reg_get symbol R = map_of R (reg_key symbol)"

definition reg_active :: "string \<Rightarrow> signals \<Rightarrow> active_signal option" where
  "reg_active symbol R = (case reg_get symbol R of None \<Rightarrow> None | Some s \<Rightarrow> if is_active s then Some s else None)"

definition has_active :: "string \<Rightarrow> signals \<Rightarrow> bool" where
  "has_active symbol R \<longleftrightarrow> reg_active symbol R \<noteq> None"

definition sig_stamp :: "active_signal \<Rightarrow> pyfloat" where
  "sig_stamp s = (if as_updated s \<noteq> 0 then as_updated s else as_created s)"

definition in_failure_cooldown :: "pyfloat \<Rightarrow> pyfloat \<Rightarrow> string \<Rightarrow> signals \<Rightarrow> bool" where
  "in_failure_cooldown cooldown now symbol R =
     (case reg_get symbol R of
        None \<Rightarrow> False
      | Some s \<Rightarrow> as_phase s = PH_FAILED \<and> now - sig_stamp s < cooldown)"

definition live_text :: "active_signal \<Rightarrow> string" where
  "live_text s = ''sinyal '' @ as_direction s @ '' untuk '' @ as_symbol s @ '' masih aktif ('' @ phase_value (as_phase s)
     @ ''); tidak perlu rapat ulang''"

definition cooling_text :: "pyfloat \<Rightarrow> pyfloat \<Rightarrow> active_signal \<Rightarrow> string" where
  "cooling_text cooldown now s = ''eksekusi sinyal '' @ as_symbol s @ '' baru gagal (''
     @ (if as_reason s = [] then ''tidak diketahui'' else as_reason s) @ ''); tunggu ''
     @ dec_int (max (py_trunc (cooldown - (now - sig_stamp s))) 0) @ ''s sebelum analisa ulang''"

definition should_convene :: "pyfloat \<Rightarrow> pyfloat \<Rightarrow> string \<Rightarrow> signals \<Rightarrow> bool \<times> string" where
  "should_convene cooldown now symbol R =
     (case reg_get symbol R of
        None \<Rightarrow> (True, [])
      | Some s \<Rightarrow>
          if is_active s then (False, live_text s)
          else if as_phase s = PH_FAILED \<and> in_failure_cooldown cooldown now symbol R
          then (False, cooling_text cooldown now s)
          else (True, []))"

section \<open>Mutations\<close>

definition level_or :: "pydict \<Rightarrow> string \<Rightarrow> pyfloat option \<Rightarrow> pyfloat option" where
  "level_or levels k old = (case coerce_px (dget levels k VNone) of None \<Rightarrow> old | Some x \<Rightarrow> Some x)"

definition refreshed :: "pyfloat \<Rightarrow> pyfloat \<Rightarrow> pydict \<Rightarrow> string \<Rightarrow> active_signal \<Rightarrow> active_signal" where
  "refreshed now conf levels prop s =
     s\<lparr>as_confidence := max (as_confidence s) conf,
       as_entry := level_or levels ''entry'' (as_entry s), as_sl := level_or levels ''sl'' (as_sl s),
       as_tp1 := level_or levels ''tp1'' (as_tp1 s), as_tp2 := level_or levels ''tp2'' (as_tp2 s),
       as_tpmax := level_or levels ''tpmax'' (as_tpmax s), as_updated := now,
       as_proposal := (if prop = [] then as_proposal s else prop)\<rparr>"

definition new_pending :: "string \<Rightarrow> string \<Rightarrow> pyfloat \<Rightarrow> pyfloat \<Rightarrow> pydict \<Rightarrow> string \<Rightarrow> active_signal" where
  "new_pending k direction now conf levels prop =
     \<lparr>as_symbol = k, as_direction = upper direction, as_phase = PH_PENDING, as_confidence = conf,
      as_entry = coerce_px (dget levels ''entry'' VNone), as_sl = coerce_px (dget levels ''sl'' VNone),
      as_tp1 = coerce_px (dget levels ''tp1'' VNone), as_tp2 = coerce_px (dget levels ''tp2'' VNone),
      as_tpmax = coerce_px (dget levels ''tpmax'' VNone), as_ticket = VNone, as_reason = [], as_proposal = prop,
      as_created = now, as_updated = now\<rparr>"

definition open_signal :: "pyfloat \<Rightarrow> string \<Rightarrow> string \<Rightarrow> pyfloat \<Rightarrow> pydict \<Rightarrow> string \<Rightarrow> signals \<Rightarrow> signals" where
  "open_signal now symbol direction conf levels prop R =
     (let k = reg_key symbol;
          fresh = new_pending k direction now conf levels prop
      in AList.update k
           (case map_of R k of
              None \<Rightarrow> fresh
            | Some s \<Rightarrow> if is_active s \<and> as_direction s = direction then refreshed now conf levels prop s else fresh) R)"

definition reg_transition :: "pyfloat \<Rightarrow> string \<Rightarrow> sig_phase \<Rightarrow> string \<Rightarrow> signals \<Rightarrow> signals" where
  "reg_transition now symbol ph reason R =
     (case reg_get symbol R of
        None \<Rightarrow> R
      | Some s \<Rightarrow> AList.update (reg_key symbol) (s\<lparr>as_phase := ph, as_reason := reason, as_updated := now\<rparr>) R)"

definition mark_executing :: "pyfloat \<Rightarrow> string \<Rightarrow> string \<Rightarrow> signals \<Rightarrow> signals" where
  "mark_executing now symbol reason R = reg_transition now symbol PH_EXECUTING reason R"

definition mark_open :: "pyfloat \<Rightarrow> string \<Rightarrow> pyval \<Rightarrow> string \<Rightarrow> signals \<Rightarrow> signals" where
  "mark_open now symbol ticket reason R =
     (let R1 = reg_transition now symbol PH_OPEN reason R
      in case reg_get symbol R1 of
          None \<Rightarrow> R1
        | Some s \<Rightarrow> AList.update (reg_key symbol) (s\<lparr>as_ticket := ticket\<rparr>) R1)"

definition mark_closed :: "pyfloat \<Rightarrow> string \<Rightarrow> string \<Rightarrow> signals \<Rightarrow> signals" where
  "mark_closed now symbol reason R = reg_transition now symbol PH_CLOSED reason R"

definition mark_failed :: "pyfloat \<Rightarrow> string \<Rightarrow> string \<Rightarrow> signals \<Rightarrow> signals" where
  "mark_failed now symbol reason R = reg_transition now symbol PH_FAILED reason R"

definition mark_skipped :: "pyfloat \<Rightarrow> string \<Rightarrow> string \<Rightarrow> signals \<Rightarrow> signals" where
  "mark_skipped now symbol reason R = reg_transition now symbol PH_SKIPPED reason R"

definition clear_signal :: "string \<Rightarrow> signals \<Rightarrow> signals" where
  "clear_signal symbol R = AList.delete (reg_key symbol) R"

definition reset_signals :: "signals \<Rightarrow> signals" where
  "reset_signals R = []"

section \<open>Lemmas\<close>

lemma reg_get_transition:
  "reg_get t (reg_transition now s ph reason R) =
     (if reg_key t = reg_key s
      then map_option (\<lambda>r. r\<lparr>as_phase := ph, as_reason := reason, as_updated := now\<rparr>) (reg_get s R)
      else reg_get t R)"
  by (auto simp: reg_transition_def reg_get_def split: option.split)

lemma reg_get_open:
  "reg_get t (open_signal now s d conf levels prop R) =
     (if reg_key t = reg_key s
      then Some (case reg_get s R of
              None \<Rightarrow> new_pending (reg_key s) d now conf levels prop
            | Some r \<Rightarrow> if is_active r \<and> as_direction r = d then refreshed now conf levels prop r
                       else new_pending (reg_key s) d now conf levels prop)
      else reg_get t R)"
  by (simp add: open_signal_def reg_get_def Let_def)

lemma reg_get_mark_open:
  "reg_get t (mark_open now s ticket reason R) =
     (if reg_key t = reg_key s
      then map_option (\<lambda>r. r\<lparr>as_phase := PH_OPEN, as_reason := reason, as_updated := now, as_ticket := ticket\<rparr>) (reg_get s R)
      else reg_get t R)"
  by (auto simp: mark_open_def Let_def reg_get_def reg_transition_def split: option.split)

lemma is_active_refreshed [simp]: "is_active (refreshed now conf levels prop s) = is_active s"
  by (simp add: is_active_def refreshed_def)

lemma is_active_new [simp]: "is_active (new_pending k d now conf levels prop)"
  by (simp add: is_active_def new_pending_def active_phases_def)

lemma is_active_phase [simp]:
  "is_active (s\<lparr>as_phase := ph, as_reason := reason, as_updated := now\<rparr>) \<longleftrightarrow> ph \<in> set active_phases"
  "is_active (s\<lparr>as_phase := ph, as_reason := reason, as_updated := now, as_ticket := ticket\<rparr>) \<longleftrightarrow> ph \<in> set active_phases"
  by (simp_all add: is_active_def)

lemma live_symbol_refuses: "has_active symbol R \<Longrightarrow> \<not> fst (should_convene cooldown now symbol R)"
  by (auto simp: has_active_def reg_active_def should_convene_def split: option.splits if_splits)

lemma convene_iff:
  "fst (should_convene cooldown now symbol R) \<longleftrightarrow> \<not> has_active symbol R \<and> \<not> in_failure_cooldown cooldown now symbol R"
  by (auto simp: has_active_def reg_active_def should_convene_def in_failure_cooldown_def is_active_def active_phases_def
      split: option.splits if_splits)

lemma has_active_open [simp]: "has_active symbol (open_signal now symbol d conf levels prop R)"
  by (auto simp: has_active_def reg_active_def reg_get_open split: option.split)

lemma has_active_get: "has_active symbol R \<longleftrightarrow> (\<exists>s. reg_get symbol R = Some s \<and> is_active s)"
  by (auto simp: has_active_def reg_active_def split: option.splits if_splits)

text \<open>The keys of the registry stay distinct: one record per symbol.\<close>

lemma registry_distinct [preserves]:
  "distinct (map fst R) \<Longrightarrow> distinct (map fst (open_signal now s d conf levels prop R))"
  "distinct (map fst R) \<Longrightarrow> distinct (map fst (reg_transition now s ph reason R))"
  "distinct (map fst R) \<Longrightarrow> distinct (map fst (mark_open now s ticket reason R))"
  "distinct (map fst R) \<Longrightarrow> distinct (map fst (clear_signal s R))"
  by (auto simp: open_signal_def reg_transition_def mark_open_def clear_signal_def Let_def distinct_update distinct_delete
      split: option.split)

section \<open>Runs of the registry\<close>

text \<open>One use of the registry's interface.\<close>

datatype reg_op =
    ROpen pyfloat string string pyfloat pydict string
  | RMark sig_phase pyfloat string string
  | RTicket pyfloat string pyval string
  | RClear string
  | RReset

fun reg_step :: "reg_op \<Rightarrow> signals \<Rightarrow> signals" where
  "reg_step (ROpen now symbol direction conf levels prop) R = open_signal now symbol direction conf levels prop R"
| "reg_step (RMark ph now symbol reason) R = reg_transition now symbol ph reason R"
| "reg_step (RTicket now symbol ticket reason) R = mark_open now symbol ticket reason R"
| "reg_step (RClear symbol) R = clear_signal symbol R"
| "reg_step RReset R = reset_signals R"

text \<open>What the registry promises about a symbol, as a machine of its own.\<close>

datatype standing = Unseen | Live | Settled | Failed_at pyfloat

fun settle :: "sig_phase \<Rightarrow> pyfloat \<Rightarrow> standing" where
  "settle PH_FAILED now = Failed_at now"
| "settle PH_CLOSED now = Settled"
| "settle PH_SKIPPED now = Settled"
| "settle _ now = Live"

fun stand_step :: "string \<Rightarrow> standing \<Rightarrow> reg_op \<Rightarrow> standing" where
  "stand_step k w (ROpen now symbol direction conf levels p) = (if reg_key symbol = k then Live else w)"
| "stand_step k w (RMark ph now symbol reason) = (if reg_key symbol = k \<and> w \<noteq> Unseen then settle ph now else w)"
| "stand_step k w (RTicket now symbol ticket reason) = (if reg_key symbol = k \<and> w \<noteq> Unseen then Live else w)"
| "stand_step k w (RClear symbol) = (if reg_key symbol = k then Unseen else w)"
| "stand_step k w RReset = Unseen"

definition standing_of :: "string \<Rightarrow> reg_op list \<Rightarrow> standing" where
  "standing_of symbol ops = foldl (stand_step (reg_key symbol)) Unseen ops"

fun reg_clock :: "reg_op \<Rightarrow> pyfloat" where
  "reg_clock (ROpen now symbol direction conf levels p) = now"
| "reg_clock (RMark ph now symbol reason) = now"
| "reg_clock (RTicket now symbol ticket reason) = now"
| "reg_clock (RClear symbol) = 1"
| "reg_clock RReset = 1"

definition stands :: "signals \<Rightarrow> string \<Rightarrow> standing \<Rightarrow> bool" where
  "stands R symbol w \<longleftrightarrow>
     (case reg_get symbol R of
        None \<Rightarrow> w = Unseen
      | Some s \<Rightarrow> w = settle (as_phase s) (as_updated s) \<and> as_updated s \<noteq> 0)"

lemma settle_seen [simp]: "settle ph now \<noteq> Unseen"
  by (cases ph) simp_all

lemma settle_Live: "Live = settle ph now \<longleftrightarrow> ph \<in> set active_phases"
  by (cases ph) (simp_all add: active_phases_def)

lemma stands_step:
  assumes w: "stands R symbol w" and t: "reg_clock x \<noteq> 0"
  shows "stands (reg_step x R) symbol (stand_step (reg_key symbol) w x)"
proof (cases x)
  case (ROpen now s direction conf levels p)
  have fresh: "as_phase (new_pending k d now conf levels p) = PH_PENDING" "as_updated (new_pending k d now conf levels p) = now"
    for k d by (simp_all add: new_pending_def)
  have kept: "as_phase (refreshed now conf levels p r) = as_phase r" "as_updated (refreshed now conf levels p r) = now"
    for r by (simp_all add: refreshed_def)
  have pending: "PH_PENDING \<in> set active_phases" by (simp add: active_phases_def)
  have "reg_key s = reg_key symbol \<Longrightarrow> reg_get s R = reg_get symbol R" by (simp add: reg_get_def)
  with w t show ?thesis
    unfolding ROpen stands_def reg_step.simps stand_step.simps reg_get_open
    by (cases "reg_get symbol R") (simp_all add: fresh kept pending is_active_def settle_Live)
next
  case (RMark ph now s reason)
  have "reg_key s = reg_key symbol \<Longrightarrow> reg_get s R = reg_get symbol R" by (simp add: reg_get_def)
  with w t show ?thesis
    unfolding RMark stands_def reg_step.simps stand_step.simps reg_get_transition
    by (cases "reg_get symbol R") simp_all
next
  case (RTicket now s ticket reason)
  have "reg_key s = reg_key symbol \<Longrightarrow> reg_get s R = reg_get symbol R" by (simp add: reg_get_def)
  with w t show ?thesis
    unfolding RTicket stands_def reg_step.simps stand_step.simps reg_get_mark_open
    by (cases "reg_get symbol R") simp_all
next
  case (RClear s)
  with w show ?thesis by (auto simp: stands_def clear_signal_def reg_get_def delete_conv')
next
  case RReset
  then show ?thesis by (simp add: stands_def reset_signals_def reg_get_def)
qed

lemma stands_run:
  "stands R symbol w \<Longrightarrow> list_all (\<lambda>x. reg_clock x \<noteq> 0) ops \<Longrightarrow>
   stands (foldl (\<lambda>R x. reg_step x R) R ops) symbol (foldl (stand_step (reg_key symbol)) w ops)"
  by (induction ops arbitrary: R w) (simp_all add: stands_step)



end
