(* ===== verification/Proposal.thy ===== *)
theory Proposal
  imports Order_Builder Level_Plan Freshness Signal_Registry Risk_Gate
begin

text \<open>
  What a trading cycle makes of an analysis before any decision: the proposal it extracts, the
  inputs of the risk gate with missing prices and size completed, and the entry guards:
  the helpers of \<open>orchestration/pipeline.py\<close>. A proposal object is its dictionary; the positions
  of a context are dictionaries, as the account readers make them.
\<close>

section \<open>Settings\<close>

record pipe_cfg =
  pc_gate :: risk_gate
  pc_info :: "string \<Rightarrow> pydict option"   \<comment> \<open>the symbol metadata of the terminal\<close>
  pc_builder :: order_builder
  pc_risk_pct :: pyfloat
  pc_max_lot :: pyfloat
  pc_force :: bool
  pc_single :: bool
  pc_magic :: int
  pc_cooldown :: pyfloat
  pc_min_distance :: pyfloat
  pc_htf :: bool
  pc_htf_min :: pyfloat
  pc_pending_guard :: bool
  pc_freshness :: bool
  pc_fail_cooldown :: pyfloat
  pc_min_confidence :: pyfloat
  pc_repr :: "pyfloat \<Rightarrow> string"         \<comment> \<open>Python's text of a float\<close>
  pc_err :: "pyerr \<Rightarrow> string"

section \<open>The proposal of an analysis\<close>

definition backfill :: "string \<Rightarrow> pydict \<Rightarrow> pydict \<Rightarrow> pydict" where
  "backfill k analysis p =
     (if \<not> py_truthy (dget p k VNone) \<and> py_truthy (dget analysis k VNone) then AList.update k (dget analysis k VNone) p else p)"

definition alias_key :: "string \<Rightarrow> string \<Rightarrow> pydict \<Rightarrow> pydict" where
  "alias_key k old p = (if dget p k VNone = VNone \<and> dget p old VNone \<noteq> VNone then AList.update k (dget p old VNone) p else p)"

definition raw_proposal :: "pydict \<Rightarrow> pyval" where
  "raw_proposal analysis =
     (case dget analysis ''proposal'' VNone of
        VNone \<Rightarrow> (case dget analysis ''synthesis'' VNone of VDict d \<Rightarrow> dget d ''proposal'' VNone | _ \<Rightarrow> VNone)
      | v \<Rightarrow> v)"

definition extract_proposal :: "pyval \<Rightarrow> pydict option" where
  "extract_proposal analysis =
     (case analysis of
        VDict a \<Rightarrow>
          (case raw_proposal a of
             VDict p \<Rightarrow> Some (alias_key ''take_profit'' ''target_tp'' (alias_key ''stop_loss'' ''target_sl''
                (backfill ''setup_id'' a (backfill ''proposal_id'' a (backfill ''symbol'' a p)))))
           | _ \<Rightarrow> None)
      | _ \<Rightarrow> None)"

definition direction_of :: "pydict \<Rightarrow> string" where
  "direction_of p = upper (py_text (dget p ''direction'' (VStr [])))"

definition min_signal_confidence :: "pipe_cfg \<Rightarrow> pydict \<Rightarrow> pyfloat" where
  "min_signal_confidence C params =
     (case dget params ''min_confidence'' VNone of
        VNone \<Rightarrow> pc_min_confidence C
      | v \<Rightarrow> (case py_float v of Inl e \<Rightarrow> pc_min_confidence C | Inr x \<Rightarrow> x))"

text \<open>Whether a proposal is actionable, with the strategy parameters read; the confidence may not convert.\<close>

definition is_actionable :: "pipe_cfg \<Rightarrow> pydict \<Rightarrow> pydict \<Rightarrow> pyerr + bool" where
  "is_actionable C params p =
     (if \<not> is_side (direction_of p) then Inr False
      else bindE (get_float_or0 p ''confidence'') (\<lambda>c. Inr (c \<ge> min_signal_confidence C params)))"

definition canonical_block_reason :: "pydict \<Rightarrow> string" where
  "canonical_block_reason canonical =
     (let assessment = dget canonical ''assessment'' VNone; decision = as_dict (dget canonical ''decision'' VNone);
          st = upper (py_text (py_or (dget decision ''current_state'' VNone) (VStr [])));
          detail = strip (py_text (py_or (dget decision ''rationale'' VNone) (VStr [])))
      in if dget (as_dict assessment) ''has_critical_conflicts'' VNone = VBool True
         then ''canonical: unresolved HIGH/CRITICAL conflict '' @ em_dash @ '' WAIT (no automatic trade)''
         else if st \<in> {''REJECTED'', ''EXPIRED''}
         then ''canonical: state '' @ st @ (if detail = [] then [] else '' ('' @ detail @ '')'')
         else [])"

definition htf_bias_veto :: "pipe_cfg \<Rightarrow> pydict \<Rightarrow> pydict \<Rightarrow> string option" where
  "htf_bias_veto C p ctx =
     (case dget ctx ''htf_bias'' VNone of
        VDict b \<Rightarrow>
          (let direction = upper (py_text (dget b ''direction'' (VStr [])));
               strength = float_or (py_or (dget b ''strength'' VNone) (VFloat 0)) 0;
               entry = direction_of p;
               tf = py_text (py_or (dget b ''timeframe'' VNone) (VStr []))
           in if \<not> pc_htf C then None
              else if direction \<notin> {''BULLISH'', ''BEARISH''} then None
              else if strength < pc_htf_min C then None
              else if \<not> is_side entry then None
              else if (entry = ''BUY'' \<and> direction = ''BEARISH'') \<or> (entry = ''SELL'' \<and> direction = ''BULLISH'')
              then Some (''HTF bias veto: '' @ entry @ '' entry fights '' @ direction @ '' bias on '' @ tf @ '' (strength ''
                     @ fmt_fixed strength 2 @ '' >= '' @ fmt_fixed (pc_htf_min C) 2 @ '')'')
              else None)
      | _ \<Rightarrow> None)"

definition no_trade_decision :: "pyval \<Rightarrow> string" where
  "no_trade_decision analysis =
     (case analysis of
        VDict a \<Rightarrow> if upper (py_text (dget a ''overall_signal'' (VStr []))) = ''NEUTRAL'' then ''WAIT'' else ''NO_TRADE''
      | _ \<Rightarrow> ''NO_TRADE'')"

definition indicative_plan :: "pyval \<Rightarrow> pydict \<Rightarrow> pydict option" where
  "indicative_plan analysis ctx =
     (let field = (\<lambda>k. case analysis of VDict a \<Rightarrow> dget a k VNone | _ \<Rightarrow> VStr []);
          direction = direction_from_text [field ''overall_signal'', field ''summary''];
          (price, atr) = extract_price_atr ctx
      in if direction = [] then None else indicative_levels (VStr direction) (VFloat price) (VFloat atr))"

section \<open>Size\<close>

definition risk_fraction :: "pipe_cfg \<Rightarrow> pyfloat" where
  "risk_fraction C =
     (if pc_risk_pct C \<le> 0 then 1 / 100 else if pc_risk_pct C \<ge> 1 / 10 then pc_risk_pct C / 100 else pc_risk_pct C)"

definition pipe_spec :: "pipe_cfg \<Rightarrow> string \<Rightarrow> symbol_spec" where
  "pipe_spec C symbol = get_symbol_specification (pc_info C) symbol None"

definition broker_volume :: "pipe_cfg \<Rightarrow> pyfloat \<Rightarrow> string \<Rightarrow> pyfloat" where
  "broker_volume C lot symbol =
     (let spec = pipe_spec C symbol;
          l1 = (if sp_max_volume spec > 0 then min lot (sp_max_volume spec) else lot);
          step = sp_volume_step spec;
          l2 = (if step > 0 then py_round (of_int \<lfloor>l1 / step\<rfloor> * step) 8 else l1)
      in if lot \<le> 0 then 0
         else if sp_source spec \<noteq> ''broker'' then lot
         else if sp_min_volume spec > 0 \<and> l2 < sp_min_volume spec then 0
         else max l2 0)"

definition symbol_text :: "pydict \<Rightarrow> string" where
  "symbol_text p = py_text (py_or (dget p ''symbol'' VNone) (VStr []))"

definition capped_size :: "pipe_cfg \<Rightarrow> string \<Rightarrow> pyfloat \<Rightarrow> pyfloat" where
  "capped_size C symbol raw = (if raw \<le> 0 then 0 else broker_volume C (cap_lot_size raw (pc_max_lot C) 0 5) symbol)"

definition cap_lot :: "pipe_cfg \<Rightarrow> pydict \<Rightarrow> pydict" where
  "cap_lot C p =
     AList.update ''size'' (VFloat (capped_size C (symbol_text p) (float_or (py_or (dget p ''size'' VNone) (VFloat 0)) 0))) p"

definition resolve_point_contract :: "pipe_cfg \<Rightarrow> pydict \<Rightarrow> pydict \<Rightarrow> pyfloat \<times> pyfloat" where
  "resolve_point_contract C p mi =
     (let point = float_or (py_or (dget mi ''point_value'' VNone) (VFloat 0)) 0;
          contract = float_or (py_or (dget mi ''contract_size'' VNone) (VFloat 0)) 0;
          spec = pipe_spec C (symbol_text p);
          ask = (point \<le> 0 \<or> contract \<le> 0) \<and> sp_source spec = ''broker'';
          point1 = (if ask \<and> point \<le> 0 then sp_point spec else point);
          contract1 = (if ask \<and> contract \<le> 0 then sp_contract_size spec else contract)
      in (max point1 0, max contract1 0))"

definition commission_of :: "pipe_cfg \<Rightarrow> pydict \<Rightarrow> pydict \<Rightarrow> pyfloat \<times> string" where
  "commission_of C p mi =
     (let broker = dget mi ''commission_per_lot'' VNone; config = dget p ''commission_per_lot'' VNone;
          spec = pipe_spec C (py_text (py_or (py_or (dget p ''symbol'' VNone) (dget mi ''symbol'' VNone)) (VStr [])))
      in if broker \<noteq> VNone
         then (case py_float broker of Inl e \<Rightarrow> (0, ''UNKNOWN'') | Inr x \<Rightarrow> (max x 0, ''BROKER''))
         else if config \<noteq> VNone
         then (case py_float config of Inl e \<Rightarrow> (0, ''UNKNOWN'') | Inr x \<Rightarrow> (max x 0, ''CONFIG''))
         else if sp_commission_source spec \<in> {''BROKER'', ''CONFIG''}
         then (max (sp_commission spec) 0, sp_commission_source spec)
         else (0, ''UNKNOWN''))"

definition spread_allowance :: "pydict \<Rightarrow> pyfloat \<Rightarrow> pyfloat" where
  "spread_allowance mi contract =
     (let s = float_or (py_or (dget mi ''spread_price'' VNone) (VFloat 0)) 0
      in if s > 0 \<and> contract > 0 then s * contract else 0)"

definition with_costs :: "pipe_cfg \<Rightarrow> pydict \<Rightarrow> pyfloat \<Rightarrow> pydict \<Rightarrow> pydict" where
  "with_costs C mi contract p =
     (case commission_of C p mi of (commission, source) \<Rightarrow>
        dict_update p [(''commission_source'', VStr source), (''commission_per_lot'', VFloat commission),
          (''commission_known'', VBool (source \<in> {''BROKER'', ''CONFIG''})),
          (''spread_cost_per_lot'', VFloat (spread_allowance mi contract))])"

text \<open>The lot the money manager computes, written into the proposal.\<close>

definition sized :: "pipe_cfg \<Rightarrow> pydict \<Rightarrow> pyfloat \<Rightarrow> pyfloat \<Rightarrow> pyfloat \<Rightarrow> pyfloat \<Rightarrow> pydict \<Rightarrow> pydict" where
  "sized C mi equity pips point contract p =
     (let risk = risk_fraction C; q = with_costs C mi contract p;
          commission = fst (commission_of C p mi); spread = spread_allowance mi contract
      in if pips > 0 \<and> equity > 0 \<and> contract > 0
         then (case calculate_lot_size equity risk pips point contract (Some equity) commission spread of
                 Inl e \<Rightarrow> AList.update ''size'' (VFloat 0) q
               | Inr z \<Rightarrow>
                   if sz_lot z > 0
                   then dict_update q [(''size'', VFloat (sz_lot z)), (''risk_pct'', VFloat risk), (''risk_sizing_verified'', VBool True)]
                   else AList.update ''size'' (VFloat 0) q)
         else AList.update ''size'' (VFloat 0) q)"

text \<open>
  \<open>_size_proposal\<close>. Equity, tick size or tick value that do not convert raise out of it; the caller
  keeps the dictionary as it then is.
\<close>

definition size_proposal :: "pipe_cfg \<Rightarrow> pydict \<Rightarrow> pydict \<Rightarrow> pyfloat \<Rightarrow> pyfloat \<Rightarrow> pydict \<Rightarrow> pydict" where
  "size_proposal C account mi entry sl p0 =
     (let p = AList.delete ''risk_sizing_verified'' p0;
          given = float_or (py_or (dget p ''size'' VNone) (VFloat 0)) 0
      in if \<not> (pc_force C \<or> given \<le> 0) then cap_lot C p
         else if sl \<le> 0 \<or> entry \<le> 0 then cap_lot C (AList.update ''size'' (VFloat 0) p)
         else case bindE (py_float (py_or (py_or (dget account ''equity'' VNone) (dget account ''balance'' VNone)) (VFloat 0))) (\<lambda>equity.
                   bindE (get_float_or0 mi ''tick_size'') (\<lambda>tick.
                   bindE (get_float_or0 mi ''tick_value'') (\<lambda>worth. Inr (equity, tick, worth)))) of
             Inl e \<Rightarrow> p
           | Inr (equity, tick, worth) \<Rightarrow>
               (let (point, contract) = resolve_point_contract C p mi; distance = \<bar>entry - sl\<bar>
                in cap_lot C
                     (if tick > 0 \<and> worth > 0 then sized C mi equity distance 1 (worth / tick) p
                      else sized C mi equity (if point > 0 then distance / point else 0) point contract p)))"

section \<open>Prices\<close>

text \<open>The first truthy candidate that converts, whatever its sign.\<close>

fun first_usable :: "pyfloat \<Rightarrow> pyval list \<Rightarrow> pyfloat" where
  "first_usable x [] = x"
| "first_usable x (v # vs) =
     (if py_truthy v then (case py_float v of Inl e \<Rightarrow> first_usable x vs | Inr y \<Rightarrow> y) else first_usable x vs)"

definition entry_candidates :: "string \<Rightarrow> pydict \<Rightarrow> pydict \<Rightarrow> pyval list" where
  "entry_candidates direction ctx mi =
     (let st = as_dict (dget ctx ''market_state'' VNone)
      in [dget st ''close'' VNone, dget st ''price'' VNone, VFloat (fst (extract_price_atr ctx)),
          if direction = ''BUY'' then dget mi ''ask'' VNone else dget mi ''bid'' VNone, dget mi ''price'' VNone,
          dget ctx ''close'' VNone, dget ctx ''price'' VNone])"

definition resolved_atr :: "pydict \<Rightarrow> pyfloat" where
  "resolved_atr ctx =
     (let atr = snd (extract_price_atr ctx);
          v = dget (as_dict (dget ctx ''market_state'' VNone)) ''atr'' (dget ctx ''atr'' VNone)
      in if atr > 0 then atr else if py_truthy v then float_or v 0 else 0)"

definition number :: "pydict \<Rightarrow> string \<Rightarrow> pyfloat" where
  "number p k = float_or (py_or (dget p k VNone) (VFloat 0)) 0"

text \<open>Stop and target where one is missing: the stop from the ATR, the target at three times the risk.\<close>

definition fill_level :: "string \<Rightarrow> pyfloat \<Rightarrow> pyfloat \<Rightarrow> pydict \<Rightarrow> pydict" where
  "fill_level k old new p = (if old \<le> 0 then AList.update k (VFloat new) p else p)"

definition target_price :: "string \<Rightarrow> pyfloat \<Rightarrow> pyfloat \<Rightarrow> pyfloat \<Rightarrow> pyfloat" where
  "target_price direction entry risk dflt =
     (if risk > 0 then (if direction = ''BUY'' then entry + 3 * risk else entry - 3 * risk) else dflt)"

definition complete_levels :: "string \<Rightarrow> pyfloat \<Rightarrow> pyfloat \<Rightarrow> pydict \<Rightarrow> pydict \<Rightarrow> pydict" where
  "complete_levels direction entry atr mi p =
     (let sl = number p ''stop_loss''; tp = number p ''take_profit'';
          spread = number mi ''spread_price''; mm = (if direction = ''BUY'' then ''long'' else ''short'')
      in if (sl \<le> 0 \<or> tp \<le> 0) \<and> atr > 0
         then (case calculate_sl_tp entry mm (Some atr) (3/2) 3 None None spread of
                 Inl e \<Rightarrow> p
               | Inr (sl_price, tp_price) \<Rightarrow>
                   (let sl1 = (if sl \<le> 0 then py_round sl_price 5 else sl);
                        risk = (if sl1 > 0 then \<bar>entry - sl1\<bar> else 0)
                    in fill_level ''take_profit'' tp (py_round (target_price direction entry risk tp_price) 5)
                         (fill_level ''stop_loss'' sl sl1 p)))
         else p)"

definition complete_proposal :: "pipe_cfg \<Rightarrow> pydict \<Rightarrow> pydict \<Rightarrow> pydict \<Rightarrow> pydict \<Rightarrow> pydict" where
  "complete_proposal C ctx account mi p =
     (let direction = direction_of p; entry0 = number p ''entry_price'';
          entry = (if entry0 \<le> 0 then first_usable entry0 (entry_candidates direction ctx mi) else entry0);
          q = complete_levels direction entry (resolved_atr ctx) mi (AList.update ''entry_price'' (VFloat entry) p)
      in if \<not> is_side direction then p
         else if entry \<le> 0 then cap_lot C p
         else size_proposal C account mi entry (number q ''stop_loss'') q)"

section \<open>The inputs of the gate\<close>

record validation =
  va_proposal :: pydict
  va_account :: pydict
  va_positions :: "pydict list"
  va_market :: pydict

definition dict_or :: "pyval \<Rightarrow> pydict \<Rightarrow> pydict" where
  "dict_or v dflt = (case v of VDict d \<Rightarrow> d | _ \<Rightarrow> dflt)"

definition positions_of :: "pyval \<Rightarrow> pydict list" where
  "positions_of v = (case v of VList xs \<Rightarrow> map as_dict xs | _ \<Rightarrow> [])"

definition empty_account :: pydict where
  "empty_account = [(''equity'', VFloat 0), (''balance'', VFloat 0), (''peak_equity'', VFloat 0), (''daily_pnl'', VFloat 0),
     (''used_margin'', VFloat 0)]"

definition either_float :: "pydict \<Rightarrow> string \<Rightarrow> string \<Rightarrow> pyerr + pyfloat" where
  "either_float p a b = py_float (py_or (py_or (dget p a VNone) (dget p b VNone)) (VFloat 0))"

definition normalised_proposal :: "pydict \<Rightarrow> pydict \<Rightarrow> pyerr + pydict" where
  "normalised_proposal p ctx =
     bindE (either_float p ''entry_price'' ''price'') (\<lambda>entry.
     bindE (either_float p ''stop_loss'' ''sl'') (\<lambda>sl.
     bindE (either_float p ''take_profit'' ''tp'') (\<lambda>tp.
     bindE (either_float p ''size'' ''volume'') (\<lambda>sz.
     bindE (get_float_or0 p ''risk_pct'') (\<lambda>risk.
       Inr [(''symbol'', py_or (dget p ''symbol'' VNone) (dget ctx ''symbol'' (VStr []))), (''direction'', VStr (direction_of p)),
            (''entry_price'', VFloat entry), (''stop_loss'', VFloat sl), (''take_profit'', VFloat tp), (''size'', VFloat sz),
            (''risk_pct'', VFloat risk)])))))"

definition build_validation_inputs :: "pipe_cfg \<Rightarrow> pydict \<Rightarrow> pydict \<Rightarrow> pyerr + validation" where
  "build_validation_inputs C p ctx =
     (let account = dict_or (dget ctx ''account_state'' VNone) empty_account;
          mi = dict_or (dget ctx ''market_info'' VNone) []
      in bindE (normalised_proposal p ctx) (\<lambda>n.
           Inr \<lparr>va_proposal = complete_proposal C ctx account mi n, va_account = account,
                va_positions = positions_of (dget ctx ''current_positions'' VNone), va_market = mi\<rparr>))"

definition order_levels :: "validation \<Rightarrow> pydict \<Rightarrow> pydict option" where
  "order_levels V ctx =
     (let p = va_proposal V
      in build_level_plan (dget p ''direction'' (VStr [])) (dget p ''entry_price'' (VFloat 0)) (dget p ''stop_loss'' (VFloat 0))
           (dget p ''take_profit'' (VFloat 0)) (VFloat (snd (extract_price_atr ctx))))"

section \<open>Entry guards\<close>

fun own_ticket :: "int \<Rightarrow> pydict list \<Rightarrow> string option" where
  "own_ticket magic [] = None"
| "own_ticket magic (p # ps) =
     (if dget p ''magic'' VNone \<noteq> VNone \<and> py_int (dget p ''magic'' VNone) = Inr magic
      then Some (if dget p ''ticket'' VNone = VNone then ''?'' else py_text (dget p ''ticket'' VNone))
      else own_ticket magic ps)"

definition entry_price_of :: "validation \<Rightarrow> pyfloat" where
  "entry_price_of V =
     (let price = number (va_proposal V) ''entry_price'';
          ask = float_or (dget (va_market V) ''ask'' VNone) 0; bid = float_or (dget (va_market V) ''bid'' VNone) 0
      in if price > 0 then price else if ask > 0 then ask else if bid > 0 then bid else 0)"

type_synonym last_entries = "(string \<times> (pyfloat \<times> pyfloat)) list"   \<comment> \<open>price and time\<close>

definition entry_guard_reason :: "pipe_cfg \<Rightarrow> pyfloat \<Rightarrow> string \<Rightarrow> validation \<Rightarrow> pydict \<Rightarrow> last_entries \<Rightarrow> string option" where
  "entry_guard_reason C now symbol V ctx E =
     (let k = upper symbol
      in if k = [] then None
         else case map_of E k of
           None \<Rightarrow> None
         | Some (last_price, ts) \<Rightarrow>
             (let remaining = pc_cooldown C - (now - ts); atr = snd (extract_price_atr ctx);
                  new_price = entry_price_of V; distance = \<bar>new_price - last_price\<bar>; least = pc_min_distance C * atr
              in if pc_cooldown C > 0 \<and> remaining > 0
                 then Some (''entry cooldown: '' @ fmt_fixed remaining 0 @ ''s left for '' @ k)
                 else if pc_min_distance C > 0 \<and> atr > 0 \<and> last_price > 0 \<and> new_price > 0 \<and> distance < least
                 then Some (''jarak entry terlalu dekat: '' @ fmt_fixed distance 5 @ '' < '' @ fmt_fixed least 5 @ '' (''
                        @ pc_repr C (pc_min_distance C) @ ''xATR)'')
                 else None))"

definition record_entry :: "pyfloat \<Rightarrow> string \<Rightarrow> pydict \<Rightarrow> validation \<Rightarrow> last_entries \<Rightarrow> last_entries" where
  "record_entry now symbol p V E =
     (let k = upper symbol; price = (if entry_price_of V > 0 then entry_price_of V else number p ''entry_price'')
      in if k = [] \<or> price \<le> 0 then E else AList.update k (price, now) E)"

section \<open>Lemmas\<close>

lemma number_VFloat [simp]: "dget p k VNone = VFloat x \<Longrightarrow> number p k = x"
  by (simp add: number_def py_or_def float_or_def)

lemma dget_update [simp]: "dget (AList.update k v p) j d = (if j = k then v else dget p j d)"
  by (simp add: dget_def)

lemma number_update [simp]: "number (AList.update k v p) j = (if j = k then float_or (py_or v (VFloat 0)) 0 else number p j)"
  by (simp add: number_def)

lemma dget_delete [simp]: "dget (AList.delete k p) j d = (if j = k then d else dget p j d)"
  by (simp add: dget_def delete_conv')

lemma number_delete [simp]: "j \<noteq> k \<Longrightarrow> number (AList.delete k p) j = number p j"
  by (simp add: number_def)

lemma float_or_VFloat [simp]: "float_or (py_or (VFloat x) (VFloat 0)) 0 = x"
  by (simp add: py_or_def float_or_def)

lemma broker_volume_bound: "broker_volume C lot symbol \<le> max lot 0 + 1 / (2 * 10 ^ 8)"
proof -
  define spec where "spec = pipe_spec C symbol"
  define l1 where "l1 = (if sp_max_volume spec > 0 then min lot (sp_max_volume spec) else lot)"
  define l2 where "l2 = (if sp_volume_step spec > 0
    then py_round (of_int \<lfloor>l1 / sp_volume_step spec\<rfloor> * sp_volume_step spec) 8 else l1)"
  have "l1 \<le> lot" by (simp add: l1_def)
  moreover have "l2 \<le> l1 + 1 / (2 * 10 ^ 8)"
  proof (cases "sp_volume_step spec > 0")
    case True
    then have "of_int \<lfloor>l1 / sp_volume_step spec\<rfloor> * sp_volume_step spec \<le> l1"
      by (simp add: pos_le_divide_eq [symmetric])
    with True py_round_bounds(1) [of "of_int \<lfloor>l1 / sp_volume_step spec\<rfloor> * sp_volume_step spec" 8]
    show ?thesis by (simp add: l2_def)
  qed (simp add: l2_def)
  ultimately have "max l2 0 \<le> max lot 0 + 1 / (2 * 10 ^ 8)" by simp
  moreover have "broker_volume C lot symbol = (if lot \<le> 0 then 0 else if sp_source spec \<noteq> ''broker'' then lot
      else if sp_min_volume spec > 0 \<and> l2 < sp_min_volume spec then 0 else max l2 0)"
    by (simp add: broker_volume_def Let_def spec_def l1_def l2_def)
  ultimately show ?thesis by (simp add: max_def split: if_splits)
qed

lemma capped_size_bound: "capped_size C symbol raw \<le> max (pc_max_lot C) 0 + 1 / (2 * 10 ^ 8)"
proof -
  have "max (cap_lot_size raw (pc_max_lot C) 0 5) 0 \<le> max (pc_max_lot C) 0"
    by (auto simp: cap_lot_size_def min_def max_def)
  with broker_volume_bound [of C "cap_lot_size raw (pc_max_lot C) 0 5" symbol] show ?thesis
    by (auto simp: capped_size_def max_def split: if_splits)
qed

text \<open>
  A volume the broker of the symbol takes: where the terminal knows the symbol, no more than its
  largest volume, up to the rounding to eight digits, and nothing or at least its smallest.
\<close>

definition broker_takes :: "(string \<Rightarrow> pydict option) \<Rightarrow> string \<Rightarrow> pyfloat \<Rightarrow> bool" where
  "broker_takes info symbol lots \<longleftrightarrow>
     (case (if symbol = [] then None else info symbol) of
        None \<Rightarrow> True
      | Some base \<Rightarrow>
          (let lo = float_or (dget base ''volume_min'' VNone) (1/100); hi = float_or (dget base ''volume_max'' VNone) 100
           in (if 0 < hi then lots \<le> hi + 1 / (2 * 10 ^ 8) else True) \<and> (if 0 < lo \<and> lots \<noteq> 0 then lo \<le> lots else True)))"

lemma broker_spec:
  "(if symbol = [] then None else info symbol) = Some base \<Longrightarrow>
   sp_source (get_symbol_specification info symbol c) = ''broker'' \<and>
   sp_min_volume (get_symbol_specification info symbol c) = float_or (dget base ''volume_min'' VNone) (1/100) \<and>
   sp_max_volume (get_symbol_specification info symbol c) = float_or (dget base ''volume_max'' VNone) 100"
  by (auto simp: get_symbol_specification_def build_from_broker_def Let_def split: if_splits prod.splits)

lemma stepped_volume:
  "(if 0 < step then py_round (of_int \<lfloor>x / step\<rfloor> * step) 8 else x) \<le> x + 1 / (2 * 10 ^ 8)"
proof (cases "0 < step")
  case True
  then have "of_int \<lfloor>x / step\<rfloor> * step \<le> x" by (simp add: pos_le_divide_eq [symmetric])
  with True py_round_bounds(1) [of "of_int \<lfloor>x / step\<rfloor> * step" 8] show ?thesis by simp
qed simp

lemma broker_volume_taken: "broker_takes (pc_info C) symbol (broker_volume C lot symbol)"
proof (cases "if symbol = [] then None else pc_info C symbol")
  case None
  then show ?thesis by (simp add: broker_takes_def)
next
  case (Some base)
  note spec = broker_spec [where info = "pc_info C" and symbol = symbol and c = None, OF Some, folded pipe_spec_def]
  let ?hi = "float_or (dget base ''volume_max'' VNone) 100" and ?lo = "float_or (dget base ''volume_min'' VNone) (1/100)"
  define l1 where "l1 = (if ?hi > 0 then min lot ?hi else lot)"
  define l2 where "l2 = (if sp_volume_step (pipe_spec C symbol) > 0
    then py_round (of_int \<lfloor>l1 / sp_volume_step (pipe_spec C symbol)\<rfloor> * sp_volume_step (pipe_spec C symbol)) 8 else l1)"
  have v: "broker_volume C lot symbol = (if lot \<le> 0 then 0 else if ?lo > 0 \<and> l2 < ?lo then 0 else max l2 0)"
    unfolding broker_volume_def Let_def spec [THEN conjunct1] spec [THEN conjunct2, THEN conjunct1]
      spec [THEN conjunct2, THEN conjunct2] l1_def [symmetric] l2_def [symmetric] by simp
  have "l2 \<le> l1 + 1 / (2 * 10 ^ 8)" unfolding l2_def by (rule stepped_volume)
  then have "0 < ?hi \<Longrightarrow> max l2 0 \<le> ?hi + 1 / (2 * 10 ^ 8)" by (simp add: l1_def)
  then show ?thesis by (auto simp: broker_takes_def Some v Let_def not_less)
qed

lemma capped_size_limits:
  "0 \<le> capped_size C symbol raw" "capped_size C symbol raw \<le> 5 + 1 / (2 * 10 ^ 8)"
  "broker_takes (pc_info C) symbol (capped_size C symbol raw)"
proof -
  show "0 \<le> capped_size C symbol raw" by (auto simp: capped_size_def broker_volume_def Let_def)
  have "max (cap_lot_size raw (pc_max_lot C) 0 5) 0 \<le> 5" by (auto simp: cap_lot_size_def min_def max_def)
  with broker_volume_bound [of C "cap_lot_size raw (pc_max_lot C) 0 5" symbol]
  show "capped_size C symbol raw \<le> 5 + 1 / (2 * 10 ^ 8)" by (auto simp: capped_size_def)
  have "broker_takes (pc_info C) symbol (broker_volume C 0 symbol)" by (rule broker_volume_taken)
  then have "broker_takes (pc_info C) symbol 0" by (simp add: broker_volume_def)
  then show "broker_takes (pc_info C) symbol (capped_size C symbol raw)"
    by (simp add: capped_size_def broker_volume_taken)
qed

definition within_caps :: "pipe_cfg \<Rightarrow> pydict \<Rightarrow> bool" where
  "within_caps C p \<longleftrightarrow>
     0 \<le> number p ''size'' \<and> number p ''size'' \<le> max (pc_max_lot C) 0 + 1 / (2 * 10 ^ 8) \<and>
     number p ''size'' \<le> 5 + 1 / (2 * 10 ^ 8) \<and> broker_takes (pc_info C) (symbol_text p) (number p ''size'')"

lemma cap_lot_within: "within_caps C (cap_lot C p)"
  using capped_size_bound [of C "symbol_text p"] capped_size_limits [of C "symbol_text p"]
  by (simp add: within_caps_def cap_lot_def symbol_text_def)

lemma size_proposal_within:
  assumes "py_float (py_or (py_or (dget account ''equity'' VNone) (dget account ''balance'' VNone)) (VFloat 0)) = Inr equity"
    and "get_float_or0 mi ''tick_size'' = Inr tick" and "get_float_or0 mi ''tick_value'' = Inr worth"
  shows "within_caps C (size_proposal C account mi entry sl p)"
  using assms cap_lot_within by (simp add: size_proposal_def Let_def split: prod.split)

lemma completed_within:
  assumes "py_float (py_or (py_or (dget account ''equity'' VNone) (dget account ''balance'' VNone)) (VFloat 0)) = Inr equity"
    and "get_float_or0 mi ''tick_size'' = Inr tick" and "get_float_or0 mi ''tick_value'' = Inr worth"
    and "is_side (direction_of p)"
  shows "within_caps C (complete_proposal C ctx account mi p)"
  using size_proposal_within [OF assms(1-3)] cap_lot_within assms(4) by (simp add: complete_proposal_def Let_def)

lemma size_proposal_unreadable:
  assumes "get_float_or0 mi ''tick_size'' = Inl e" "pc_force C" "entry > 0" "sl > 0"
  shows "number (size_proposal C account mi entry sl p) ''size'' = number p ''size''"
  using assms
  by (cases "py_float (py_or (py_or (dget account ''equity'' VNone) (dget account ''balance'' VNone)) (VFloat 0))")
     (simp_all add: size_proposal_def Let_def)

lemma number_fill_level [simp]: "number (fill_level k old new p) j = (if j = k \<and> old \<le> 0 then new else number p j)"
  by (simp add: fill_level_def)

lemma complete_levels_form:
  "\<exists>s t. complete_levels direction entry atr mi p
     \<in> {p, fill_level ''take_profit'' (number p ''take_profit'') t (fill_level ''stop_loss'' (number p ''stop_loss'') s p)}"
  unfolding complete_levels_def Let_def by (cases "calculate_sl_tp entry (if direction = ''BUY'' then ''long'' else ''short'') (Some atr)
      (3/2) 3 None None (number mi ''spread_price'')") (auto simp del: fill_level_def)

lemma complete_levels_keeps:
  "j \<noteq> ''stop_loss'' \<Longrightarrow> j \<noteq> ''take_profit'' \<Longrightarrow> number (complete_levels direction entry atr mi p) j = number p j"
  using complete_levels_form [of direction entry atr mi p] by auto

lemma complete_levels_stop:
  "number p ''stop_loss'' > 0 \<Longrightarrow> number (complete_levels direction entry atr mi p) ''stop_loss'' = number p ''stop_loss''"
  using complete_levels_form [of direction entry atr mi p] by auto

lemma validation_inputs:
  assumes "build_validation_inputs C p ctx = Inr V"
  obtains n where "normalised_proposal p ctx = Inr n" "va_proposal V = complete_proposal C ctx (va_account V) (va_market V) n"
  using assms by (auto simp: build_validation_inputs_def Let_def)

lemma normalised_fields:
  assumes "normalised_proposal p ctx = Inr n"
  obtains entry sl tp sz where "either_float p ''entry_price'' ''price'' = Inr entry" "either_float p ''stop_loss'' ''sl'' = Inr sl"
    "either_float p ''take_profit'' ''tp'' = Inr tp" "either_float p ''size'' ''volume'' = Inr sz"
    "number n ''entry_price'' = entry" "number n ''stop_loss'' = sl" "number n ''take_profit'' = tp" "number n ''size'' = sz"
    "direction_of n = direction_of p"
  using assms by (auto simp: normalised_proposal_def dget_def direction_of_def py_text_def)

section \<open>Properties\<close>

text \<open>
  C21. The size shown to the gate is capped. For a buy or sell, whatever size the analysis proposed,
  as long as the account's equity and the tick size and value of the market data are readable, the
  completed size is not negative and, up to the rounding to eight digits, at most the operator's
  cap per trade and five lots; where the terminal knows the proposal's symbol, it is at most the
  symbol's largest volume and either nothing or at least its smallest.
\<close>

theorem completed_size_is_capped:
  assumes "build_validation_inputs C p ctx = Inr V" and "is_side (direction_of p)"
    and "py_float (py_or (py_or (dget (va_account V) ''equity'' VNone) (dget (va_account V) ''balance'' VNone)) (VFloat 0)) = Inr equity"
    and "get_float_or0 (va_market V) ''tick_size'' = Inr tick" and "get_float_or0 (va_market V) ''tick_value'' = Inr worth"
    and "lots = number (va_proposal V) ''size''"
  shows "0 \<le> lots \<and> lots \<le> max (pc_max_lot C) 0 + 1 / (2 * 10 ^ 8) \<and> lots \<le> 5 + 1 / (2 * 10 ^ 8) \<and>
    (let symbol = symbol_text (va_proposal V)
     in case (if symbol = [] then None else pc_info C symbol) of
        None \<Rightarrow> True
      | Some base \<Rightarrow>
          (let lo = float_or (dget base ''volume_min'' VNone) (1/100); hi = float_or (dget base ''volume_max'' VNone) 100
           in (if 0 < hi then lots \<le> hi + 1 / (2 * 10 ^ 8) else True) \<and> (if 0 < lo \<and> lots \<noteq> 0 then lo \<le> lots else True)))"
proof -
  from validation_inputs [OF assms(1)] obtain n where n: "normalised_proposal p ctx = Inr n"
    "va_proposal V = complete_proposal C ctx (va_account V) (va_market V) n" by blast
  from normalised_fields [OF n(1)] assms(2) have "is_side (direction_of n)" by metis
  from completed_within [OF assms(3-5) this, of C ctx] show ?thesis
    unfolding n(2) [symmetric] within_caps_def broker_takes_def assms(6) [symmetric] Let_def by blast
qed

text \<open>
  An unreadable tick size switches the cap off: with a tick size that is no number in the market
  data, a proposal that carries its own entry and stop reaches the gate with the size the analysis
  gave it, however large, although sizing is forced and every lot is to be capped.
\<close>

theorem unreadable_tick_size_skips_the_cap:
  assumes "build_validation_inputs C p ctx = Inr V" and "is_side (direction_of p)" and "pc_force C"
    and "get_float_or0 (va_market V) ''tick_size'' = Inl e"
    and "either_float p ''entry_price'' ''price'' = Inr entry" and "entry > 0"
    and "either_float p ''stop_loss'' ''sl'' = Inr sl" and "sl > 0"
    and "either_float p ''size'' ''volume'' = Inr sz"
  shows "number (va_proposal V) ''size'' = sz"
proof -
  from validation_inputs [OF assms(1)] obtain n where n: "normalised_proposal p ctx = Inr n"
    "va_proposal V = complete_proposal C ctx (va_account V) (va_market V) n" by blast
  from normalised_fields [OF n(1)] assms(5,7,9)
  have f: "number n ''entry_price'' = entry" "number n ''stop_loss'' = sl" "number n ''size'' = sz" "direction_of n = direction_of p"
    by (metis sum.inject(2))+
  let ?q = "complete_levels (direction_of n) entry (resolved_atr ctx) (va_market V) (AList.update ''entry_price'' (VFloat entry) n)"
  have stop: "number ?q ''stop_loss'' = sl" using f assms(8) by (subst complete_levels_stop) simp_all
  have lot: "number ?q ''size'' = sz" using f by (subst complete_levels_keeps) simp_all
  from f assms(2,6) n(2) have "va_proposal V = size_proposal C (va_account V) (va_market V) entry (number ?q ''stop_loss'') ?q"
    by (simp add: complete_proposal_def Let_def)
  with size_proposal_unreadable [OF assms(4,3,6), of sl "va_account V" ?q] assms(8) stop lot show ?thesis by simp
qed

text \<open>A gold trade of fifty lots, with a readable and with an unreadable tick size.\<close>

definition demo_cfg :: pipe_cfg where
  "demo_cfg = \<lparr>pc_gate = demo_gate, pc_info = demo_terminal,
     pc_builder = \<lparr>ob_magic = 7, ob_prefix = [], ob_suffix = [], ob_spec = None\<rparr>, pc_risk_pct = 1, pc_max_lot = 1 / 20,
     pc_force = True, pc_single = True, pc_magic = 7, pc_cooldown = 900, pc_min_distance = 1, pc_htf = False, pc_htf_min = 0,
     pc_pending_guard = True, pc_freshness = True, pc_fail_cooldown = 900, pc_min_confidence = 1 / 2, pc_repr = (\<lambda>x. ''x''),
     pc_err = (\<lambda>e. ''e'')\<rparr>"

definition gold_proposal :: pydict where
  "gold_proposal = [(''symbol'', VStr ''XAUUSD''), (''direction'', VStr ''BUY''), (''confidence'', VFloat (4/5)),
     (''entry_price'', VInt 2000), (''stop_loss'', VInt 1990), (''take_profit'', VInt 2020), (''size'', VInt 50)]"

definition gold_context :: "pyval \<Rightarrow> pydict" where
  "gold_context tick = [(''symbol'', VStr ''XAUUSD''), (''account_state'', VDict demo_account), (''current_positions'', VList []),
     (''market_info'', VDict (demo_market @ [(''tick_size'', tick), (''tick_value'', VInt 1)]))]"

definition gold_inputs :: "pyval \<Rightarrow> validation" where
  "gold_inputs tick = (case build_validation_inputs demo_cfg gold_proposal (gold_context tick) of Inr V \<Rightarrow> V)"

lemma gold_reads:
  "build_validation_inputs demo_cfg gold_proposal (gold_context tick) = Inr (gold_inputs tick)"
  "va_market (gold_inputs tick) = demo_market @ [(''tick_size'', tick), (''tick_value'', VInt 1)]"
  "va_account (gold_inputs tick) = demo_account"
  "is_side (direction_of gold_proposal)"
  by (simp_all add: gold_inputs_def build_validation_inputs_def normalised_proposal_def either_float_def gold_proposal_def
      gold_context_def dget_def py_or_def get_float_or0_def dict_or_def is_side_def direction_of_def py_text_def
      upper_def to_upper_def Let_def)

theorem completed_size_is_capped_witness:
  "\<exists>lots. number (va_proposal (gold_inputs (VFloat (1/100)))) ''size'' = lots \<and> 0 \<le> lots \<and> lots \<le> 1 / 20 + 1 / (2 * 10 ^ 8)
     \<and> lots \<le> 100 + 1 / (2 * 10 ^ 8)"
  using completed_size_is_capped [OF gold_reads(1,4), of "VFloat (1/100)" 100000 "1/100" 1, OF _ _ _ refl]
  by (simp add: gold_reads(2,3) demo_cfg_def demo_account_def demo_market_def dget_def py_or_def get_float_or0_def)

theorem unreadable_tick_size_skips_the_cap_witness:
  "number (va_proposal (gold_inputs (VStr ''n/a''))) ''size'' = 50"
proof -
  have "get_float_or0 (va_market (gold_inputs (VStr ''n/a''))) ''tick_size'' = Inl ValueError"
    by (simp add: gold_reads(2) demo_market_def) code_simp
  from unreadable_tick_size_skips_the_cap [OF gold_reads(1,4) _ this, of 2000 1990 50] show ?thesis
    by (simp add: demo_cfg_def gold_proposal_def either_float_def dget_def py_or_def)
qed

end
