(* ===== verification/Fanout.thy ===== *)
theory Fanout
  imports Order_Once Order_Builder Risk_Gate
begin

text \<open>
  One signal for many accounts: \<open>trading/canonical_signal.py\<close> and \<open>execution/fanout.py\<close>. Each
  account's order is normalised by the order builder, judged by the risk gate and handed to the
  execution engine; the model composes the three as they are. The hash of an identity payload, the
  account and market readers and the binding of the terminal are parameters; the lock makes each
  operation of the ledger one step. A coordinator without an order builder is left out.
\<close>

section \<open>Canonical signals\<close>

record canonical_signal =
  cs_id :: string
  cs_opportunity :: string
  cs_symbol :: string
  cs_direction :: string
  cs_entry :: pyfloat
  cs_sl :: pyfloat
  cs_tp :: pyfloat
  cs_rr :: pyfloat
  cs_policy :: pydict
  cs_version :: string
  cs_created :: string
  cs_evidence :: string

definition risk_distance :: "canonical_signal \<Rightarrow> pyfloat" where
  "risk_distance s = \<bar>cs_entry s - cs_sl s\<bar>"

definition tp_distance :: "canonical_signal \<Rightarrow> pyfloat" where
  "tp_distance s = \<bar>cs_tp s - cs_entry s\<bar>"

definition signal_id_for :: "(pydict \<Rightarrow> string) \<Rightarrow> string \<Rightarrow> string \<Rightarrow> string \<Rightarrow> string \<Rightarrow> string \<Rightarrow> string \<Rightarrow> string" where
  "signal_id_for digest opp symbol direction version created evidence =
     ''sig_'' @ digest [(''opportunity_id'', VStr opp), (''symbol'', VStr (upper symbol)),
        (''direction'', VStr (upper direction)), (''strategy_version'', VStr version), (''created_at'', VStr created),
        (''evidence_hash'', VStr evidence)]"

definition make_canonical_signal ::
  "(pydict \<Rightarrow> string) \<Rightarrow> string \<Rightarrow> string \<Rightarrow> string \<Rightarrow> string \<Rightarrow> pyfloat \<Rightarrow> pyfloat \<Rightarrow> pyfloat \<Rightarrow> pyfloat \<Rightarrow> pydict \<Rightarrow> string
   \<Rightarrow> string option \<Rightarrow> string \<Rightarrow> string option \<Rightarrow> canonical_signal" where
  "make_canonical_signal digest now opp symbol direction entry sl tp rr policy version created evidence sid =
     (let made = opt_text created now; sym = upper symbol; dir = upper direction;
          ev = (if evidence = []
                then digest [(''symbol'', VStr sym), (''direction'', VStr dir), (''entry'', VFloat entry), (''sl'', VFloat sl),
                       (''tp'', VFloat tp), (''rr'', VFloat rr), (''risk_policy'', VDict policy)]
                else evidence)
      in \<lparr>cs_id = opt_text sid (signal_id_for digest opp sym dir version made ev), cs_opportunity = opp, cs_symbol = sym,
          cs_direction = dir, cs_entry = entry, cs_sl = sl, cs_tp = tp, cs_rr = rr, cs_policy = policy,
          cs_version = version, cs_created = made, cs_evidence = ev\<rparr>)"

datatype overall_status = SS_CREATED | SS_VALIDATED | SS_PARTIALLY | SS_EXECUTED_ALL | SS_REJECTED_ALL | SS_EXPIRED

datatype account_status =
  AC_PENDING | AC_APPROVED | AC_REJECTED | AC_SUBMITTING | AC_SUBMITTED | AC_FILLED | AC_FAILED | AC_RECONCILED | AC_CLOSED

definition terminal_statuses :: "account_status list" where
  "terminal_statuses = [AC_REJECTED, AC_FAILED, AC_FILLED, AC_RECONCILED, AC_CLOSED]"

definition executed_statuses :: "account_status list" where
  "executed_statuses = [AC_FILLED, AC_SUBMITTED, AC_RECONCILED, AC_CLOSED]"

section \<open>The ledger of dispatches\<close>

record dispatch =
  ad_signal :: string
  ad_account :: string
  ad_terminal :: string
  ad_environment :: string
  ad_status :: account_status
  ad_reason :: string
  ad_symbol :: string
  ad_volume :: pyfloat
  ad_price :: pyfloat
  ad_sl :: pyfloat
  ad_tp :: pyfloat
  ad_ticket :: "int option"

definition new_dispatch :: "string \<Rightarrow> string \<Rightarrow> string \<Rightarrow> string \<Rightarrow> dispatch" where
  "new_dispatch sid acc term env =
     \<lparr>ad_signal = sid, ad_account = acc, ad_terminal = term, ad_environment = env, ad_status = AC_PENDING, ad_reason = [],
      ad_symbol = [], ad_volume = 0, ad_price = 0, ad_sl = 0, ad_tp = 0, ad_ticket = None\<rparr>"

definition set_status :: "account_status \<Rightarrow> string \<Rightarrow> dispatch \<Rightarrow> dispatch" where
  "set_status st reason d = d\<lparr>ad_status := st, ad_reason := (if reason = [] then ad_reason d else reason)\<rparr>"

record fan_entry =
  le_signal :: canonical_signal
  le_status :: overall_status
  le_accounts :: "(string \<times> dispatch) list"

type_synonym fan_ledger = "(string \<times> fan_entry) list"

definition register_signal :: "canonical_signal \<Rightarrow> fan_ledger \<Rightarrow> bool \<times> fan_ledger" where
  "register_signal s L =
     (case map_of L (cs_id s) of
        Some e \<Rightarrow> (False, L)
      | None \<Rightarrow> (True, AList.update (cs_id s) \<lparr>le_signal = s, le_status = SS_CREATED, le_accounts = []\<rparr> L))"

definition get_account_dispatch :: "string \<Rightarrow> string \<Rightarrow> fan_ledger \<Rightarrow> dispatch option" where
  "get_account_dispatch sid acc L = (case map_of L sid of None \<Rightarrow> None | Some e \<Rightarrow> map_of (le_accounts e) acc)"

definition rollup :: "dispatch list \<Rightarrow> overall_status" where
  "rollup ds =
     (let executed = filter (\<lambda>d. ad_status d \<in> set executed_statuses) ds;
          rejected = filter (\<lambda>d. ad_status d = AC_REJECTED) ds;
          failed = filter (\<lambda>d. ad_status d = AC_FAILED) ds
      in if ds = [] then SS_VALIDATED
         else if executed \<noteq> [] \<and> length executed = length ds then SS_EXECUTED_ALL
         else if executed \<noteq> [] then SS_PARTIALLY
         else if rejected \<noteq> [] \<or> failed \<noteq> []
         then (if length rejected + length failed = length ds then SS_REJECTED_ALL else SS_PARTIALLY)
         else SS_VALIDATED)"

definition upsert_account_dispatch :: "dispatch \<Rightarrow> fan_ledger \<Rightarrow> pyerr + fan_ledger" where
  "upsert_account_dispatch d L =
     (case map_of L (ad_signal d) of
        None \<Rightarrow> Inl KeyError
      | Some e \<Rightarrow>
          (let accs = AList.update (ad_account d) d (le_accounts e)
           in Inr (AList.update (ad_signal d) (e\<lparr>le_accounts := accs, le_status := rollup (map snd accs)\<rparr>) L)))"

definition account_is_terminal :: "string \<Rightarrow> string \<Rightarrow> fan_ledger \<Rightarrow> bool" where
  "account_is_terminal sid acc L =
     (case get_account_dispatch sid acc L of None \<Rightarrow> False | Some d \<Rightarrow> ad_status d \<in> set terminal_statuses)"

definition signal_status :: "string \<Rightarrow> fan_ledger \<Rightarrow> overall_status option" where
  "signal_status sid L = map_option le_status (map_of L sid)"

definition set_signal_status :: "string \<Rightarrow> overall_status \<Rightarrow> fan_ledger \<Rightarrow> pyerr + fan_ledger" where
  "set_signal_status sid st L =
     (if st \<notin> {SS_CREATED, SS_EXPIRED} then Inl ValueError
      else Inr (case map_of L sid of None \<Rightarrow> L | Some e \<Rightarrow> AList.update sid (e\<lparr>le_status := st\<rparr>) L))"

definition reset_fan_ledger :: "fan_ledger \<Rightarrow> fan_ledger" where
  "reset_fan_ledger L = []"

section \<open>The coordinator\<close>

record 'b fanout =
  fo_engine :: "'b engine option"
  fo_gate :: "risk_gate option"
  fo_info :: "string \<Rightarrow> pydict option"
  fo_builder :: order_builder
  fo_account_state :: "(pydict \<Rightarrow> exn + pydict) option"
  fo_positions :: "(pydict \<Rightarrow> exn + pydict list) option"
  fo_market :: "(string \<Rightarrow> pydict \<Rightarrow> exn + pydict) option"
  fo_resolver :: "(string \<Rightarrow> pydict \<Rightarrow> exn + string) option"
  fo_attach :: "(string \<Rightarrow> 'b \<Rightarrow> (exn + bool) \<times> 'b) option"
  fo_restore :: "'b \<Rightarrow> 'b"
  fo_fresh :: "string \<times> string"
  fo_err :: "pyerr \<Rightarrow> string"

definition caught :: "'a \<Rightarrow> (exn + 'a) \<Rightarrow> 'a" where
  "caught dflt m = (case m of Inl e \<Rightarrow> dflt | Inr x \<Rightarrow> x)"

definition target_account :: "pydict \<Rightarrow> pydict option" where
  "target_account t = (case py_or (dget t ''account'' VNone) (VDict []) of VDict a \<Rightarrow> Some a | _ \<Rightarrow> None)"

definition account_id_for :: "pydict \<Rightarrow> string" where
  "account_id_for t =
     (let login = (case target_account t of None \<Rightarrow> VNone | Some a \<Rightarrow> dget a ''login'' VNone)
      in if login \<noteq> VNone \<and> login \<noteq> VStr [] then py_text login
         else if py_truthy (dget t ''id'' VNone) then py_text (dget t ''id'' VNone) else [])"

definition account_mode :: "pydict \<Rightarrow> string" where
  "account_mode t =
     (let mode = (case target_account t of None \<Rightarrow> VNone | Some a \<Rightarrow> dget a ''mode'' VNone)
      in if py_truthy mode then upper (py_text mode) else ''DEMO'')"

text \<open>\<open>d.setdefault(k, v)\<close>.\<close>

definition set_default :: "string \<Rightarrow> pyval \<Rightarrow> pydict \<Rightarrow> pydict" where
  "set_default k v d = (case map_of d k of Some w \<Rightarrow> d | None \<Rightarrow> AList.update k v d)"

definition account_state_of :: "'b fanout \<Rightarrow> pydict \<Rightarrow> pydict" where
  "account_state_of F t =
     (let given = (case fo_account_state F of None \<Rightarrow> [] | Some p \<Rightarrow> caught [] (p t));
          equity = (case target_account t of None \<Rightarrow> 0 | Some a \<Rightarrow> float_or (py_or (dget a ''equity'' VNone) (VFloat 0)) 0);
          st = (case target_account t of
                  None \<Rightarrow> given
                | Some a \<Rightarrow> foldl (\<lambda>d k. set_default k (dget a k VNone) d) given
                    [''login'', ''mode'', ''balance'', ''currency'', ''server''])
      in set_default ''equity'' (VFloat equity) st)"

definition account_positions :: "'b fanout \<Rightarrow> pydict \<Rightarrow> pydict list" where
  "account_positions F t = (case fo_positions F of None \<Rightarrow> [] | Some p \<Rightarrow> caught [] (p t))"

definition resolved_symbol :: "'b fanout \<Rightarrow> canonical_signal \<Rightarrow> pydict \<Rightarrow> string" where
  "resolved_symbol F s t =
     (case fo_resolver F of
        None \<Rightarrow> cs_symbol s
      | Some p \<Rightarrow> (let x = caught (cs_symbol s) (p (cs_symbol s) t) in if x = [] then cs_symbol s else x))"

definition raw_order :: "'b fanout \<Rightarrow> canonical_signal \<Rightarrow> pydict \<Rightarrow> pydict \<Rightarrow> pyfloat \<Rightarrow> pydict" where
  "raw_order F s t base volume =
     [(''symbol'', VStr (resolved_symbol F s t)), (''order_type'', VStr (cs_direction s)),
      (''direction'', VStr (cs_direction s)), (''volume'', VFloat volume), (''price'', VFloat (cs_entry s)),
      (''stop_loss'', VFloat (cs_sl s)), (''take_profit'', VFloat (cs_tp s)), (''magic'', dget base ''magic'' (VInt 70000)),
      (''comment'', py_or (dget base ''comment'' VNone) (VStr (''EA-Bot-'' @ cs_direction s)))]"

definition or_old :: "pyfloat \<Rightarrow> pyfloat \<Rightarrow> pyfloat" where
  "or_old new old = (if new = 0 then old else new)"

definition normalize_order :: "'b fanout \<Rightarrow> canonical_signal \<Rightarrow> pydict \<Rightarrow> pydict \<Rightarrow> pyerr + pydict" where
  "normalize_order F s t base =
     bindE (get_float_or0 base ''volume'') (\<lambda>volume.
       let prop = raw_order F s t base volume; quote = py_or (dget base ''market_quote'' VNone) (VDict [])
       in Inr (case build_order_request (fo_builder F) (fst (fo_fresh F)) prop (case quote of VDict q \<Rightarrow> q | _ \<Rightarrow> []) of
            Inl e \<Rightarrow> prop
          | Inr r \<Rightarrow> dict_update prop [(''volume'', VFloat (rq_volume r)), (''price'', VFloat (rq_price r)),
              (''stop_loss'', VFloat (or_old (rq_sl r) (cs_sl s))), (''take_profit'', VFloat (or_old (rq_tp r) (cs_tp s)))]))"

definition fill_missing :: "string \<Rightarrow> pyfloat \<Rightarrow> pydict \<Rightarrow> pydict" where
  "fill_missing k x d = (if \<not> py_truthy (dget d k VNone) \<and> x > 0 then AList.update k (VFloat x) d else d)"

definition augment_market_info :: "'b fanout \<Rightarrow> pyval \<Rightarrow> pydict \<Rightarrow> pydict" where
  "augment_market_info F symbol mi =
     (let sym = py_text (py_or (py_or symbol (dget mi ''symbol'' VNone)) (VStr []));
          spec = get_symbol_specification (fo_info F) sym None
      in if sym = [] then mi
         else if sp_source spec \<noteq> ''broker'' then mi
         else fill_missing ''spread_limit'' (sp_spread_limit spec)
                (fill_missing ''point_value'' (sp_point spec)
                  (fill_missing ''contract_size'' (sp_contract_size spec) (set_default ''symbol'' (VStr sym) mi))))"

definition risk_gate_account :: "'b fanout \<Rightarrow> pydict \<Rightarrow> pydict \<Rightarrow> pydict \<Rightarrow> pydict \<Rightarrow> bool \<times> string" where
  "risk_gate_account F prop state t override =
     (case fo_gate F of
        None \<Rightarrow> (True, ''no per-account risk gate configured'')
      | Some G \<Rightarrow>
          (let mi0 = (if override \<noteq> [] then override
                      else case fo_market F of None \<Rightarrow> [] | Some p \<Rightarrow> caught [] (p (py_text (dget prop ''symbol'' (VStr []))) t));
               mi = augment_market_info F (dget prop ''symbol'' (VStr [])) mi0
           in case validate_proposal (fo_info F) G prop state (account_positions F t) mi of
                Inl e \<Rightarrow> (False, ''risk gate error: '' @ fo_err F e)
              | Inr d \<Rightarrow> (gd_approved d, gd_reason d)))"

definition fan_request :: "'b fanout \<Rightarrow> canonical_signal \<Rightarrow> string \<Rightarrow> pydict \<Rightarrow> order_request option" where
  "fan_request F s acc prop =
     (case build_order_request (fo_builder F) (fst (fo_fresh F))
             (dict_update prop [(''client_order_id'', VStr (cs_id s @ '':'' @ acc)),
                (''comment'', VStr (py_text (py_or (dget prop ''comment'' VNone) (VStr ''EA-Bot'')) @ '' '' @ cs_id s))])
             (case py_or (dget prop ''market_quote'' VNone) (VDict []) of VDict q \<Rightarrow> q | _ \<Rightarrow> []) of
        Inl e \<Rightarrow> None
      | Inr r \<Rightarrow> Some (r\<lparr>rq_signal_id := Some (cs_id s), rq_account_id := Some acc\<rparr>))"

definition proposal_from_request :: "order_request \<Rightarrow> pydict \<Rightarrow> pydict" where
  "proposal_from_request r base =
     dict_update base [(''symbol'', VStr (rq_symbol r)), (''direction'', VStr (upper (rq_order_type r))),
       (''order_type'', VStr (upper (rq_order_type r))), (''volume'', VFloat (rq_volume r)), (''size'', VFloat (rq_volume r)),
       (''price'', VFloat (rq_price r)), (''entry_price'', VFloat (rq_price r)), (''stop_loss'', VFloat (rq_sl r)),
       (''take_profit'', VFloat (rq_tp r))]"

definition differs_in :: "pydict \<Rightarrow> pydict \<Rightarrow> string \<Rightarrow> bool" where
  "differs_in final approved k =
     (case (get_float_or0 final k, get_float_or0 approved k) of
        (Inr f, Inr a) \<Rightarrow> \<bar>f - a\<bar> > 1 / 10 ^ 9
      | _ \<Rightarrow> True)"

definition differs_from_approved :: "pydict \<Rightarrow> pydict \<Rightarrow> bool" where
  "differs_from_approved final approved \<longleftrightarrow>
     py_text (dget final ''symbol'' (VStr [])) \<noteq> py_text (dget approved ''symbol'' (VStr []))
     \<or> list_ex (differs_in final approved) [''volume'', ''price'', ''stop_loss'', ''take_profit'']"

section \<open>One account\<close>

definition with_levels :: "string \<Rightarrow> pydict \<Rightarrow> dispatch \<Rightarrow> dispatch" where
  "with_levels symb prop d =
     d\<lparr>ad_symbol := symb, ad_volume := float_or (dget prop ''volume'' VNone) 0, ad_price := float_or (dget prop ''price'' VNone) 0,
       ad_sl := float_or (dget prop ''stop_loss'' VNone) 0, ad_tp := float_or (dget prop ''take_profit'' VNone) 0\<rparr>"

definition sent_levels :: "order_request \<Rightarrow> pydict \<Rightarrow> dispatch \<Rightarrow> dispatch" where
  "sent_levels r prop d =
     d\<lparr>ad_symbol := rq_symbol r, ad_volume := or_old (rq_volume r) 0, ad_price := or_old (rq_price r) 0,
       ad_sl := or_old (rq_sl r) (float_or (dget prop ''stop_loss'' VNone) 0),
       ad_tp := or_old (rq_tp r) (float_or (dget prop ''take_profit'' VNone) 0)\<rparr>"

definition reason_or :: "string \<Rightarrow> string \<Rightarrow> string" where
  "reason_or r dflt = (if r = [] then dflt else r)"

definition send_account ::
  "'b fanout \<Rightarrow> 'b engine \<Rightarrow> order_request \<Rightarrow> dispatch \<Rightarrow> 'b world \<Rightarrow> dispatch \<times> 'b world" where
  "send_account F E r d w =
     (case execute_order E (fst (fo_fresh F)) (snd (fo_fresh F)) r w of
        (Inl e, w1) \<Rightarrow> (set_status AC_FAILED (take 200 (fo_err F e)) d, w1)
      | (Inr res, w1) \<Rightarrow>
          (let d1 = d\<lparr>ad_ticket := er_ticket res\<rparr>
           in if er_success res then (set_status AC_FILLED ''order terisi'' d1, w1)
              else (set_status AC_FAILED (reason_or (er_message res) ''execution failed'') d1, w1)))"

definition process_account ::
  "'b fanout \<Rightarrow> canonical_signal \<Rightarrow> pydict \<Rightarrow> pydict \<Rightarrow> dispatch \<Rightarrow> 'b world \<Rightarrow> dispatch \<times> 'b world" where
  "process_account F s t base d w =
     (case normalize_order F s t base of
        Inl e \<Rightarrow> (set_status AC_FAILED (take 200 (fo_err F e)) d, w)
      | Inr prop \<Rightarrow>
          (let acc = account_id_for t; state = account_state_of F t;
               d1 = with_levels (resolved_symbol F s t) prop d;
               (ok, why) = risk_gate_account F prop state t []
           in if \<not> ok then (set_status AC_REJECTED (reason_or why ''risk ditolak'') d1, w)
              else case fo_engine F of
                None \<Rightarrow> (set_status AC_REJECTED ''no execution engine configured''
                          (set_status AC_APPROVED (reason_or why ''risk approved'') d1), w)
              | Some E \<Rightarrow>
                  (let d2 = set_status AC_SUBMITTING ''mengirim order'' (set_status AC_APPROVED (reason_or why ''risk approved'') d1)
                   in case fan_request F s acc prop of
                        None \<Rightarrow> (set_status AC_FAILED ''urutan tidak dapat dibangun'' d2, w)
                      | Some r \<Rightarrow>
                          (let final = proposal_from_request r prop;
                               changed = differs_from_approved final prop;
                               (ok2, why2) = (if changed then risk_gate_account F final state t
                                    (augment_market_info F (dget final ''symbol'' (VStr [])) []) else (True, []))
                           in if \<not> ok2
                              then (set_status AC_REJECTED (''final order re-validation rejected: '' @ reason_or why2 ''risk ditolak'') d2, w)
                              else send_account F E r (sent_levels r (if changed then final else prop) d2) w))))"

definition reattach_for_target :: "'b fanout \<Rightarrow> pydict \<Rightarrow> 'b world \<Rightarrow> (bool \<times> string) \<times> 'b world" where
  "reattach_for_target F t w =
     (let path = dget t ''path'' VNone; tid = py_text (dget t ''id'' VNone)
      in if \<not> py_truthy path then ((True, []), w)
         else case fo_attach F of
             None \<Rightarrow> ((True, []), w)
           | Some p \<Rightarrow> (case p (py_text path) (w_broker w) of
               (Inl e, b) \<Rightarrow> ((False, ''gagal attach ke terminal '' @ [CHR 0x27] @ tid @ [CHR 0x27] @ '': '' @ e), w\<lparr>w_broker := b\<rparr>)
             | (Inr ok, b) \<Rightarrow>
                 (if ok then ((True, []), w\<lparr>w_broker := b\<rparr>)
                  else ((False, ''gagal attach ke terminal '' @ [CHR 0x27] @ tid @ [CHR 0x27]), w\<lparr>w_broker := b\<rparr>))))"

section \<open>All accounts\<close>

record fan_state =
  fs_ledger :: fan_ledger
  fs_rows :: "dispatch list"
  fs_executed :: nat
  fs_rejected :: nat
  fs_failed :: nat
  fs_duplicates :: nat

text \<open>Filing a dispatch; the signal has been registered, so this cannot raise.\<close>

definition file_dispatch :: "dispatch \<Rightarrow> fan_ledger \<Rightarrow> fan_ledger" where
  "file_dispatch d L = (case upsert_account_dispatch d L of Inl e \<Rightarrow> L | Inr L1 \<Rightarrow> L1)"

definition count_status :: "dispatch \<Rightarrow> fan_state \<Rightarrow> fan_state" where
  "count_status d S =
     (if ad_status d \<in> set executed_statuses then S\<lparr>fs_executed := Suc (fs_executed S)\<rparr>
      else if ad_status d = AC_REJECTED then S\<lparr>fs_rejected := Suc (fs_rejected S)\<rparr>
      else if ad_status d = AC_FAILED then S\<lparr>fs_failed := Suc (fs_failed S)\<rparr> else S)"

definition closed_dispatch :: "dispatch \<Rightarrow> fan_state \<Rightarrow> fan_state" where
  "closed_dispatch d S =
     (let S1 = count_status d (S\<lparr>fs_ledger := file_dispatch d (fs_ledger S)\<rparr>)
      in S1\<lparr>fs_rows := fs_rows S1 @ [d]\<rparr>)"

definition fan_target ::
  "'b fanout \<Rightarrow> canonical_signal \<Rightarrow> pydict \<Rightarrow> pydict \<Rightarrow> fan_state \<times> 'b world \<Rightarrow> fan_state \<times> 'b world" where
  "fan_target F s base t sw =
     (case sw of (S, w) \<Rightarrow>
        let acc = account_id_for t; L = fs_ledger S
        in if acc = [] then (S, w)
           else if account_is_terminal (cs_id s) acc L
           then (S\<lparr>fs_duplicates := Suc (fs_duplicates S),
                   fs_rows := fs_rows S @ (case get_account_dispatch (cs_id s) acc L of None \<Rightarrow> [] | Some d \<Rightarrow> [d])\<rparr>, w)
           else let d0 = new_dispatch (cs_id s) acc (py_text (py_or (dget t ''id'' VNone) (VStr []))) (account_mode t);
                    S0 = S\<lparr>fs_ledger := file_dispatch d0 L\<rparr>;
                    ((ok, msg), w1) = reattach_for_target F t w
                in if \<not> ok then (closed_dispatch (set_status AC_FAILED msg d0) S0, w1)
                   else case process_account F s t base d0 w1 of (d, w2) \<Rightarrow> (closed_dispatch d S0, w2))"

definition fan_out ::
  "'b fanout \<Rightarrow> canonical_signal \<Rightarrow> pydict list \<Rightarrow> pydict \<Rightarrow> fan_ledger \<Rightarrow> 'b world \<Rightarrow> fan_state \<times> 'b world" where
  "fan_out F s targets base L w =
     (case foldl (\<lambda>sw t. fan_target F s base t sw)
             (\<lparr>fs_ledger = snd (register_signal s L), fs_rows = [], fs_executed = 0, fs_rejected = 0, fs_failed = 0,
               fs_duplicates = 0\<rparr>, w) targets of
        (S, w1) \<Rightarrow> (S, w1\<lparr>w_broker := fo_restore F (w_broker w1)\<rparr>))"

section \<open>Lemmas\<close>

lemma raw_order_entry: "map_of (raw_order F s t base v) ''entry_price'' = None"
  by (simp add: raw_order_def)

lemma normalized_entry:
  assumes "normalize_order F s t base = Inr prop"
  shows "map_of prop ''entry_price'' = None"
proof -
  have keep: "map_of (dict_update (raw_order F s t base v) [(''volume'', a), (''price'', b), (''stop_loss'', c), (''take_profit'', d)])
      ''entry_price'' = None" for v a b c d
    by (subst map_of_dict_update_notin) (simp_all add: raw_order_entry)
  show ?thesis
  proof (cases "get_float_or0 base ''volume''")
    case (Inl e)
    with assms show ?thesis by (simp add: normalize_order_def)
  next
    case (Inr v)
    show ?thesis
    proof (cases "build_order_request (fo_builder F) (fst (fo_fresh F)) (raw_order F s t base v)
        (case py_or (dget base ''market_quote'' VNone) (VDict []) of VDict q \<Rightarrow> q | _ \<Rightarrow> [])")
      case (Inl e)
      with \<open>get_float_or0 base ''volume'' = Inr v\<close> assms have "prop = raw_order F s t base v"
        by (simp add: normalize_order_def Let_def)
      then show ?thesis by (simp only: raw_order_entry)
    next
      case (Inr r)
      with \<open>get_float_or0 base ''volume'' = Inr v\<close> assms show ?thesis
        by (simp only: normalize_order_def Let_def bindE.simps sum.case sum.inject)
           (hypsubst, simp only: keep)
    qed
  qed
qed

lemma no_entry_no_approval:
  assumes "map_of prop ''entry_price'' = None" "validate_proposal info G prop a ps mi = Inr d"
  shows "\<not> gd_approved d"
proof
  assume "gd_approved d"
  from approved_approving [OF assms(2) this] obtain cs entry sl tp where
    "approving info G prop a ps mi cs entry sl tp" by blast
  then have "get_float prop ''entry_price'' (VFloat 0) = Inr entry" "accepts (gate_levels G entry sl tp)"
    unfolding approving_def Let_def by blast+
  with assms(1) show False by (auto simp: get_float_def dget_def gate_levels_def accepts_iff passes_def)
qed

lemma gated_account_rejected:
  assumes "fo_gate F = Some G" "map_of prop ''entry_price'' = None"
  shows "\<not> fst (risk_gate_account F prop state t override)"
  using assms no_entry_no_approval [OF assms(2)] by (auto simp: risk_gate_account_def Let_def split: sum.splits)

lemma process_gated:
  assumes "fo_gate F = Some G" "process_account F s t base d w = (d1, w1)"
  shows "w1 = w \<and> ad_status d1 \<in> {AC_REJECTED, AC_FAILED}"
proof (cases "normalize_order F s t base")
  case (Inl e)
  with assms(2) show ?thesis by (auto simp: process_account_def set_status_def)
next
  case (Inr pr)
  have "\<not> fst (risk_gate_account F pr (account_state_of F t) t [])"
    using gated_account_rejected [OF assms(1) normalized_entry [OF Inr]] .
  with assms(2) Inr show ?thesis
    by (auto simp: process_account_def set_status_def Let_def split: prod.splits)
qed

lemma set_status_keeps [simp]:
  "ad_status (set_status st r d) = st" "ad_signal (set_status st r d) = ad_signal d" "ad_account (set_status st r d) = ad_account d"
  by (simp_all add: set_status_def)

lemma levels_keep [simp]:
  "ad_signal (with_levels symb prop d) = ad_signal d" "ad_account (with_levels symb prop d) = ad_account d"
  "ad_signal (sent_levels r prop d) = ad_signal d" "ad_account (sent_levels r prop d) = ad_account d"
  by (simp_all add: with_levels_def sent_levels_def)

definition settled :: "dispatch \<Rightarrow> bool" where
  "settled d \<longleftrightarrow> ad_status d \<in> {AC_REJECTED, AC_FAILED, AC_FILLED}"

lemma send_account_settles:
  "send_account F E r d w = (d1, w1) \<Longrightarrow> settled d1 \<and> ad_signal d1 = ad_signal d \<and> ad_account d1 = ad_account d"
  by (auto simp: send_account_def settled_def Let_def split: prod.splits sum.splits if_splits)

lemma process_account_settles:
  assumes "process_account F s t base d w = (d1, w1)"
  shows "settled d1 \<and> ad_signal d1 = ad_signal d \<and> ad_account d1 = ad_account d"
proof (cases "normalize_order F s t base")
  case (Inl e)
  with assms show ?thesis by (auto simp: process_account_def settled_def)
next
  case (Inr pr)
  obtain ok why where g: "risk_gate_account F pr (account_state_of F t) t [] = (ok, why)" by fastforce
  show ?thesis
  proof (cases "fo_engine F")
    case None
    with assms Inr g show ?thesis by (auto simp: process_account_def settled_def Let_def split: if_splits)
  next
    case (Some E)
    show ?thesis
    proof (cases "fan_request F s (account_id_for t) pr")
      case None
      with assms Inr g Some show ?thesis by (auto simp: process_account_def settled_def Let_def split: if_splits)
    next
      case (Some r)
      with assms Inr g \<open>fo_engine F = Some E\<close> show ?thesis
        by (auto simp: process_account_def settled_def Let_def split: if_splits prod.splits dest!: send_account_settles)
    qed
  qed
qed

lemma reattach_world: "reattach_for_target F t w = (r, w1) \<Longrightarrow> w_sent w1 = w_sent w \<and> w_ledger w1 = w_ledger w"
  by (auto simp: reattach_for_target_def Let_def split: option.splits prod.splits sum.splits if_splits)

text \<open>How the ledger of one signal looks after an operation.\<close>

definition accounts_of :: "string \<Rightarrow> fan_ledger \<Rightarrow> (string \<times> dispatch) list option" where
  "accounts_of sid L = map_option le_accounts (map_of L sid)"

lemma accounts_of_file:
  "ad_signal d = sid \<Longrightarrow> accounts_of sid (file_dispatch d L) = map_option (AList.update (ad_account d) d) (accounts_of sid L)"
  by (auto simp: accounts_of_def file_dispatch_def upsert_account_dispatch_def Let_def split: option.splits)

lemma status_of_file:
  "ad_signal d = sid \<Longrightarrow> map_of L sid = Some e \<Longrightarrow>
   signal_status sid (file_dispatch d L) = Some (rollup (map snd (AList.update (ad_account d) d (le_accounts e))))"
  by (simp add: signal_status_def file_dispatch_def upsert_account_dispatch_def Let_def)

lemma terminal_iff:
  "account_is_terminal sid acc L \<longleftrightarrow>
     (\<exists>as d. accounts_of sid L = Some as \<and> map_of as acc = Some d \<and> ad_status d \<in> set terminal_statuses)"
  by (auto simp: account_is_terminal_def get_account_dispatch_def accounts_of_def split: option.splits)

lemma settled_terminal: "settled d \<Longrightarrow> ad_status d \<in> set terminal_statuses"
  by (auto simp: settled_def terminal_statuses_def)

lemma closed_dispatch_ledger [simp]: "fs_ledger (closed_dispatch d S) = file_dispatch d (fs_ledger S)"
  by (simp add: closed_dispatch_def count_status_def Let_def)

lemma registered: "accounts_of (cs_id s) (snd (register_signal s L)) \<noteq> None"
  by (auto simp: accounts_of_def register_signal_def split: option.splits)

text \<open>One target either changes no ledger, or files a settled dispatch over a pending one.\<close>

lemma fan_target_cases:
  assumes "fan_target F s base t (S, w) = (S1, w1)"
  shows "(fs_ledger S1 = fs_ledger S \<and> w1 = w \<and> fs_executed S1 = fs_executed S
           \<and> (account_id_for t = [] \<or> account_is_terminal (cs_id s) (account_id_for t) (fs_ledger S)))
     \<or> (\<exists>d0 d. account_id_for t \<noteq> [] \<and> \<not> account_is_terminal (cs_id s) (account_id_for t) (fs_ledger S)
          \<and> settled d \<and> ad_signal d0 = cs_id s \<and> ad_signal d = cs_id s
          \<and> ad_account d0 = account_id_for t \<and> ad_account d = account_id_for t
          \<and> fs_ledger S1 = file_dispatch d (file_dispatch d0 (fs_ledger S)))"
proof (cases "account_id_for t = [] \<or> account_is_terminal (cs_id s) (account_id_for t) (fs_ledger S)")
  case True
  with assms show ?thesis by (auto simp: fan_target_def Let_def split: if_splits)
next
  case False
  let ?d0 = "new_dispatch (cs_id s) (account_id_for t) (py_text (py_or (dget t ''id'' VNone) (VStr []))) (account_mode t)"
  let ?S0 = "S\<lparr>fs_ledger := file_dispatch ?d0 (fs_ledger S)\<rparr>"
  have d0: "ad_signal ?d0 = cs_id s" "ad_account ?d0 = account_id_for t" by (simp_all add: new_dispatch_def)
  obtain ok msg w0 where r: "reattach_for_target F t w = ((ok, msg), w0)" by (metis prod.exhaust)
  show ?thesis
  proof (cases ok)
    case True
    obtain d w2 where p: "process_account F s t base ?d0 w0 = (d, w2)" by fastforce
    from process_account_settles [OF this] d0 have "settled d" "ad_signal d = cs_id s" "ad_account d = account_id_for t" by simp_all
    moreover from assms False r True p have "S1 = closed_dispatch d ?S0" by (simp add: fan_target_def Let_def)
    ultimately show ?thesis using False d0 by (intro disjI2 exI [of _ ?d0] exI [of _ d]) simp
  next
    case not_ok: False
    have "settled (set_status AC_FAILED msg ?d0)" by (simp add: settled_def)
    moreover from assms False r not_ok have "S1 = closed_dispatch (set_status AC_FAILED msg ?d0) ?S0"
      by (simp add: fan_target_def Let_def)
    ultimately show ?thesis using False d0 by (intro disjI2 exI [of _ ?d0] exI [of _ "set_status AC_FAILED msg ?d0"]) simp
  qed
qed

lemma fan_target_terminal:
  assumes "fan_target F s base t (S, w) = (S1, w1)" "accounts_of (cs_id s) (fs_ledger S) \<noteq> None"
  shows "accounts_of (cs_id s) (fs_ledger S1) \<noteq> None"
    and "account_id_for t \<noteq> [] \<Longrightarrow> account_is_terminal (cs_id s) (account_id_for t) (fs_ledger S1)"
    and "account_is_terminal (cs_id s) acc (fs_ledger S) \<Longrightarrow> account_is_terminal (cs_id s) acc (fs_ledger S1)"
  using fan_target_cases [OF assms(1)] assms(2)
  by (auto simp: accounts_of_file terminal_iff dest: settled_terminal)

lemma fan_run_terminal:
  assumes "foldl (\<lambda>sw t. fan_target F s base t sw) (S, w) ts = (S1, w1)" "accounts_of (cs_id s) (fs_ledger S) \<noteq> None"
  shows "accounts_of (cs_id s) (fs_ledger S1) \<noteq> None
     \<and> (\<forall>acc. acc \<noteq> [] \<and> (acc \<in> account_id_for ` set ts \<or> account_is_terminal (cs_id s) acc (fs_ledger S)) \<longrightarrow>
          account_is_terminal (cs_id s) acc (fs_ledger S1))"
  using assms
proof (induction ts arbitrary: S w)
  case (Cons t ts)
  obtain S0 w0 where t: "fan_target F s base t (S, w) = (S0, w0)" by fastforce
  note step = fan_target_terminal [OF t Cons.prems(2)]
  from Cons.prems(1) t have "foldl (\<lambda>sw t. fan_target F s base t sw) (S0, w0) ts = (S1, w1)" by simp
  from Cons.IH [OF this step(1)] step(2,3) show ?case by auto
qed simp

section \<open>Properties\<close>

lemma fan_target_gated:
  assumes "fo_gate F = Some G" "fan_target F s base t (S, w) = (S1, w1)"
  shows "fs_executed S1 = fs_executed S \<and> w_sent w1 = w_sent w \<and> w_ledger w1 = w_ledger w"
proof -
  let ?d0 = "new_dispatch (cs_id s) (account_id_for t) (py_text (py_or (dget t ''id'' VNone) (VStr []))) (account_mode t)"
  obtain ok msg w0 where r: "reattach_for_target F t w = ((ok, msg), w0)" by (metis prod.exhaust)
  obtain d w2 where p: "process_account F s t base ?d0 w0 = (d, w2)" by fastforce
  have "fs_executed (closed_dispatch d S) = fs_executed S" if "ad_status d \<in> {AC_REJECTED, AC_FAILED}" for d S
    using that by (auto simp: closed_dispatch_def count_status_def executed_statuses_def Let_def)
  with assms(2) r p process_gated [OF assms(1) p] reattach_world [OF r] show ?thesis
    by (auto simp: fan_target_def Let_def split: if_splits)
qed

lemma fan_run_gated:
  assumes "fo_gate F = Some G" "foldl (\<lambda>sw t. fan_target F s base t sw) (S, w) ts = (S1, w1)"
  shows "fs_executed S1 = fs_executed S \<and> w_sent w1 = w_sent w \<and> w_ledger w1 = w_ledger w"
  using assms(2)
proof (induction ts arbitrary: S w)
  case (Cons t ts)
  obtain S0 w0 where t: "fan_target F s base t (S, w) = (S0, w0)" by fastforce
  with Cons.prems have "foldl (\<lambda>sw t. fan_target F s base t sw) (S0, w0) ts = (S1, w1)" by simp
  from Cons.IH [OF this] fan_target_gated [OF assms(1) t] show ?case by simp
qed simp

lemma fan_out_gated:
  "case fan_out (F\<lparr>fo_gate := Some G\<rparr>) s targets base L w of
     (S, w1) \<Rightarrow> fs_executed S = 0 \<and> w_sent w1 = w_sent w \<and> w_ledger w1 = w_ledger w"
proof -
  let ?F = "F\<lparr>fo_gate := Some G\<rparr>"
  let ?S = "\<lparr>fs_ledger = snd (register_signal s L), fs_rows = [], fs_executed = 0, fs_rejected = 0, fs_failed = 0,
    fs_duplicates = 0\<rparr>"
  obtain S w1 where "foldl (\<lambda>sw t. fan_target ?F s base t sw) (?S, w) targets = (S, w1)" by fastforce
  with fan_run_gated [of ?F G, OF _ this] show ?thesis by (simp add: fan_out_def)
qed

text \<open>
  With the risk gate wired in, the fan-out executes nothing: the order it shows to the gate carries
  its price and volume under other names than the entry price and size the gate reads, so every
  account is refused whatever the signal, the accounts and the limits are; nothing is sent and no
  order is filed.
\<close>

theorem gated_fanout_executes_nothing:
  "case fan_out (F\<lparr>fo_gate := Some G\<rparr>) s targets base L w of
     (S, w1) \<Rightarrow> fs_executed S = 0 \<and> w_sent w1 = w_sent w \<and> w_ledger w1 = w_ledger w"
  by (rule fan_out_gated)

lemma fan_run_duplicates:
  assumes "list_all (\<lambda>t. account_id_for t = [] \<or> account_is_terminal (cs_id s) (account_id_for t) (fs_ledger S)) ts"
    and "foldl (\<lambda>sw t. fan_target F s base t sw) (S, w) ts = (S1, w1)"
  shows "w1 = w \<and> fs_ledger S1 = fs_ledger S \<and> fs_executed S1 = fs_executed S
    \<and> fs_duplicates S1 = fs_duplicates S + length (filter (\<lambda>t. account_id_for t \<noteq> []) ts)"
  using assms
proof (induction ts arbitrary: S)
  case (Cons t ts)
  obtain S0 w0 where t: "fan_target F s base t (S, w) = (S0, w0)" by fastforce
  with Cons.prems(1) have 0: "w0 = w" "fs_ledger S0 = fs_ledger S" "fs_executed S0 = fs_executed S"
    "fs_duplicates S0 = fs_duplicates S + (if account_id_for t = [] then 0 else 1)"
    by (auto simp: fan_target_def Let_def split: if_splits)
  from Cons.IH [of S0] Cons.prems t 0 show ?case by simp
qed simp

text \<open>
  C12. An account gets one dispatch per signal: once a signal has been fanned out, fanning it out again,
  with whatever coordinator, engine, gate and proposal, counts each account of the first round as a
  duplicate and neither sends, files nor re-judges anything.
\<close>

theorem repeated_fanout_sends_nothing:
  assumes "account_id_for ` set again \<subseteq> account_id_for ` set targets" and "cs_id s' = cs_id s"
  shows "case fan_out F s targets base L w of (S, w1) \<Rightarrow>
     case fan_out F' s' again base' (fs_ledger S) v of (S1, v1) \<Rightarrow>
       w_sent v1 = w_sent v \<and> w_ledger v1 = w_ledger v \<and> fs_ledger S1 = fs_ledger S \<and> fs_executed S1 = 0
       \<and> fs_duplicates S1 = length (filter (\<lambda>t. account_id_for t \<noteq> []) again)"
proof -
  let ?S = "\<lambda>L. \<lparr>fs_ledger = L, fs_rows = [], fs_executed = 0, fs_rejected = 0, fs_failed = 0, fs_duplicates = 0\<rparr>"
  obtain S w1 where f: "foldl (\<lambda>sw t. fan_target F s base t sw) (?S (snd (register_signal s L)), w) targets = (S, w1)"
    by fastforce
  have "accounts_of (cs_id s) (fs_ledger (?S (snd (register_signal s L)))) \<noteq> None" using registered [of s L] by simp
  note run = fan_run_terminal [OF f this]
  from run have "map_of (fs_ledger S) (cs_id s) \<noteq> None" by (auto simp: accounts_of_def)
  with assms(2) have same: "snd (register_signal s' (fs_ledger S)) = fs_ledger S"
    by (auto simp: register_signal_def split: option.splits)
  obtain S1 v1 where g: "foldl (\<lambda>sw t. fan_target F' s' base' t sw) (?S (fs_ledger S), v) again = (S1, v1)" by fastforce
  have "account_id_for t = [] \<or> account_is_terminal (cs_id s') (account_id_for t) (fs_ledger S)" if "t \<in> set again" for t
    using that run assms by (cases "account_id_for t = []") auto
  then have "list_all (\<lambda>t. account_id_for t = [] \<or> account_is_terminal (cs_id s') (account_id_for t) (fs_ledger (?S (fs_ledger S)))) again"
    by (simp add: list_all_iff)
  from fan_run_duplicates [OF this g] f g same show ?thesis by (simp add: fan_out_def)
qed

definition demo_signal :: canonical_signal where
  "demo_signal = \<lparr>cs_id = ''s1'', cs_opportunity = ''e1'', cs_symbol = ''EURUSD'', cs_direction = ''BUY'', cs_entry = 2,
     cs_sl = 1, cs_tp = 3, cs_rr = 1, cs_policy = [], cs_version = ''v'', cs_created = ''t'', cs_evidence = ''h''\<rparr>"

definition demo_fanout :: "nat fanout" where
  "demo_fanout = \<lparr>fo_engine = Some (demo_engine\<lparr>en_require_approval := False\<rparr>), fo_gate = None, fo_info = (\<lambda>s. None),
     fo_builder = \<lparr>ob_magic = 7, ob_prefix = [], ob_suffix = [], ob_spec = None\<rparr>, fo_account_state = None,
     fo_positions = None, fo_market = None, fo_resolver = None, fo_attach = None, fo_restore = (\<lambda>b. b),
     fo_fresh = (''F'', ''G''), fo_err = (\<lambda>e. ''e'')\<rparr>"

definition demo_targets :: "pydict list" where
  "demo_targets = [[(''id'', VStr ''A''), (''account'', VDict [(''login'', VInt 11)])],
     [(''id'', VStr ''B''), (''account'', VDict [(''login'', VInt 12)])]]"

definition demo_base :: pydict where
  "demo_base = [(''volume'', VFloat 1)]"

theorem repeated_fanout_sends_nothing_witness:
  "case fan_out demo_fanout demo_signal demo_targets demo_base [] demo_world of (S, w1) \<Rightarrow>
     case fan_out demo_fanout demo_signal demo_targets demo_base (fs_ledger S) w1 of (S1, v1) \<Rightarrow>
       w_sent v1 = w_sent w1 \<and> fs_executed S = 2"
proof -
  obtain S w1 where f: "fan_out demo_fanout demo_signal demo_targets demo_base [] demo_world = (S, w1)" by fastforce
  have "fs_executed (fst (fan_out demo_fanout demo_signal demo_targets demo_base [] demo_world)) = 2" by code_simp
  with f repeated_fanout_sends_nothing [where again = demo_targets and targets = demo_targets and s' = demo_signal and
      s = demo_signal and F = demo_fanout and base = demo_base and L = "[]" and w = demo_world and F' = demo_fanout and
      base' = demo_base and v = w1] show ?thesis
    by (simp split: prod.splits)
qed

end
