(* ===== verification/Pipeline.thy ===== *)
theory Pipeline
  imports Proposal Fanout
begin

text \<open>
  One decision cycle: \<open>TradingPipeline.run\<close> of \<open>orchestration/pipeline.py\<close>, on the models of the
  signal registry, the freshness check, the risk gate, the order builder, the execution engine and the
  fan-out. What comes from outside the cycle is in \<open>cycle\<close>: the event and context, the clock, fresh
  identifiers, the supervisor's answer, the decision chain, the strategy in force, the answers of the
  three guards, the plan of the zone gate. The engine's own fan-out is a parameter. The reports handed
  to the result hook and the contexts handed to the supervisor are recorded in the state.
\<close>

section \<open>Results and state\<close>

record stage =
  sg_stage :: string
  sg_status :: string
  sg_detail :: string

record pipe_result =
  pr_event_id :: string
  pr_decision :: string
  pr_status :: string
  pr_task_id :: string
  pr_decision_id :: string
  pr_proposal_id :: string
  pr_execution_id :: string
  pr_client_order_id :: string
  pr_version :: string
  pr_risk_approved :: bool
  pr_risk_reason :: string
  pr_executed :: bool
  pr_execution :: "exec_result option"
  pr_trace :: "stage list"
  pr_error :: "string option"
  pr_event_type :: string
  pr_confidence :: pyfloat
  pr_summary :: string
  pr_trace_id :: string
  pr_symbol :: string
  pr_levels :: "pydict option"
  pr_agents :: pydict
  pr_supervisor_summary :: string
  pr_source :: string
  pr_record :: pydict
  pr_narrative :: string
  pr_signal :: "canonical_signal option"
  pr_signal_id :: string
  pr_fanout :: "fan_state option"
  pr_final_order :: "pydict option"
  pr_chain :: pydict
  pr_correlation :: "(string \<times> string) list"

record 'b pipe_state =
  ps_signals :: signals
  ps_last :: last_entries
  ps_params :: pydict
  ps_version :: string
  ps_world :: "'b world"
  ps_fan :: fan_ledger
  ps_meetings :: "pydict list"
  ps_reports :: "pipe_result list"

record multi_row =
  mu_terminal :: string
  mu_success :: bool
  mu_ticket :: "int option"
  mu_message :: string

record multi_result =
  mr_rows :: "multi_row list"
  mr_any :: bool
  mr_succeeded :: int
  mr_failed :: int
  mr_total :: int

record 'b pipeline =
  pi_cfg :: pipe_cfg
  pi_engine :: "'b engine option"
  pi_multi :: "(order_request \<Rightarrow> pyfloat \<Rightarrow> pyfloat \<Rightarrow> 'b world \<Rightarrow> (pyerr + multi_result) \<times> 'b world) option"
  pi_coordinator :: "'b fanout option"
  pi_digest :: "pydict \<Rightarrow> string"

record cycle =
  cy_event :: pydict
  cy_context :: pydict
  cy_now :: pyfloat
  cy_stamp :: string
  cy_isot :: "string \<Rightarrow> pyfloat option"
  cy_ids :: "string \<Rightarrow> string"
  cy_snapshots :: snapshots
  cy_source :: string
  cy_lessons :: "(string \<Rightarrow> exn + pyval) option"
  cy_supervisor :: "pydict \<Rightarrow> exn + pyval"
  cy_chain :: "pyval \<Rightarrow> string \<Rightarrow> string \<Rightarrow> string \<Rightarrow> pydict"
  cy_strategy :: "(exn + pyval) option"
  cy_dependency :: "(exn + bool \<times> string) option"
  cy_reconciliation :: "(exn + bool \<times> string) option"
  cy_readiness :: "(exn + bool \<times> string) option"
  cy_zone :: "(string \<Rightarrow> pydict \<Rightarrow> validation \<Rightarrow> pydict \<Rightarrow> pydict option \<times> string) option"
  cy_armed :: nat
  cy_targets :: "pydict list"

type_synonym 'b cycle_end = "(pyerr + pipe_result) \<times> 'b pipe_state"

definition add_stage :: "string \<Rightarrow> string \<Rightarrow> string \<Rightarrow> pipe_result \<Rightarrow> pipe_result" where
  "add_stage s status detail r = r\<lparr>pr_trace := pr_trace r @ [\<lparr>sg_stage = s, sg_status = status, sg_detail = detail\<rparr>]\<rparr>"

definition correlate :: "string \<Rightarrow> string \<Rightarrow> pipe_result \<Rightarrow> pipe_result" where
  "correlate k v r = r\<lparr>pr_correlation := AList.update k v (pr_correlation r)\<rparr>"

text \<open>Every exit of a cycle: the hook sees the finished result, unless the exit is a silent one.\<close>

definition finalise :: "bool \<Rightarrow> pipe_result \<Rightarrow> 'b pipe_state \<Rightarrow> 'b cycle_end" where
  "finalise emit r st = (Inr r, if emit then st\<lparr>ps_reports := ps_reports st @ [r]\<rparr> else st)"

definition arrow :: string where
  "arrow = map char_of [32, 226, 134, 146, 32 :: nat]"

section \<open>The event\<close>

definition event_id :: "cycle \<Rightarrow> string" where
  "event_id cy =
     (let v = py_or (dget (cy_event cy) ''event_id'' VNone) (dget (cy_event cy) ''id'' VNone)
      in if py_truthy v then py_text v else cy_ids cy ''evt'')"

definition event_type :: "cycle \<Rightarrow> string" where
  "event_type cy =
     (case dget (cy_event cy) ''event_type'' VNone of
        VNone \<Rightarrow> (case dget (cy_context cy) ''event_type'' VNone of VNone \<Rightarrow> ''UNKNOWN'' | v \<Rightarrow> py_text v)
      | v \<Rightarrow> py_text v)"

definition event_symbol :: "cycle \<Rightarrow> string" where
  "event_symbol cy =
     (let v = py_or (dget (cy_event cy) ''symbol'' VNone) (dget (cy_context cy) ''symbol'' VNone)
      in if py_truthy v then py_text v else [])"

definition own_snapshot :: "cycle \<Rightarrow> pydict" where
  "own_snapshot cy = as_dict (dget (cy_event cy) ''market_snapshot'' VNone)"

definition resolve_market_snapshot :: "cycle \<Rightarrow> string \<Rightarrow> pydict option" where
  "resolve_market_snapshot cy symbol =
     (if own_snapshot cy \<noteq> [] then Some (own_snapshot cy)
      else case get_latest_snapshot symbol (cy_snapshots cy) of None \<Rightarrow> None | Some s \<Rightarrow> if s = [] then None else Some s)"

definition judged_snapshot :: "cycle \<Rightarrow> string \<Rightarrow> pydict option" where
  "judged_snapshot cy symbol =
     (case resolve_market_snapshot cy symbol of
        Some s \<Rightarrow> Some s
      | None \<Rightarrow> (let e = as_dict (dget (cy_context cy) ''market_snapshot'' VNone) in if e = [] then None else Some e))"

definition stale_snapshot_reason :: "cycle \<Rightarrow> string \<Rightarrow> string" where
  "stale_snapshot_reason cy symbol =
     (case judged_snapshot cy symbol of
        None \<Rightarrow> []
      | Some s \<Rightarrow>
          (let verdict = evaluate_freshness (cy_isot cy) (cy_now cy)
                 (py_or (dget s ''timeframe'' VNone) (dget (cy_context cy) ''timeframe'' VNone))
                 (if symbol = [] then VNone else VStr symbol) None s
           in if fv_accepted verdict then []
              else if fv_reason verdict = [] then ''stale_market_data'' else fv_reason verdict))"

definition merge_snapshot :: "cycle \<Rightarrow> pydict \<Rightarrow> pydict" where
  "merge_snapshot cy ctx =
     (let own = own_snapshot cy;
          s = (if own \<noteq> [] then own
               else case get_latest_snapshot (py_text (py_or (dget ctx ''symbol'' VNone) (VStr []))) (cy_snapshots cy) of
                   None \<Rightarrow> [] | Some s \<Rightarrow> s)
      in foldl (\<lambda>c (k, v). set_default k v c) ctx s)"

definition build_analysis_context :: "cycle \<Rightarrow> pydict" where
  "build_analysis_context cy =
     (let c1 = set_default ''event'' (VDict (cy_event cy)) (AList.update ''event_type'' (VStr (event_type cy)) (cy_context cy));
          closed = as_dict (dget (cy_event cy) ''trade_result'' VNone);
          c2 = (if closed \<noteq> [] then set_default ''closed_trade'' (VDict closed) c1 else c1);
          symb = dget (cy_event cy) ''symbol'' VNone;
          c3 = (if py_truthy symb then set_default ''symbol'' symb c2 else c2);
          c4 = set_default ''data_source'' (VStr (cy_source cy)) (merge_snapshot cy c3)
      in case cy_lessons cy of
           None \<Rightarrow> c4
         | Some provider \<Rightarrow>
             (case provider (py_text (py_or (dget c4 ''symbol'' VNone) (VStr ''*''))) of
                Inl e \<Rightarrow> c4 | Inr v \<Rightarrow> AList.update ''lessons'' v c4))"

section \<open>The start of a cycle\<close>

definition start_result :: "cycle \<Rightarrow> string \<Rightarrow> pipe_result" where
  "start_result cy version =
     (let trace = py_or (dget (cy_context cy) ''trace_id'' VNone) (VStr (event_id cy))
      in \<lparr>pr_event_id = event_id cy, pr_decision = ''NO_TRADE'', pr_status = ''NO_TRADE'', pr_task_id = cy_ids cy ''task'',
          pr_decision_id = cy_ids cy ''dec'', pr_proposal_id = [], pr_execution_id = [], pr_client_order_id = [],
          pr_version = version, pr_risk_approved = False, pr_risk_reason = [], pr_executed = False, pr_execution = None,
          pr_trace = [], pr_error = None, pr_event_type = event_type cy, pr_confidence = 0, pr_summary = [],
          pr_trace_id = py_text trace, pr_symbol = event_symbol cy, pr_levels = None, pr_agents = [],
          pr_supervisor_summary = [], pr_source = cy_source cy, pr_record = [], pr_narrative = [], pr_signal = None,
          pr_signal_id = [], pr_fanout = None, pr_final_order = None, pr_chain = [],
          pr_correlation = [(''trace_id'', py_text trace), (''market_event_id'', event_id cy), (''analysis_id'', []),
            (''setup_id'', []), (''decision_id'', cy_ids cy ''dec''), (''risk_decision_id'', []), (''execution_id'', []),
            (''position_id'', []), (''review_id'', [])]\<rparr>)"

definition gated :: "pipe_cfg \<Rightarrow> pipe_result \<Rightarrow> bool" where
  "gated C r \<longleftrightarrow> pc_pending_guard C \<and> pr_symbol r \<noteq> []"

definition skip_all :: "string \<Rightarrow> pipe_result \<Rightarrow> pipe_result" where
  "skip_all why r = add_stage ''execution'' ''SKIPPED'' why (add_stage ''risk'' ''SKIPPED'' why r)"

definition pending_gate :: "pipe_cfg \<Rightarrow> pyfloat \<Rightarrow> pipe_result \<Rightarrow> signals \<Rightarrow> pipe_result option" where
  "pending_gate C now r R =
     (if gated C r
      then (case should_convene (pc_fail_cooldown C) now (pr_symbol r) R of
              (True, why) \<Rightarrow> None
            | (False, why) \<Rightarrow>
                Some (skip_all ''signal sudah aktif'' (add_stage ''supervisor'' ''SKIPPED'' why
                  (r\<lparr>pr_decision := (case reg_get (pr_symbol r) R of
                         None \<Rightarrow> ''WAIT''
                       | Some s \<Rightarrow> upper (if as_direction s = [] then ''WAIT'' else as_direction s)),
                     pr_status := ''SIGNAL_PENDING'', pr_risk_reason := why, pr_summary := why\<rparr>))))
      else None)"

definition freshness_gate :: "pipe_cfg \<Rightarrow> cycle \<Rightarrow> pipe_result \<Rightarrow> pipe_result option" where
  "freshness_gate C cy r =
     (let why = stale_snapshot_reason cy (pr_symbol r)
      in if pc_freshness C \<and> why \<noteq> []
         then Some (skip_all ''data pasar basi'' (add_stage ''supervisor'' ''SKIPPED'' ''data pasar basi''
                (add_stage ''freshness'' ''BLOCKED'' why
                  (r\<lparr>pr_decision := ''WAIT'', pr_status := ''STALE_MARKET_DATA'', pr_risk_reason := why, pr_summary := why\<rparr>))))
         else None)"

definition surface_analysis :: "pyval \<Rightarrow> pipe_result \<Rightarrow> pipe_result" where
  "surface_analysis analysis r =
     (case analysis of
        VDict a \<Rightarrow>
          (let text = (\<lambda>k. py_text (py_or (dget a k VNone) (VStr [])));
               rec = (case dget a ''committee_record'' VNone of VDict d \<Rightarrow> d | _ \<Rightarrow> pr_record r);
               rec1 = (if py_truthy (dget a ''signal_id'' VNone) then set_default ''signal_id'' (VStr (py_text (dget a ''signal_id'' VNone))) rec
                       else rec)
           in r\<lparr>pr_confidence := float_or (dget a ''overall_confidence'' VNone) 0, pr_summary := text ''summary'',
                pr_agents := as_dict (dget a ''agent_results'' VNone), pr_supervisor_summary := text ''summary'',
                pr_record := rec1, pr_narrative := text ''committee_narrative''\<rparr>)
      | _ \<Rightarrow> r)"

definition thread_chain :: "pydict \<Rightarrow> pipe_result \<Rightarrow> pipe_result" where
  "thread_chain chain r =
     (let text = (\<lambda>part k. py_text (py_or (dget (as_dict (dget chain part VNone)) k VNone) (VStr [])));
          r1 = correlate ''setup_id'' (text ''setup'' ''setup_id'')
                 (correlate ''analysis_id'' (text ''assessment'' ''assessment_id'') (r\<lparr>pr_chain := chain\<rparr>))
      in if text ''decision'' ''decision_id'' = [] then r1 else correlate ''decision_id'' (text ''decision'' ''decision_id'') r1)"

text \<open>The active strategy's parameters: read once, then kept.\<close>

definition strategy_params :: "cycle \<Rightarrow> 'b pipe_state \<Rightarrow> pydict \<times> 'b pipe_state" where
  "strategy_params cy st =
     (if ps_params st \<noteq> [] then (ps_params st, st)
      else case cy_strategy cy of
          Some (Inr (VDict d)) \<Rightarrow>
            (d, st\<lparr>ps_params := d,
                   ps_version := (if py_truthy (dget d ''version'' VNone) then py_text (dget d ''version'' VNone) else ps_version st)\<rparr>)
        | Some (Inr v) \<Rightarrow> (ps_params st, st)
        | _ \<Rightarrow> ([], st))"

section \<open>The gates before execution\<close>

text \<open>
  One guard: absent, it lets the cycle pass without a trace; otherwise its answer decides, and a
  raise is a refusal. A refusal is the finished result with the reason noted in the registry.
\<close>

record guard_texts =
  gt_stage :: string
  gt_raise :: string
  gt_default :: string
  gt_skip :: string
  gt_mark :: string
  gt_ok :: string

definition guard_step :: "guard_texts \<Rightarrow> (exn + bool \<times> string) option \<Rightarrow> pipe_result \<Rightarrow> (pipe_result \<times> string) + pipe_result" where
  "guard_step T answer r =
     (case answer of
        None \<Rightarrow> Inr r
      | Some a \<Rightarrow>
          (let (ok, why0) = (case a of Inl e \<Rightarrow> (False, gt_raise T @ e) | Inr x \<Rightarrow> x);
               why = (if why0 = [] then gt_default T else why0)
           in if ok then Inr (add_stage (gt_stage T) ''OK'' (gt_ok T) r)
              else Inl (add_stage ''execution'' ''SKIPPED'' (gt_skip T) (add_stage (gt_stage T) ''BLOCKED'' why
                     (r\<lparr>pr_status := ''BLOCKED'', pr_risk_reason := why, pr_error := Some why\<rparr>)), gt_mark T @ why)))"

definition dependency_texts :: guard_texts where
  "dependency_texts = \<lparr>gt_stage = ''dependency_guard'', gt_raise = ''dependency guard error: '',
     gt_default = ''execution blocked by dependency guard'', gt_skip = ''dependency guard blocked'',
     gt_mark = ''dependency guard: '', gt_ok = ''execution-critical deps healthy''\<rparr>"

definition reconciliation_texts :: guard_texts where
  "reconciliation_texts = \<lparr>gt_stage = ''reconciliation'', gt_raise = ''reconciliation guard error: '',
     gt_default = ''execution blocked by reconciliation'', gt_skip = ''reconciliation blocked'',
     gt_mark = ''reconciliation: '', gt_ok = ''internal state matches MT5''\<rparr>"

definition readiness_texts :: guard_texts where
  "readiness_texts = \<lparr>gt_stage = ''readiness'', gt_raise = ''readiness guard error: '',
     gt_default = ''execution blocked '' @ em_dash @ '' restart recovery pending'', gt_skip = ''restart recovery not ready'',
     gt_mark = ''readiness: '', gt_ok = ''restart recovery reconciled''\<rparr>"

definition single_entry_step :: "pipe_cfg \<Rightarrow> validation \<Rightarrow> pipe_result \<Rightarrow> (pipe_result \<times> string) + pipe_result" where
  "single_entry_step C V r =
     (case own_ticket (pc_magic C) (va_positions V) of
        None \<Rightarrow> Inr r
      | Some t \<Rightarrow>
          if pc_single C
          then (let why = ''kebijakan satu entry: posisi #'' @ t @ '' masih terbuka''
                in Inl (add_stage ''execution'' ''SKIPPED'' ''single entry policy'' (add_stage ''single_entry'' ''BLOCKED'' why
                     (r\<lparr>pr_status := ''BLOCKED'', pr_risk_reason := why\<rparr>)), ''single-entry: posisi #'' @ t @ '' terbuka''))
          else Inr r)"

definition cooldown_step :: "pipe_cfg \<Rightarrow> pyfloat \<Rightarrow> validation \<Rightarrow> pydict \<Rightarrow> last_entries \<Rightarrow> pipe_result \<Rightarrow> (pipe_result \<times> string) + pipe_result" where
  "cooldown_step C now V ctx E r =
     (case entry_guard_reason C now (pr_symbol r) V ctx E of
        None \<Rightarrow> Inr r
      | Some why \<Rightarrow>
          if why = [] then Inr r
          else Inl (add_stage ''execution'' ''SKIPPED'' ''entry cooldown guard'' (add_stage ''entry_cooldown'' ''BLOCKED'' why
                 (r\<lparr>pr_status := ''BLOCKED'', pr_risk_reason := why\<rparr>)), why))"

text \<open>The zone gate: no plan parks the signal, a plan writes its levels into the proposal.\<close>

definition apply_plan :: "pydict \<Rightarrow> pydict \<Rightarrow> pydict" where
  "apply_plan plan p =
     (case map_of plan ''entry'' of
        None \<Rightarrow> p
      | Some e \<Rightarrow>
          (let p1 = AList.update ''entry_price'' e p
           in case map_of plan ''stop_loss'' of
                None \<Rightarrow> p1
              | Some s \<Rightarrow>
                  (let p2 = AList.update ''stop_loss'' s p1
                   in case map_of plan ''take_profit'' of None \<Rightarrow> p2 | Some t \<Rightarrow> AList.update ''take_profit'' t p2)))"

definition zone_stages :: "pydict \<Rightarrow> pipe_result \<Rightarrow> pipe_result" where
  "zone_stages plan r =
     (if list_all (\<lambda>k. map_of plan k \<noteq> None) [''entry'', ''stop_loss'', ''take_profit'']
      then add_stage ''entry_stage'' ''OK'' (''ENTRY_ARMED'' @ arrow @ ''ENTRY_TRIGGERED (trigger terkonfirmasi)'')
             (add_stage ''zone_entry'' ''OK'' ''harga di zona OB/FVG'' r)
      else r)"

definition zone_step :: "cycle \<Rightarrow> pydict \<Rightarrow> validation \<Rightarrow> pydict \<Rightarrow> pipe_result \<Rightarrow> (pipe_result \<times> string) + pipe_result \<times> pydict" where
  "zone_step cy p V ctx r =
     (case cy_zone cy of
        None \<Rightarrow> Inr (r, p)
      | Some gate \<Rightarrow>
          (case gate (pr_symbol r) p V ctx of
             (None, why) \<Rightarrow>
               Inl (add_stage ''execution'' ''SKIPPED'' ''menunggu zona entry''
                      (add_stage ''zone_entry'' ''BLOCKED'' (''entry OB/FVG: '' @ why)
                        (add_stage ''entry_stage'' ''BLOCKED'' (''SETUP_VALID'' @ arrow @ ''ENTRY_ARMED pending: '' @ why)
                          (r\<lparr>pr_status := ''BLOCKED'', pr_risk_reason := ''entry OB/FVG: '' @ why\<rparr>))),
                    ''menunggu zona OB/FVG: '' @ why)
           | (Some plan, why) \<Rightarrow> Inr (zone_stages plan r, apply_plan plan p)))"

text \<open>The gates between the risk gate's approval and the order, in their order.\<close>

definition pre_execution ::
  "pipe_cfg \<Rightarrow> cycle \<Rightarrow> pydict \<Rightarrow> validation \<Rightarrow> pydict \<Rightarrow> last_entries \<Rightarrow> pipe_result \<Rightarrow> (pipe_result \<times> string) + pipe_result \<times> pydict" where
  "pre_execution C cy p V ctx E r =
     bindE (guard_step dependency_texts (cy_dependency cy) r) (\<lambda>r1.
     bindE (guard_step reconciliation_texts (cy_reconciliation cy) r1) (\<lambda>r2.
     bindE (guard_step readiness_texts (cy_readiness cy) r2) (\<lambda>r3.
     bindE (single_entry_step C V r3) (\<lambda>r4.
     bindE (cooldown_step C (cy_now cy) V ctx E r4) (\<lambda>r5.
       zone_step cy p V ctx r5)))))"

section \<open>The order\<close>

definition order_input :: "cycle \<Rightarrow> pydict \<Rightarrow> validation \<Rightarrow> pydict" where
  "order_input cy p V =
     (let v = va_proposal V; coid = py_or (dget p ''client_order_id'' VNone) (dget p ''idempotency_key'' VNone)
      in [(''symbol'', py_or (dget p ''symbol'' VNone) (dget v ''symbol'' VNone)), (''order_type'', VStr (direction_of p)),
          (''volume'', dget v ''size'' VNone), (''price'', dget v ''entry_price'' VNone),
          (''stop_loss'', dget v ''stop_loss'' VNone), (''take_profit'', dget v ''take_profit'' VNone),
          (''comment'', VStr (''EA-Bot-'' @ direction_of p)),
          (''client_order_id'', VStr (if py_truthy coid then py_text coid else cy_ids cy ''coid''))])"

definition client_order_id :: "cycle \<Rightarrow> pydict \<Rightarrow> validation \<Rightarrow> string" where
  "client_order_id cy p V = py_text (dget (order_input cy p V) ''client_order_id'' VNone)"

definition final_record :: "order_request \<Rightarrow> pydict" where
  "final_record q =
     [(''symbol'', VStr (rq_symbol q)), (''direction'', VStr (rq_order_type q)), (''volume'', VFloat (rq_volume q)),
      (''price'', VFloat (rq_price q)), (''stop_loss'', VFloat (rq_sl q)), (''take_profit'', VFloat (rq_tp q)),
      (''idempotency_key'', VStr (rq_key q))]"

definition near :: "pyfloat \<Rightarrow> pyfloat \<Rightarrow> bool" where
  "near x y \<longleftrightarrow> \<bar>x - y\<bar> \<le> 1 / 10 ^ 9"

definition order_matches :: "order_request \<Rightarrow> pydict \<Rightarrow> bool" where
  "order_matches q v \<longleftrightarrow>
     rq_symbol q = py_text (dget v ''symbol'' (VStr [])) \<and> near (rq_volume q) (number v ''size'')
     \<and> near (rq_price q) (number v ''entry_price'') \<and> near (rq_sl q) (number v ''stop_loss'')
     \<and> near (rq_tp q) (number v ''take_profit'')"

definition final_proposal :: "order_request \<Rightarrow> pydict \<Rightarrow> pydict" where
  "final_proposal q v =
     [(''symbol'', VStr (if rq_symbol q = [] then symbol_text v else rq_symbol q)), (''direction'', VStr (upper (rq_order_type q))),
      (''entry_price'', VFloat (rq_price q)), (''stop_loss'', VFloat (rq_sl q)), (''take_profit'', VFloat (rq_tp q)),
      (''size'', VFloat (rq_volume q)), (''risk_pct'', VFloat (number v ''risk_pct''))]"

definition adopt :: "order_request \<Rightarrow> validation \<Rightarrow> validation" where
  "adopt q V =
     V\<lparr>va_proposal := dict_update (va_proposal V) [(''size'', VFloat (rq_volume q)), (''entry_price'', VFloat (rq_price q)),
        (''stop_loss'', VFloat (rq_sl q)), (''take_profit'', VFloat (rq_tp q))]\<rparr>"

definition pipe_validate :: "pipe_cfg \<Rightarrow> pydict \<Rightarrow> validation \<Rightarrow> pyerr + gate_decision" where
  "pipe_validate C p V = validate_proposal (pc_info C) (pc_gate C) p (va_account V) (va_positions V) (va_market V)"

text \<open>Whether the final order stands, with the result and the inputs as the check leaves them.\<close>

definition revalidate_final_order ::
  "pipe_cfg \<Rightarrow> order_request \<Rightarrow> validation \<Rightarrow> pipe_result \<Rightarrow> bool \<times> pipe_result \<times> validation" where
  "revalidate_final_order C q V r =
     (let r1 = r\<lparr>pr_final_order := Some (final_record q)\<rparr>
      in if order_matches q (va_proposal V) then (True, r1, V)
         else case pipe_validate C (final_proposal q (va_proposal V)) V of
             Inl e \<Rightarrow> (False, r1\<lparr>pr_risk_reason := ''final order risk error: '' @ pc_err C e\<rparr>, V)
           | Inr d \<Rightarrow>
               (let r2 = r1\<lparr>pr_final_order := Some (final_record q
                      @ [(''risk_approved'', VBool (gd_approved d)), (''risk_reason'', VStr (gd_reason d))])\<rparr>
                in if gd_approved d then (True, r2, adopt q V)
                   else (False, r2\<lparr>pr_risk_reason := ''final order ditolak risk gate: ''
                           @ (if gd_reason d = [] then ''rejected'' else gd_reason d)\<rparr>, V)))"

definition mark_skip :: "pipe_cfg \<Rightarrow> pyfloat \<Rightarrow> pipe_result \<Rightarrow> string \<Rightarrow> 'b pipe_state \<Rightarrow> 'b pipe_state" where
  "mark_skip C now r why st =
     (if gated C r then st\<lparr>ps_signals := mark_skipped now (pr_symbol r) why (ps_signals st)\<rparr> else st)"

definition mark_fail :: "pipe_cfg \<Rightarrow> pyfloat \<Rightarrow> pipe_result \<Rightarrow> string \<Rightarrow> 'b pipe_state \<Rightarrow> 'b pipe_state" where
  "mark_fail C now r why st =
     (if gated C r then st\<lparr>ps_signals := mark_failed now (pr_symbol r) why (ps_signals st)\<rparr> else st)"

definition mark_live :: "pipe_cfg \<Rightarrow> pyfloat \<Rightarrow> pipe_result \<Rightarrow> string \<Rightarrow> pyval \<Rightarrow> 'b pipe_state \<Rightarrow> 'b pipe_state" where
  "mark_live C now r why ticket st =
     (if gated C r then st\<lparr>ps_signals := mark_open now (pr_symbol r) ticket why (ps_signals st)\<rparr> else st)"

definition error_exit :: "string \<Rightarrow> string \<Rightarrow> string \<Rightarrow> pipe_result \<Rightarrow> 'b pipe_state \<Rightarrow> 'b cycle_end" where
  "error_exit stg detail err r st =
     finalise True (add_stage stg ''ERROR'' detail (r\<lparr>pr_status := ''ERROR'', pr_error := Some err\<rparr>)) st"

subsection \<open>One terminal, or the engine's own fan-out\<close>

definition ticket_of_rows :: "multi_row list \<Rightarrow> int option" where
  "ticket_of_rows rows =
     (case find (\<lambda>x. mu_success x \<and> mu_ticket x \<noteq> None) rows of None \<Rightarrow> None | Some x \<Rightarrow> mu_ticket x)"

definition multi_message :: "multi_result \<Rightarrow> string" where
  "multi_message m =
     (if mr_any m then ''Fan-out: '' @ dec_int (mr_succeeded m) @ ''/'' @ dec_int (mr_total m) @ '' terminal berhasil.''
      else strip (''Fan-out gagal di semua terminal ('' @ dec_int (mr_failed m) @ ''). ''
             @ join ''; '' (take 3 (map (\<lambda>x. mu_terminal x @ '': '' @ mu_message x) (filter (\<lambda>x. \<not> mu_success x) (mr_rows m))))))"

definition multi_adapter :: "multi_result \<Rightarrow> exec_result" where
  "multi_adapter m =
     \<lparr>er_success = mr_any m, er_ticket = ticket_of_rows (mr_rows m), er_code = (if mr_any m then 0 else 1),
      er_message = multi_message m, er_retries = 0, er_position = None\<rparr>"

definition distance :: "pyfloat \<Rightarrow> pyfloat \<Rightarrow> pyfloat" where
  "distance entry level = (if entry > 0 \<and> level > 0 then \<bar>entry - level\<bar> else 0)"

definition dispatch_execution :: "'b pipeline \<Rightarrow> 'b engine \<Rightarrow> cycle \<Rightarrow> order_request \<Rightarrow> 'b world \<Rightarrow> 'b outcome" where
  "dispatch_execution P E cy q w =
     (case pi_multi P of
        Some f \<Rightarrow> (case f q (distance (rq_price q) (rq_sl q)) (distance (rq_price q) (rq_tp q)) w of
            (Inl e, w1) \<Rightarrow> (Inl e, w1)
          | (Inr m, w1) \<Rightarrow> (Inr (multi_adapter m), w1))
      | None \<Rightarrow>
          if cy_armed cy > 1
          then (Inr (failed 1 (''MULTIPLE TERMINALS ARMED '' @ em_dash @ '' single-terminal execution disabled. Enable canonical fan-out ''
                  @ ''(canonical_fanout_enabled) or disarm all but one.'') 0), w)
          else execute_order E (cy_ids cy ''key'') (cy_ids cy ''engine'') q w)"

definition execution_result :: "exec_result \<Rightarrow> pipe_result \<Rightarrow> pipe_result" where
  "execution_result x r =
     (let ok = er_success x;
          r1 = r\<lparr>pr_execution := Some x, pr_executed := ok, pr_status := (if ok then ''EXECUTED'' else ''ERROR'')\<rparr>;
          r2 = (case er_ticket x of Some t \<Rightarrow> if ok then correlate ''position_id'' (dec_int t) r1 else r1 | None \<Rightarrow> r1);
          r3 = (if ok then r2 else r2\<lparr>pr_error := Some (er_message x)\<rparr>)
      in add_stage ''execution'' (if ok then ''OK'' else ''ERROR'') (reason_or (er_message x) ''executed'') r3)"

definition finish_execution ::
  "'b pipeline \<Rightarrow> cycle \<Rightarrow> pydict \<Rightarrow> validation \<Rightarrow> pipe_result \<Rightarrow> exec_result \<Rightarrow> 'b pipe_state \<Rightarrow> 'b cycle_end" where
  "finish_execution P cy p V r x st =
     (let C = pi_cfg P; r1 = execution_result x r
      in finalise True r1
           (if er_success x
            then mark_live C (cy_now cy) r1 ''entry terbuka'' (ticket_val (er_ticket x))
                   (st\<lparr>ps_last := record_entry (cy_now cy) (pr_symbol r1) p V (ps_last st)\<rparr>)
            else mark_fail C (cy_now cy) r1 (reason_or (er_message x) ''eksekusi gagal'') st))"

definition dispatch_single ::
  "'b pipeline \<Rightarrow> 'b engine \<Rightarrow> cycle \<Rightarrow> pydict \<Rightarrow> validation \<Rightarrow> order_request \<Rightarrow> pipe_result \<Rightarrow> 'b pipe_state \<Rightarrow> 'b cycle_end" where
  "dispatch_single P E cy p V q r st =
     (case dispatch_execution P E cy q (ps_world st) of
        (Inl e, w) \<Rightarrow> error_exit ''execution'' (pc_err (pi_cfg P) e) (''execution error: '' @ pc_err (pi_cfg P) e) r (st\<lparr>ps_world := w\<rparr>)
      | (Inr x, w) \<Rightarrow> finish_execution P cy p V r x (st\<lparr>ps_world := w\<rparr>))"

subsection \<open>The canonical fan-out\<close>

definition build_canonical_signal :: "'b pipeline \<Rightarrow> cycle \<Rightarrow> validation \<Rightarrow> pipe_result \<Rightarrow> string \<Rightarrow> canonical_signal" where
  "build_canonical_signal P cy V r version =
     (let v = va_proposal V; C = pi_cfg P; entry = number v ''entry_price''; sl = number v ''stop_loss''; tp = number v ''take_profit'';
          risk = distance entry sl; sid = dget (pr_record r) ''signal_id'' VNone
      in make_canonical_signal (pi_digest P) (cy_stamp cy) (reason_or (pr_event_id r) (pr_decision_id r))
           (reason_or (symbol_text v) (pr_symbol r))
           (upper (reason_or (pr_decision r) (direction_of v))) entry sl tp
           (if risk > 0 then distance entry tp / risk else 0)
           [(''risk_pct'', VFloat (number v ''risk_pct'')), (''max_lot_per_trade'', VFloat (pc_max_lot C)),
            (''single_entry_policy'', VBool (pc_single C))]
           version None [] (if py_truthy sid then Some (py_text sid) else None))"

fun overall_value :: "overall_status \<Rightarrow> string" where
  "overall_value SS_CREATED = ''CREATED''"
| "overall_value SS_VALIDATED = ''VALIDATED''"
| "overall_value SS_PARTIALLY = ''PARTIALLY_EXECUTED''"
| "overall_value SS_EXECUTED_ALL = ''EXECUTED_ALL''"
| "overall_value SS_REJECTED_ALL = ''REJECTED_ALL''"
| "overall_value SS_EXPIRED = ''EXPIRED''"

definition fanout_result :: "canonical_signal \<Rightarrow> fan_state \<Rightarrow> pipe_result \<Rightarrow> pipe_result" where
  "fanout_result s S r =
     (let ok = fs_executed S > 0;
          status = (case signal_status (cs_id s) (fs_ledger S) of None \<Rightarrow> SS_VALIDATED | Some x \<Rightarrow> x);
          r1 = add_stage ''canonical_signal'' ''OK'' (''signal_id='' @ cs_id s)
                 (r\<lparr>pr_signal := Some s, pr_signal_id := cs_id s, pr_record := set_default ''signal_id'' (VStr (cs_id s)) (pr_record r)\<rparr>)
      in add_stage ''execution'' (if ok then ''OK'' else ''ERROR'')
           (''fan-out: '' @ dec_nat (fs_executed S) @ '' executed / '' @ dec_nat (fs_rejected S) @ '' rejected / ''
            @ dec_nat (fs_failed S) @ '' failed (signal_status='' @ overall_value status @ '')'')
           (r1\<lparr>pr_fanout := Some S, pr_executed := ok, pr_status := (if ok then ''EXECUTED'' else ''ERROR'')\<rparr>))"

definition fanout_order :: "pipe_cfg \<Rightarrow> validation \<Rightarrow> canonical_signal \<Rightarrow> pydict" where
  "fanout_order C V s =
     [(''volume'', VFloat (number (va_proposal V) ''size'')), (''magic'', VInt (pc_magic C)),
      (''comment'', VStr (''EA-Bot-'' @ cs_direction s)), (''market_quote'', VDict (va_market V))]"

definition dispatch_canonical_fanout ::
  "'b pipeline \<Rightarrow> 'b fanout \<Rightarrow> cycle \<Rightarrow> pydict \<Rightarrow> validation \<Rightarrow> pipe_result \<Rightarrow> 'b pipe_state \<Rightarrow> 'b cycle_end" where
  "dispatch_canonical_fanout P F cy p V r st =
     (let C = pi_cfg P; s = build_canonical_signal P cy V r (ps_version st);
          (S, w) = fan_out F s (cy_targets cy) (fanout_order C V s) (ps_fan st) (ps_world st);
          r1 = fanout_result s S r; st1 = st\<lparr>ps_world := w, ps_fan := fs_ledger S\<rparr>
      in finalise True r1
           (if fs_executed S > 0
            then mark_live C (cy_now cy) r1 ''entry terbuka (fan-out)'' VNone
                   (st1\<lparr>ps_last := record_entry (cy_now cy) (pr_symbol r1) p V (ps_last st1)\<rparr>)
            else mark_fail C (cy_now cy) r1 ''fan-out: tidak ada akun tereksekusi'' st1))"

subsection \<open>From the gates to the order\<close>

definition place_order ::
  "'b pipeline \<Rightarrow> cycle \<Rightarrow> pydict \<Rightarrow> validation \<Rightarrow> pipe_result \<Rightarrow> 'b pipe_state \<Rightarrow> 'b cycle_end" where
  "place_order P cy p V r0 st =
     (let C = pi_cfg P; r = r0\<lparr>pr_client_order_id := client_order_id cy p V\<rparr>
      in if pi_engine P = None \<and> pi_coordinator P = None
         then error_exit ''execution'' ''execution engine not configured'' ''execution engine not configured'' r0 st
         else case build_order_request (pc_builder C) (cy_ids cy ''key'') (order_input cy p V) (va_market V) of
           Inl e \<Rightarrow> error_exit ''execution'' (pc_err C e) (''order build error: '' @ pc_err C e) r st
         | Inr q0 \<Rightarrow>
             (case revalidate_final_order C q0 V r of
                (False, r1, V1) \<Rightarrow>
                  (let r2 = add_stage ''execution'' ''SKIPPED'' ''final order risk re-validation failed''
                         (add_stage ''risk'' ''BLOCKED'' (pr_risk_reason r1) (r1\<lparr>pr_status := ''BLOCKED''\<rparr>))
                   in finalise True r2 (mark_skip C (cy_now cy) r2 (''final order ditolak: '' @ pr_risk_reason r1) st))
              | (True, r1, V1) \<Rightarrow>
                  (let q = q0\<lparr>rq_token := Some (''gate:'' @ pr_decision_id r1)\<rparr>;
                       r2 = correlate ''execution_id'' (cy_ids cy ''exec'')
                              (r1\<lparr>pr_client_order_id := rq_key q, pr_execution_id := cy_ids cy ''exec''\<rparr>)
                   in case (pi_coordinator P, pi_engine P) of
                        (Some F, _) \<Rightarrow> dispatch_canonical_fanout P F cy p V1 r2 st
                      | (None, Some E) \<Rightarrow> dispatch_single P E cy p V1 q r2 st
                      | (None, None) \<Rightarrow> finalise True r2 st)))"

definition risk_step ::
  "'b pipeline \<Rightarrow> cycle \<Rightarrow> pydict \<Rightarrow> pydict \<Rightarrow> validation \<Rightarrow> pipe_result \<Rightarrow> 'b pipe_state \<Rightarrow> 'b cycle_end" where
  "risk_step P cy ctx p V r st =
     (let C = pi_cfg P
      in case pipe_validate C (va_proposal V) V of
           Inl e \<Rightarrow>
             finalise True (add_stage ''execution'' ''SKIPPED'' ''risk did not approve'' (add_stage ''risk'' ''ERROR'' (pc_err C e)
               (r\<lparr>pr_risk_approved := False, pr_status := ''BLOCKED'', pr_risk_reason := ''risk error: '' @ pc_err C e,
                  pr_error := Some (''risk error: '' @ pc_err C e)\<rparr>))) st
         | Inr d \<Rightarrow>
             (let r1 = r\<lparr>pr_risk_approved := gd_approved d, pr_risk_reason := gd_reason d\<rparr>
              in if \<not> gd_approved d
                 then (let r2 = add_stage ''execution'' ''SKIPPED'' ''risk did not approve''
                              (add_stage ''risk'' ''BLOCKED'' (gd_reason d) (r1\<lparr>pr_status := ''BLOCKED''\<rparr>))
                       in finalise True r2 (mark_skip C (cy_now cy) r2 (''ditolak risk gate: '' @ gd_reason d) st))
                 else case pre_execution C cy p V ctx (ps_last st) (add_stage ''risk'' ''OK'' (gd_reason d) r1) of
                     Inl (r2, why) \<Rightarrow> finalise True r2 (mark_skip C (cy_now cy) r2 why st)
                   | Inr (r2, p1) \<Rightarrow> place_order P cy p1 V r2 st))"

text \<open>
  The cycle up to the risk gate: it ends early, or yields the proposal and the inputs of the gate with
  the result and the state so far.
\<close>

type_synonym 'b judged_trade = "pydict \<times> validation \<times> pipe_result \<times> 'b pipe_state"

text \<open>From an actionable proposal on: the signal is opened, the higher timeframe may veto.\<close>

definition trade_step ::
  "'b pipeline \<Rightarrow> cycle \<Rightarrow> pydict \<Rightarrow> pyval \<Rightarrow> pydict \<Rightarrow> pipe_result \<Rightarrow> 'b pipe_state \<Rightarrow> 'b cycle_end + 'b judged_trade" where
  "trade_step P cy ctx analysis p r0 st0 =
     (let C = pi_cfg P; prop_id = dget p ''proposal_id'' VNone;
          r = r0\<lparr>pr_decision := direction_of p, pr_proposal_id := (if py_truthy prop_id then py_text prop_id else cy_ids cy ''prop'')\<rparr>;
          st = (if gated C r
                then st0\<lparr>ps_signals := open_signal (cy_now cy) (pr_symbol r) (pr_decision r) (pr_confidence r) p (pr_proposal_id r)
                           (ps_signals st0)\<rparr>
                else st0)
      in case htf_bias_veto C p ctx of
           Some veto \<Rightarrow>
             (let r1 = add_stage ''execution'' ''SKIPPED'' ''no approved order'' (add_stage ''risk'' ''SKIPPED'' ''HTF bias veto (multi-timeframe)''
                    (r\<lparr>pr_decision := ''WAIT'', pr_status := ''NO_TRADE'', pr_risk_reason := veto, pr_levels := indicative_plan analysis ctx\<rparr>))
              in Inl (finalise True r1 (mark_skip C (cy_now cy) r1 (''HTF veto: '' @ veto) st)))
         | None \<Rightarrow>
             (case build_validation_inputs C p ctx of
                Inl e \<Rightarrow> Inl (Inl e, st)
              | Inr V \<Rightarrow>
                  Inr (p, V, correlate ''risk_decision_id'' (cy_ids cy ''risk'')
                      (r\<lparr>pr_levels := (case order_levels V ctx of None \<Rightarrow> indicative_plan analysis ctx | l \<Rightarrow> l)\<rparr>), st)))"

definition no_trade_exit :: "pyval \<Rightarrow> pydict \<Rightarrow> pipe_result \<Rightarrow> 'b pipe_state \<Rightarrow> 'b cycle_end" where
  "no_trade_exit analysis ctx r st =
     (let d = no_trade_decision analysis
      in finalise True (add_stage ''execution'' ''SKIPPED'' ''no approved order'' (add_stage ''risk'' ''SKIPPED'' ''no proposal to validate''
           (r\<lparr>pr_decision := d, pr_status := (if d = ''WAIT'' then ''WAIT'' else ''NO_TRADE''),
              pr_risk_reason := ''no actionable proposal'', pr_levels := indicative_plan analysis ctx\<rparr>))) st)"

definition canonical_exit :: "string \<Rightarrow> pipe_result \<Rightarrow> 'b pipe_state \<Rightarrow> 'b cycle_end" where
  "canonical_exit why r st =
     finalise True (add_stage ''execution'' ''SKIPPED'' ''canonical decision not validated''
       (add_stage ''risk'' ''SKIPPED'' ''canonical decision not validated'' (add_stage ''canonical'' ''BLOCKED'' why
         (r\<lparr>pr_decision := ''WAIT'', pr_status := ''WAIT'', pr_risk_reason := why, pr_summary := why\<rparr>)))) st"

definition decide_step ::
  "'b pipeline \<Rightarrow> cycle \<Rightarrow> pydict \<Rightarrow> pyval \<Rightarrow> pipe_result \<Rightarrow> 'b pipe_state \<Rightarrow> 'b cycle_end + 'b judged_trade" where
  "decide_step P cy ctx analysis r st =
     (case extract_proposal analysis of
        None \<Rightarrow> Inl (no_trade_exit analysis ctx r st)
      | Some p \<Rightarrow>
          if \<not> is_side (direction_of p) then Inl (no_trade_exit analysis ctx r st)
          else (case get_float_or0 p ''confidence'' of
             Inl e \<Rightarrow> Inl (Inl e, st)
           | Inr conf \<Rightarrow>
               (case strategy_params cy st of (params, st1) \<Rightarrow>
                  if conf < min_signal_confidence (pi_cfg P) params then Inl (no_trade_exit analysis ctx r st1)
                  else let why = canonical_block_reason (pr_chain r)
                       in if why \<noteq> [] then Inl (canonical_exit why r st1) else trade_step P cy ctx analysis p r st1)))"

definition analyse_step :: "'b pipeline \<Rightarrow> cycle \<Rightarrow> pipe_result \<Rightarrow> 'b pipe_state \<Rightarrow> 'b cycle_end + 'b judged_trade" where
  "analyse_step P cy r st0 =
     (let ctx = build_analysis_context cy; st = st0\<lparr>ps_meetings := ps_meetings st0 @ [ctx]\<rparr>
      in case cy_supervisor cy ctx of
           Inl e \<Rightarrow> Inl (finalise True (add_stage ''supervisor'' ''ERROR'' e
                      (r\<lparr>pr_status := ''WAIT'', pr_decision := ''WAIT'', pr_error := Some (''supervisor error: '' @ e)\<rparr>)) st)
         | Inr analysis \<Rightarrow>
             (let r1 = surface_analysis analysis (add_stage ''supervisor'' ''OK'' ''analysis complete'' r);
                  r2 = thread_chain (cy_chain cy analysis (pr_symbol r1) (pr_trace_id r1) (ps_version st)) r1
              in decide_step P cy ctx analysis r2 st))"

definition until_gate :: "'b pipeline \<Rightarrow> cycle \<Rightarrow> 'b pipe_state \<Rightarrow> 'b cycle_end + 'b judged_trade" where
  "until_gate P cy st =
     (let C = pi_cfg P; r = start_result cy (ps_version st)
      in case pending_gate C (cy_now cy) r (ps_signals st) of
           Some r1 \<Rightarrow> Inl (finalise False r1 st)
         | None \<Rightarrow>
             (case freshness_gate C cy r of
                Some r1 \<Rightarrow> Inl (finalise False r1 st)
              | None \<Rightarrow> analyse_step P cy r st))"

definition run_cycle :: "'b pipeline \<Rightarrow> cycle \<Rightarrow> 'b pipe_state \<Rightarrow> 'b cycle_end" where
  "run_cycle P cy st =
     (case until_gate P cy st of
        Inl e \<Rightarrow> e
      | Inr (p, V, r, st1) \<Rightarrow> risk_step P cy (build_analysis_context cy) p V r st1)"

section \<open>Lemmas\<close>

lemma finalise_simps [simp]:
  "fst (finalise b r st) = Inr r" "ps_world (snd (finalise b r st)) = ps_world st"
  "ps_signals (snd (finalise b r st)) = ps_signals st"
  "ps_reports (snd (finalise b r st)) = ps_reports st @ (if b then [r] else [])"
  "ps_meetings (snd (finalise b r st)) = ps_meetings st"
  "ps_fan (snd (finalise b r st)) = ps_fan st"
  by (simp_all add: finalise_def)

lemma mark_keeps [simp]:
  "ps_world (mark_skip C now r why st) = ps_world st" "ps_world (mark_fail C now r why st) = ps_world st"
  "ps_world (mark_live C now r why t st) = ps_world st"
  "ps_reports (mark_skip C now r why st) = ps_reports st" "ps_reports (mark_fail C now r why st) = ps_reports st"
  "ps_reports (mark_live C now r why t st) = ps_reports st"
  by (simp_all add: mark_skip_def mark_fail_def mark_live_def)

lemma error_exit_simps [simp]:
  "ps_world (snd (error_exit a b c r st)) = ps_world st"
  "ps_signals (snd (error_exit a b c r st)) = ps_signals st"
  by (simp_all add: error_exit_def)

lemma finish_execution_world [simp]: "ps_world (snd (finish_execution P cy p V r x st)) = ps_world st"
  by (simp add: finish_execution_def Let_def)

lemma dispatch_single_world:
  "ps_world (snd (dispatch_single P E cy p V q r st)) = snd (dispatch_execution P E cy q (ps_world st))"
  by (auto simp: dispatch_single_def split: prod.split sum.split)

lemma clean_symbol_nonempty: "clean_symbol B prop = Inr s \<Longrightarrow> s \<noteq> []"
  by (auto simp: clean_symbol_def upper_def Let_def split: pyval.splits if_splits)

lemma final_matches: "rq_symbol q \<noteq> [] \<Longrightarrow> order_matches q (final_proposal q v)"
  by (simp add: order_matches_def final_proposal_def near_def number_def dget_def py_or_def float_or_def)

lemma order_matches_token [simp]: "order_matches (q\<lparr>rq_token := t\<rparr>) v = order_matches q v"
  by (simp add: order_matches_def)

lemma revalidated:
  assumes "revalidate_final_order C q V r = (True, r1, V1)" "rq_symbol q \<noteq> []" "pipe_validate C (va_proposal V) V = Inr d" "gd_approved d"
  obtains v d1 where "pipe_validate C v V = Inr d1" "gd_approved d1" "order_matches q v"
proof (cases "order_matches q (va_proposal V)")
  case True
  with that assms(3,4) show thesis by blast
next
  case False
  with assms(1) obtain d1 where "pipe_validate C (final_proposal q (va_proposal V)) V = Inr d1" "gd_approved d1"
    by (auto simp: revalidate_final_order_def Let_def split: sum.splits if_splits)
  with that final_matches [OF assms(2)] show thesis by blast
qed

definition guard_allows :: "(exn + bool \<times> string) option \<Rightarrow> bool" where
  "guard_allows g \<longleftrightarrow> (case g of None \<Rightarrow> True | Some (Inl e) \<Rightarrow> False | Some (Inr x) \<Rightarrow> fst x)"

lemma guard_step_Inr: "guard_step T g r = Inr r1 \<Longrightarrow> guard_allows g \<and> pr_symbol r1 = pr_symbol r \<and> pr_decision_id r1 = pr_decision_id r"
  by (auto simp: guard_step_def guard_allows_def add_stage_def Let_def split: option.splits sum.splits prod.splits if_splits)

definition entry_allowed :: "pipe_cfg \<Rightarrow> cycle \<Rightarrow> validation \<Rightarrow> pydict \<Rightarrow> last_entries \<Rightarrow> string \<Rightarrow> bool" where
  "entry_allowed C cy V ctx E symbol \<longleftrightarrow>
     guard_allows (cy_dependency cy) \<and> guard_allows (cy_reconciliation cy) \<and> guard_allows (cy_readiness cy)
     \<and> (pc_single C \<longrightarrow> own_ticket (pc_magic C) (va_positions V) = None)
     \<and> (case entry_guard_reason C (cy_now cy) symbol V ctx E of None \<Rightarrow> True | Some why \<Rightarrow> why = [])"

lemma single_entry_Inr: "single_entry_step C V r = Inr r1 \<Longrightarrow> r1 = r \<and> (pc_single C \<longrightarrow> own_ticket (pc_magic C) (va_positions V) = None)"
  by (auto simp: single_entry_step_def Let_def split: option.splits if_splits)

lemma cooldown_Inr: "cooldown_step C now V ctx E r = Inr r1 \<Longrightarrow>
    r1 = r \<and> (case entry_guard_reason C now (pr_symbol r) V ctx E of None \<Rightarrow> True | Some why \<Rightarrow> why = [])"
  by (auto simp: cooldown_step_def split: option.splits if_splits)

lemma pre_execution_Inr:
  assumes "pre_execution C cy p V ctx E r = Inr (r1, p1)"
  shows "entry_allowed C cy V ctx E (pr_symbol r)"
proof -
  from assms obtain a b c d e where
    "guard_step dependency_texts (cy_dependency cy) r = Inr a" "guard_step reconciliation_texts (cy_reconciliation cy) a = Inr b"
    "guard_step readiness_texts (cy_readiness cy) b = Inr c" "single_entry_step C V c = Inr d"
    "cooldown_step C (cy_now cy) V ctx E d = Inr e"
    unfolding pre_execution_def bindE_Inr_iff by blast
  from this(1-3) [THEN guard_step_Inr] single_entry_Inr [OF this(4)] cooldown_Inr [OF this(5)]
  show ?thesis by (simp add: entry_allowed_def)
qed

text \<open>What stands behind an order that leaves the pipeline.\<close>

definition cleared_order :: "'b pipeline \<Rightarrow> cycle \<Rightarrow> 'b pipe_state \<Rightarrow> validation \<Rightarrow> order_request \<Rightarrow> bool" where
  "cleared_order P cy st V q \<longleftrightarrow>
     (\<exists>v d. pipe_validate (pi_cfg P) v V = Inr d \<and> gd_approved d \<and> order_matches q v)
     \<and> entry_allowed (pi_cfg P) cy V (build_analysis_context cy) (ps_last st) (event_symbol cy)
     \<and> rq_token q \<noteq> None \<and> cy_armed cy \<le> 1"

lemma place_order_world:
  assumes "pi_coordinator P = None" "pi_multi P = None"
    and "pipe_validate (pi_cfg P) (va_proposal V) V = Inr d" "gd_approved d"
    and "ps_world (snd (place_order P cy p V r st)) \<noteq> ps_world st"
  obtains E q v d1 where "pi_engine P = Some E" "cy_armed cy \<le> 1" "rq_token q \<noteq> None"
    "pipe_validate (pi_cfg P) v V = Inr d1" "gd_approved d1" "order_matches q v"
    "ps_world (snd (place_order P cy p V r st)) = snd (execute_order E (cy_ids cy ''key'') (cy_ids cy ''engine'') q (ps_world st))"
proof (cases "pi_engine P")
  case None
  with assms show thesis by (simp add: place_order_def Let_def)
next
  case (Some E)
  show thesis
  proof (cases "build_order_request (pc_builder (pi_cfg P)) (cy_ids cy ''key'') (order_input cy p V) (va_market V)")
    case (Inl e)
    with assms(5) Some show thesis by (simp add: place_order_def Let_def)
  next
    case (Inr q0)
    from build_order_request_Inr [OF this] clean_symbol_nonempty have sym: "rq_symbol q0 \<noteq> []" by metis
    let ?r = "r\<lparr>pr_client_order_id := client_order_id cy p V\<rparr>"
    obtain ok r1 V1 where rv: "revalidate_final_order (pi_cfg P) q0 V ?r = (ok, r1, V1)" by (metis prod_cases3)
    show thesis
    proof (cases ok)
      case False
      with assms(5) Some Inr rv show thesis by (simp add: place_order_def Let_def)
    next
      case True
      let ?q = "q0\<lparr>rq_token := Some (''gate:'' @ pr_decision_id r1)\<rparr>"
      from True rv have "revalidate_final_order (pi_cfg P) q0 V ?r = (True, r1, V1)" by simp
      from revalidated [OF this sym assms(3,4)] obtain v d1 where
        v: "pipe_validate (pi_cfg P) v V = Inr d1" "gd_approved d1" "order_matches q0 v" .
      have w: "ps_world (snd (place_order P cy p V r st)) = snd (dispatch_execution P E cy ?q (ps_world st))"
        using Some Inr rv True assms(1) by (simp add: place_order_def Let_def dispatch_single_world)
      with assms(2,5) have "cy_armed cy \<le> 1" by (auto simp: dispatch_execution_def split: if_splits)
      with w assms(2) v that [of E ?q v d1] Some show thesis by (simp add: dispatch_execution_def)
    qed
  qed
qed

lemma risk_step_world:
  assumes "pi_coordinator P = None" "pi_multi P = None" "pr_symbol r = event_symbol cy" "ctx = build_analysis_context cy"
    and "ps_last st = ps_last st0" "ps_world (snd (risk_step P cy ctx p V r st)) \<noteq> ps_world st"
  obtains E q where "pi_engine P = Some E" "cleared_order P cy st0 V q"
    "ps_world (snd (risk_step P cy ctx p V r st)) = snd (execute_order E (cy_ids cy ''key'') (cy_ids cy ''engine'') q (ps_world st))"
proof (cases "pipe_validate (pi_cfg P) (va_proposal V) V")
  case (Inl e)
  with assms(6) show thesis by (simp add: risk_step_def Let_def)
next
  case (Inr d)
  have ok: "gd_approved d"
  proof (rule ccontr)
    assume "\<not> gd_approved d"
    with assms(6) Inr show False by (simp add: risk_step_def Let_def)
  qed
  let ?r = "add_stage ''risk'' ''OK'' (gd_reason d) (r\<lparr>pr_risk_approved := True, pr_risk_reason := gd_reason d\<rparr>)"
  show thesis
  proof (cases "pre_execution (pi_cfg P) cy p V ctx (ps_last st) ?r")
    case (Inl x)
    with assms(6) Inr ok show thesis by (cases x) (simp add: risk_step_def Let_def)
  next
    case pre: (Inr x)
    obtain r2 p1 where x: "x = (r2, p1)" by (cases x)
    from pre x have pr: "pre_execution (pi_cfg P) cy p V ctx (ps_last st) ?r = Inr (r2, p1)" by simp
    from pre_execution_Inr [OF this] assms(3,4,5) have allowed: "entry_allowed (pi_cfg P) cy V (build_analysis_context cy) (ps_last st0) (event_symbol cy)"
      by (simp add: add_stage_def)
    have w: "ps_world (snd (risk_step P cy ctx p V r st)) = ps_world (snd (place_order P cy p1 V r2 st))"
      using Inr ok pr by (simp add: risk_step_def Let_def)
    with assms(6) have "ps_world (snd (place_order P cy p1 V r2 st)) \<noteq> ps_world st" by simp
    from place_order_world [OF assms(1,2) Inr ok this] obtain E q v d1 where
      "pi_engine P = Some E" "cy_armed cy \<le> 1" "rq_token q \<noteq> None" "pipe_validate (pi_cfg P) v V = Inr d1" "gd_approved d1"
      "order_matches q v"
      "ps_world (snd (place_order P cy p1 V r2 st)) = snd (execute_order E (cy_ids cy ''key'') (cy_ids cy ''engine'') q (ps_world st))" .
    with w allowed that [of E q] show thesis by (auto simp: cleared_order_def)
  qed
qed

lemma surface_keeps [simp]: "pr_symbol (surface_analysis a r) = pr_symbol r" "pr_decision_id (surface_analysis a r) = pr_decision_id r"
  by (simp_all add: surface_analysis_def Let_def split: pyval.split)

lemma add_stage_keeps [simp]:
  "pr_symbol (add_stage a b c r) = pr_symbol r" "pr_status (add_stage a b c r) = pr_status r"
  "pr_decision_id (add_stage a b c r) = pr_decision_id r" "pr_executed (add_stage a b c r) = pr_executed r"
  by (simp_all add: add_stage_def)

lemma correlate_keeps [simp]:
  "pr_symbol (correlate k v r) = pr_symbol r" "pr_status (correlate k v r) = pr_status r"
  "pr_executed (correlate k v r) = pr_executed r" "pr_decision_id (correlate k v r) = pr_decision_id r"
  by (simp_all add: correlate_def)

lemma thread_keeps [simp]: "pr_symbol (thread_chain chain r) = pr_symbol r"
  by (simp add: thread_chain_def Let_def)

lemma strategy_keeps [simp]:
  "ps_world (snd (strategy_params cy st)) = ps_world st" "ps_last (snd (strategy_params cy st)) = ps_last st"
  "ps_signals (snd (strategy_params cy st)) = ps_signals st" "ps_reports (snd (strategy_params cy st)) = ps_reports st"
  "ps_fan (snd (strategy_params cy st)) = ps_fan st" "ps_meetings (snd (strategy_params cy st)) = ps_meetings st"
  by (simp_all add: strategy_params_def split: option.split sum.split pyval.split)

lemma exits_world [simp]:
  "ps_world (snd (no_trade_exit a ctx r st)) = ps_world st" "ps_world (snd (canonical_exit why r st)) = ps_world st"
  by (simp_all add: no_trade_exit_def canonical_exit_def Let_def)

text \<open>The analysis and inputs a proposal that went to trade stands on.\<close>

definition proposed_by :: "'b pipeline \<Rightarrow> cycle \<Rightarrow> pydict \<Rightarrow> validation \<Rightarrow> bool" where
  "proposed_by P cy p V \<longleftrightarrow>
     (\<exists>analysis. cy_supervisor cy (build_analysis_context cy) = Inr analysis \<and> extract_proposal analysis = Some p)
     \<and> is_side (direction_of p) \<and> htf_bias_veto (pi_cfg P) p (build_analysis_context cy) = None
     \<and> build_validation_inputs (pi_cfg P) p (build_analysis_context cy) = Inr V"

lemma start_symbol [simp]: "pr_symbol (start_result cy v) = event_symbol cy"
  by (simp add: start_result_def Let_def)

text \<open>Results in which the risk gate raised.\<close>

definition gate_raised :: "pipe_result \<Rightarrow> bool" where
  "gate_raised r \<longleftrightarrow> list_ex (\<lambda>s. sg_stage s = ''risk'' \<and> sg_status s = ''ERROR'') (pr_trace r)"

lemma gate_raised_add [simp]: "gate_raised (add_stage a b c r) \<longleftrightarrow> gate_raised r \<or> (a = ''risk'' \<and> b = ''ERROR'')"
  by (auto simp: gate_raised_def add_stage_def)

lemma gate_raised_correlate [simp]: "gate_raised (correlate k v r) = gate_raised r"
  by (simp add: gate_raised_def correlate_def)

lemma gate_raised_surface [simp]: "gate_raised (surface_analysis a r) = gate_raised r" "gate_raised (thread_chain chain r) = gate_raised r"
  by (simp_all add: surface_analysis_def thread_chain_def gate_raised_def correlate_def Let_def split: pyval.split)

lemma executed_surface [simp]: "pr_executed (surface_analysis a r) = pr_executed r" "pr_executed (thread_chain chain r) = pr_executed r"
  by (simp_all add: surface_analysis_def thread_chain_def Let_def split: pyval.split)

subsection \<open>The cycle up to the gate\<close>

text \<open>What holds of the result and the state when the risk gate is asked.\<close>

definition untouched :: "'b pipe_state \<Rightarrow> 'b pipe_state \<Rightarrow> bool" where
  "untouched st st1 \<longleftrightarrow> ps_world st1 = ps_world st \<and> ps_fan st1 = ps_fan st \<and> ps_last st1 = ps_last st \<and> ps_reports st1 = ps_reports st"

definition quiet_result :: "cycle \<Rightarrow> pipe_result \<Rightarrow> bool" where
  "quiet_result cy r \<longleftrightarrow> pr_symbol r = event_symbol cy \<and> \<not> gate_raised r \<and> \<not> pr_executed r"

lemma fanout_result_fields [simp]:
  "pr_symbol (fanout_result s S r) = pr_symbol r" "pr_executed (fanout_result s S r) \<longleftrightarrow> fs_executed S > 0"
  by (simp_all add: fanout_result_def Let_def)

lemma execution_result_fields [simp]:
  "pr_symbol (execution_result x r) = pr_symbol r" "pr_executed (execution_result x r) \<longleftrightarrow> er_success x"
  by (simp_all add: execution_result_def Let_def split: option.split)

lemma quiet_stage [simp]: "\<not> (a = ''risk'' \<and> b = ''ERROR'') \<Longrightarrow> quiet_result cy (add_stage a b c r) = quiet_result cy r"
  by (auto simp: quiet_result_def)

lemma quiet_correlate [simp]: "quiet_result cy (correlate k v r) = quiet_result cy r"
  by (simp add: quiet_result_def)

lemma quiet_update [simp]:
  "quiet_result cy (pr_status_update g1 r) = quiet_result cy r" "quiet_result cy (pr_decision_update g2 r) = quiet_result cy r"
  "quiet_result cy (pr_error_update g3 r) = quiet_result cy r" "quiet_result cy (pr_risk_reason_update g4 r) = quiet_result cy r"
  "quiet_result cy (pr_levels_update g5 r) = quiet_result cy r" "quiet_result cy (pr_summary_update g6 r) = quiet_result cy r"
  "quiet_result cy (pr_proposal_id_update g7 r) = quiet_result cy r" "quiet_result cy (pr_risk_approved_update g8 r) = quiet_result cy r"
  "quiet_result cy (surface_analysis an r) = quiet_result cy r" "quiet_result cy (thread_chain ch r) = quiet_result cy r"
  by (simp_all add: quiet_result_def) (simp_all add: gate_raised_def)

lemma quiet_start [simp]: "quiet_result cy (start_result cy v)"
  by (simp add: quiet_result_def) (simp add: start_result_def gate_raised_def Let_def)

text \<open>
  An end before the gate: nothing is touched, no result counts as executed or as raised by the gate;
  a committee that met has its report, unless the cycle itself raised.
\<close>

definition early_end :: "cycle \<Rightarrow> 'b pipe_state \<Rightarrow> 'b cycle_end \<Rightarrow> bool" where
  "early_end cy st e \<longleftrightarrow>
     (\<exists>x st1. e = (Inl x, st1) \<and> untouched st st1 \<and> ps_meetings st1 = ps_meetings st @ [build_analysis_context cy])
     \<or> (\<exists>r st1. e = finalise True r st1 \<and> quiet_result cy r \<and> untouched st st1
          \<and> ps_meetings st1 = ps_meetings st @ [build_analysis_context cy])
     \<or> (\<exists>r. e = finalise False r st \<and> quiet_result cy r)"

lemma early_endI:
  "quiet_result cy r \<Longrightarrow> untouched st st1 \<Longrightarrow> ps_meetings st1 = ps_meetings st @ [build_analysis_context cy] \<Longrightarrow>
   early_end cy st (finalise True r st1)"
  unfolding early_end_def by blast

definition reaches_gate :: "'b pipeline \<Rightarrow> cycle \<Rightarrow> 'b pipe_state \<Rightarrow> 'b judged_trade \<Rightarrow> bool" where
  "reaches_gate P cy st t \<longleftrightarrow>
     (case t of (p, V, r, st1) \<Rightarrow>
        proposed_by P cy p V \<and> quiet_result cy r \<and> untouched st st1
        \<and> ps_meetings st1 = ps_meetings st @ [build_analysis_context cy]
        \<and> (pc_pending_guard (pi_cfg P) \<and> event_symbol cy \<noteq> [] \<longrightarrow>
             \<not> has_active (event_symbol cy) (ps_signals st) \<and> has_active (event_symbol cy) (ps_signals st1))
        \<and> (pc_freshness (pi_cfg P) \<longrightarrow> stale_snapshot_reason cy (event_symbol cy) = []))"

lemma untouched_skip [simp]: "untouched st (mark_skip C now r why st1) = untouched st st1"
  by (simp add: untouched_def mark_skip_def)

lemma meetings_skip [simp]: "ps_meetings (mark_skip C now r why st1) = ps_meetings st1"
  by (simp add: mark_skip_def)

lemma trade_step_form:
  assumes "quiet_result cy r" "untouched st0 st" "ps_meetings st = ps_meetings st0 @ [ctx]" "ctx = build_analysis_context cy"
    and "cy_supervisor cy ctx = Inr analysis" "extract_proposal analysis = Some p" "is_side (direction_of p)"
  shows "case trade_step P cy ctx analysis p r st of
     Inl e \<Rightarrow> early_end cy st0 e
   | Inr (p1, V, r1, st1) \<Rightarrow> proposed_by P cy p1 V \<and> quiet_result cy r1 \<and> untouched st0 st1
        \<and> ps_meetings st1 = ps_meetings st0 @ [ctx]
        \<and> (pc_pending_guard (pi_cfg P) \<and> event_symbol cy \<noteq> [] \<longrightarrow> has_active (event_symbol cy) (ps_signals st1))"
proof -
  let ?r = "r\<lparr>pr_decision := direction_of p, pr_proposal_id := (if py_truthy (dget p ''proposal_id'' VNone)
      then py_text (dget p ''proposal_id'' VNone) else cy_ids cy ''prop'')\<rparr>"
  let ?st = "if gated (pi_cfg P) ?r
      then st\<lparr>ps_signals := open_signal (cy_now cy) (pr_symbol ?r) (pr_decision ?r) (pr_confidence ?r) p (pr_proposal_id ?r) (ps_signals st)\<rparr>
      else st"
  have st: "untouched st0 ?st" "ps_meetings ?st = ps_meetings st0 @ [ctx]" using assms(2,3) by (simp_all add: untouched_def)
  have live: "has_active (event_symbol cy) (ps_signals ?st)" if "pc_pending_guard (pi_cfg P)" "event_symbol cy \<noteq> []"
    using that assms(1) has_active_open [of "event_symbol cy"] by (simp add: gated_def quiet_result_def)
  show ?thesis
  proof (cases "htf_bias_veto (pi_cfg P) p ctx")
    case (Some veto)
    define r1 where "r1 = add_stage ''execution'' ''SKIPPED'' ''no approved order'' (add_stage ''risk'' ''SKIPPED'' ''HTF bias veto (multi-timeframe)''
      (?r\<lparr>pr_decision := ''WAIT'', pr_status := ''NO_TRADE'', pr_risk_reason := veto, pr_levels := indicative_plan analysis ctx\<rparr>))"
    from Some have "trade_step P cy ctx analysis p r st = Inl (finalise True r1 (mark_skip (pi_cfg P) (cy_now cy) r1 (''HTF veto: '' @ veto) ?st))"
      by (simp add: trade_step_def Let_def r1_def)
    moreover have "quiet_result cy r1" using assms(1) by (simp add: r1_def)
    then have "early_end cy st0 (finalise True r1 (mark_skip (pi_cfg P) (cy_now cy) r1 (''HTF veto: '' @ veto) ?st))"
      using st assms(4) by (intro early_endI) simp_all
    ultimately show ?thesis by simp
  next
    case None
    show ?thesis
    proof (cases "build_validation_inputs (pi_cfg P) p ctx")
      case (Inl e)
      with None have "trade_step P cy ctx analysis p r st = Inl (Inl e, ?st)" by (simp add: trade_step_def Let_def)
      with st assms(4) show ?thesis by (auto simp: early_end_def)
    next
      case (Inr V)
      define r1 where "r1 = correlate ''risk_decision_id'' (cy_ids cy ''risk'')
        (?r\<lparr>pr_levels := (case order_levels V ctx of None \<Rightarrow> indicative_plan analysis ctx | l \<Rightarrow> l)\<rparr>)"
      from None Inr have "trade_step P cy ctx analysis p r st = Inr (p, V, r1, ?st)" by (simp add: trade_step_def Let_def r1_def)
      moreover have "quiet_result cy r1" using assms(1) by (simp add: r1_def)
      moreover have "proposed_by P cy p V" using None Inr assms(4-7) by (auto simp: proposed_by_def)
      ultimately show ?thesis using st live by simp
    qed
  qed
qed

lemma decide_step_form:
  assumes "quiet_result cy r" "untouched st0 st" "ps_meetings st = ps_meetings st0 @ [ctx]" "ctx = build_analysis_context cy"
    and "cy_supervisor cy ctx = Inr analysis"
  shows "case decide_step P cy ctx analysis r st of
     Inl e \<Rightarrow> early_end cy st0 e
   | Inr (p1, V, r1, st1) \<Rightarrow> proposed_by P cy p1 V \<and> quiet_result cy r1 \<and> untouched st0 st1
        \<and> ps_meetings st1 = ps_meetings st0 @ [ctx]
        \<and> (pc_pending_guard (pi_cfg P) \<and> event_symbol cy \<noteq> [] \<longrightarrow> has_active (event_symbol cy) (ps_signals st1))"
proof -
  have exits: "early_end cy st0 (no_trade_exit analysis ctx r s)" "early_end cy st0 (canonical_exit why r s)"
    if "untouched st0 s" "ps_meetings s = ps_meetings st0 @ [ctx]" for s why
    using that assms(1,4) unfolding no_trade_exit_def canonical_exit_def Let_def by (intro early_endI; simp)+
  show ?thesis
  proof (cases "extract_proposal analysis")
    case None
    then show ?thesis using exits(1) [OF assms(2,3)] by (simp add: decide_step_def)
  next
    case (Some p)
    show ?thesis
    proof (cases "is_side (direction_of p)")
      case False
      with Some show ?thesis using exits(1) [OF assms(2,3)] by (simp add: decide_step_def)
    next
      case side: True
      obtain params st1 where s: "strategy_params cy st = (params, st1)" by fastforce
      then have st1: "untouched st0 st1" "ps_meetings st1 = ps_meetings st0 @ [ctx]"
        using assms(2,3) strategy_keeps [of cy st] by (simp_all add: untouched_def)
      show ?thesis
      proof (cases "get_float_or0 p ''confidence''")
        case (Inl e)
        with Some side assms(2-4) show ?thesis by (auto simp: decide_step_def early_end_def)
      next
        case (Inr conf)
        with Some side s exits [OF st1] trade_step_form [OF assms(1) st1 assms(4,5) Some side, of P]
        show ?thesis by (simp add: decide_step_def Let_def)
      qed
    qed
  qed
qed

lemma until_gate_form:
  "case until_gate P cy st of Inl e \<Rightarrow> early_end cy st e | Inr t \<Rightarrow> reaches_gate P cy st t"
proof -
  let ?r = "start_result cy (ps_version st)" and ?ctx = "build_analysis_context cy"
  let ?st = "st\<lparr>ps_meetings := ps_meetings st @ [?ctx]\<rparr>"
  show ?thesis
  proof (cases "pending_gate (pi_cfg P) (cy_now cy) ?r (ps_signals st)")
    case (Some r1)
    then have "quiet_result cy r1"
      by (auto simp: pending_gate_def skip_all_def split: if_splits prod.splits bool.splits)
    with Some show ?thesis by (auto simp: until_gate_def early_end_def)
  next
    case pend: None
    then have conv: "pc_pending_guard (pi_cfg P) \<and> event_symbol cy \<noteq> [] \<longrightarrow> \<not> has_active (event_symbol cy) (ps_signals st)"
      using live_symbol_refuses [of "event_symbol cy" "ps_signals st" "pc_fail_cooldown (pi_cfg P)" "cy_now cy"]
      by (auto simp: pending_gate_def gated_def split: prod.splits bool.splits)
    show ?thesis
    proof (cases "freshness_gate (pi_cfg P) cy ?r")
      case (Some r1)
      then have "quiet_result cy r1" by (auto simp: freshness_gate_def skip_all_def Let_def split: if_splits)
      with Some pend show ?thesis by (auto simp: until_gate_def early_end_def)
    next
      case fresh: None
      then have ok: "pc_freshness (pi_cfg P) \<longrightarrow> stale_snapshot_reason cy (event_symbol cy) = []"
        by (auto simp: freshness_gate_def Let_def split: if_splits)
      have u: "until_gate P cy st = analyse_step P cy ?r st" using pend fresh by (simp add: until_gate_def)
      have st: "untouched st ?st" "ps_meetings ?st = ps_meetings st @ [?ctx]" by (simp_all add: untouched_def)
      show ?thesis
      proof (cases "cy_supervisor cy ?ctx")
        case (Inl e)
        have "early_end cy st (finalise True (add_stage ''supervisor'' ''ERROR'' e
            (?r\<lparr>pr_status := ''WAIT'', pr_decision := ''WAIT'', pr_error := Some (''supervisor error: '' @ e)\<rparr>)) ?st)"
          using st by (intro early_endI) simp_all
        with u Inl show ?thesis by (simp add: analyse_step_def)
      next
        case (Inr analysis)
        let ?r1 = "surface_analysis analysis (add_stage ''supervisor'' ''OK'' ''analysis complete'' ?r)"
        let ?r2 = "thread_chain (cy_chain cy analysis (pr_symbol ?r1) (pr_trace_id ?r1) (ps_version ?st)) ?r1"
        have "quiet_result cy ?r2" by simp
        note f = decide_step_form [OF this st refl Inr, of P]
        have "analyse_step P cy ?r st = decide_step P cy ?ctx analysis ?r2 ?st" using Inr by (simp add: analyse_step_def Let_def)
        with u f conv ok show ?thesis
          by (cases "decide_step P cy ?ctx analysis ?r2 ?st") (auto simp: reaches_gate_def)
      qed
    qed
  qed
qed

end
