(* ===== verification/Cycles.thy ===== *)
theory Cycles
  imports Pipeline
begin

text \<open>
  What holds of a decision cycle and of a sequence of cycles: no order past a gate, a live signal that
  holds its symbol, the levels of the zone gate, the canonical fan-out, one report per meeting.
\<close>

section \<open>Properties\<close>


text \<open>A gold order that goes through, at a broker that fills on the second attempt.\<close>

definition gold_cycle :: cycle where
  "gold_cycle = \<lparr>cy_event = [(''event_id'', VStr ''e1''), (''event_type'', VStr ''BAR''), (''symbol'', VStr ''XAUUSD'')],
     cy_context = gold_context (VFloat 0), cy_now = 1000, cy_stamp = ''t'', cy_isot = (\<lambda>t. None), cy_ids = (\<lambda>k. k),
     cy_snapshots = [], cy_source = ''LIVE'', cy_lessons = None,
     cy_supervisor = (\<lambda>c. Inr (VDict [(''proposal'', VDict gold_proposal), (''overall_confidence'', VFloat (4/5))])),
     cy_chain = (\<lambda>a s t v. []), cy_strategy = None, cy_dependency = Some (Inr (True, [])), cy_reconciliation = Some (Inr (True, [])),
     cy_readiness = Some (Inr (True, [])), cy_zone = None, cy_armed = 1, cy_targets = []\<rparr>"

definition gold_pipeline :: "nat pipeline" where
  "gold_pipeline = \<lparr>pi_cfg = demo_cfg, pi_engine = Some demo_engine, pi_multi = None, pi_coordinator = None, pi_digest = (\<lambda>d. [])\<rparr>"

definition gold_state :: "nat pipe_state" where
  "gold_state = \<lparr>ps_signals = [], ps_last = [], ps_params = [], ps_version = ''v1'', ps_world = demo_world, ps_fan = [],
     ps_meetings = [], ps_reports = []\<rparr>"

lemma gold_cycle_sends: "length (w_sent (ps_world (snd (run_cycle gold_pipeline gold_cycle gold_state)))) = 2"
  by code_simp


subsection \<open>A live signal holds its symbol\<close>

definition run_cycles :: "'b pipeline \<Rightarrow> cycle list \<Rightarrow> 'b pipe_state \<Rightarrow> 'b pipe_state" where
  "run_cycles P cys st = foldl (\<lambda>st cy. snd (run_cycle P cy st)) st cys"

definition same_symbol :: "string \<Rightarrow> cycle \<Rightarrow> bool" where
  "same_symbol symbol cy \<longleftrightarrow> event_symbol cy \<noteq> [] \<and> reg_key (event_symbol cy) = reg_key symbol"

lemma has_active_key: "reg_key s = reg_key t \<Longrightarrow> has_active s R = has_active t R"
  by (simp add: has_active_get reg_get_def)

lemma live_cycle:
  assumes "pc_pending_guard (pi_cfg P)" "same_symbol symbol cy" "has_active symbol (ps_signals st)"
  shows "snd (run_cycle P cy st) = st" "\<exists>r. fst (run_cycle P cy st) = Inr r \<and> pr_status r = ''SIGNAL_PENDING''"
proof -
  let ?r = "start_result cy (ps_version st)"
  from assms(2,3) have "has_active (event_symbol cy) (ps_signals st)" using has_active_key unfolding same_symbol_def by blast
  from live_symbol_refuses [OF this, of "pc_fail_cooldown (pi_cfg P)" "cy_now cy"] obtain why where
    "should_convene (pc_fail_cooldown (pi_cfg P)) (cy_now cy) (event_symbol cy) (ps_signals st) = (False, why)"
    by (metis prod.collapse)
  with assms(1,2) obtain r1 where "pending_gate (pi_cfg P) (cy_now cy) ?r (ps_signals st) = Some r1" "pr_status r1 = ''SIGNAL_PENDING''"
    by (auto simp: pending_gate_def gated_def same_symbol_def skip_all_def)
  then show "snd (run_cycle P cy st) = st" "\<exists>r. fst (run_cycle P cy st) = Inr r \<and> pr_status r = ''SIGNAL_PENDING''"
    by (simp_all add: run_cycle_def until_gate_def Let_def finalise_def)
qed

lemma live_cycles:
  assumes "pc_pending_guard (pi_cfg P)" "has_active symbol (ps_signals st)" "list_all (same_symbol symbol) cys"
  shows "run_cycles P cys st = st"
  using assms(3)
proof (induction cys)
  case (Cons cy cys)
  then show ?case using live_cycle(1) [OF assms(1) _ assms(2), of cy] by (simp add: run_cycles_def)
qed (simp add: run_cycles_def)

lemma gate_raised_final: "revalidate_final_order C q V r = (b, r1, V1) \<Longrightarrow> pr_trace r1 = pr_trace r \<and> pr_symbol r1 = pr_symbol r"
  by (auto simp: revalidate_final_order_def Let_def split: if_splits sum.splits)

definition exit_keeps :: "(pipe_result \<Rightarrow> 'x) \<Rightarrow> 'b cycle_end \<Rightarrow> pipe_result \<Rightarrow> bool" where
  "exit_keeps f e r \<longleftrightarrow> (case fst e of Inl x \<Rightarrow> True | Inr r1 \<Rightarrow> f r1 = f r)"

lemma exit_keeps_finalise [simp]: "exit_keeps f (finalise b r1 st) r \<longleftrightarrow> f r1 = f r"
  by (simp add: exit_keeps_def)

lemma place_order_keeps:
  assumes "\<And>a b c r. \<not> (a = ''risk'' \<and> b = ''ERROR'') \<Longrightarrow> f (add_stage a b c r) = f r" "\<And>k v r. f (correlate k v r) = f r"
    and "\<And>g r. f (pr_status_update g r) = f r" "\<And>g r. f (pr_error_update g r) = f r" "\<And>g r. f (pr_client_order_id_update g r) = f r"
    and "\<And>g r. f (pr_execution_id_update g r) = f r" "\<And>g r. f (pr_final_order_update g r) = f r" "\<And>g r. f (pr_risk_reason_update g r) = f r"
    and "\<And>g r. f (pr_signal_update g r) = f r" "\<And>g r. f (pr_signal_id_update g r) = f r" "\<And>g r. f (pr_record_update g r) = f r"
    and "\<And>g r. f (pr_fanout_update g r) = f r" "\<And>g r. f (pr_executed_update g r) = f r" "\<And>g r. f (pr_execution_update g r) = f r"
  shows "exit_keeps f (place_order P cy p V r st) r"
proof -
  note keep = assms
  have err: "exit_keeps f (error_exit ''execution'' b c r st) r0 \<longleftrightarrow> f r = f r0" for b c r st r0
    by (simp add: error_exit_def keep)
  have rev: "f r1 = f r0" if "revalidate_final_order C q V r0 = (b, r1, V1)" for C q V r0 b r1 V1
    using that by (auto simp: revalidate_final_order_def Let_def keep split: if_splits sum.splits)
  have fan: "exit_keeps f (dispatch_canonical_fanout P F cy p V r0 st) r1 \<longleftrightarrow> f r0 = f r1" for F V r0 st r1
    by (simp add: dispatch_canonical_fanout_def fanout_result_def Let_def keep split: prod.split)
  have fin: "exit_keeps f (finish_execution P cy p V r0 x st) r1 \<longleftrightarrow> f r0 = f r1" for V r0 x st r1
    by (simp add: finish_execution_def execution_result_def Let_def keep split: option.split)
  have single: "exit_keeps f (dispatch_single P E cy p V q r0 st) r1" if "f r0 = f r1" for E V q r0 st r1
    using that by (auto simp: dispatch_single_def err fin split: prod.split sum.split)
  show ?thesis
    by (auto simp: place_order_def Let_def err fan single keep dest!: rev split: sum.split prod.split bool.split option.split)
qed

text \<open>What the gates before the order do to a result.\<close>

definition kept_by_gates :: "(pipe_result \<Rightarrow> 'x) \<Rightarrow> bool" where
  "kept_by_gates f \<longleftrightarrow>
     (\<forall>a b c r. \<not> (a = ''risk'' \<and> b = ''ERROR'') \<longrightarrow> f (add_stage a b c r) = f r)
     \<and> (\<forall>g r. f (pr_status_update g r) = f r) \<and> (\<forall>g r. f (pr_risk_reason_update g r) = f r) \<and> (\<forall>g r. f (pr_error_update g r) = f r)"

lemma kept_gate_raised [simp]: "kept_by_gates gate_raised" "kept_by_gates pr_symbol"
  by (auto simp: kept_by_gates_def gate_raised_def add_stage_def)

definition stays :: "(pipe_result \<Rightarrow> 'x) \<Rightarrow> 'x \<Rightarrow> ('y \<Rightarrow> pipe_result) \<Rightarrow> (pipe_result \<times> string) + 'y \<Rightarrow> bool" where
  "stays f v pr m \<longleftrightarrow> (case m of Inl (r, why) \<Rightarrow> f r = v | Inr y \<Rightarrow> f (pr y) = v)"

lemma stays_bind: "stays f v pr m \<Longrightarrow> (\<And>y. f (pr y) = v \<Longrightarrow> stays f v pr' (k y)) \<Longrightarrow> stays f v pr' (bindE m k)"
  by (cases m) (auto simp: stays_def split: prod.splits)

lemma gates_stay:
  assumes "kept_by_gates f"
  shows "gt_stage T \<noteq> ''risk'' \<Longrightarrow> stays f (f r) id (guard_step T g r)"
    and "stays f (f r) id (single_entry_step C V r)" and "stays f (f r) id (cooldown_step C now V ctx E r)"
    and "stays f (f r) fst (zone_step cy p V ctx r)"
  using assms
  by (auto simp: stays_def guard_step_def single_entry_step_def cooldown_step_def zone_step_def zone_stages_def
      kept_by_gates_def Let_def split: option.split sum.splits prod.splits)

lemma pre_execution_stays:
  assumes "kept_by_gates f"
  shows "stays f (f r) fst (pre_execution C cy p V ctx E r)"
proof -
  note gates = gates_stay [OF assms]
  have guard: "stays f v id (guard_step T a r)" if "f r = v" "gt_stage T \<noteq> ''risk''" for T a r v
    using that gates(1) [of T r a] by auto
  have single: "stays f v id (single_entry_step C V r)" if "f r = v" for r v using that gates(2) [of r C V] by simp
  have cool: "stays f v id (cooldown_step C now V ctx E r)" if "f r = v" for r v now using that gates(3) [of r C now V ctx E] by simp
  have zone: "stays f v fst (zone_step cy p V ctx r)" if "f r = v" for r v using that gates(4) [of r cy p V ctx] by simp
  show ?thesis unfolding pre_execution_def
    by (rule stays_bind [where pr = id], rule guard, rule refl, simp add: dependency_texts_def,
        rule stays_bind [where pr = id], rule guard, simp, simp add: reconciliation_texts_def,
        rule stays_bind [where pr = id], rule guard, simp, simp add: readiness_texts_def,
        rule stays_bind [where pr = id], rule single, simp, rule stays_bind [where pr = id], rule cool, simp, rule zone, simp)
qed

lemma risk_step_outcome:
  assumes "fst (risk_step P cy ctx p V r st) = Inr r1" "gate_raised r1" "\<not> gate_raised r"
  shows "ps_signals (snd (risk_step P cy ctx p V r st)) = ps_signals st"
proof (cases "pipe_validate (pi_cfg P) (va_proposal V) V")
  case (Inl e)
  then show ?thesis by (simp add: risk_step_def Let_def)
next
  case (Inr d)
  let ?r = "add_stage ''risk'' ''OK'' (gd_reason d) (r\<lparr>pr_risk_approved := True, pr_risk_reason := gd_reason d\<rparr>)"
  have quiet: "\<not> gate_raised ?r" "\<not> gate_raised (r\<lparr>pr_risk_approved := False, pr_risk_reason := gd_reason d, pr_status := ''BLOCKED''\<rparr>)"
    using assms(3) by (simp_all add: gate_raised_def add_stage_def)
  from assms(1,2) Inr quiet have ok: "gd_approved d"
    by (cases "gd_approved d") (auto simp: risk_step_def Let_def)
  have stay: "stays gate_raised False fst (pre_execution (pi_cfg P) cy p V ctx (ps_last st) ?r)"
    using pre_execution_stays [of gate_raised ?r "pi_cfg P" cy p V ctx "ps_last st"] quiet(1) by simp
  show ?thesis
  proof (cases "pre_execution (pi_cfg P) cy p V ctx (ps_last st) ?r")
    case (Inl x)
    with stay have "\<not> gate_raised (fst x)" by (simp add: stays_def split: prod.splits)
    with assms(1,2) Inr ok Inl show ?thesis by (cases x) (auto simp: risk_step_def Let_def)
  next
    case pre: (Inr x)
    obtain r2 p1 where x: "x = (r2, p1)" by (cases x)
    with stay pre have "\<not> gate_raised r2" by (simp add: stays_def)
    moreover have "exit_keeps gate_raised (place_order P cy p1 V r2 st) r2"
      by (rule place_order_keeps) (auto simp: gate_raised_def add_stage_def correlate_def)
    ultimately have "\<not> gate_raised r1" if "fst (place_order P cy p1 V r2 st) = Inr r1"
      using that by (simp add: exit_keeps_def)
    with assms(1,2) Inr ok pre x show ?thesis by (auto simp: risk_step_def Let_def)
  qed
qed

subsection \<open>Cycles of other symbols\<close>

text \<open>A cycle touches the registry at its own symbol only.\<close>

definition elsewhere :: "string \<Rightarrow> 'b pipe_state \<Rightarrow> 'b pipe_state \<Rightarrow> bool" where
  "elsewhere s st st1 \<longleftrightarrow> (\<forall>t. s = [] \<or> reg_key t \<noteq> reg_key s \<longrightarrow> reg_get t (ps_signals st1) = reg_get t (ps_signals st))"

lemma elsewhere_refl [simp]: "elsewhere s st st"
  by (simp add: elsewhere_def)

lemma elsewhere_cong: "ps_signals v = ps_signals u \<Longrightarrow> elsewhere s st v = elsewhere s st u"
  by (simp add: elsewhere_def)

lemma elsewhere_updates [simp]:
  "elsewhere s st (ps_world_update f1 u) = elsewhere s st u" "elsewhere s st (ps_last_update f2 u) = elsewhere s st u"
  "elsewhere s st (ps_fan_update f3 u) = elsewhere s st u" "elsewhere s st (ps_meetings_update f4 u) = elsewhere s st u"
  by (simp_all add: elsewhere_def)

lemma elsewhere_exits [simp]:
  "elsewhere s st (snd (finalise b r u)) = elsewhere s st u" "elsewhere s st (snd (error_exit x y z r u)) = elsewhere s st u"
  "elsewhere s st (snd (strategy_params cy u)) = elsewhere s st u"
  "elsewhere s st (snd (no_trade_exit an ctx r u)) = elsewhere s st u" "elsewhere s st (snd (canonical_exit why r u)) = elsewhere s st u"
  by (simp_all add: elsewhere_def no_trade_exit_def canonical_exit_def Let_def)

lemma elsewhere_marks [simp]:
  assumes "pr_symbol r = s"
  shows "elsewhere s st (mark_skip C now r why u) = elsewhere s st u" "elsewhere s st (mark_fail C now r why u) = elsewhere s st u"
    "elsewhere s st (mark_live C now r why t u) = elsewhere s st u"
  using assms
  by (auto simp: elsewhere_def gated_def mark_skip_def mark_fail_def mark_live_def mark_skipped_def mark_failed_def reg_get_transition
      reg_get_mark_open)

lemma elsewhere_open [simp]:
  "s \<noteq> [] \<Longrightarrow> elsewhere s st (u\<lparr>ps_signals := open_signal now s d conf levels p (ps_signals u)\<rparr>) = elsewhere s st u"
  by (auto simp: elsewhere_def reg_get_open)

lemma symbol_stage [simp]: "pr_symbol (add_stage a b c r) = pr_symbol r"
  by (simp add: add_stage_def)

lemma symbol_final: "revalidate_final_order C q V r = (b, r1, V1) \<Longrightarrow> pr_symbol r1 = pr_symbol r"
  using gate_raised_final by blast

lemma place_order_elsewhere:
  assumes "pr_symbol r = s" "elsewhere s st u"
  shows "elsewhere s st (snd (place_order P cy p V r u))"
proof -
  note e = assms(2) [folded assms(1)]
  have fan: "elsewhere (pr_symbol r) st (snd (dispatch_canonical_fanout P F cy p W q u))" if "pr_symbol q = pr_symbol r" for F W q
    using that e by (simp add: dispatch_canonical_fanout_def Let_def split: prod.split)
  have single: "elsewhere (pr_symbol r) st (snd (dispatch_single P E cy p W x q u))" if "pr_symbol q = pr_symbol r" for E W x q
    using that e by (auto simp: dispatch_single_def finish_execution_def Let_def split: prod.split sum.split)
  show ?thesis unfolding assms(1) [symmetric] using e
    by (auto simp: place_order_def Let_def fan single dest!: symbol_final split: sum.split prod.split bool.split option.split)
qed

lemma risk_step_elsewhere:
  assumes "pr_symbol r = s" "elsewhere s st u"
  shows "elsewhere s st (snd (risk_step P cy ctx p V r u))"
proof (cases "pipe_validate (pi_cfg P) (va_proposal V) V")
  case (Inl e)
  with assms show ?thesis by (simp add: risk_step_def Let_def)
next
  case (Inr d)
  let ?r = "add_stage ''risk'' ''OK'' (gd_reason d) (r\<lparr>pr_risk_approved := True, pr_risk_reason := gd_reason d\<rparr>)"
  have stay: "stays pr_symbol s fst (pre_execution (pi_cfg P) cy p V ctx (ps_last u) ?r)"
    using pre_execution_stays [OF kept_gate_raised(2), of ?r "pi_cfg P" cy p V ctx "ps_last u"] assms(1) by simp
  show ?thesis
  proof (cases "gd_approved d")
    case False
    with Inr assms show ?thesis by (simp add: risk_step_def Let_def)
  next
    case ok: True
    show ?thesis
    proof (cases "pre_execution (pi_cfg P) cy p V ctx (ps_last u) ?r")
      case (Inl x)
      with stay have "pr_symbol (fst x) = s" by (simp add: stays_def split: prod.splits)
      with Inl Inr ok assms(2) show ?thesis by (cases x) (simp add: risk_step_def Let_def)
    next
      case pre: (Inr x)
      with stay have "pr_symbol (fst x) = s" by (simp add: stays_def)
      with pre Inr ok place_order_elsewhere [OF _ assms(2), of "fst x" P cy "snd x" V] show ?thesis
        by (cases x) (simp add: risk_step_def Let_def)
    qed
  qed
qed

text \<open>The state a step up to the gate leaves, whether it ended the cycle or not.\<close>

fun state_of :: "'b cycle_end + 'b judged_trade \<Rightarrow> 'b pipe_state" where
  "state_of (Inl e) = snd e"
| "state_of (Inr (p, V, r, st)) = st"

lemma trade_step_elsewhere:
  assumes "pr_symbol r = s" "elsewhere s st u"
  shows "elsewhere s st (state_of (trade_step P cy ctx an p r u))"
  using assms by (auto simp: trade_step_def gated_def Let_def split: option.split sum.split)

lemma decide_step_elsewhere:
  assumes "pr_symbol r = s" "elsewhere s st u"
  shows "elsewhere s st (state_of (decide_step P cy ctx an r u))"
proof -
  obtain params v where v: "strategy_params cy u = (params, v)" by fastforce
  with assms(2) elsewhere_exits(3) [of s st cy u] have "elsewhere s st v" by simp
  with assms v trade_step_elsewhere [OF assms(1), of st v P cy ctx an] show ?thesis
    by (simp add: decide_step_def Let_def split: option.split sum.split)
qed

lemma surface_symbol [simp]: "pr_symbol (surface_analysis an r) = pr_symbol r"
  by (simp add: surface_analysis_def Let_def split: pyval.split)

lemma until_gate_elsewhere: "elsewhere (event_symbol cy) st (state_of (until_gate P cy st))"
proof -
  have "elsewhere (event_symbol cy) st (state_of (analyse_step P cy (start_result cy (ps_version st)) st))"
    by (auto simp: analyse_step_def Let_def intro!: decide_step_elsewhere split: sum.split)
  then show ?thesis by (simp add: until_gate_def Let_def split: option.split)
qed

lemma run_cycle_elsewhere: "elsewhere (event_symbol cy) st (snd (run_cycle P cy st))"
proof (cases "until_gate P cy st")
  case (Inl e)
  with until_gate_elsewhere [of cy st P] show ?thesis by (simp add: run_cycle_def)
next
  case (Inr t)
  obtain p V r0 st1 where t: "t = (p, V, r0, st1)" by (cases t)
  from until_gate_form [where P = P and cy = cy and st = st] Inr t have "pr_symbol r0 = event_symbol cy"
    by (simp add: reaches_gate_def quiet_result_def)
  moreover have "elsewhere (event_symbol cy) st st1" using until_gate_elsewhere [of cy st P] Inr t by simp
  ultimately show ?thesis using Inr t by (simp add: run_cycle_def risk_step_elsewhere)
qed

lemma live_symbol_stays_live:
  assumes "pc_pending_guard (pi_cfg P)" "symbol \<noteq> []" "has_active symbol (ps_signals st)"
  shows "has_active symbol (ps_signals (run_cycles P cys st))"
  using assms(3)
proof (induction cys arbitrary: st)
  case (Cons cy cys)
  have "has_active symbol (ps_signals (snd (run_cycle P cy st)))"
  proof (cases "same_symbol symbol cy")
    case True
    with live_cycle(1) [OF assms(1) True Cons.prems] Cons.prems show ?thesis by simp
  next
    case False
    then have "event_symbol cy = [] \<or> reg_key symbol \<noteq> reg_key (event_symbol cy)" by (auto simp: same_symbol_def)
    with run_cycle_elsewhere [of cy st P]
    have "reg_get symbol (ps_signals (snd (run_cycle P cy st))) = reg_get symbol (ps_signals st)"
      unfolding elsewhere_def by metis
    with Cons.prems show ?thesis by (simp add: has_active_get)
  qed
  with Cons.IH show ?case by (simp add: run_cycles_def)
qed (simp add: run_cycles_def)

subsection \<open>A gate that raises\<close>

text \<open>
  C39. With the pending guard on, a risk gate that raises locks its symbol against every later cycle:
  the cycle ends blocked, but the signal it had opened stays pending, and after any cycles that
  follow, of this symbol and of others, whatever their events, quotes and supervisors say, a
  cycle of the symbol ends as a pending signal with nothing changed and no committee convened.
  Cycles alone never free the symbol; what does is outside them: a call that closes or clears its
  signal, or a restart, which loses the registry.
\<close>

theorem gate_error_locks_the_symbol:
  assumes "pc_pending_guard (pi_cfg P)" and "event_symbol cy \<noteq> []"
    and "fst (run_cycle P cy st) = Inr r" and "gate_raised r"
    and "event_symbol c \<noteq> []" and "reg_key (event_symbol c) = reg_key (event_symbol cy)"
    and "now = run_cycles P later (snd (run_cycle P cy st))"
  shows "snd (run_cycle P c now) = now \<and> (\<exists>r1. fst (run_cycle P c now) = Inr r1 \<and> pr_status r1 = ''SIGNAL_PENDING'')"
proof -
  have live: "has_active (event_symbol cy) (ps_signals (snd (run_cycle P cy st)))"
  proof (cases "until_gate P cy st")
    case (Inl e)
    with until_gate_form [where P = P and cy = cy and st = st] assms(3,4) show ?thesis
      by (auto simp: run_cycle_def early_end_def quiet_result_def)
  next
    case (Inr t)
    obtain p V r0 st1 where t: "t = (p, V, r0, st1)" by (cases t)
    from until_gate_form [where P = P and cy = cy and st = st] Inr t have g: "reaches_gate P cy st (p, V, r0, st1)" by simp
    have e: "run_cycle P cy st = risk_step P cy (build_analysis_context cy) p V r0 st1" using Inr t by (simp add: run_cycle_def)
    from risk_step_outcome [of P cy "build_analysis_context cy" p V r0 st1 r] e assms(3,4) g
    have "ps_signals (snd (run_cycle P cy st)) = ps_signals st1" by (simp add: reaches_gate_def quiet_result_def)
    with g assms(1,2) show ?thesis by (simp add: reaches_gate_def)
  qed
  have "same_symbol (event_symbol cy) c" using assms(5,6) by (simp add: same_symbol_def)
  from live_cycle [OF assms(1) this live_symbol_stays_live [OF assms(1,2) live, of later]] assms(7) show ?thesis by simp
qed

text \<open>A gold cycle whose account carries a daily result that is no number.\<close>

definition broken_cycle :: cycle where
  "broken_cycle = gold_cycle\<lparr>cy_context := AList.update ''account_state''
     (VDict (AList.update ''daily_pnl'' (VStr ''n/a'') demo_account)) (gold_context (VFloat 0))\<rparr>"

definition broken_end :: "nat cycle_end" where
  "broken_end = run_cycle gold_pipeline broken_cycle gold_state"

lemma broken_raises: "case fst broken_end of Inl e \<Rightarrow> False | Inr r \<Rightarrow> gate_raised r"
  by code_simp

lemma gold_symbols: "event_symbol broken_cycle = ''XAUUSD''" "event_symbol gold_cycle = ''XAUUSD''"
  by (simp_all add: event_symbol_def broken_cycle_def gold_cycle_def dget_def py_or_def)

definition silver_cycle :: cycle where
  "silver_cycle = gold_cycle\<lparr>cy_event := [(''symbol'', VStr ''XAGUSD'')]\<rparr>"

theorem gate_error_locks_the_symbol_witness:
  "\<exists>r. fst (run_cycle gold_pipeline gold_cycle (run_cycles gold_pipeline [silver_cycle, gold_cycle] (snd broken_end))) = Inr r
     \<and> pr_status r = ''SIGNAL_PENDING''"
proof -
  from broken_raises obtain r where r: "fst broken_end = Inr r" "gate_raised r" by (auto split: sum.splits)
  have "pc_pending_guard (pi_cfg gold_pipeline)" by (simp add: gold_pipeline_def demo_cfg_def)
  from gate_error_locks_the_symbol [OF this _ r(1) [unfolded broken_end_def] r(2) _ _ refl, of gold_cycle "[silver_cycle, gold_cycle]"]
  show ?thesis by (simp add: broken_end_def gold_symbols)
qed

subsection \<open>An executed entry\<close>

lemma mark_live_active [simp]:
  "gated C r \<Longrightarrow> pr_symbol r = s \<Longrightarrow> has_active s (ps_signals st) \<Longrightarrow> has_active s (ps_signals (mark_live C now r why t st))"
  by (auto simp: mark_live_def has_active_get reg_get_mark_open active_phases_def)

lemma gated_result [simp]:
  "gated C (execution_result x r) = gated C r" "gated C (fanout_result s S r) = gated C r"
  "gated C (correlate k v r) = gated C r" "gated C (add_stage a b c r) = gated C r"
  by (simp_all add: gated_def)

lemma finish_execution_live:
  assumes "fst (finish_execution P cy p V r x st) = Inr r1" "pr_executed r1" "gated (pi_cfg P) r" "has_active (pr_symbol r) (ps_signals st)"
  shows "has_active (pr_symbol r) (ps_signals (snd (finish_execution P cy p V r x st)))"
proof -
  from assms(1,2) have "er_success x" by (auto simp: finish_execution_def Let_def)
  with assms(3,4) show ?thesis by (simp add: finish_execution_def Let_def)
qed

lemma fanout_exit_live:
  assumes "fst (dispatch_canonical_fanout P F cy p V r st) = Inr r1" "pr_executed r1" "gated (pi_cfg P) r" "has_active (pr_symbol r) (ps_signals st)"
  shows "has_active (pr_symbol r) (ps_signals (snd (dispatch_canonical_fanout P F cy p V r st)))"
proof -
  define s where "s = build_canonical_signal P cy V r (ps_version st)"
  obtain S w where f: "fan_out F s (cy_targets cy) (fanout_order (pi_cfg P) V s) (ps_fan st) (ps_world st) = (S, w)" by fastforce
  from assms(1) f have "r1 = fanout_result s S r" by (simp add: dispatch_canonical_fanout_def Let_def s_def)
  with assms(2) have "fs_executed S > 0" by (simp only: fanout_result_fields)
  with assms(3,4) f show ?thesis by (simp add: dispatch_canonical_fanout_def Let_def s_def)
qed

text \<open>An exit that leaves the symbol live whenever it reports an execution.\<close>

definition live_if_executed :: "string \<Rightarrow> 'b cycle_end \<Rightarrow> bool" where
  "live_if_executed s e \<longleftrightarrow> (case e of (Inl x, st) \<Rightarrow> True | (Inr r, st) \<Rightarrow> pr_executed r \<longrightarrow> has_active s (ps_signals st))"

lemma live_if_executed_finalise [simp]: "\<not> pr_executed r \<Longrightarrow> live_if_executed s (finalise b r st)"
  by (simp add: live_if_executed_def finalise_def)

lemma live_if_executedI: "(\<And>r. fst e = Inr r \<Longrightarrow> pr_executed r \<Longrightarrow> has_active s (ps_signals (snd e))) \<Longrightarrow> live_if_executed s e"
  by (cases e) (auto simp: live_if_executed_def split: sum.split)

lemma revalidate_executed: "revalidate_final_order C q V r = (b, r1, V1) \<Longrightarrow> pr_executed r1 = pr_executed r \<and> pr_symbol r1 = pr_symbol r"
  by (auto simp: revalidate_final_order_def Let_def split: if_splits sum.splits)

lemma error_exit_live [simp]: "\<not> pr_executed r \<Longrightarrow> live_if_executed s (error_exit a b c r st)"
  by (simp add: error_exit_def)

lemma dispatch_single_live:
  assumes "gated (pi_cfg P) r" "\<not> pr_executed r" "has_active (pr_symbol r) (ps_signals st)"
  shows "live_if_executed (pr_symbol r) (dispatch_single P E cy p V q r st)"
  using assms finish_execution_live [of P cy p V r _ _ _]
  by (auto simp: dispatch_single_def intro!: live_if_executedI split: prod.splits sum.splits)

lemma place_order_live:
  assumes "gated (pi_cfg P) r" "\<not> pr_executed r" "has_active (pr_symbol r) (ps_signals st)"
  shows "live_if_executed (pr_symbol r) (place_order P cy p V r st)"
proof -
  have "live_if_executed (pr_symbol r) (dispatch_canonical_fanout P F cy p W q st)" if "gated (pi_cfg P) q" "pr_symbol q = pr_symbol r" for F W q
    using that fanout_exit_live [of P F cy p W q st] assms(3) by (intro live_if_executedI) simp
  moreover have "live_if_executed (pr_symbol r) (dispatch_single P E cy p W x q st)"
    if "gated (pi_cfg P) q" "pr_symbol q = pr_symbol r" "\<not> pr_executed q" for E W x q
    using that dispatch_single_live [of P q st E cy p W x] assms(3) by simp
  ultimately show ?thesis using assms
    by (auto simp: place_order_def Let_def gated_def dest!: revalidate_executed split: sum.split prod.split bool.split option.split)
qed

lemma risk_step_live:
  assumes "gated (pi_cfg P) r" "\<not> pr_executed r" "has_active (pr_symbol r) (ps_signals st)"
  shows "live_if_executed (pr_symbol r) (risk_step P cy ctx p V r st)"
proof (cases "pipe_validate (pi_cfg P) (va_proposal V) V")
  case (Inl e)
  with assms(2) show ?thesis by (simp add: risk_step_def Let_def)
next
  case (Inr d)
  let ?r = "add_stage ''risk'' ''OK'' (gd_reason d) (r\<lparr>pr_risk_approved := True, pr_risk_reason := gd_reason d\<rparr>)"
  show ?thesis
  proof (cases "gd_approved d")
    case False
    with Inr assms(2) show ?thesis by (simp add: risk_step_def Let_def)
  next
    case ok: True
    have st: "stays f (f r) fst (pre_execution (pi_cfg P) cy p V ctx (ps_last st) ?r)" if "kept_by_gates f" "f ?r = f r" for f :: "pipe_result \<Rightarrow> 'x"
      using pre_execution_stays [OF that(1), of ?r "pi_cfg P" cy p V ctx "ps_last st"] that(2) by simp
    have ex: "kept_by_gates pr_executed" by (simp add: kept_by_gates_def)
    show ?thesis
    proof (cases "pre_execution (pi_cfg P) cy p V ctx (ps_last st) ?r")
      case (Inl x)
      with st [OF ex] have "pr_executed (fst x) = pr_executed r" by (simp add: stays_def split: prod.splits)
      with Inl Inr ok assms(2) show ?thesis by (cases x) (simp add: risk_step_def Let_def)
    next
      case pre: (Inr x)
      with st [OF ex] st [OF kept_gate_raised(2)] have "pr_executed (fst x) = pr_executed r" "pr_symbol (fst x) = pr_symbol r"
        by (simp_all add: stays_def)
      with pre Inr ok assms place_order_live [of P "fst x" st cy "snd x" V] show ?thesis
        by (cases x) (simp add: risk_step_def Let_def gated_def)
    qed
  qed
qed

lemma executed_cycle_live:
  assumes "pc_pending_guard (pi_cfg P)" "event_symbol cy \<noteq> []" "fst (run_cycle P cy st) = Inr r" "pr_executed r"
  shows "has_active (event_symbol cy) (ps_signals (snd (run_cycle P cy st)))"
proof (cases "until_gate P cy st")
  case (Inl e)
  with until_gate_form [where P = P and cy = cy and st = st] assms(3,4) show ?thesis
    by (auto simp: run_cycle_def early_end_def quiet_result_def)
next
  case (Inr t)
  obtain p V r0 st1 where t: "t = (p, V, r0, st1)" by (cases t)
  from until_gate_form [where P = P and cy = cy and st = st] Inr t have g: "reaches_gate P cy st (p, V, r0, st1)" by simp
  have e: "run_cycle P cy st = risk_step P cy (build_analysis_context cy) p V r0 st1" using Inr t by (simp add: run_cycle_def)
  from g assms(1,2) risk_step_live [of P r0 st1 cy "build_analysis_context cy" p V]
  have "live_if_executed (event_symbol cy) (run_cycle P cy st)" by (simp add: e gated_def reaches_gate_def quiet_result_def)
  with assms(3,4) show ?thesis by (cases "run_cycle P cy st") (simp add: live_if_executed_def)
qed


definition gold_end :: "nat cycle_end" where
  "gold_end = run_cycle gold_pipeline gold_cycle gold_state"

lemma gold_executes: "case fst gold_end of Inl e \<Rightarrow> False | Inr r \<Rightarrow> pr_executed r"
  by code_simp


subsection \<open>The levels of the zone gate\<close>

lemma zone_selects:
  "cy_event (cy\<lparr>cy_zone := z\<rparr>) = cy_event cy" "cy_context (cy\<lparr>cy_zone := z\<rparr>) = cy_context cy" "cy_now (cy\<lparr>cy_zone := z\<rparr>) = cy_now cy"
  "cy_stamp (cy\<lparr>cy_zone := z\<rparr>) = cy_stamp cy" "cy_isot (cy\<lparr>cy_zone := z\<rparr>) = cy_isot cy" "cy_ids (cy\<lparr>cy_zone := z\<rparr>) = cy_ids cy"
  "cy_snapshots (cy\<lparr>cy_zone := z\<rparr>) = cy_snapshots cy" "cy_source (cy\<lparr>cy_zone := z\<rparr>) = cy_source cy" "cy_lessons (cy\<lparr>cy_zone := z\<rparr>) = cy_lessons cy"
  "cy_supervisor (cy\<lparr>cy_zone := z\<rparr>) = cy_supervisor cy" "cy_chain (cy\<lparr>cy_zone := z\<rparr>) = cy_chain cy" "cy_strategy (cy\<lparr>cy_zone := z\<rparr>) = cy_strategy cy"
  "cy_dependency (cy\<lparr>cy_zone := z\<rparr>) = cy_dependency cy" "cy_reconciliation (cy\<lparr>cy_zone := z\<rparr>) = cy_reconciliation cy" "cy_readiness (cy\<lparr>cy_zone := z\<rparr>) = cy_readiness cy"
  "cy_armed (cy\<lparr>cy_zone := z\<rparr>) = cy_armed cy" "cy_targets (cy\<lparr>cy_zone := z\<rparr>) = cy_targets cy"
  by simp_all

lemma zone_reads:
  "event_id (cy\<lparr>cy_zone := z\<rparr>) = event_id cy" "event_type (cy\<lparr>cy_zone := z\<rparr>) = event_type cy"
  "event_symbol (cy\<lparr>cy_zone := z\<rparr>) = event_symbol cy" "own_snapshot (cy\<lparr>cy_zone := z\<rparr>) = own_snapshot cy"
  unfolding event_id_def event_type_def event_symbol_def own_snapshot_def zone_selects by (rule refl)+

lemma zone_reads_context:
  "stale_snapshot_reason (cy\<lparr>cy_zone := z\<rparr>) s = stale_snapshot_reason cy s" "merge_snapshot (cy\<lparr>cy_zone := z\<rparr>) ctx = merge_snapshot cy ctx"
  unfolding stale_snapshot_reason_def judged_snapshot_def resolve_market_snapshot_def merge_snapshot_def zone_selects zone_reads
  by (rule refl)+

lemma zone_reads_start:
  "build_analysis_context (cy\<lparr>cy_zone := z\<rparr>) = build_analysis_context cy" "start_result (cy\<lparr>cy_zone := z\<rparr>) v = start_result cy v"
  "freshness_gate C (cy\<lparr>cy_zone := z\<rparr>) r = freshness_gate C cy r" "strategy_params (cy\<lparr>cy_zone := z\<rparr>) st = strategy_params cy st"
  unfolding build_analysis_context_def start_result_def freshness_gate_def strategy_params_def zone_selects zone_reads zone_reads_context
  by (rule refl)+

lemma zone_reads_gate: "until_gate P (cy\<lparr>cy_zone := z\<rparr>) st = until_gate P cy st"
  unfolding until_gate_def analyse_step_def decide_step_def trade_step_def zone_selects zone_reads_start by (rule refl)

lemma zone_reads_order:
  "order_input (cy\<lparr>cy_zone := z\<rparr>) p V = order_input cy p V" "client_order_id (cy\<lparr>cy_zone := z\<rparr>) p V = client_order_id cy p V"
  "dispatch_execution P E (cy\<lparr>cy_zone := z\<rparr>) q w = dispatch_execution P E cy q w"
  "build_canonical_signal P (cy\<lparr>cy_zone := z\<rparr>) V r v = build_canonical_signal P cy V r v"
  unfolding order_input_def client_order_id_def dispatch_execution_def build_canonical_signal_def zone_selects by (rule refl)+

lemma zone_reads_place: "place_order P (cy\<lparr>cy_zone := z\<rparr>) p V r st = place_order P cy p V r st"
  unfolding place_order_def dispatch_canonical_fanout_def dispatch_single_def finish_execution_def zone_selects zone_reads_order by (rule refl)

lemma plan_order_input [simp]: "order_input cy (apply_plan plan p) V = order_input cy p V"
  by (simp add: order_input_def apply_plan_def direction_of_def Let_def split: option.split)

lemma plan_client_order_id [simp]: "client_order_id cy (apply_plan plan p) V = client_order_id cy p V"
  by (simp add: client_order_id_def)

lemma zone_stages_trace:
  obtains g where "zone_stages plan r = pr_trace_update g r"
proof (cases "list_all (\<lambda>k. map_of plan k \<noteq> None) [''entry'', ''stop_loss'', ''take_profit'']")
  case True
  then have "zone_stages plan r = pr_trace_update (\<lambda>t. (t @ [\<lparr>sg_stage = ''zone_entry'', sg_status = ''OK'', sg_detail = ''harga di zona OB/FVG''\<rparr>])
      @ [\<lparr>sg_stage = ''entry_stage'', sg_status = ''OK'', sg_detail = ''ENTRY_ARMED'' @ arrow @ ''ENTRY_TRIGGERED (trigger terkonfirmasi)''\<rparr>]) r"
    by (simp add: zone_stages_def add_stage_def)
  with that show thesis .
next
  case False
  then have "zone_stages plan r = pr_trace_update (\<lambda>t. t) r" by (simp only: zone_stages_def if_False) simp
  with that show thesis .
qed

lemma revalidate_trace:
  "revalidate_final_order C q V (pr_trace_update g r) =
     (case revalidate_final_order C q V r of (ok, r1, V1) \<Rightarrow> (ok, pr_trace_update g r1, V1))"
  by (simp add: revalidate_final_order_def Let_def split: sum.split)

text \<open>The engine or the fan-out sees neither the trace of the result nor the levels of the proposal.\<close>

lemma place_order_blind:
  "ps_world (snd (place_order P cy (apply_plan plan p) V (pr_trace_update g r) st)) = ps_world (snd (place_order P cy p V r st))"
proof -
  let ?r = "r\<lparr>pr_client_order_id := client_order_id cy p V\<rparr>"
  have swap: "pr_trace_update g r\<lparr>pr_client_order_id := c\<rparr> = pr_trace_update g (r\<lparr>pr_client_order_id := c\<rparr>)" for c by simp
  have sig: "build_canonical_signal P cy W (correlate k v (pr_trace_update g r1\<lparr>pr_client_order_id := c, pr_execution_id := e\<rparr>)) u
      = build_canonical_signal P cy W (correlate k v (r1\<lparr>pr_client_order_id := c, pr_execution_id := e\<rparr>)) u" for W k v r1 c e u
    by (simp add: build_canonical_signal_def correlate_def)
  have fan: "ps_world (snd (dispatch_canonical_fanout P F cy q W r1 st)) = snd (fan_out F (build_canonical_signal P cy W r1 (ps_version st))
      (cy_targets cy) (fanout_order (pi_cfg P) W (build_canonical_signal P cy W r1 (ps_version st))) (ps_fan st) (ps_world st))" for F q W r1
    by (simp add: dispatch_canonical_fanout_def Let_def split: prod.split)
  show ?thesis
  proof (cases "build_order_request (pc_builder (pi_cfg P)) (cy_ids cy ''key'') (order_input cy p V) (va_market V)")
    case (Inl e)
    then show ?thesis by (simp add: place_order_def Let_def)
  next
    case (Inr q0)
    obtain ok r1 W where rv: "revalidate_final_order (pi_cfg P) q0 V ?r = (ok, r1, W)" by (metis prod_cases3)
    show ?thesis
    proof (cases ok)
      case False
      with Inr rv show ?thesis by (simp add: place_order_def swap revalidate_trace Let_def)
    next
      case True
      with Inr rv show ?thesis
        by (cases "pi_coordinator P"; cases "pi_engine P")
          (simp_all add: place_order_def swap revalidate_trace Let_def dispatch_single_world fan sig)
    qed
  qed
qed

lemma pre_execution_zone:
  "pre_execution C (cy\<lparr>cy_zone := Some gate\<rparr>) p V ctx E r =
     bindE (pre_execution C (cy\<lparr>cy_zone := None\<rparr>) p V ctx E r)
       (\<lambda>(r1, p1). zone_step (cy\<lparr>cy_zone := Some gate\<rparr>) p1 V ctx r1)"
proof -
  have none: "zone_step (cy\<lparr>cy_zone := None\<rparr>) p V ctx r1 = Inr (r1, p)" for r1 by (simp add: zone_step_def)
  show ?thesis unfolding pre_execution_def none zone_selects by (simp add: bindE_assoc)
qed

lemma zone_step_world:
  "case zone_step (cy\<lparr>cy_zone := Some gate\<rparr>) p V ctx r of
     Inl x \<Rightarrow> True
   | Inr (r1, p1) \<Rightarrow> ps_world (snd (place_order P (cy\<lparr>cy_zone := Some gate\<rparr>) p1 V r1 st)) = ps_world (snd (place_order P (cy\<lparr>cy_zone := None\<rparr>) p V r st))"
proof (cases "gate (pr_symbol r) p V ctx")
  case (Pair plan why)
  then show ?thesis
  proof (cases plan)
    case None
    with Pair show ?thesis by (simp add: zone_step_def)
  next
    case (Some levels)
    obtain g where "zone_stages levels r = pr_trace_update g r" by (rule zone_stages_trace)
    with Some Pair show ?thesis unfolding zone_reads_place by (simp add: zone_step_def place_order_blind)
  qed
qed

lemma risk_step_zone:
  "ps_world (snd (risk_step P (cy\<lparr>cy_zone := Some gate\<rparr>) ctx p V r st)) = ps_world st
   \<or> ps_world (snd (risk_step P (cy\<lparr>cy_zone := Some gate\<rparr>) ctx p V r st)) = ps_world (snd (risk_step P (cy\<lparr>cy_zone := None\<rparr>) ctx p V r st))"
proof (cases "pipe_validate (pi_cfg P) (va_proposal V) V")
  case (Inl e)
  then show ?thesis by (simp add: risk_step_def Let_def)
next
  case (Inr d)
  let ?r = "add_stage ''risk'' ''OK'' (gd_reason d) (r\<lparr>pr_risk_approved := True, pr_risk_reason := gd_reason d\<rparr>)"
  let ?z = "cy\<lparr>cy_zone := Some gate\<rparr>" and ?n = "cy\<lparr>cy_zone := None\<rparr>"
  show ?thesis
  proof (cases "gd_approved d")
    case False
    with Inr show ?thesis by (simp add: risk_step_def Let_def)
  next
    case ok: True
    show ?thesis
    proof (cases "pre_execution (pi_cfg P) ?n p V ctx (ps_last st) ?r")
      case pre: (Inl x)
      then have "pre_execution (pi_cfg P) ?z p V ctx (ps_last st) ?r = Inl x" by (simp add: pre_execution_zone [where gate = gate])
      with Inr ok show ?thesis by (cases x) (simp add: risk_step_def Let_def)
    next
      case pre: (Inr x)
      obtain r1 p1 where x: "x = (r1, p1)" by (cases x)
      with pre have z: "pre_execution (pi_cfg P) ?z p V ctx (ps_last st) ?r = zone_step ?z p1 V ctx r1"
        by (simp add: pre_execution_zone [where gate = gate])
      from zone_step_world [where cy = cy and gate = gate and p = p1 and V = V and ctx = ctx and r = r1 and P = P and st = st] Inr pre x z ok
      show ?thesis
        by (cases "zone_step ?z p1 V ctx r1") (auto simp: risk_step_def Let_def split: prod.splits)
    qed
  qed
qed

text \<open>
  C38. The levels of the zone gate never reach the order: whatever gate is installed and whatever plan it
  gives, the cycle leaves the engine, the broker and the fan-out ledger's world either untouched or
  exactly as the cycle without a zone gate leaves them. The plan's entry, stop and target are written
  to the proposal, but the order is built from the validated copy.
\<close>

theorem zone_levels_never_reach_the_order:
  "ps_world (snd (run_cycle P (cy\<lparr>cy_zone := Some gate\<rparr>) st))
     \<in> {ps_world st, ps_world (snd (run_cycle P (cy\<lparr>cy_zone := None\<rparr>) st))}"
proof (cases "until_gate P cy st")
  case (Inl e)
  then show ?thesis by (simp add: run_cycle_def zone_reads_gate)
next
  case (Inr t)
  obtain p V r st1 where t: "t = (p, V, r, st1)" by (cases t)
  have w: "ps_world st1 = ps_world st"
    using until_gate_form [where P = P and cy = cy and st = st] Inr t by (simp add: reaches_gate_def untouched_def)
  have e: "run_cycle P (cy\<lparr>cy_zone := z\<rparr>) st = risk_step P (cy\<lparr>cy_zone := z\<rparr>) (build_analysis_context cy) p V r st1" for z
    by (simp add: run_cycle_def zone_reads_gate zone_reads_start Inr t)
  from risk_step_zone [where P = P and cy = cy and gate = gate and ctx = "build_analysis_context cy" and p = p and V = V and r = r and st = st1] w
  show ?thesis unfolding e by simp
qed

subsection \<open>The canonical fan-out with its risk gate\<close>

text \<open>An exit that sends nothing and reports no execution.\<close>

definition idle_end :: "'b pipe_state \<Rightarrow> 'b cycle_end \<Rightarrow> bool" where
  "idle_end st e \<longleftrightarrow> w_sent (ps_world (snd e)) = w_sent (ps_world st) \<and> (case fst e of Inl x \<Rightarrow> True | Inr r \<Rightarrow> \<not> pr_executed r)"

lemma idle_finalise [simp]: "idle_end st (finalise b r st1) \<longleftrightarrow> w_sent (ps_world st1) = w_sent (ps_world st) \<and> \<not> pr_executed r"
  by (simp add: idle_end_def)

lemma idle_error_exit [simp]: "idle_end st (error_exit a b c r st) \<longleftrightarrow> \<not> pr_executed r"
  by (simp add: error_exit_def)

lemma gated_fanout_idle: "idle_end st (dispatch_canonical_fanout P (F\<lparr>fo_gate := Some G\<rparr>) cy p V r st)"
proof -
  define s where "s = build_canonical_signal P cy V r (ps_version st)"
  obtain S w where f: "fan_out (F\<lparr>fo_gate := Some G\<rparr>) s (cy_targets cy) (fanout_order (pi_cfg P) V s) (ps_fan st) (ps_world st) = (S, w)"
    by fastforce
  from fan_out_gated [where F = F and G = G and s = s and targets = "cy_targets cy" and base = "fanout_order (pi_cfg P) V s"
      and L = "ps_fan st" and w = "ps_world st"] f
  have "fs_executed S = 0" "w_sent w = w_sent (ps_world st)" by simp_all
  with f show ?thesis by (simp add: dispatch_canonical_fanout_def Let_def s_def)
qed

lemma place_order_idle:
  assumes "pi_coordinator P = Some (F\<lparr>fo_gate := Some G\<rparr>)" "\<not> pr_executed r"
  shows "idle_end st (place_order P cy p V r st)"
  using assms
  by (auto simp: place_order_def Let_def gated_fanout_idle dest!: revalidate_executed split: sum.split prod.split bool.split)

text \<open>A property of exits that the exits of the gates have, and placing an order keeps, holds of the step.\<close>

lemma risk_step_by_place:
  assumes "\<not> pr_executed r"
    and "\<And>r1 why. \<not> pr_executed r1 \<Longrightarrow> Q (finalise True r1 (mark_skip (pi_cfg P) (cy_now cy) r1 why st))"
    and "\<And>r1. \<not> pr_executed r1 \<Longrightarrow> Q (finalise True r1 st)"
    and "\<And>p1 r1. \<not> pr_executed r1 \<Longrightarrow> Q (place_order P cy p1 V r1 st)"
  shows "Q (risk_step P cy ctx p V r st)"
proof (cases "pipe_validate (pi_cfg P) (va_proposal V) V")
  case (Inl e)
  with assms(1,3) show ?thesis by (simp add: risk_step_def Let_def)
next
  case (Inr d)
  let ?r = "add_stage ''risk'' ''OK'' (gd_reason d) (r\<lparr>pr_risk_approved := True, pr_risk_reason := gd_reason d\<rparr>)"
  have "kept_by_gates pr_executed" by (simp add: kept_by_gates_def)
  from pre_execution_stays [OF this, of ?r "pi_cfg P" cy p V ctx "ps_last st"] assms(1)
  have st: "stays pr_executed False fst (pre_execution (pi_cfg P) cy p V ctx (ps_last st) ?r)" by simp
  show ?thesis
  proof (cases "gd_approved d")
    case False
    with Inr assms(1,2) show ?thesis by (simp add: risk_step_def Let_def)
  next
    case True
    with Inr assms(2,4) st show ?thesis
      by (cases "pre_execution (pi_cfg P) cy p V ctx (ps_last st) ?r") (auto simp: risk_step_def Let_def stays_def)
  qed
qed

text \<open>
  A pipeline whose canonical fan-out has its risk gate never trades: no cycle of it, whatever the
  event, the supervisor, the accounts and the limits are, sends an order or reports an execution.
\<close>

theorem canonical_pipeline_never_executes:
  "case run_cycle (P\<lparr>pi_coordinator := Some (F\<lparr>fo_gate := Some G\<rparr>)\<rparr>) cy st of
     (result, st1) \<Rightarrow> w_sent (ps_world st1) = w_sent (ps_world st)
       \<and> (case result of Inl e \<Rightarrow> True | Inr r \<Rightarrow> \<not> pr_executed r)"
proof -
  let ?P = "P\<lparr>pi_coordinator := Some (F\<lparr>fo_gate := Some G\<rparr>)\<rparr>"
  note form = until_gate_form [where P = ?P and cy = cy and st = st]
  have "idle_end st (run_cycle ?P cy st)"
  proof (cases "until_gate ?P cy st")
    case (Inl e)
    with form show ?thesis by (auto simp: run_cycle_def early_end_def untouched_def quiet_result_def) (simp add: idle_end_def)
  next
    case (Inr t)
    obtain p V r st1 where t: "t = (p, V, r, st1)" by (cases t)
    with form Inr have q: "\<not> pr_executed r" "ps_world st1 = ps_world st" by (auto simp: reaches_gate_def quiet_result_def untouched_def)
    have "idle_end st1 (risk_step ?P cy (build_analysis_context cy) p V r st1)"
      by (rule risk_step_by_place [OF q(1)]) (simp_all add: place_order_idle [where F = F and G = G])
    with q(2) Inr t show ?thesis by (simp add: run_cycle_def idle_end_def)
  qed
  then show ?thesis by (cases "run_cycle ?P cy st") (simp add: idle_end_def)
qed

subsection \<open>Reports\<close>

definition reported :: "'b pipe_state \<Rightarrow> 'b cycle_end \<Rightarrow> bool" where
  "reported st e \<longleftrightarrow> (\<exists>r st1. e = finalise True r st1 \<and> ps_reports st1 = ps_reports st \<and> ps_meetings st1 = ps_meetings st)"

lemma reported_finalise [intro]: "ps_reports st1 = ps_reports st \<Longrightarrow> ps_meetings st1 = ps_meetings st \<Longrightarrow> reported st (finalise True r st1)"
  unfolding reported_def by blast

lemma mark_meetings [simp]:
  "ps_meetings (mark_fail C now r why st) = ps_meetings st" "ps_meetings (mark_live C now r why t st) = ps_meetings st"
  by (simp_all add: mark_fail_def mark_live_def)

lemma reported_exits [simp]:
  "reported st (error_exit a b c r st)" "reported st (error_exit a b c r (st\<lparr>ps_world := w\<rparr>))"
  "reported st (finish_execution P cy p V r x (st\<lparr>ps_world := w\<rparr>))" "reported st (finalise True r st)"
  "reported st (finalise True r (mark_skip C now r1 why st))"
  unfolding error_exit_def finish_execution_def Let_def by (rule reported_finalise; simp)+

lemma reported_dispatch [simp]:
  "reported st (dispatch_single P E cy p V q r st)" "reported st (dispatch_canonical_fanout P F cy p V r st)"
  by (auto simp: dispatch_single_def split: prod.split sum.split)
    (auto simp: dispatch_canonical_fanout_def Let_def split: prod.split)

lemma place_order_reported: "reported st (place_order P cy p V r st)"
  by (simp add: place_order_def Let_def split: sum.split prod.split bool.split option.split)

text \<open>
  C33. One report per meeting: a cycle that returns hands its result to the hook exactly when the committee
  met in it, once and as its last act; a skipped cycle is silent, and a cycle that raises reports
  nothing. The committee meets at most once in a cycle.
\<close>

theorem one_report_per_meeting:
  "case run_cycle P cy st of
     (Inl e, st1) \<Rightarrow> ps_reports st1 = ps_reports st
   | (Inr r, st1) \<Rightarrow>
       (ps_reports st1 = ps_reports st @ [r] \<and> ps_meetings st1 = ps_meetings st @ [build_analysis_context cy])
       \<or> (ps_reports st1 = ps_reports st \<and> ps_meetings st1 = ps_meetings st)"
proof (cases "until_gate P cy st")
  case (Inl e)
  with until_gate_form [where P = P and cy = cy and st = st] show ?thesis
    by (auto simp: run_cycle_def early_end_def untouched_def finalise_def)
next
  case (Inr t)
  obtain p V r st1 where t: "t = (p, V, r, st1)" by (cases t)
  from until_gate_form [where P = P and cy = cy and st = st] Inr t
  have g: "\<not> pr_executed r" "ps_reports st1 = ps_reports st" "ps_meetings st1 = ps_meetings st @ [build_analysis_context cy]"
    by (auto simp: reaches_gate_def quiet_result_def untouched_def)
  have "reported st1 (risk_step P cy (build_analysis_context cy) p V r st1)"
    by (rule risk_step_by_place [OF g(1)]) (simp_all add: place_order_reported)
  then obtain r1 st2 where "risk_step P cy (build_analysis_context cy) p V r st1 = finalise True r1 st2"
    "ps_reports st2 = ps_reports st1" "ps_meetings st2 = ps_meetings st1" unfolding reported_def by blast
  with Inr t g show ?thesis by (simp add: run_cycle_def finalise_def)
qed

end
