(* ===== verification/Symbol_Names.thy ===== *)
theory Symbol_Names
  imports Prelude "HOL-Library.Char_ord" "HOL-Library.List_Lexorder" "HOL-Library.Product_Lexorder"
begin

text \<open>
  The broker's names of the instruments: \<open>mt5/symbol_resolver.py\<close>. A requested base name is
  matched against the symbols of the attached terminal; \<open>candidate_matches\<close> lists the plausible
  ones, best first, in the spelling of the broker. The cache of resolutions is part of the binding
  (theory \<open>Binding\<close>).
\<close>

section \<open>Matching\<close>

definition common_suffixes :: "string list" where
  "common_suffixes = ['''', ''c'', ''m'', ''247c'', ''.raw'', ''.r'', ''.pro'', ''-pro'', ''pro'', ''_raw'', ''raw'',
     ''cash'', ''spot'', ''ecn'']"

definition common_prefixes :: "string list" where
  "common_prefixes = ['''', ''x'', ''#'']"

definition is_name_char :: "char \<Rightarrow> bool" where
  "is_name_char c \<longleftrightarrow> (let n = of_char c :: nat in (97 \<le> n \<and> n \<le> 122) \<or> (48 \<le> n \<and> n \<le> 57))"

definition normalise_name :: "string \<Rightarrow> string" where
  "normalise_name s = filter is_name_char (lower s)"

text \<open>\<open>by_upper\<close>: the first spelling of each symbol, in the order of the terminal.\<close>

definition file_spelling :: "(string \<times> string) list \<Rightarrow> string \<Rightarrow> (string \<times> string) list" where
  "file_spelling m s = (if s \<noteq> [] \<and> map_of m (upper s) = None then m @ [(upper s, s)] else m)"

definition spellings :: "string list \<Rightarrow> (string \<times> string) list" where
  "spellings symbols = foldl file_spelling [] symbols"

definition variants :: "string \<Rightarrow> string list" where
  "variants base = concat (map (\<lambda>suffix. map (\<lambda>prefix. upper (prefix @ base @ suffix)) common_prefixes) common_suffixes)"

text \<open>\<open>sorted(..., key=lambda u: (len(u), u))\<close>.\<close>

definition shortest_first :: "string list \<Rightarrow> string list" where
  "shortest_first us = sort_key (\<lambda>u. (length u, u)) us"

text \<open>\<open>add\<close>: one more candidate, unless its spelling is already listed.\<close>

definition add_candidate ::
  "(string \<times> string) list \<Rightarrow> string list \<times> string list \<Rightarrow> string \<Rightarrow> string list \<times> string list" where
  "add_candidate by so u =
     (case map_of by u of
        Some s \<Rightarrow> (if s \<noteq> [] \<and> upper s \<notin> set (fst so) then (upper s # fst so, snd so @ [s]) else so)
      | None \<Rightarrow> so)"

definition candidate_matches :: "string \<Rightarrow> string list \<Rightarrow> string list" where
  "candidate_matches base symbols =
     (let b = upper (strip base)
      in if b = [] then []
         else let by = spellings symbols; names = map fst by; nb = normalise_name b
              in case map_of by b of
                   Some s \<Rightarrow> [s]
                 | None \<Rightarrow>
                     snd (foldl (add_candidate by) ([], [])
                       (filter (\<lambda>v. v \<in> set names) (variants b)
                        @ shortest_first (filter (has_prefix b) names)
                        @ shortest_first (filter (\<lambda>u. normalise_name u = nb) names)
                        @ shortest_first (filter (\<lambda>u. has_prefix nb (normalise_name u)) names))))"

section \<open>Spellings\<close>

definition spelt :: "(string \<times> string) list \<Rightarrow> bool" where
  "spelt m \<longleftrightarrow> list_all (\<lambda>(u, s). u = upper s \<and> s \<noteq> []) m \<and> distinct (map fst m)"

lemma file_spelling_facts:
  "spelt m \<Longrightarrow> spelt (file_spelling m x)"
  "snd ` set (file_spelling m x) \<subseteq> insert x (snd ` set m)"
  "fst ` set (file_spelling m x) = fst ` set m \<union> upper ` ({x} - {[]})"
  by (auto simp: file_spelling_def spelt_def map_of_eq_None_iff)

lemma spellings_fold:
  "spelt m \<Longrightarrow> spelt (foldl file_spelling m xs)
   \<and> snd ` set (foldl file_spelling m xs) \<subseteq> snd ` set m \<union> set xs
   \<and> fst ` set (foldl file_spelling m xs) = fst ` set m \<union> upper ` (set xs - {[]})"
proof (induction xs arbitrary: m)
  case (Cons x xs)
  note ih = Cons.IH [OF file_spelling_facts(1) [OF Cons.prems, of x]]
  have "snd ` set (foldl file_spelling (file_spelling m x) xs) \<subseteq> snd ` set (file_spelling m x) \<union> set xs"
    using ih by (elim conjE)
  also have "\<dots> \<subseteq> snd ` set m \<union> set (x # xs)" using file_spelling_facts(2) [of m x] by auto
  finally have 1: "snd ` set (foldl file_spelling m (x # xs)) \<subseteq> snd ` set m \<union> set (x # xs)" by simp
  have "fst ` set (foldl file_spelling (file_spelling m x) xs) = fst ` set (file_spelling m x) \<union> upper ` (set xs - {[]})"
    using ih by (elim conjE)
  also have "\<dots> = fst ` set m \<union> upper ` (set (x # xs) - {[]})" using file_spelling_facts(3) [of m x] by auto
  finally have 2: "fst ` set (foldl file_spelling m (x # xs)) = fst ` set m \<union> upper ` (set (x # xs) - {[]})" by simp
  show ?case using ih 1 2 by (simp only: foldl_Cons simp_thms)
qed simp

lemma spellings_facts:
  "spelt (spellings xs)" "snd ` set (spellings xs) \<subseteq> set xs"
  "fst ` set (spellings xs) = upper ` (set xs - {[]})"
  using spellings_fold [of "[]" xs] by (simp_all add: spellings_def spelt_def)

lemma spelling_upper: "map_of (spellings xs) u = Some s \<Longrightarrow> u = upper s \<and> s \<noteq> [] \<and> s \<in> set xs"
  using spellings_facts(1,2) [of xs] by (force dest!: map_of_SomeD simp: spelt_def list_all_iff)

lemma names_of_spellings: "fst ` set (spellings xs) = upper ` (set xs - {[]})"
  by (rule spellings_facts)

section \<open>The list of candidates\<close>

lemma has_prefix_iff: "has_prefix p s \<longleftrightarrow> (\<exists>t. s = p @ t)"
  by (induction p s rule: has_prefix.induct) auto

lemma normalise_append: "normalise_name (a @ b) = normalise_name a @ normalise_name b"
  by (simp add: normalise_name_def lower_def)

lemma prefix_normalises: "has_prefix b u \<Longrightarrow> has_prefix (normalise_name b) (normalise_name u)"
  by (auto simp: has_prefix_iff normalise_append)

lemma set_shortest_first [simp]: "set (shortest_first us) = set us"
  by (simp add: shortest_first_def)

lemma add_fold:
  assumes by_ok: "\<And>u s. map_of by u = Some s \<Longrightarrow> u = upper s \<and> s \<noteq> []"
    and "set (fst so) = upper ` set (snd so)" and "distinct (map upper (snd so))"
    and "\<forall>s\<in>set (snd so). map_of by (upper s) = Some s"
  shows "set (fst (foldl (add_candidate by) so us)) = upper ` set (snd (foldl (add_candidate by) so us))
         \<and> distinct (map upper (snd (foldl (add_candidate by) so us)))
         \<and> (\<forall>s\<in>set (snd (foldl (add_candidate by) so us)). map_of by (upper s) = Some s)
         \<and> upper ` set (snd (foldl (add_candidate by) so us)) = upper ` set (snd so) \<union> (set us \<inter> dom (map_of by))"
  using assms(2-)
proof (induction us arbitrary: so)
  case (Cons u us)
  let ?n = "add_candidate by so u"
  have step: "set (fst ?n) = upper ` set (snd ?n) \<and> distinct (map upper (snd ?n))
      \<and> (\<forall>s\<in>set (snd ?n). map_of by (upper s) = Some s)
      \<and> upper ` set (snd ?n) = upper ` set (snd so) \<union> ({u} \<inter> dom (map_of by))"
  proof (cases "map_of by u")
    case (Some s)
    have "u = upper s" "s \<noteq> []" using by_ok [OF Some] by auto
    then show ?thesis
      using Cons.prems Some by (auto simp: add_candidate_def)
  qed (use Cons.prems in \<open>auto simp: add_candidate_def\<close>)
  show ?case using Cons.IH [of ?n] step by auto
qed auto

text \<open>
  What a candidate is: the base between a known prefix and suffix, or a name that starts with the
  base once separators and case are dropped.
\<close>

definition plausible :: "string \<Rightarrow> string \<Rightarrow> bool" where
  "plausible b u \<longleftrightarrow> u \<in> set (variants b) \<or> has_prefix (normalise_name b) (normalise_name u)"

lemma candidates_eq:
  assumes "b = upper (strip base)" "b \<noteq> []" "map_of (spellings xs) b = None"
  shows "distinct (map upper (candidate_matches base xs))"
    and "\<forall>s\<in>set (candidate_matches base xs). map_of (spellings xs) (upper s) = Some s"
    and "upper ` set (candidate_matches base xs) = {u \<in> upper ` (set xs - {[]}). plausible b u}"
proof -
  let ?by = "spellings xs" and ?nb = "normalise_name b"
  let ?us = "filter (\<lambda>v. v \<in> set (map fst ?by)) (variants b)
             @ shortest_first (filter (has_prefix b) (map fst ?by))
             @ shortest_first (filter (\<lambda>u. normalise_name u = ?nb) (map fst ?by))
             @ shortest_first (filter (\<lambda>u. has_prefix ?nb (normalise_name u)) (map fst ?by))"
  have eq: "candidate_matches base xs = snd (foldl (add_candidate ?by) ([], []) ?us)"
    using assms by (simp add: candidate_matches_def Let_def)
  have refl: "has_prefix p p" for p :: string by (simp add: has_prefix_iff)
  have "set ?us = {u \<in> fst ` set ?by. plausible b u}"
    by (auto simp: plausible_def refl intro: prefix_normalises)
  moreover have "dom (map_of ?by) = fst ` set ?by" by (simp add: dom_map_of_conv_image_fst)
  ultimately have us: "set ?us \<inter> dom (map_of ?by) = {u \<in> upper ` (set xs - {[]}). plausible b u}"
    using names_of_spellings [of xs] by auto
  have by_ok: "\<And>u s. map_of ?by u = Some s \<Longrightarrow> u = upper s \<and> s \<noteq> []"
    using spelling_upper by blast
  note fold = add_fold [OF by_ok, where so = "([], [])" and us = ?us, simplified]
  show "distinct (map upper (candidate_matches base xs))" unfolding eq using fold by simp
  show "\<forall>s\<in>set (candidate_matches base xs). map_of ?by (upper s) = Some s" unfolding eq using fold by simp
  show "upper ` set (candidate_matches base xs) = {u \<in> upper ` (set xs - {[]}). plausible b u}"
    unfolding eq us [symmetric] using fold by simp
qed

lemma candidates_plausible_set:
  "let b = upper (strip base); cs = candidate_matches base symbols
   in set cs \<subseteq> set symbols \<and> distinct (map upper cs)
      \<and> set (map upper cs) = (if b = [] then {}
           else if b \<in> set (map upper symbols) then {b}
           else {u. u \<in> set (map upper (filter (\<lambda>s. s \<noteq> []) symbols)) \<and> plausible b u})"
proof -
  define b where "b = upper (strip base)"
  define cs where "cs = candidate_matches base symbols"
  have names: "fst ` set (spellings symbols) = upper ` (set symbols - {[]})" by (rule names_of_spellings)
  have main: "set cs \<subseteq> set symbols \<and> distinct (map upper cs)
      \<and> set (map upper cs) = (if b = [] then {}
           else if b \<in> set (map upper symbols) then {b}
           else {u. u \<in> set (map upper (filter (\<lambda>s. s \<noteq> []) symbols)) \<and> plausible b u})"
  proof (cases "b = []")
    case True
    then show ?thesis by (simp add: cs_def candidate_matches_def b_def Let_def)
  next
    case nonempty: False
    show ?thesis
    proof (cases "map_of (spellings symbols) b")
      case (Some s)
      then have "cs = [s]" using nonempty by (simp add: cs_def candidate_matches_def b_def Let_def)
      moreover have "b = upper s" "s \<in> set symbols" using spelling_upper [OF Some] by auto
      ultimately show ?thesis using nonempty by auto
    next
      case None
      then have "b \<notin> upper ` (set symbols - {[]})"
        using names by (metis map_of_eq_None_iff)
      then have notin: "b \<notin> set (map upper symbols)" using nonempty by (auto simp: upper_def)
      note c = candidates_eq [OF b_def nonempty None, folded cs_def]
      have "set cs \<subseteq> set symbols" using c(2) spelling_upper by blast
      moreover have "upper ` (set symbols - {[]}) = set (map upper (filter (\<lambda>s. s \<noteq> []) symbols))" by auto
      ultimately show ?thesis using c nonempty notin by auto
    qed
  qed
  show ?thesis using main unfolding b_def cs_def Let_def by blast
qed

lemma candidates_listed: "set (candidate_matches base symbols) \<subseteq> set symbols"
  using candidates_plausible_set [of base symbols] by (simp add: Let_def)

lemma candidates_nonempty: "s \<in> set (candidate_matches base symbols) \<Longrightarrow> s \<noteq> []"
proof -
  assume s: "s \<in> set (candidate_matches base symbols)"
  then have "upper s \<in> set (map upper (candidate_matches base symbols))" by simp
  then have "upper s \<noteq> []"
    using candidates_plausible_set [of base symbols] by (auto simp: Let_def upper_def split: if_splits)
  then show ?thesis by (auto simp: upper_def)
qed

text \<open>
  The candidates of a base are exactly the plausible symbols of the terminal, each in the broker's
  own spelling and once up to case; a symbol equal to the base up to case is the only candidate.
\<close>

theorem candidates_are_the_plausible_symbols:
  "let b = upper (strip base); cs = candidate_matches base symbols
   in set cs \<subseteq> set symbols \<and> distinct (map upper cs)
      \<and> set (map upper cs) = (if b = [] then {}
           else if b \<in> set (map upper symbols) then {b}
           else {u. u \<in> set (map upper (filter (\<lambda>s. s \<noteq> []) symbols)) \<and> plausible b u})"
  by (rule candidates_plausible_set)

text \<open>
  A base of separators alone normalises to nothing, and the last resort then accepts every symbol:
  the dash resolves to the shortest symbol of the terminal.
\<close>

lemma dash_matches_everything:
  "candidate_matches ''-'' [''EURUSD'', ''BTC''] = [''BTC'', ''EURUSD'']"
  by code_simp

end
