(* ===== verification/Binding.thy ===== *)
theory Binding
  imports Symbol_Names
begin

text \<open>
  The process-wide binding to one terminal: \<open>use_live_data_mode\<close> and \<open>shutdown\<close> of
  \<open>mt5/connector.py\<close>, and the cached resolution of symbols of \<open>mt5/symbol_resolver.py\<close>. The
  MetaTrader5 library is the parameter \<open>native\<close> over a broker state of any type \<open>'b\<close>; \<open>None\<close>
  stands for a process that cannot import it. A read that raises or answers \<open>None\<close> reads as
  nothing, as in the code; \<open>initialize\<close> may raise, which is the value \<open>None\<close> of its answer.
\<close>

section \<open>The library and the binding\<close>

record 'b native =
  nv_initialize :: "string option \<Rightarrow> 'b \<Rightarrow> bool option \<times> 'b"
  nv_shutdown :: "'b \<Rightarrow> 'b"
  nv_path :: "'b \<Rightarrow> string option"        \<comment> \<open>\<open>terminal_info().path\<close>\<close>
  nv_account :: "'b \<Rightarrow> pydict option"     \<comment> \<open>the attributes of \<open>account_info()\<close>\<close>
  nv_symbols :: "'b \<Rightarrow> string list"       \<comment> \<open>the names of \<open>symbols_get()\<close>\<close>

record 'b binding =
  bd_broker :: 'b
  bd_live :: bool
  bd_available :: bool
  bd_cache :: "(string \<times> string) list"

section \<open>Attaching and detaching\<close>

definition shutdown :: "'b native option \<Rightarrow> 'b binding \<Rightarrow> 'b binding" where
  "shutdown N d =
     d\<lparr>bd_broker := (if bd_available d
                    then (case N of Some n \<Rightarrow> nv_shutdown n (bd_broker d) | None \<Rightarrow> bd_broker d)
                    else bd_broker d),
       bd_live := False, bd_available := False\<rparr>"

definition use_live_data_mode :: "'b native option \<Rightarrow> string option \<Rightarrow> 'b binding \<Rightarrow> bool \<times> 'b binding" where
  "use_live_data_mode N path d =
     (case N of
        None \<Rightarrow> (False, d\<lparr>bd_available := False\<rparr>)
      | Some n \<Rightarrow>
          (let p = (case path of Some (c # cs) \<Rightarrow> Some (c # cs) | _ \<Rightarrow> None);
               (ok, b) = nv_initialize n p (bd_broker d)
           in case ok of
                None \<Rightarrow> (False, d\<lparr>bd_broker := b, bd_available := False\<rparr>)
              | Some True \<Rightarrow> (True, d\<lparr>bd_broker := b, bd_live := True, bd_available := True\<rparr>)
              | Some False \<Rightarrow> (False, d\<lparr>bd_broker := b\<rparr>)))"

text \<open>\<open>_detect_attached_path\<close> of \<open>mt5/terminals.py\<close>.\<close>

definition detect_attached_path :: "'b native option \<Rightarrow> 'b binding \<Rightarrow> string option" where
  "detect_attached_path N d =
     (case N of None \<Rightarrow> None
      | Some n \<Rightarrow> (case nv_path n (bd_broker d) of Some (c # cs) \<Rightarrow> Some (c # cs) | _ \<Rightarrow> None))"

section \<open>Symbols of the attached terminal\<close>

definition available_symbols :: "'b native option \<Rightarrow> 'b binding \<Rightarrow> string list" where
  "available_symbols N d =
     (if \<not> bd_live d then [] else case N of None \<Rightarrow> [] | Some n \<Rightarrow> nv_symbols n (bd_broker d))"

definition clear_symbol_cache :: "'b binding \<Rightarrow> 'b binding" where
  "clear_symbol_cache d = d\<lparr>bd_cache := []\<rparr>"

definition resolve_broker_symbol :: "'b native option \<Rightarrow> string \<Rightarrow> 'b binding \<Rightarrow> string \<times> 'b binding" where
  "resolve_broker_symbol N base d =
     (let b = upper (strip base)
      in if b = [] then (base, d)
         else case map_of (bd_cache d) b of
                Some (c # cs) \<Rightarrow> (c # cs, d)
              | _ \<Rightarrow>
                  (let symbols = available_symbols N d
                   in if symbols = [] then (base, d)
                      else case candidate_matches b symbols of
                             [] \<Rightarrow> (base, d)
                           | s # _ \<Rightarrow> (s, d\<lparr>bd_cache := AList.update b s (bd_cache d)\<rparr>)))"

section \<open>Facts\<close>

lemma shutdown_flags [simp]:
  "bd_live (shutdown N d) = False" "bd_available (shutdown N d) = False" "bd_cache (shutdown N d) = bd_cache d"
  by (simp_all add: shutdown_def)

lemma attach_cache [simp]: "bd_cache (snd (use_live_data_mode N p d)) = bd_cache d"
  by (auto simp: use_live_data_mode_def Let_def split: option.splits bool.splits list.splits prod.splits)

lemma attach_ok:
  assumes "fst (use_live_data_mode N p d)"
  shows "bd_live (snd (use_live_data_mode N p d))" "bd_available (snd (use_live_data_mode N p d))"
  using assms
  by (auto simp: use_live_data_mode_def Let_def split: option.splits bool.splits list.splits prod.splits)

lemma detect_nonempty: "detect_attached_path N d = Some p \<Longrightarrow> p \<noteq> []"
  by (auto simp: detect_attached_path_def split: option.splits list.splits)

lemma resolve_broker [simp]: "bd_broker (snd (resolve_broker_symbol N s d)) = bd_broker d"
  by (auto simp: resolve_broker_symbol_def Let_def split: option.splits list.splits)

lemma resolve_cached:
  assumes "map_of (bd_cache d) (upper (strip base)) = Some s" "upper (strip base) \<noteq> []" "s \<noteq> []"
  shows "resolve_broker_symbol N base d = (s, d)"
  using assms by (cases s) (auto simp: resolve_broker_symbol_def Let_def)

text \<open>
  The contract of the resolver: with an empty cache and a live terminal the answer is the base
  itself or a symbol this terminal lists, and asking again gives the same answer without a lookup.
\<close>

theorem resolution_is_listed:
  "(let (s, e) = resolve_broker_symbol N base (clear_symbol_cache d)
    in (s = base \<or> s \<in> set (available_symbols N d)) \<and> resolve_broker_symbol N base e = (s, e))"
proof (cases "upper (strip base) = []")
  case True
  then show ?thesis by (simp add: resolve_broker_symbol_def)
next
  case nonempty: False
  define b where "b = upper (strip base)"
  define d0 where "d0 = clear_symbol_cache d"
  have d0: "bd_cache d0 = []" "available_symbols N d0 = available_symbols N d"
    by (simp_all add: d0_def clear_symbol_cache_def available_symbols_def split: option.splits)
  have b: "b \<noteq> []" using nonempty by (simp add: b_def)
  consider "available_symbols N d = []" | "available_symbols N d \<noteq> []" "candidate_matches b (available_symbols N d) = []"
    | s cs where "available_symbols N d \<noteq> []" "candidate_matches b (available_symbols N d) = s # cs"
    by (cases "candidate_matches b (available_symbols N d)") auto
  then show ?thesis
  proof cases
    case 3
    have listed: "set (candidate_matches b (available_symbols N d)) \<subseteq> set (available_symbols N d)"
      by (rule candidates_listed)
    have s: "s \<noteq> []" using 3(2) candidates_nonempty [of s b "available_symbols N d"] by simp
    have r: "resolve_broker_symbol N base d0 = (s, d0\<lparr>bd_cache := [(b, s)]\<rparr>)"
      using 3 b d0 by (simp add: resolve_broker_symbol_def b_def [symmetric])
    moreover have "resolve_broker_symbol N base (d0\<lparr>bd_cache := [(b, s)]\<rparr>) = (s, d0\<lparr>bd_cache := [(b, s)]\<rparr>)"
      by (rule resolve_cached) (use b s in \<open>auto simp: b_def\<close>)
    ultimately show ?thesis using listed 3 by (simp add: d0_def [symmetric])
  qed (use b d0 in \<open>simp_all add: d0_def [symmetric] resolve_broker_symbol_def b_def [symmetric]\<close>)
qed

end
