(* ===== verification/Terminal_Config.thy ===== *)
theory Terminal_Config
  imports Prelude
begin

text \<open>
  The registry file of the terminals: the first half of \<open>mt5/terminals.py\<close>. \<open>load_config\<close> reads
  it, \<open>update_terminal_config\<close> patches one entry and writes it back, \<open>scan_running_terminals\<close>
  reads the process table. Windows paths are compared through \<open>norm_path\<close>, Python's
  \<open>ntpath.normcase(ntpath.normpath(p))\<close>. A file is missing, unreadable or a JSON value; writing a
  value and reading it back gives the value, as JSON does for text, finite numbers, lists and
  dictionaries with text keys.
\<close>

section \<open>Windows paths\<close>

definition backslash :: char where
  "backslash = CHR 0x5C"

definition is_sep :: "char \<Rightarrow> bool" where
  "is_sep c \<longleftrightarrow> c = backslash \<or> c = CHR ''/''"

definition native_seps :: "string \<Rightarrow> string" where
  "native_seps p = map (\<lambda>c. if c = CHR ''/'' then backslash else c) p"

definition sep_from :: "string \<Rightarrow> nat \<Rightarrow> nat option" where
  "sep_from p start =
     (let n = start + length (takeWhile (\<lambda>c. c \<noteq> backslash) (drop start p))
      in if n < length p then Some n else None)"

definition unc_prefix :: string where
  "unc_prefix = [backslash, backslash, CHR ''?'', backslash, CHR ''U'', CHR ''N'', CHR ''C'', backslash]"

text \<open>\<open>ntpath.splitroot\<close>: drive, root and rest.\<close>

definition splitroot :: "string \<Rightarrow> string \<times> string \<times> string" where
  "splitroot p =
     (let q = native_seps p
      in if take 1 q = [backslash]
         then if take 1 (drop 1 q) = [backslash]
              then case sep_from q (if upper (take 8 q) = unc_prefix then 8 else 2) of
                     None \<Rightarrow> (p, [], [])
                   | Some i \<Rightarrow>
                       (case sep_from q (i + 1) of
                          None \<Rightarrow> (p, [], [])
                        | Some j \<Rightarrow> (take j p, take 1 (drop j p), drop (j + 1) p))
              else ([], take 1 p, drop 1 p)
         else if take 1 (drop 1 q) = '':''
         then if take 1 (drop 2 q) = [backslash] then (take 2 p, take 1 (drop 2 p), drop 3 p)
              else (take 2 p, [], drop 2 p)
         else ([], [], p))"

definition split_path :: "string \<Rightarrow> string \<times> string" where
  "split_path p =
     (let (d, r, q) = splitroot p;
          tail = rev (takeWhile (\<lambda>c. \<not> is_sep c) (rev q));
          head = take (length q - length tail) q
      in (d @ r @ rev (dropWhile is_sep (rev head)), tail))"

definition dirname :: "string \<Rightarrow> string" where
  "dirname p = fst (split_path p)"

definition basename :: "string \<Rightarrow> string" where
  "basename p = snd (split_path p)"

fun split_on :: "char \<Rightarrow> string \<Rightarrow> string list" where
  "split_on s [] = [[]]"
| "split_on s (c # cs) =
     (if c = s then [] # split_on s cs
      else case split_on s cs of [] \<Rightarrow> [[c]] | w # ws \<Rightarrow> (c # w) # ws)"

text \<open>One component of \<open>ntpath.normpath\<close>; the components kept so far are in reverse.\<close>

definition keep_component :: "string \<Rightarrow> string list \<Rightarrow> string \<Rightarrow> string list" where
  "keep_component rt kept c =
     (if c = [] \<or> c = ''.'' then kept
      else if c = ''..''
      then if kept \<noteq> [] \<and> hd kept \<noteq> ''..'' then tl kept
           else if kept = [] \<and> rt \<noteq> [] then kept else c # kept
      else c # kept)"

definition normpath :: "string \<Rightarrow> string" where
  "normpath p =
     (let (drive, rt, rest) = splitroot (native_seps p);
          comps = rev (foldl (keep_component rt) [] (split_on backslash rest))
      in drive @ rt @ join [backslash] (if drive @ rt = [] \<and> comps = [] then [''.''] else comps))"

definition norm_path :: "string \<Rightarrow> string" where
  "norm_path p = lower (native_seps (normpath p))"

lemma native_seps_idem [simp]: "native_seps (native_seps p) = native_seps p"
  by (simp add: native_seps_def backslash_def)

lemma norm_path_separators: "norm_path (native_seps p) = norm_path p"
  by (simp add: norm_path_def normpath_def)

section \<open>The file and the process table\<close>

datatype file_text = FileMissing | FileUnreadable | Parsed pyval

record terminal_config =
  tc_id :: string
  tc_label :: string
  tc_path :: string
  tc_execution :: bool
  tc_risk_pct :: "pyfloat option"
  tc_fixed_lot :: "pyfloat option"
  tc_max_lot :: "pyfloat option"
  tc_fanout :: bool

definition coerce_float :: "pyval \<Rightarrow> pyfloat option" where
  "coerce_float v =
     (if v = VNone then None else case py_float v of Inl _ \<Rightarrow> None | Inr x \<Rightarrow> Some x)"

definition positive :: "pyfloat option \<Rightarrow> pyfloat option" where
  "positive x = (case x of Some v \<Rightarrow> if 0 < v then Some v else None | None \<Rightarrow> None)"

definition id_text :: "pydict \<Rightarrow> string \<Rightarrow> string" where
  "id_text e k = strip (py_text (py_or (dget e k VNone) (VStr [])))"

definition load_entry :: "pydict \<Rightarrow> terminal_config option" where
  "load_entry e =
     (let tid = id_text e ''id''; tpath = id_text e ''path''
      in if tid = [] \<or> tpath = [] then None
         else Some \<lparr>tc_id = tid, tc_label = py_text (py_or (dget e ''label'' VNone) (VStr tid)), tc_path = tpath,
                tc_execution = py_truthy (dget e ''execution'' (VBool False)),
                tc_risk_pct = positive (coerce_float (dget e ''risk_per_trade_pct'' VNone)),
                tc_fixed_lot = positive (coerce_float (dget e ''fixed_lot'' VNone)),
                tc_max_lot = positive (coerce_float (dget e ''max_lot_per_trade'' VNone)),
                tc_fanout = py_truthy (dget e ''fanout_target'' (VBool True))\<rparr>)"

fun load_entries :: "pyval list \<Rightarrow> terminal_config list" where
  "load_entries [] = []"
| "load_entries (VDict e # vs) =
     (case load_entry e of None \<Rightarrow> load_entries vs | Some c \<Rightarrow> c # load_entries vs)"
| "load_entries (_ # vs) = load_entries vs"

definition load_config :: "file_text \<Rightarrow> terminal_config list" where
  "load_config f =
     (case f of
        Parsed raw \<Rightarrow>
          (case (case raw of VDict d \<Rightarrow> dget d ''terminals'' VNone | _ \<Rightarrow> raw) of
             VList entries \<Rightarrow> load_entries entries
           | _ \<Rightarrow> [])
      | _ \<Rightarrow> [])"

text \<open>A process of the table; \<open>None\<close> for one that vanishes or denies access while it is read.\<close>

record process =
  pc_pid :: int
  pc_name :: string
  pc_exe :: string

record running =
  rn_pid :: int
  rn_exe :: string
  rn_folder :: string

definition scan_running_terminals :: "process option list option \<Rightarrow> running list" where
  "scan_running_terminals table =
     (case table of
        None \<Rightarrow> []
      | Some ps \<Rightarrow>
          concat (map (\<lambda>p. case p of
              None \<Rightarrow> []
            | Some q \<Rightarrow> (if lower (pc_name q) = ''terminal64.exe'' \<and> pc_exe q \<noteq> []
                         then [\<lparr>rn_pid = pc_pid q, rn_exe = pc_exe q, rn_folder = dirname (pc_exe q)\<rparr>] else [])) ps))"

section \<open>Patching one entry\<close>

definition sizing_keys :: "string list" where
  "sizing_keys = [''risk_per_trade_pct'', ''fixed_lot'', ''max_lot_per_trade'']"

definition patch_flag :: "pydict \<Rightarrow> string \<Rightarrow> pydict \<Rightarrow> pydict" where
  "patch_flag patch k e =
     (case map_of patch k of
        Some v \<Rightarrow> (if v \<noteq> VNone then AList.update k (VBool (py_truthy v)) e else e)
      | None \<Rightarrow> e)"

text \<open>One of the sizing keys; the error is the key with an invalid value.\<close>

definition patch_number :: "pydict \<Rightarrow> string \<Rightarrow> pydict \<Rightarrow> string + pydict" where
  "patch_number patch k e =
     (case map_of patch k of
        None \<Rightarrow> Inr e
      | Some v \<Rightarrow>
          (if v = VNone then Inr (AList.delete k e)
           else case coerce_float v of
                  Some x \<Rightarrow> (if x < 0 then Inl k else Inr (AList.update k (VFloat x) e))
                | None \<Rightarrow> Inl k))"

fun patch_numbers :: "pydict \<Rightarrow> string list \<Rightarrow> pydict \<Rightarrow> string + pydict" where
  "patch_numbers patch [] e = Inr e"
| "patch_numbers patch (k # ks) e = bindE (patch_number patch k e) (patch_numbers patch ks)"

definition patch_entry :: "pydict \<Rightarrow> pydict \<Rightarrow> string + pydict" where
  "patch_entry patch e =
     patch_numbers patch sizing_keys (patch_flag patch ''fanout_target'' (patch_flag patch ''execution'' e))"

definition is_entry :: "string \<Rightarrow> pyval \<Rightarrow> bool" where
  "is_entry tid v = (case v of VDict e \<Rightarrow> py_text (dget e ''id'' VNone) = tid | _ \<Rightarrow> False)"

fun find_entry :: "string \<Rightarrow> pyval list \<Rightarrow> pydict option" where
  "find_entry tid [] = None"
| "find_entry tid (v # vs) =
     (if is_entry tid v then (case v of VDict e \<Rightarrow> Some e | _ \<Rightarrow> None) else find_entry tid vs)"

fun replace_entry :: "string \<Rightarrow> pydict \<Rightarrow> pyval list \<Rightarrow> pyval list" where
  "replace_entry tid e [] = []"
| "replace_entry tid e (v # vs) = (if is_entry tid v then VDict e # vs else v # replace_entry tid e vs)"

datatype config_answer =
    ConfigMissing
  | ConfigUnreadable
  | BadStructure
  | NotInConfig
  | BadValue string
  | WriteFailed
  | Updated "terminal_config option"

definition update_terminal_config ::
  "bool \<Rightarrow> string \<Rightarrow> pydict \<Rightarrow> file_text \<Rightarrow> config_answer \<times> file_text" where
  "update_terminal_config writes tid patch f =
     (case f of
        FileMissing \<Rightarrow> (ConfigMissing, f)
      | FileUnreadable \<Rightarrow> (ConfigUnreadable, f)
      | Parsed raw \<Rightarrow>
          (case raw of
             VDict d \<Rightarrow>
               (case dget d ''terminals'' VNone of
                  VList entries \<Rightarrow>
                    (case find_entry tid entries of
                       None \<Rightarrow> (NotInConfig, f)
                     | Some e \<Rightarrow>
                         (case patch_entry patch e of
                            Inl k \<Rightarrow> (BadValue k, f)
                          | Inr e2 \<Rightarrow>
                              (if \<not> writes then (WriteFailed, f)
                               else let g = Parsed (VDict (AList.update ''terminals''
                                              (VList (replace_entry tid e2 entries)) d))
                                    in (Updated (find (\<lambda>c. tc_id c = tid) (load_config g)), g))))
                | _ \<Rightarrow> (BadStructure, f))
           | _ \<Rightarrow> (BadStructure, f)))"

section \<open>What an update does to the registry\<close>

text \<open>What the patch makes of a loaded entry.\<close>

definition patched_number :: "pydict \<Rightarrow> string \<Rightarrow> pyfloat option \<Rightarrow> pyfloat option" where
  "patched_number patch k old =
     (case map_of patch k of None \<Rightarrow> old | Some v \<Rightarrow> positive (coerce_float v))"

definition patched_flag :: "pydict \<Rightarrow> string \<Rightarrow> bool \<Rightarrow> bool" where
  "patched_flag patch k old =
     (case map_of patch k of Some v \<Rightarrow> if v = VNone then old else py_truthy v | None \<Rightarrow> old)"

definition patched_config :: "pydict \<Rightarrow> terminal_config \<Rightarrow> terminal_config" where
  "patched_config patch c =
     c\<lparr>tc_execution := patched_flag patch ''execution'' (tc_execution c),
       tc_fanout := patched_flag patch ''fanout_target'' (tc_fanout c),
       tc_risk_pct := patched_number patch ''risk_per_trade_pct'' (tc_risk_pct c),
       tc_fixed_lot := patched_number patch ''fixed_lot'' (tc_fixed_lot c),
       tc_max_lot := patched_number patch ''max_lot_per_trade'' (tc_max_lot c)\<rparr>"

lemma map_of_delete_iff: "map_of (AList.delete k e) x = (if x = k then None else map_of e x)"
  by (simp add: delete_conv')

lemma patch_flag_get:
  "map_of (patch_flag patch k e) x =
     (if x = k \<and> (\<exists>v. map_of patch k = Some v \<and> v \<noteq> VNone)
      then Some (VBool (py_truthy (the (map_of patch k)))) else map_of e x)"
  by (auto simp: patch_flag_def split: option.splits)

lemma patch_number_get:
  assumes "patch_number patch k e = Inr e2"
  shows "x \<noteq> k \<Longrightarrow> map_of e2 x = map_of e x"
    and "positive (coerce_float (dget e2 k VNone)) = patched_number patch k (positive (coerce_float (dget e k VNone)))"
  using assms
  by (auto simp: patch_number_def patched_number_def map_of_delete_iff dget_def coerce_float_def
        split: option.splits if_splits sum.splits)

lemma patch_entry_load:
  assumes "patch_entry patch e = Inr e2" and "load_entry e = Some c"
  shows "load_entry e2 = Some (patched_config patch c)"
proof -
  let ?a = "patch_flag patch ''execution'' e"
  let ?b = "patch_flag patch ''fanout_target'' ?a"
  obtain n1 n2 where n: "patch_number patch ''risk_per_trade_pct'' ?b = Inr n1"
    "patch_number patch ''fixed_lot'' n1 = Inr n2" "patch_number patch ''max_lot_per_trade'' n2 = Inr e2"
    using assms(1) by (auto simp: patch_entry_def sizing_keys_def)
  note o1 = patch_number_get(1) [OF n(1)] and o2 = patch_number_get(1) [OF n(2)] and o3 = patch_number_get(1) [OF n(3)]
  note g1 = patch_number_get(2) [OF n(1)] and g2 = patch_number_get(2) [OF n(2)] and g3 = patch_number_get(2) [OF n(3)]
  have same: "dget e2 x VNone = dget e x VNone" if "x \<in> {''id'', ''path'', ''label''}" for x
    using that by (auto simp: dget_def o1 o2 o3 patch_flag_get)
  have execution: "py_truthy (dget e2 ''execution'' (VBool False))
      = patched_flag patch ''execution'' (py_truthy (dget e ''execution'' (VBool False)))"
    by (auto simp: dget_def o1 o2 o3 patch_flag_get patched_flag_def split: option.splits)
  have fanout: "py_truthy (dget e2 ''fanout_target'' (VBool True))
      = patched_flag patch ''fanout_target'' (py_truthy (dget e ''fanout_target'' (VBool True)))"
    by (auto simp: dget_def o1 o2 o3 patch_flag_get patched_flag_def split: option.splits)
  have risk: "dget e2 ''risk_per_trade_pct'' VNone = dget n1 ''risk_per_trade_pct'' VNone"
    "dget ?b ''risk_per_trade_pct'' VNone = dget e ''risk_per_trade_pct'' VNone"
    by (simp_all add: dget_def o2 o3 patch_flag_get)
  have lot: "dget e2 ''fixed_lot'' VNone = dget n2 ''fixed_lot'' VNone"
    "dget n1 ''fixed_lot'' VNone = dget e ''fixed_lot'' VNone"
    by (simp_all add: dget_def o1 o3 patch_flag_get)
  have cap: "dget n2 ''max_lot_per_trade'' VNone = dget e ''max_lot_per_trade'' VNone"
    by (simp add: dget_def o1 o2 patch_flag_get)
  show ?thesis
    using assms(2) g1 g2 g3
    by (auto simp: load_entry_def Let_def id_text_def same execution fanout risk lot cap patched_config_def
        split: if_splits)
qed

lemma load_replaced:
  assumes "find_entry tid es = Some e" and "load_entry e = Some c" and "load_entry e2 = Some c2"
  shows "\<exists>before after. load_entries es = before @ c # after
           \<and> load_entries (replace_entry tid e2 es) = before @ c2 # after"
  using assms
proof (induction es)
  case (Cons v es)
  show ?case
  proof (cases "is_entry tid v")
    case True
    then show ?thesis using Cons.prems by (cases v) (auto simp: is_entry_def)
  next
    case False
    then obtain before after where IH: "load_entries es = before @ c # after"
      "load_entries (replace_entry tid e2 es) = before @ c2 # after"
      using Cons by auto
    show ?thesis
    proof (cases v)
      case (VDict d)
      then show ?thesis using IH False
        by (cases "load_entry d") (auto intro: exI [of _ "x # before" for x])
    qed (use IH False in auto)
  qed
qed simp

text \<open>
  C30. Round trip through the file: when an update of a terminal succeeds, reading the registry gives the
  old list with that one entry patched (a number that is zero or removed reads as unset), and
  the answer carries the patched entry. The ids are distinct and the id is written without
  surrounding blanks.
\<close>

theorem config_update_round_trip:
  assumes "update_terminal_config True tid patch f = (Updated r, g)"
    and "f = Parsed (VDict d)" and "dget d ''terminals'' VNone = VList es"
    and "find_entry tid es = Some e" and "load_entry e = Some c" and "tc_id c = tid"
    and "distinct (map tc_id (load_config f))"
  shows "r = Some (patched_config patch c)
         \<and> load_config g = map (\<lambda>x. if tc_id x = tid then patched_config patch x else x) (load_config f)"
proof -
  obtain e2 where e2: "patch_entry patch e = Inr e2"
    and g: "g = Parsed (VDict (AList.update ''terminals'' (VList (replace_entry tid e2 es)) d))"
    and r: "r = find (\<lambda>c. tc_id c = tid) (load_config g)"
    using assms(1-4) by (auto simp: update_terminal_config_def Let_def split: sum.splits if_splits)
  have lf: "load_config f = load_entries es" using assms(2,3) by (simp add: load_config_def)
  have lg: "load_config g = load_entries (replace_entry tid e2 es)"
    by (simp add: g load_config_def dget_def)
  obtain before after where split: "load_entries es = before @ c # after"
    "load_entries (replace_entry tid e2 es) = before @ patched_config patch c # after"
    using load_replaced [OF assms(4,5) patch_entry_load [OF e2 assms(5)]] by blast
  have id: "tc_id (patched_config patch c) = tid" using assms(6) by (simp add: patched_config_def)
  have others: "\<forall>x\<in>set before \<union> set after. tc_id x \<noteq> tid"
    using assms(6,7) split(1) unfolding lf by (auto simp: image_iff)
  have "map (\<lambda>x. if tc_id x = tid then patched_config patch x else x) xs = xs"
    if "\<forall>x\<in>set xs. tc_id x \<noteq> tid" for xs
    using that by (induction xs) auto
  then have "load_config g = map (\<lambda>x. if tc_id x = tid then patched_config patch x else x) (load_config f)"
    using others assms(6) by (simp add: lf lg split)
  moreover have "find (\<lambda>c. tc_id c = tid) (before @ patched_config patch c # after) = Some (patched_config patch c)"
  proof -
    have "find (\<lambda>c. tc_id c = tid) (xs @ patched_config patch c # after) = Some (patched_config patch c)"
      if "\<forall>x\<in>set xs. tc_id x \<noteq> tid" for xs
      using that id by (induction xs) auto
    then show ?thesis using others by blast
  qed
  ultimately show ?thesis by (simp add: r lg split)
qed

definition demo_entry :: pydict where
  "demo_entry = [(''id'', VStr ''demo''), (''path'', VStr ''C:/a/t.exe''), (''fixed_lot'', VFloat (1/10))]"

definition demo_file :: pydict where
  "demo_file = [(''terminals'', VList [VDict demo_entry, VDict [(''id'', VStr ''live''), (''path'', VStr ''D:/a/t.exe'')]])]"

definition demo_patch :: pydict where
  "demo_patch = [(''fixed_lot'', VNone), (''risk_per_trade_pct'', VInt 2), (''fanout_target'', VBool False)]"

definition demo_config :: terminal_config where
  "demo_config = \<lparr>tc_id = ''demo'', tc_label = ''demo'', tc_path = ''C:/a/t.exe'', tc_execution = False,
     tc_risk_pct = None, tc_fixed_lot = Some (1/10), tc_max_lot = None, tc_fanout = True\<rparr>"

theorem config_update_round_trip_witness:
  "\<exists>g. update_terminal_config True ''demo'' demo_patch (Parsed (VDict demo_file))
         = (Updated (Some (patched_config demo_patch demo_config)), g)
       \<and> load_config g = map (\<lambda>x. if tc_id x = ''demo'' then patched_config demo_patch x else x)
           (load_config (Parsed (VDict demo_file)))"
proof -
  let ?u = "update_terminal_config True ''demo'' demo_patch (Parsed (VDict demo_file))"
  have u: "?u = (Updated (Some (patched_config demo_patch demo_config)), snd ?u)" by code_simp
  have e: "find_entry ''demo'' [VDict demo_entry, VDict [(''id'', VStr ''live''), (''path'', VStr ''D:/a/t.exe'')]]
      = Some demo_entry" by code_simp
  have t: "dget demo_file ''terminals'' VNone
      = VList [VDict demo_entry, VDict [(''id'', VStr ''live''), (''path'', VStr ''D:/a/t.exe'')]]"
    by code_simp
  have c: "load_entry demo_entry = Some demo_config" "tc_id demo_config = ''demo''"
    "distinct (map tc_id (load_config (Parsed (VDict demo_file))))" by code_simp+
  show ?thesis using config_update_round_trip [OF u refl t e c] u by blast
qed

end
