(* ===== verification/Terminals.thy ===== *)
theory Terminals
  imports Binding Terminal_Config
begin

text \<open>
  The manager of the terminals: \<open>mt5/terminals.py\<close>. It keeps the arm and selection flag of each
  terminal, the two legacy globals with their mirrors, the account cache, and moves the process-wide
  binding. What a call meets outside (\<open>host\<close>: the library, the process table, whether a write of a
  file succeeds, the clock) is an argument of each operation. Answers carry the reason of a refusal
  instead of its text. The lock serialises the operations that move the binding, so an operation is
  one step.
\<close>

section \<open>State\<close>

record term_state =
  ts_armed :: bool
  ts_selected :: bool

definition fresh_state :: term_state where
  "fresh_state = \<lparr>ts_armed = False, ts_selected = False\<rparr>"

record 'b manager =
  tm_states :: "(string \<times> term_state) list"
  tm_selected :: "string option"
  tm_armed :: bool
  tm_seen_selected :: "string option"
  tm_seen_armed :: bool
  tm_accounts :: "(string \<times> pydict) list"
  tm_probed :: "string option"
  tm_probing :: bool
  tm_binding :: "'b binding"
  tm_config :: file_text
  tm_saved :: file_text

record 'b host =
  ho_native :: "'b native option"
  ho_processes :: "process option list option"
  ho_writes :: bool
  ho_now :: string

definition fresh_manager :: "'b binding \<Rightarrow> file_text \<Rightarrow> file_text \<Rightarrow> 'b manager" where
  "fresh_manager d config saved =
     \<lparr>tm_states = [], tm_selected = None, tm_armed = False, tm_seen_selected = None, tm_seen_armed = False,
      tm_accounts = [], tm_probed = None, tm_probing = False, tm_binding = d, tm_config = config, tm_saved = saved\<rparr>"

definition state_of :: "'b manager \<Rightarrow> string \<Rightarrow> term_state" where
  "state_of m t = (case map_of (tm_states m) t of Some s \<Rightarrow> s | None \<Rightarrow> fresh_state)"

definition set_armed :: "string \<Rightarrow> bool \<Rightarrow> 'b manager \<Rightarrow> 'b manager" where
  "set_armed t b m = m\<lparr>tm_states := AList.update t ((state_of m t)\<lparr>ts_armed := b\<rparr>) (tm_states m)\<rparr>"

definition set_selected :: "string \<Rightarrow> 'b manager \<Rightarrow> 'b manager" where
  "set_selected t m = m\<lparr>tm_states := AList.update t ((state_of m t)\<lparr>ts_selected := True\<rparr>) (tm_states m)\<rparr>"

text \<open>\<open>st["selected"] = tid == chosen\<close> for every known terminal.\<close>

definition unselect_others :: "string option \<Rightarrow> 'b manager \<Rightarrow> 'b manager" where
  "unselect_others chosen m =
     m\<lparr>tm_states := map (\<lambda>(t, s). (t, s\<lparr>ts_selected := (Some t = chosen)\<rparr>)) (tm_states m)\<rparr>"

definition disarm_all :: "'b manager \<Rightarrow> 'b manager" where
  "disarm_all m = m\<lparr>tm_states := map (\<lambda>(t, s). (t, s\<lparr>ts_armed := False\<rparr>)) (tm_states m)\<rparr>"

definition is_execution_armed :: "'b manager \<Rightarrow> bool" where
  "is_execution_armed m \<longleftrightarrow> list_ex (\<lambda>(t, s). ts_armed s) (tm_states m)"

definition first_selected :: "(string \<times> term_state) list \<Rightarrow> string option" where
  "first_selected sts = map_option fst (find (\<lambda>(t, s). ts_selected s) sts)"

definition sync_globals :: "'b manager \<Rightarrow> 'b manager" where
  "sync_globals m =
     m\<lparr>tm_selected := first_selected (tm_states m), tm_armed := is_execution_armed m,
       tm_seen_selected := first_selected (tm_states m), tm_seen_armed := is_execution_armed m\<rparr>"

definition adopt_selected :: "'b manager \<Rightarrow> 'b manager" where
  "adopt_selected m =
     (if tm_selected m = tm_seen_selected m then m
      else case tm_selected m of
             None \<Rightarrow> unselect_others None m
           | Some t \<Rightarrow> set_selected t (unselect_others (Some t) m))"

definition adopt_armed :: "'b manager \<Rightarrow> 'b manager" where
  "adopt_armed m =
     (if tm_armed m = tm_seen_armed m then m
      else if tm_armed m then (case tm_selected m of Some t \<Rightarrow> set_armed t True m | None \<Rightarrow> m)
      else disarm_all m)"

definition reconcile_globals :: "'b manager \<Rightarrow> 'b manager" where
  "reconcile_globals m = sync_globals (adopt_armed (adopt_selected m))"

section \<open>Accounts\<close>

definition account_modes :: "(string \<times> string) list" where
  "account_modes = [(''0'', ''DEMO''), (''1'', ''CONTEST''), (''2'', ''LIVE'')]"

definition account_is_verified :: "pydict option \<Rightarrow> bool" where
  "account_is_verified account =
     (case account of
        None \<Rightarrow> False
      | Some a \<Rightarrow>
          dget a ''login'' VNone \<notin> {VNone, VStr []}
          \<and> (case dget a ''server'' VNone of VStr s \<Rightarrow> strip s \<noteq> [] | _ \<Rightarrow> False)
          \<and> dget a ''mode'' VNone \<in> {VStr ''DEMO'', VStr ''CONTEST'', VStr ''LIVE''})"

definition read_account_summary :: "'b host \<Rightarrow> 'b binding \<Rightarrow> pydict option" where
  "read_account_summary H d =
     (case ho_native H of
        None \<Rightarrow> None
      | Some n \<Rightarrow>
          (case nv_account n (bd_broker d) of
             None \<Rightarrow> None
           | Some info \<Rightarrow>
               (let raw = py_text (dget info ''trade_mode'' (VStr []))
                in Some [(''login'', dget info ''login'' VNone), (''server'', dget info ''server'' VNone),
                     (''mode'', case map_of account_modes raw of Some x \<Rightarrow> VStr x | None \<Rightarrow> VNone),
                     (''trade_mode'', if raw = [] then VNone else VStr raw),
                     (''balance'', dget info ''balance'' VNone), (''equity'', dget info ''equity'' VNone),
                     (''currency'', dget info ''currency'' VNone)])))"

definition refresh_attached_account :: "'b host \<Rightarrow> 'b manager \<Rightarrow> 'b manager" where
  "refresh_attached_account H m =
     (case detect_attached_path (ho_native H) (tm_binding m) of
        None \<Rightarrow> m
      | Some folder \<Rightarrow>
          (case read_account_summary H (tm_binding m) of
             None \<Rightarrow> m
           | Some summary \<Rightarrow> m\<lparr>tm_accounts := AList.update (norm_path folder) summary (tm_accounts m)\<rparr>))"

section \<open>The registry view\<close>

record entry =
  te_id :: string
  te_label :: string
  te_path :: string
  te_folder :: string
  te_armable :: bool
  te_auto :: bool          \<comment> \<open>source: the process table, not the file\<close>
  te_running :: bool
  te_pid :: "int option"
  te_attached :: bool
  te_selected :: bool
  te_armed :: bool
  te_account :: "pydict option"
  te_verified :: bool
  te_risk_pct :: "pyfloat option"
  te_fixed_lot :: "pyfloat option"
  te_max_lot :: "pyfloat option"
  te_fanout :: bool

record view =
  vw_terminals :: "entry list"
  vw_selected :: "string option"
  vw_armed :: bool
  vw_armed_ids :: "string list"
  vw_attached :: "string option"
  vw_probed :: "string option"

definition folder_key :: "running \<Rightarrow> string" where
  "folder_key r = norm_path (rn_folder r)"

text \<open>The last process of a folder is the one its entry shows.\<close>

definition running_by_folder :: "running list \<Rightarrow> (string \<times> running) list" where
  "running_by_folder rs = rev (map (\<lambda>r. (folder_key r, r)) rs)"

definition attached_at :: "string option \<Rightarrow> string \<Rightarrow> bool" where
  "attached_at attached key \<longleftrightarrow> (case attached of None \<Rightarrow> False | Some p \<Rightarrow> norm_path p \<noteq> [] \<and> norm_path p = key)"

definition config_key :: "terminal_config \<Rightarrow> string" where
  "config_key c = norm_path (dirname (tc_path c))"

definition config_entry :: "'b manager \<Rightarrow> running list \<Rightarrow> string option \<Rightarrow> terminal_config \<Rightarrow> entry" where
  "config_entry m rs attached c =
     (let key = config_key c; proc = map_of (running_by_folder rs) key; account = map_of (tm_accounts m) key
      in \<lparr>te_id = tc_id c, te_label = tc_label c, te_path = tc_path c, te_folder = dirname (tc_path c),
          te_armable = (proc \<noteq> None), te_auto = False, te_running = (proc \<noteq> None), te_pid = map_option rn_pid proc,
          te_attached = attached_at attached key, te_selected = ts_selected (state_of m (tc_id c)),
          te_armed = ts_armed (state_of m (tc_id c)), te_account = account, te_verified = account_is_verified account,
          te_risk_pct = tc_risk_pct c, te_fixed_lot = tc_fixed_lot c, te_max_lot = tc_max_lot c,
          te_fanout = tc_fanout c\<rparr>)"

definition auto_id :: "running \<Rightarrow> string" where
  "auto_id r = ''auto-'' @ dec_int (rn_pid r)"

definition auto_entry :: "'b manager \<Rightarrow> string option \<Rightarrow> running \<Rightarrow> entry" where
  "auto_entry m attached r =
     (let key = folder_key r; account = map_of (tm_accounts m) key
      in \<lparr>te_id = auto_id r,
          te_label = (if basename (rn_folder r) \<noteq> [] then basename (rn_folder r) else rn_exe r),
          te_path = rn_exe r, te_folder = rn_folder r, te_armable = True, te_auto = True, te_running = True,
          te_pid = Some (rn_pid r), te_attached = attached_at attached key,
          te_selected = ts_selected (state_of m (auto_id r)), te_armed = ts_armed (state_of m (auto_id r)),
          te_account = account, te_verified = account_is_verified account,
          te_risk_pct = None, te_fixed_lot = None, te_max_lot = None, te_fanout = True\<rparr>)"

definition registry_entries :: "'b host \<Rightarrow> 'b manager \<Rightarrow> entry list" where
  "registry_entries H m =
     (let config = load_config (tm_config m); rs = scan_running_terminals (ho_processes H);
          attached = detect_attached_path (ho_native H) (tm_binding m);
          matched = filter (\<lambda>k. map_of (running_by_folder rs) k \<noteq> None) (map config_key config)
      in map (config_entry m rs attached) config
         @ map (auto_entry m attached) (filter (\<lambda>r. folder_key r \<notin> set matched) rs))"

definition list_terminals :: "'b host \<Rightarrow> 'b manager \<Rightarrow> view \<times> 'b manager" where
  "list_terminals H m =
     (let n = refresh_attached_account H (reconcile_globals m); es = registry_entries H n
      in (\<lparr>vw_terminals = es, vw_selected = tm_selected n, vw_armed = tm_armed n,
           vw_armed_ids = map te_id (filter (\<lambda>e. te_armed e \<and> te_armable e) es),
           vw_attached = detect_attached_path (ho_native H) (tm_binding n), vw_probed = tm_probed n\<rparr>, n))"

definition entry_of :: "string \<Rightarrow> view \<Rightarrow> entry option" where
  "entry_of t v = find (\<lambda>e. te_id e = t) (vw_terminals v)"

section \<open>Selection\<close>

definition save_selection :: "'b host \<Rightarrow> string \<Rightarrow> 'b manager \<Rightarrow> 'b manager" where
  "save_selection H t m =
     (if ho_writes H then m\<lparr>tm_saved := Parsed (VDict [(''selected_id'', VStr t)])\<rparr> else m)"

definition load_saved_selection :: "'b manager \<Rightarrow> string option" where
  "load_saved_selection m =
     (case tm_saved m of
        Parsed (VDict d) \<Rightarrow>
          (let sid = dget d ''selected_id'' VNone in if py_truthy sid then Some (py_text sid) else None)
      | _ \<Rightarrow> None)"

definition mark_chosen :: "string \<Rightarrow> 'b manager \<Rightarrow> 'b manager" where
  "mark_chosen t m = sync_globals (set_selected t (unselect_others (Some t) m))"

definition sync_selection_from_attached :: "'b host \<Rightarrow> 'b manager \<Rightarrow> string option \<times> 'b manager" where
  "sync_selection_from_attached H m =
     (case detect_attached_path (ho_native H) (tm_binding m) of
        None \<Rightarrow> (None, m)
      | Some attached \<Rightarrow>
          (case find (\<lambda>c. config_key c = norm_path attached) (load_config (tm_config m)) of
             Some c \<Rightarrow> (Some (tc_id c), mark_chosen (tc_id c) m)
           | None \<Rightarrow>
               (case find (\<lambda>r. folder_key r = norm_path attached) (scan_running_terminals (ho_processes H)) of
                  Some r \<Rightarrow> (Some (auto_id r), mark_chosen (auto_id r) m)
                | None \<Rightarrow> (None, m))))"

datatype select_answer = NotFound | NotRunning | AlreadySelected | AttachFailed | Chosen

definition select_terminal :: "'b host \<Rightarrow> string \<Rightarrow> 'b manager \<Rightarrow> select_answer \<times> 'b manager" where
  "select_terminal H t m =
     (let (v, n) = list_terminals H m
      in case entry_of t v of
           None \<Rightarrow> (NotFound, n)
         | Some e \<Rightarrow>
             (if \<not> te_running e then (NotRunning, n)
              else if te_attached e \<and> te_selected e then (AlreadySelected, n)
              else let (ok, d) = use_live_data_mode (ho_native H) (Some (te_path e))
                                   (shutdown (ho_native H) (tm_binding n));
                       moved = n\<lparr>tm_binding := d\<rparr>
                   in if \<not> ok then (AttachFailed, sync_globals moved)
                      else let chosen = save_selection H t (mark_chosen t moved)
                           in (Chosen, chosen\<lparr>tm_binding := clear_symbol_cache (tm_binding chosen)\<rparr>)))"

definition restore_saved_selection :: "'b host \<Rightarrow> 'b manager \<Rightarrow> string option \<times> 'b manager" where
  "restore_saved_selection H m =
     (case load_saved_selection m of
        None \<Rightarrow> (None, m)
      | Some saved \<Rightarrow>
          (let (v, n) = list_terminals H m
           in case entry_of saved v of
                None \<Rightarrow> (None, n)
              | Some e \<Rightarrow>
                  (if \<not> te_running e then (None, n)
                   else if te_attached e \<and> (tm_selected n = Some saved \<or> ts_selected (state_of n saved))
                   then (Some saved, n)
                   else case select_terminal H saved n of
                          (Chosen, n2) \<Rightarrow> (tm_selected n2, n2)
                        | (AlreadySelected, n2) \<Rightarrow> (tm_selected n2, n2)
                        | (_, n2) \<Rightarrow> (None, n2))))"

section \<open>The arm switch\<close>

datatype arm_answer =
    Disarmed | WasNotArmed | ArmNotFound | ArmNotRunning | ArmUnverified | Armed | NothingSelected | AllDisarmed

definition arm_terminal :: "'b host \<Rightarrow> string \<Rightarrow> bool \<Rightarrow> 'b manager \<Rightarrow> arm_answer \<times> 'b manager" where
  "arm_terminal H t b m =
     (if \<not> b
      then (if ts_armed (state_of m t) then Disarmed else WasNotArmed, sync_globals (set_armed t False m))
      else let (v, n) = list_terminals H m
           in case entry_of t v of
                None \<Rightarrow> (ArmNotFound, n)
              | Some e \<Rightarrow>
                  (if \<not> te_running e then (ArmNotRunning, n)
                   else if \<not> account_is_verified (te_account e) then (ArmUnverified, n)
                   else (Armed, sync_globals (set_armed t True n))))"

definition arm_execution :: "'b host \<Rightarrow> bool \<Rightarrow> 'b manager \<Rightarrow> arm_answer \<times> 'b manager" where
  "arm_execution H b m =
     (case tm_selected m of
        Some (c # cs) \<Rightarrow> arm_terminal H (c # cs) b m
      | _ \<Rightarrow> (if \<not> b then (AllDisarmed, sync_globals (disarm_all m)) else (NothingSelected, m)))"

definition get_armed_terminals :: "'b host \<Rightarrow> 'b manager \<Rightarrow> string list \<times> 'b manager" where
  "get_armed_terminals H m =
     (let (v, n) = list_terminals H m; by_id = rev (map (\<lambda>e. (te_id e, e)) (vw_terminals v))
      in (map fst (filter (\<lambda>(t, s). ts_armed s
            \<and> (case map_of by_id t of Some e \<Rightarrow> te_running e \<and> te_verified e | None \<Rightarrow> False)) (tm_states n)), n))"

definition get_fanout_targets :: "'b host \<Rightarrow> 'b manager \<Rightarrow> entry list \<times> 'b manager" where
  "get_fanout_targets H m =
     (let (v, n) = list_terminals H m
      in (filter (\<lambda>e. te_running e \<and> te_armed e \<and> te_verified e \<and> te_fanout e) (vw_terminals v), n))"

definition execution_permitted :: "'b host \<Rightarrow> 'b manager \<Rightarrow> bool \<times> 'b manager" where
  "execution_permitted H m =
     (let (armed, n) = get_armed_terminals H (reconcile_globals m)
      in if armed = [] then (False, n)
         else let (v, n2) = list_terminals H n
              in (list_ex (\<lambda>t. case entry_of t v of Some e \<Rightarrow> te_attached e | None \<Rightarrow> False) armed, n2))"

section \<open>The account probe\<close>

record probe_row =
  pw_id :: string
  pw_account :: "pydict option"
  pw_attached :: bool

record 'b probe_state =
  ps_binding :: "'b binding"
  ps_current :: "string option"
  ps_rows :: "probe_row list"
  ps_fresh :: "(string \<times> pydict) list"

definition row_key :: "entry \<Rightarrow> string option" where
  "row_key e = (if te_folder e = [] then None else Some (norm_path (te_folder e)))"

definition probe_one :: "'b host \<Rightarrow> 'b probe_state \<Rightarrow> entry \<Rightarrow> 'b probe_state" where
  "probe_one H p e =
     (let here = (row_key e \<noteq> None \<and> ps_current p = row_key e);
          (ok, d) = (if here then (True, ps_binding p)
                     else use_live_data_mode (ho_native H) (Some (te_path e)) (shutdown (ho_native H) (ps_binding p)));
          account = (if ok then read_account_summary H d else None)
      in \<lparr>ps_binding = d, ps_current = (if here then ps_current p else if ok then row_key e else None),
          ps_rows = ps_rows p @ [\<lparr>pw_id = te_id e, pw_account = account, pw_attached = ok\<rparr>],
          ps_fresh = (case (account, row_key e) of
                        (Some a, Some k) \<Rightarrow> AList.update k a (ps_fresh p) | _ \<Rightarrow> ps_fresh p)\<rparr>)"

definition original_path :: "view \<Rightarrow> string option" where
  "original_path v =
     (case (case vw_attached v of
              None \<Rightarrow> None
            | Some f \<Rightarrow> map_option te_path
                (find (\<lambda>e. te_folder e \<noteq> [] \<and> norm_path (te_folder e) = norm_path f) (vw_terminals v))) of
        Some p \<Rightarrow> Some p
      | None \<Rightarrow>
          (case vw_selected v of
             Some (c # cs) \<Rightarrow> map_option te_path (entry_of (c # cs) v)
           | _ \<Rightarrow> None))"

definition restore_binding :: "'b host \<Rightarrow> view \<Rightarrow> 'b binding \<Rightarrow> bool \<times> 'b binding" where
  "restore_binding H v d =
     (let d1 = shutdown (ho_native H) d
      in case original_path v of
           Some (c # cs) \<Rightarrow> use_live_data_mode (ho_native H) (Some (c # cs)) d1
         | _ \<Rightarrow> (vw_attached v = None, d1))"

datatype probe_answer = ProbeRefused | NothingRunning | Probed "probe_row list" bool

definition probe_accounts :: "'b host \<Rightarrow> 'b manager \<Rightarrow> probe_answer \<times> 'b manager" where
  "probe_accounts H m =
     (if tm_armed m \<or> is_execution_armed m then (ProbeRefused, m)
      else let (v, n) = list_terminals H m; running = filter te_running (vw_terminals v)
           in if running = [] then (NothingRunning, n)
              else let p = foldl (probe_one H)
                             \<lparr>ps_binding = tm_binding n, ps_current = map_option norm_path (vw_attached v),
                              ps_rows = [], ps_fresh = []\<rparr> running;
                       (restored, d) = restore_binding H v (ps_binding p)
                   in (Probed (ps_rows p) restored,
                       n\<lparr>tm_binding := d, tm_accounts := ps_fresh p, tm_probed := Some (ho_now H)\<rparr>))"

definition auto_probe_accounts :: "'b host \<Rightarrow> 'b manager \<Rightarrow> bool \<times> 'b manager" where
  "auto_probe_accounts H m =
     (if tm_armed m \<or> is_execution_armed m \<or> tm_probing m then (False, m)
      else let (v, n) = list_terminals H (m\<lparr>tm_probing := True\<rparr>)
           in if \<not> list_ex te_running (vw_terminals v) then (False, n\<lparr>tm_probing := False\<rparr>)
              else let (ans, n2) = probe_accounts H n
                   in (case ans of Probed _ _ \<Rightarrow> True | _ \<Rightarrow> False, n2\<lparr>tm_probing := False\<rparr>))"

definition configure_terminal :: "'b host \<Rightarrow> string \<Rightarrow> pydict \<Rightarrow> 'b manager \<Rightarrow> config_answer \<times> 'b manager" where
  "configure_terminal H t patch m =
     (case update_terminal_config (ho_writes H) t patch (tm_config m) of
        (ans, f) \<Rightarrow> (ans, m\<lparr>tm_config := f\<rparr>))"

end
