(* ===== verification/Terminal_Runs.thy ===== *)
theory Terminal_Runs
  imports Terminals
begin

text \<open>
  Runs of the terminal manager: what every sequence of its operations keeps, who can arm a terminal
  and what the last gate before a native order rests on.
\<close>

section \<open>Operations as steps\<close>

text \<open>
  The operations of the module, an assignment of its legacy globals from outside, and a move of the
  binding by another part of the process.
\<close>

datatype 'b terminal_op =
    ListOp
  | SelectOp string
  | RestoreOp
  | SyncOp
  | ArmOp string bool
  | ArmSelectedOp bool
  | TargetsOp
  | PermittedOp
  | ProbeOp
  | AutoProbeOp
  | ConfigureOp string pydict
  | Elsewhere "'b binding"
  | LegacySelect "string option"
  | LegacyArm bool

fun manager_step :: "'b host \<Rightarrow> 'b terminal_op \<Rightarrow> 'b manager \<Rightarrow> 'b manager" where
  "manager_step H ListOp m = snd (list_terminals H m)"
| "manager_step H (SelectOp t) m = snd (select_terminal H t m)"
| "manager_step H RestoreOp m = snd (restore_saved_selection H m)"
| "manager_step H SyncOp m = snd (sync_selection_from_attached H m)"
| "manager_step H (ArmOp t b) m = snd (arm_terminal H t b m)"
| "manager_step H (ArmSelectedOp b) m = snd (arm_execution H b m)"
| "manager_step H TargetsOp m = snd (get_fanout_targets H m)"
| "manager_step H PermittedOp m = snd (execution_permitted H m)"
| "manager_step H ProbeOp m = snd (probe_accounts H m)"
| "manager_step H AutoProbeOp m = snd (auto_probe_accounts H m)"
| "manager_step H (ConfigureOp t patch) m = snd (configure_terminal H t patch m)"
| "manager_step H (Elsewhere d) m = m\<lparr>tm_binding := d\<rparr>"
| "manager_step H (LegacySelect x) m = m\<lparr>tm_selected := x\<rparr>"
| "manager_step H (LegacyArm b) m = m\<lparr>tm_armed := b\<rparr>"

fun manager_run :: "('b host \<times> 'b terminal_op) list \<Rightarrow> 'b manager \<Rightarrow> 'b manager" where
  "manager_run [] m = m"
| "manager_run ((H, op) # ops) m = manager_run ops (manager_step H op m)"

fun is_legacy :: "'b terminal_op \<Rightarrow> bool" where
  "is_legacy (LegacySelect x) = True"
| "is_legacy (LegacyArm b) = True"
| "is_legacy _ = False"

definition module_only :: "('b host \<times> 'b terminal_op) list \<Rightarrow> bool" where
  "module_only ops \<longleftrightarrow> list_all (\<lambda>(H, op). \<not> is_legacy op) ops"

lemma manager_run_append: "manager_run (xs @ ys) m = manager_run ys (manager_run xs m)"
  by (induction xs m rule: manager_run.induct) auto

section \<open>Frames\<close>

definition is_armed :: "'b manager \<Rightarrow> string \<Rightarrow> bool" where
  "is_armed m t = ts_armed (state_of m t)"

lemma state_of_update [simp]:
  "state_of (m\<lparr>tm_states := AList.update t s (tm_states m)\<rparr>) u = (if u = t then s else state_of m u)"
  by (simp add: state_of_def)

lemma map_of_map_snd: "map_of (map (\<lambda>(t, s). (t, f t s)) xs) u = map_option (f u) (map_of xs u)"
  by (induction xs) auto

lemma armed_frames [simp]:
  "is_armed (set_selected t m) u = is_armed m u"
  "is_armed (unselect_others c m) u = is_armed m u"
  "is_armed (sync_globals m) u = is_armed m u"
  "is_armed (mark_chosen t m) u = is_armed m u"
  "is_armed (refresh_attached_account H m) u = is_armed m u"
  "is_armed (save_selection H t m) u = is_armed m u"
  "is_armed (set_armed t b m) u = (if u = t then b else is_armed m u)"
  "is_armed (disarm_all m) u = False"
  "is_armed (m\<lparr>tm_binding := d\<rparr>) u = is_armed m u"
  "is_armed (m\<lparr>tm_accounts := a\<rparr>) u = is_armed m u"
  "is_armed (m\<lparr>tm_probed := p\<rparr>) u = is_armed m u"
  "is_armed (m\<lparr>tm_probing := b\<rparr>) u = is_armed m u"
  "is_armed (m\<lparr>tm_config := f\<rparr>) u = is_armed m u"
proof -
  show c: "is_armed (unselect_others c m) u = is_armed m u"
    by (simp add: is_armed_def state_of_def unselect_others_def map_of_map_snd split: option.splits)
  show s: "is_armed (set_selected t m) u = is_armed m u" for t u and m :: "'b manager"
    by (simp add: is_armed_def set_selected_def)
  show y: "is_armed (sync_globals m) u = is_armed m u" for m :: "'b manager"
    by (simp add: is_armed_def state_of_def sync_globals_def)
  show "is_armed (mark_chosen t m) u = is_armed m u"
    unfolding mark_chosen_def y s
    by (simp add: is_armed_def state_of_def unselect_others_def map_of_map_snd split: option.splits)
  show "is_armed (disarm_all m) u = False"
    by (simp add: is_armed_def state_of_def disarm_all_def map_of_map_snd fresh_state_def split: option.splits)
qed (auto simp: is_armed_def state_of_def set_armed_def refresh_attached_account_def save_selection_def
       split: option.splits)

text \<open>The legacy globals agree with the states they are derived from.\<close>

definition synced :: "'b manager \<Rightarrow> bool" where
  "synced m \<longleftrightarrow> tm_selected m = first_selected (tm_states m) \<and> tm_armed m = is_execution_armed m
     \<and> tm_seen_selected m = tm_selected m \<and> tm_seen_armed m = tm_armed m"

lemma synced_sync [simp]: "synced (sync_globals m)"
  by (simp add: synced_def sync_globals_def is_execution_armed_def)

lemma sync_synced: "synced m \<Longrightarrow> sync_globals m = m"
  by (cases m) (simp add: synced_def sync_globals_def is_execution_armed_def)

lemma reconcile_synced: "synced m \<Longrightarrow> reconcile_globals m = m"
  by (simp add: reconcile_globals_def adopt_armed_def adopt_selected_def synced_def [of m] sync_synced)

lemma synced_frames [simp]:
  "synced (refresh_attached_account H m) = synced m"
  "synced (save_selection H t m) = synced m"
  "synced (m\<lparr>tm_binding := d\<rparr>) = synced m"
  "synced (m\<lparr>tm_accounts := a\<rparr>) = synced m"
  "synced (m\<lparr>tm_probed := p\<rparr>) = synced m"
  "synced (m\<lparr>tm_probing := b\<rparr>) = synced m"
  "synced (m\<lparr>tm_config := f\<rparr>) = synced m"
  by (auto simp: synced_def is_execution_armed_def refresh_attached_account_def save_selection_def
      split: option.splits)

lemma synced_chosen [simp]: "synced (mark_chosen t m)"
  by (simp add: mark_chosen_def)

text \<open>What an operation that only reads and chooses leaves alone.\<close>

definition same_arms :: "'b manager \<Rightarrow> 'b manager \<Rightarrow> bool" where
  "same_arms m n \<longleftrightarrow> (\<forall>t. is_armed n t = is_armed m t) \<and> synced n"

lemma listed_state: "snd (list_terminals H m) = refresh_attached_account H (reconcile_globals m)"
  by (simp add: list_terminals_def Let_def)

lemma same_arms_list: "synced m \<Longrightarrow> same_arms m (snd (list_terminals H m))"
  by (simp add: listed_state same_arms_def reconcile_synced)

lemma same_arms_trans: "same_arms m n \<Longrightarrow> same_arms n k \<Longrightarrow> same_arms m k"
  by (simp add: same_arms_def)

lemma same_armsI: "(\<And>t. is_armed n t = is_armed m t) \<Longrightarrow> synced n \<Longrightarrow> same_arms m n"
  by (simp add: same_arms_def)

lemma same_arms_frames:
  assumes "same_arms m n"
  shows "same_arms m (n\<lparr>tm_binding := d\<rparr>)" "same_arms m (sync_globals n)" "same_arms m (mark_chosen t n)"
    "same_arms m (save_selection H t n)" "same_arms m (n\<lparr>tm_accounts := a\<rparr>)" "same_arms m (n\<lparr>tm_probed := p\<rparr>)"
    "same_arms m (n\<lparr>tm_probing := b\<rparr>)" "same_arms m (n\<lparr>tm_config := f\<rparr>)"
  using assms by (simp_all add: same_arms_def)

lemma same_arms_refl [simp]: "same_arms m m = synced m"
  by (simp add: same_arms_def)

lemma same_arms_select: "synced m \<Longrightarrow> same_arms m (snd (select_terminal H t m))"
  using same_arms_list [of m H]
  by (auto simp: select_terminal_def Let_def split: prod.splits option.splits intro!: same_arms_frames)

lemma same_arms_restore: "synced m \<Longrightarrow> same_arms m (snd (restore_saved_selection H m))"
proof -
  assume m: "synced m"
  obtain v n where l: "list_terminals H m = (v, n)" by (cases "list_terminals H m")
  have n: "same_arms m n" "synced n" using same_arms_list [OF m, of H] by (auto simp: l same_arms_def)
  show ?thesis
  proof (cases "load_saved_selection m")
    case (Some saved)
    have "same_arms m (snd (select_terminal H saved n))"
      by (rule same_arms_trans [OF n(1) same_arms_select [OF n(2)]])
    then show ?thesis
      using n by (auto simp: restore_saved_selection_def Some l split: prod.splits option.splits select_answer.splits)
  qed (simp add: restore_saved_selection_def m)
qed

lemma same_arms_sync: "synced m \<Longrightarrow> same_arms m (snd (sync_selection_from_attached H m))"
  by (auto simp: sync_selection_from_attached_def split: option.splits intro!: same_arms_frames)

lemma armed_view: "snd (get_armed_terminals H m) = snd (list_terminals H m)"
  by (simp add: get_armed_terminals_def Let_def split: prod.splits)

lemma same_arms_permitted: "synced m \<Longrightarrow> same_arms m (snd (execution_permitted H m))"
proof -
  assume m: "synced m"
  obtain a n where a: "get_armed_terminals H m = (a, n)" by (cases "get_armed_terminals H m")
  have n: "same_arms m n" "synced n"
    using same_arms_list [OF m, of H] armed_view [of H m] by (auto simp: a same_arms_def)
  have "same_arms m (snd (list_terminals H n))" by (rule same_arms_trans [OF n(1) same_arms_list [OF n(2)]])
  then show ?thesis using n
    by (auto simp: execution_permitted_def reconcile_synced [OF m] a Let_def split: prod.splits)
qed

lemma same_arms_probe: "synced m \<Longrightarrow> same_arms m (snd (probe_accounts H m))"
  using same_arms_list [of m H]
  by (auto simp: probe_accounts_def Let_def split: prod.splits intro!: same_arms_frames)

lemma same_arms_auto_probe: "synced m \<Longrightarrow> same_arms m (snd (auto_probe_accounts H m))"
proof -
  assume m: "synced m"
  obtain v n where l: "list_terminals H (m\<lparr>tm_probing := True\<rparr>) = (v, n)"
    by (cases "list_terminals H (m\<lparr>tm_probing := True\<rparr>)")
  have "same_arms m (m\<lparr>tm_probing := True\<rparr>)" using m by (simp add: same_arms_def)
  moreover have "same_arms (m\<lparr>tm_probing := True\<rparr>) n"
    using same_arms_list [of "m\<lparr>tm_probing := True\<rparr>" H] m by (simp add: l)
  ultimately have n: "same_arms m n" "synced n" using same_arms_trans by (blast, auto simp: same_arms_def)
  have "same_arms m (snd (probe_accounts H n))" by (rule same_arms_trans [OF n(1) same_arms_probe [OF n(2)]])
  then show ?thesis using n m
    by (auto simp: auto_probe_accounts_def l split: prod.splits intro!: same_arms_frames)
qed

section \<open>Who arms a terminal\<close>

text \<open>The operator switches a terminal on, which the module accepts, or off.\<close>

definition accepts_arm :: "'b host \<Rightarrow> string \<Rightarrow> 'b manager \<Rightarrow> bool" where
  "accepts_arm H t m \<longleftrightarrow>
     list_ex (\<lambda>e. te_id e = t \<and> te_running e \<and> te_verified e) (vw_terminals (fst (list_terminals H m)))"

fun switches_on :: "'b host \<times> 'b terminal_op \<Rightarrow> string \<Rightarrow> 'b manager \<Rightarrow> bool" where
  "switches_on (H, ArmOp u b) t m = (b \<and> u = t \<and> accepts_arm H t m)"
| "switches_on (H, ArmSelectedOp b) t m = (b \<and> tm_selected m = Some t \<and> accepts_arm H t m)"
| "switches_on _ t m = False"

fun switches_off :: "'b host \<times> 'b terminal_op \<Rightarrow> string \<Rightarrow> 'b manager \<Rightarrow> bool" where
  "switches_off (H, ArmOp u b) t m = (\<not> b \<and> u = t)"
| "switches_off (H, ArmSelectedOp b) t m = (\<not> b \<and> tm_selected m \<in> {Some t, None, Some []})"
| "switches_off _ t m = False"

lemma verified_of_account: "e \<in> set (registry_entries H m) \<Longrightarrow> te_verified e = account_is_verified (te_account e)"
  by (auto simp: registry_entries_def Let_def config_entry_def auto_entry_def)

lemma view_entries:
  "vw_terminals (fst (list_terminals H m)) = registry_entries H (snd (list_terminals H m))"
  by (simp add: list_terminals_def Let_def)

lemma arm_effect:
  assumes "synced m"
  shows "synced (snd (arm_terminal H t b m))"
    and "is_armed (snd (arm_terminal H t b m)) u \<Longrightarrow>
         is_armed m u \<and> (u = t \<longrightarrow> b) \<or> u = t \<and> b \<and> accepts_arm H t m"
proof -
  obtain v n where l: "list_terminals H m = (v, n)" by (cases "list_terminals H m")
  have n: "is_armed n u = is_armed m u" "synced n" for u
    using same_arms_list [OF assms, of H] by (auto simp: l same_arms_def)
  show "synced (snd (arm_terminal H t b m))"
    using n by (auto simp: arm_terminal_def l split: option.splits)
  assume armed: "is_armed (snd (arm_terminal H t b m)) u"
  show "is_armed m u \<and> (u = t \<longrightarrow> b) \<or> u = t \<and> b \<and> accepts_arm H t m"
  proof (cases "b \<and> fst (arm_terminal H t b m) = Armed")
    case True
    then obtain e where e: "entry_of t v = Some e" "te_running e" "account_is_verified (te_account e)"
      by (auto simp: arm_terminal_def l split: option.splits if_splits)
    have "e \<in> set (vw_terminals v)" "te_id e = t" using e(1) by (auto simp: entry_of_def find_Some_iff)
    moreover have "te_verified e"
      using verified_of_account [of e H n] e(3) \<open>e \<in> set (vw_terminals v)\<close> view_entries [of H m] by (simp add: l)
    ultimately have "accepts_arm H t m" using e(2) by (auto simp: accepts_arm_def l list_ex_iff)
    moreover have "is_armed m u \<or> u = t" using armed True e n by (auto simp: arm_terminal_def l split: if_splits)
    ultimately show ?thesis using True by auto
  next
    case False
    then show ?thesis using armed n by (auto simp: arm_terminal_def l split: option.splits if_splits)
  qed
qed

lemma step_arms:
  assumes "synced m" "\<not> is_legacy op"
  shows "synced (manager_step H op m)"
    and "is_armed (manager_step H op m) t \<Longrightarrow>
         switches_on (H, op) t m \<or> is_armed m t \<and> \<not> switches_off (H, op) t m"
proof -
  have same: "synced (manager_step H op m) \<and> (is_armed (manager_step H op m) t \<longrightarrow>
      switches_on (H, op) t m \<or> is_armed m t \<and> \<not> switches_off (H, op) t m)"
    if "same_arms m (manager_step H op m)" "\<not> switches_off (H, op) t m"
    using that by (auto simp: same_arms_def)
  have "synced (manager_step H op m) \<and> (is_armed (manager_step H op m) t \<longrightarrow>
      switches_on (H, op) t m \<or> is_armed m t \<and> \<not> switches_off (H, op) t m)"
  proof (cases op)
    case (ArmOp u b)
    then show ?thesis using arm_effect [OF assms(1), of H u b] by auto
  next
    case (ArmSelectedOp b)
    show ?thesis
    proof (cases "\<exists>c cs. tm_selected m = Some (c # cs)")
      case True
      then obtain c cs where s: "tm_selected m = Some (c # cs)" by blast
      then show ?thesis using arm_effect [OF assms(1), of H "c # cs" b]
        by (auto simp: ArmSelectedOp arm_execution_def)
    next
      case False
      then have "tm_selected m = None \<or> tm_selected m = Some []"
        by (cases "tm_selected m") (auto, metis list.exhaust)
      then show ?thesis using assms(1) by (auto simp: ArmSelectedOp arm_execution_def)
    qed
  next
    case ListOp
    then show ?thesis using same same_arms_list [OF assms(1)] by simp
  next
    case (SelectOp x)
    then show ?thesis using same same_arms_select [OF assms(1)] by simp
  next
    case RestoreOp
    then show ?thesis using same same_arms_restore [OF assms(1)] by simp
  next
    case SyncOp
    then show ?thesis using same same_arms_sync [OF assms(1)] by simp
  next
    case TargetsOp
    have "snd (get_fanout_targets H m) = snd (list_terminals H m)"
      by (simp add: get_fanout_targets_def split: prod.splits)
    then show ?thesis using TargetsOp same same_arms_list [OF assms(1)] by simp
  next
    case PermittedOp
    then show ?thesis using same same_arms_permitted [OF assms(1)] by simp
  next
    case ProbeOp
    then show ?thesis using same same_arms_probe [OF assms(1)] by simp
  next
    case AutoProbeOp
    then show ?thesis using same same_arms_auto_probe [OF assms(1)] by simp
  next
    case (ConfigureOp x patch)
    then show ?thesis using assms(1) by (auto simp: configure_terminal_def split: prod.splits)
  next
    case (Elsewhere d)
    then show ?thesis using assms(1) by simp
  qed (use assms(2) in simp_all)
  then show "synced (manager_step H op m)"
    and "is_armed (manager_step H op m) t \<Longrightarrow>
         switches_on (H, op) t m \<or> is_armed m t \<and> \<not> switches_off (H, op) t m" by blast+
qed

text \<open>The last switch of the terminal in a run was a switch on that the module accepted.\<close>

definition left_on :: "string \<Rightarrow> ('b host \<times> 'b terminal_op) list \<Rightarrow> 'b manager \<Rightarrow> bool" where
  "left_on t ops m \<longleftrightarrow>
     list_ex (\<lambda>k. switches_on (ops ! k) t (manager_run (take k ops) m)
        \<and> list_all (\<lambda>j. \<not> switches_off (ops ! j) t (manager_run (take j ops) m)) [Suc k..<length ops])
       [0..<length ops]"

lemma run_synced: "module_only ops \<Longrightarrow> synced m \<Longrightarrow> synced (manager_run ops m)"
  by (induction ops m rule: manager_run.induct) (auto simp: module_only_def dest: step_arms(1))

lemma last_switch_Suc:
  "(\<exists>k<Suc n. On k \<and> (\<forall>j\<in>{Suc k..<Suc n}. \<not> Off j))
   \<longleftrightarrow> On n \<or> (\<exists>k<n. On k \<and> (\<forall>j\<in>{Suc k..<n}. \<not> Off j)) \<and> \<not> Off n"
proof -
  have "(\<forall>j\<in>{Suc k..<Suc n}. \<not> Off j) \<longleftrightarrow> (\<forall>j\<in>{Suc k..<n}. \<not> Off j) \<and> \<not> Off n" if "k < n" for k
    using that by (auto simp: atLeastLessThanSuc)
  then show ?thesis by (auto simp: less_Suc_eq)
qed

lemma left_on_iff:
  "left_on t ops m \<longleftrightarrow> (\<exists>k<length ops. switches_on (ops ! k) t (manager_run (take k ops) m)
     \<and> (\<forall>j\<in>{Suc k..<length ops}. \<not> switches_off (ops ! j) t (manager_run (take j ops) m)))"
  by (auto simp: left_on_def list_ex_iff list_all_iff Bex_def)

lemma left_on_snoc:
  "left_on t (ops @ [x]) m \<longleftrightarrow> switches_on x t (manager_run ops m)
     \<or> left_on t ops m \<and> \<not> switches_off x t (manager_run ops m)"
proof -
  define On where "On k = switches_on ((ops @ [x]) ! k) t (manager_run (take k (ops @ [x])) m)" for k
  define Off where "Off k = switches_off ((ops @ [x]) ! k) t (manager_run (take k (ops @ [x])) m)" for k
  have k: "On k = switches_on (ops ! k) t (manager_run (take k ops) m)"
    "Off k = switches_off (ops ! k) t (manager_run (take k ops) m)" if "k < length ops" for k
    using that by (simp_all add: On_def Off_def nth_append)
  have last: "On (length ops) = switches_on x t (manager_run ops m)"
    "Off (length ops) = switches_off x t (manager_run ops m)"
    by (simp_all add: On_def Off_def)
  have "left_on t (ops @ [x]) m \<longleftrightarrow> (\<exists>k<Suc (length ops). On k \<and> (\<forall>j\<in>{Suc k..<Suc (length ops)}. \<not> Off j))"
    unfolding left_on_iff On_def Off_def length_append_singleton ..
  also have "\<dots> \<longleftrightarrow> On (length ops)
      \<or> (\<exists>k<length ops. On k \<and> (\<forall>j\<in>{Suc k..<length ops}. \<not> Off j)) \<and> \<not> Off (length ops)"
    by (rule last_switch_Suc)
  also have "(\<exists>k<length ops. On k \<and> (\<forall>j\<in>{Suc k..<length ops}. \<not> Off j)) = left_on t ops m"
    unfolding left_on_iff by (intro ex_cong1 conj_cong refl ball_cong) (simp_all add: k)
  finally show ?thesis unfolding last .
qed

lemma armed_left_on:
  "module_only ops \<Longrightarrow> synced m \<Longrightarrow> \<not> is_armed m t \<Longrightarrow> is_armed (manager_run ops m) t \<Longrightarrow> left_on t ops m"
proof (induction ops rule: rev_induct)
  case (snoc x ops)
  obtain H op where x: "x = (H, op)" by (cases x)
  have only: "module_only ops" "\<not> is_legacy op" using snoc.prems(1) by (auto simp: module_only_def x)
  have "synced (manager_run ops m)" by (rule run_synced [OF only(1) snoc.prems(2)])
  then show ?case
    using step_arms(2) [OF _ only(2), of "manager_run ops m" H t] snoc.IH [OF only(1) snoc.prems(2,3)] snoc.prems(4)
    by (auto simp: left_on_snoc manager_run_append x)
qed simp

lemma fresh_manager_facts [simp]:
  "synced (fresh_manager d config saved)" "is_armed (fresh_manager d config saved) t = False"
  by (simp_all add: fresh_manager_def synced_def first_selected_def is_execution_armed_def is_armed_def
      state_of_def fresh_state_def)

lemma entry_armed: "e \<in> set (registry_entries H m) \<Longrightarrow> te_armed e = is_armed m (te_id e)"
  by (auto simp: registry_entries_def Let_def config_entry_def auto_entry_def is_armed_def)

text \<open>
  C7. Only the operator arms: after any run of the module's operations, interleaved with moves of the
  binding from elsewhere, every target of the fan-out is running and verified now, and the last
  switch of its id in the run was a switch on that was accepted: at that time the id had a running
  entry with a verified account.
\<close>

theorem fanout_targets_were_armed:
  assumes "module_only ops"
  shows "list_all (\<lambda>e. te_running e \<and> te_verified e \<and> te_fanout e
             \<and> left_on (te_id e) ops (fresh_manager d config saved))
           (fst (get_fanout_targets H (manager_run ops (fresh_manager d config saved))))"
proof -
  let ?m = "manager_run ops (fresh_manager d config saved)"
  have m: "synced ?m" by (rule run_synced [OF assms]) simp
  have arms: "is_armed (snd (list_terminals H ?m)) t = is_armed ?m t" for t
    using same_arms_list [OF m, of H] by (simp add: same_arms_def)
  have "left_on (te_id e) ops (fresh_manager d config saved)"
    if "e \<in> set (vw_terminals (fst (list_terminals H ?m)))" "te_armed e" for e
    using that entry_armed [of e H "snd (list_terminals H ?m)"] armed_left_on [OF assms] by (simp add: view_entries arms)
  then show ?thesis by (auto simp: get_fanout_targets_def list_all_iff split: prod.splits)
qed

section \<open>The last gate before a native order\<close>

lemma detect_frames [simp]:
  "tm_binding (reconcile_globals m) = tm_binding m" "tm_config (reconcile_globals m) = tm_config m"
  "tm_binding (refresh_attached_account H m) = tm_binding m" "tm_config (refresh_attached_account H m) = tm_config m"
  by (auto simp: reconcile_globals_def adopt_armed_def adopt_selected_def sync_globals_def set_armed_def
      set_selected_def unselect_others_def disarm_all_def refresh_attached_account_def split: option.splits)

lemma refresh_twice [simp]: "refresh_attached_account H (refresh_attached_account H m) = refresh_attached_account H m"
  by (auto simp: refresh_attached_account_def split: option.splits)

lemma synced_reconcile [simp]: "synced (reconcile_globals m)"
  by (simp add: reconcile_globals_def)

lemma list_reconciled [simp]: "list_terminals H (reconcile_globals m) = list_terminals H m"
  by (simp add: list_terminals_def reconcile_synced)

lemma list_twice [simp]: "list_terminals H (snd (list_terminals H m)) = list_terminals H m"
  by (simp add: list_terminals_def Let_def reconcile_synced)

section \<open>One selected terminal\<close>

text \<open>One state per id, and at most one selected.\<close>

definition one_selected :: "'b manager \<Rightarrow> bool" where
  "one_selected m \<longleftrightarrow> distinct (map fst (tm_states m)) \<and> (\<exists>c. \<forall>t. ts_selected (state_of m t) \<longrightarrow> c = Some t)"

lemma one_selected_cong: "tm_states n = tm_states m \<Longrightarrow> one_selected n = one_selected m"
  by (simp add: one_selected_def state_of_def)

lemma one_selected_armed: "one_selected m \<Longrightarrow> one_selected (set_armed t b m)"
  by (auto simp: one_selected_def set_armed_def distinct_update)

lemma selected_after_map [simp]:
  "ts_selected (state_of (unselect_others c m) t) \<longleftrightarrow> map_of (tm_states m) t \<noteq> None \<and> c = Some t"
  "ts_selected (state_of (disarm_all m) t) = ts_selected (state_of m t)"
  by (auto simp: unselect_others_def disarm_all_def state_of_def map_of_map_snd fresh_state_def
      simp del: map_of_eq_None_iff split: option.splits)

lemma distinct_after_map [simp]:
  "map fst (tm_states (unselect_others c m)) = map fst (tm_states m)"
  "map fst (tm_states (disarm_all m)) = map fst (tm_states m)"
  by (auto simp: unselect_others_def disarm_all_def)

lemma one_selected_primitives:
  "one_selected m \<Longrightarrow> one_selected (unselect_others c m)"
  "one_selected m \<Longrightarrow> one_selected (disarm_all m)"
  "one_selected m \<Longrightarrow> one_selected (set_selected t (unselect_others (Some t) m))"
  by (auto simp: one_selected_def set_selected_def distinct_update)

lemma one_selected_sync [simp]: "one_selected (sync_globals m) = one_selected m"
  by (rule one_selected_cong) (simp add: sync_globals_def)

lemma one_selected_chosen: "one_selected m \<Longrightarrow> one_selected (mark_chosen t m)"
  by (simp add: mark_chosen_def one_selected_primitives)

lemma one_selected_reconcile: "one_selected m \<Longrightarrow> one_selected (reconcile_globals m)"
  by (simp add: reconcile_globals_def adopt_armed_def adopt_selected_def one_selected_primitives one_selected_armed
      split: option.splits)

lemma one_selected_fields [simp]:
  "one_selected (m\<lparr>tm_binding := d\<rparr>) = one_selected m"
  "one_selected (m\<lparr>tm_accounts := a\<rparr>) = one_selected m"
  "one_selected (m\<lparr>tm_probed := p\<rparr>) = one_selected m"
  "one_selected (m\<lparr>tm_probing := b\<rparr>) = one_selected m"
  "one_selected (m\<lparr>tm_config := f\<rparr>) = one_selected m"
  "one_selected (m\<lparr>tm_selected := x\<rparr>) = one_selected m"
  "one_selected (m\<lparr>tm_armed := b\<rparr>) = one_selected m"
  "one_selected (save_selection H t m) = one_selected m"
  "one_selected (refresh_attached_account H m) = one_selected m"
  by (rule one_selected_cong, simp add: save_selection_def refresh_attached_account_def split: option.splits)+

lemma one_selected_list: "one_selected m \<Longrightarrow> one_selected (snd (list_terminals H m))"
  by (simp add: listed_state one_selected_reconcile)

lemma one_selected_listed: "one_selected m \<Longrightarrow> list_terminals H m = (v, n) \<Longrightarrow> one_selected n"
  using one_selected_list [of m H] by simp

lemma one_selected_select: "one_selected m \<Longrightarrow> one_selected (snd (select_terminal H t m))"
  by (auto simp: select_terminal_def Let_def split: prod.splits option.splits
      intro!: one_selected_chosen intro: one_selected_listed)

lemma one_selected_arm: "one_selected m \<Longrightarrow> one_selected (snd (arm_terminal H t b m))"
  by (auto simp: arm_terminal_def split: prod.splits option.splits intro: one_selected_armed one_selected_listed)

lemma one_selected_probe: "one_selected m \<Longrightarrow> one_selected (snd (probe_accounts H m))"
  by (auto simp: probe_accounts_def Let_def split: prod.splits intro: one_selected_listed)

lemma one_selected_restore: "one_selected m \<Longrightarrow> one_selected (snd (restore_saved_selection H m))"
proof -
  assume m: "one_selected m"
  obtain v n where l: "list_terminals H m = (v, n)" by (cases "list_terminals H m")
  have n: "one_selected n" "one_selected (snd (select_terminal H t n))" for t
    using one_selected_listed [OF m l] by (auto intro: one_selected_select)
  show ?thesis
  proof (cases "load_saved_selection m")
    case (Some saved)
    then show ?thesis using n(1) n(2) [of saved]
      by (auto simp: restore_saved_selection_def l split: prod.splits option.splits select_answer.splits)
  qed (simp add: restore_saved_selection_def m)
qed

lemma one_selected_auto_probe: "one_selected m \<Longrightarrow> one_selected (snd (auto_probe_accounts H m))"
proof -
  assume m: "one_selected m"
  obtain v n where l: "list_terminals H (m\<lparr>tm_probing := True\<rparr>) = (v, n)"
    by (cases "list_terminals H (m\<lparr>tm_probing := True\<rparr>)")
  have n: "one_selected n" by (rule one_selected_listed [OF _ l]) (simp add: m)
  then show ?thesis using m one_selected_probe [OF n, of H]
    by (auto simp: auto_probe_accounts_def l split: prod.splits)
qed

lemma one_selected_step: "one_selected m \<Longrightarrow> one_selected (manager_step H op m)"
proof (cases op)
  case (ArmSelectedOp b)
  moreover assume "one_selected m"
  ultimately show ?thesis
    by (auto simp: arm_execution_def one_selected_arm one_selected_primitives split: option.splits list.splits)
next
  case SyncOp
  moreover assume "one_selected m"
  ultimately show ?thesis
    by (auto simp: sync_selection_from_attached_def one_selected_chosen split: option.splits)
next
  case TargetsOp
  moreover assume "one_selected m"
  ultimately show ?thesis
    by (auto simp: get_fanout_targets_def intro: one_selected_listed split: prod.splits)
next
  case PermittedOp
  moreover assume m: "one_selected m"
  have "one_selected (snd (get_armed_terminals H (reconcile_globals m)))"
    by (simp add: armed_view one_selected_list m)
  ultimately show ?thesis
    by (auto simp: execution_permitted_def Let_def intro: one_selected_listed split: prod.splits)
next
  case (ConfigureOp t patch)
  moreover assume "one_selected m"
  ultimately show ?thesis by (auto simp: configure_terminal_def split: prod.splits)
qed (simp_all add: one_selected_list one_selected_select one_selected_arm one_selected_probe one_selected_restore
      one_selected_auto_probe)

lemma one_selected_run: "one_selected m \<Longrightarrow> one_selected (manager_run ops m)"
  by (induction ops m rule: manager_run.induct) (auto intro: one_selected_step)

lemma one_selected_fresh [simp]: "one_selected (fresh_manager d config saved)"
  by (simp add: one_selected_def fresh_manager_def state_of_def fresh_state_def)

lemma selected_entries:
  assumes "one_selected m"
  shows "length (filter (\<lambda>(t, s). ts_selected s) (tm_states m)) \<le> 1"
proof -
  obtain c where d: "distinct (map fst (tm_states m))" and c: "\<And>t. ts_selected (state_of m t) \<Longrightarrow> c = Some t"
    using assms by (auto simp: one_selected_def)
  have "c = Some t" if "(t, s) \<in> set (tm_states m)" "ts_selected s" for t s
    using c [of t] that d by (simp add: state_of_def map_of_is_SomeI)
  then have "fst ` set (filter (\<lambda>(t, s). ts_selected s) (tm_states m)) \<subseteq> {the c}" by force
  then have "card (fst ` set (filter (\<lambda>(t, s). ts_selected s) (tm_states m))) \<le> 1"
    by (metis card.empty card_insert_disjoint empty_iff finite.emptyI card_mono finite_insert One_nat_def)
  moreover have "distinct (map fst (filter (\<lambda>(t, s). ts_selected s) (tm_states m)))"
    by (rule distinct_map_filter [OF d])
  ultimately show ?thesis by (metis distinct_card length_map list.set_map)
qed

text \<open>
  C28. Under every sequence of the module's operations, assignments of its legacy globals and moves of the
  binding from elsewhere, there is one state per terminal and at most one terminal is selected; while
  nothing assigns the globals, they show that terminal and whether any is armed.
\<close>

theorem one_terminal_is_selected:
  "let m = manager_run ops (fresh_manager d config saved)
   in distinct (map fst (tm_states m)) \<and> length (filter (\<lambda>(t, s). ts_selected s) (tm_states m)) \<le> 1
      \<and> (if module_only ops
         then tm_selected m = first_selected (tm_states m) \<and> tm_armed m = is_execution_armed m else True)"
proof -
  let ?m = "manager_run ops (fresh_manager d config saved)"
  have one: "one_selected ?m" by (rule one_selected_run) simp
  have "module_only ops \<Longrightarrow> synced ?m" by (rule run_synced) simp_all
  then show ?thesis using one selected_entries [OF one] by (auto simp: Let_def one_selected_def synced_def)
qed

lemma entry_of_distinct:
  "distinct (map te_id (vw_terminals v)) \<Longrightarrow>
   entry_of t v = Some e \<longleftrightarrow> e \<in> set (vw_terminals v) \<and> te_id e = t"
proof -
  have "distinct (map te_id es) \<Longrightarrow> find (\<lambda>e. te_id e = t) es = Some e \<longleftrightarrow> e \<in> set es \<and> te_id e = t" for es
    by (induction es) (auto simp: image_iff)
  then show "distinct (map te_id (vw_terminals v)) \<Longrightarrow> ?thesis" by (simp add: entry_of_def)
qed

lemma permitted_iff:
  assumes "m = manager_run ops (fresh_manager d config saved)"
    and "distinct (map te_id (vw_terminals (fst (list_terminals H m))))"
  shows "fst (execution_permitted H m) \<longleftrightarrow>
         list_ex (\<lambda>e. te_armed e \<and> te_running e \<and> te_verified e \<and> te_attached e)
           (vw_terminals (fst (list_terminals H m)))"
proof -
  obtain v n where l: "list_terminals H m = (v, n)" by (cases "list_terminals H m")
  have again: "list_terminals H n = (v, n)" using list_twice [of H m] by (simp add: l)
  have v: "vw_terminals v = registry_entries H n" using view_entries [of H m] by (simp add: l)
  have d: "distinct (map te_id (vw_terminals v))" using assms(2) by (simp add: l)
  have keys: "distinct (map fst (tm_states n))"
  proof -
    have "one_selected m" unfolding assms(1) by (rule one_selected_run) simp
    then show ?thesis using one_selected_listed [OF _ l] by (simp add: one_selected_def)
  qed
  let ?by = "rev (map (\<lambda>e. (te_id e, e)) (vw_terminals v))"
  have by_id: "map_of ?by t = Some e \<longleftrightarrow> e \<in> set (vw_terminals v) \<and> te_id e = t" for t e
    using d by (subst map_of_eq_Some_iff) (auto simp: comp_def rev_map [symmetric])
  have find_id: "entry_of t v = Some e \<longleftrightarrow> e \<in> set (vw_terminals v) \<and> te_id e = t" for t e
    using d by (rule entry_of_distinct)
  define armed where "armed = map fst (filter (\<lambda>(t, s). ts_armed s
      \<and> (case map_of ?by t of Some e \<Rightarrow> te_running e \<and> te_verified e | None \<Rightarrow> False)) (tm_states n))"
  have get: "get_armed_terminals H (reconcile_globals m) = (armed, n)"
    by (simp add: get_armed_terminals_def l armed_def)
  have permitted: "fst (execution_permitted H m) \<longleftrightarrow>
      (\<exists>t\<in>set armed. \<exists>e. entry_of t v = Some e \<and> te_attached e)"
    by (auto simp: execution_permitted_def get again list_ex_iff split: option.splits)
  have armed_iff: "te_id e \<in> set armed \<longleftrightarrow> te_armed e \<and> te_running e \<and> te_verified e"
    if e: "e \<in> set (vw_terminals v)" for e
  proof -
    have "te_id e \<in> set armed \<longleftrightarrow> (\<exists>s. (te_id e, s) \<in> set (tm_states n) \<and> ts_armed s) \<and> te_running e \<and> te_verified e"
      using by_id [of "te_id e" e] e unfolding armed_def by (auto intro: rev_image_eqI)
    also have "(\<exists>s. (te_id e, s) \<in> set (tm_states n) \<and> ts_armed s) \<longleftrightarrow> is_armed n (te_id e)"
      by (auto simp: map_of_eq_Some_iff [OF keys, symmetric] is_armed_def state_of_def fresh_state_def
          simp del: map_of_eq_None_iff split: option.splits)
    also have "is_armed n (te_id e) = te_armed e" using entry_armed [of e H n] e v by simp
    finally show ?thesis by blast
  qed
  show ?thesis unfolding permitted l by (auto simp: find_id list_ex_iff armed_iff)
qed

text \<open>
  C11. What the engine's arm check means, for a registry without repeated ids: it permits exactly when
  one terminal is at once armed, running, verified and the one the binding is attached to.
\<close>

theorem permitted_iff_attached_terminal_armed:
  assumes "m = manager_run ops (fresh_manager d config saved)"
    and "distinct (map te_id (vw_terminals (fst (list_terminals H m))))"
  shows "fst (execution_permitted H m) \<longleftrightarrow>
         list_ex (\<lambda>e. te_armed e \<and> te_running e \<and> te_verified e \<and> te_attached e)
           (vw_terminals (fst (list_terminals H m)))"
  using assms by (rule permitted_iff)

section \<open>Selection across a restart\<close>

lemma first_selected_chosen:
  assumes "one_selected m"
  shows "tm_selected (mark_chosen t m) = Some t"
proof -
  let ?m = "set_selected t (unselect_others (Some t) m)"
  have one: "one_selected ?m" by (rule one_selected_primitives(3) [OF assms])
  have sel: "ts_selected (state_of ?m u) \<longleftrightarrow> u = t" for u by (auto simp: set_selected_def)
  have keys: "distinct (map fst (tm_states ?m))" using one by (simp add: one_selected_def)
  have only: "u = t" if "(u, s) \<in> set (tm_states ?m)" "ts_selected s" for u s
    using sel [of u] that keys by (simp add: state_of_def map_of_is_SomeI)
  have "\<exists>s. (t, s) \<in> set (tm_states ?m) \<and> ts_selected s"
  proof -
    have "map_of (tm_states ?m) t = Some ((state_of (unselect_others (Some t) m) t)\<lparr>ts_selected := True\<rparr>)"
      by (simp add: set_selected_def)
    then show ?thesis by (auto dest!: map_of_SomeD)
  qed
  then obtain x where x: "find (\<lambda>(t, s). ts_selected s) (tm_states ?m) = Some x"
    by (cases "find (\<lambda>(t, s). ts_selected s) (tm_states ?m)") (auto simp: find_None_iff)
  then have "fst x = t" using only by (auto simp: find_Some_iff case_prod_beta) (metis nth_mem prod.collapse)
  then show ?thesis using x by (simp add: mark_chosen_def sync_globals_def first_selected_def)
qed

lemma listed_saved [simp]: "tm_saved (snd (list_terminals H m)) = tm_saved m"
  by (auto simp: listed_state reconcile_globals_def adopt_armed_def adopt_selected_def sync_globals_def set_armed_def
      set_selected_def unselect_others_def disarm_all_def refresh_attached_account_def split: option.splits)

lemma chosen_frames [simp]:
  "tm_saved (mark_chosen t m) = tm_saved m" "tm_binding (mark_chosen t m) = tm_binding m"
  by (simp_all add: mark_chosen_def sync_globals_def set_selected_def unselect_others_def)

text \<open>
  Round trip of the selection: a terminal chosen while the file could be written is the one a later
  process restores, if that terminal runs then and the library attaches to it; nothing is armed
  after the restart.
\<close>

theorem selection_survives_restart:
  assumes "select_terminal H t m = (Chosen, n)" and "ho_writes H" and "t \<noteq> []"
    and "entry_of t (fst (list_terminals G (fresh_manager d config (tm_saved n)))) = Some e" and "te_running e"
    and "fst (use_live_data_mode (ho_native G) (Some (te_path e)) (shutdown (ho_native G) d))"
  shows "let (r, k) = restore_saved_selection G (fresh_manager d config (tm_saved n))
         in r = Some t \<and> tm_selected k = Some t \<and> bd_live (tm_binding k) \<and> \<not> is_execution_armed k"
proof -
  let ?f = "fresh_manager d config (tm_saved n)"
  obtain v k where l: "list_terminals G ?f = (v, k)" by (cases "list_terminals G ?f")
  have again: "list_terminals G k = (v, k)" using list_twice [of G ?f] by (simp add: l)
  have k: "k = refresh_attached_account G ?f"
    using listed_state [of G ?f] by (simp add: l reconcile_synced)
  have kf: "tm_binding k = d" "one_selected k" "tm_selected k = None" "state_of k u = fresh_state" for u
    by (auto simp: k refresh_attached_account_def fresh_manager_def state_of_def split: option.splits)
      (auto simp: one_selected_def state_of_def fresh_state_def)
  have saved: "load_saved_selection ?f = Some t"
    using assms(1-3)
    by (auto simp: select_terminal_def Let_def save_selection_def load_saved_selection_def fresh_manager_def dget_def
        split: prod.splits option.splits if_splits)
  have e: "entry_of t v = Some e" using assms(4) by (simp add: l)
  have "e \<in> set (registry_entries G k)"
    using e view_entries [of G ?f] by (auto simp: l entry_of_def find_Some_iff)
  then have unselected: "\<not> te_selected e"
    by (auto simp: registry_entries_def Let_def config_entry_def auto_entry_def kf(4) fresh_state_def)
  obtain b where u: "use_live_data_mode (ho_native G) (Some (te_path e)) (shutdown (ho_native G) d) = (True, b)"
    using assms(6) by (cases "use_live_data_mode (ho_native G) (Some (te_path e)) (shutdown (ho_native G) d)") auto
  have live: "bd_live b" using attach_ok(1) [of "ho_native G" "Some (te_path e)" "shutdown (ho_native G) d"] u by simp
  let ?c = "save_selection G t (mark_chosen t (k\<lparr>tm_binding := b\<rparr>))"
  let ?k = "?c\<lparr>tm_binding := clear_symbol_cache (tm_binding ?c)\<rparr>"
  have sel: "select_terminal G t k = (Chosen, ?k)"
    using assms(5) unselected by (simp add: select_terminal_def again e kf(1) u Let_def)
  have restored: "restore_saved_selection G ?f = (tm_selected ?k, ?k)"
    using assms(5) by (simp add: restore_saved_selection_def saved l e kf fresh_state_def sel)
  have "tm_selected ?k = Some t"
    using first_selected_chosen [of "k\<lparr>tm_binding := b\<rparr>" t] kf(2) by (simp add: save_selection_def)
  moreover have "bd_live (tm_binding ?k)" using live by (simp add: save_selection_def clear_symbol_cache_def)
  moreover have "\<not> is_execution_armed ?k"
  proof -
    have "one_selected ?k" using kf(2) by (simp add: one_selected_chosen)
    moreover have "\<not> is_armed ?k u" for u using kf(4) [of u] by (simp add: is_armed_def [of k] fresh_state_def)
    ultimately show ?thesis
      by (auto simp: is_execution_armed_def one_selected_def list_ex_iff is_armed_def state_of_def)
        (metis map_of_is_SomeI option.simps(5))
  qed
  ultimately show ?thesis by (simp add: restored)
qed

section \<open>The probe\<close>

lemma probe_state:
  "probe_accounts H m = (Probed rows r, n) \<Longrightarrow>
   \<not> is_execution_armed m \<and> (\<exists>d. restore_binding H (fst (list_terminals H m)) d = (r, tm_binding n))
   \<and> tm_states n = tm_states (snd (list_terminals H m))"
  by (auto simp: probe_accounts_def Let_def split: prod.splits if_splits)

lemma entry_paths:
  "e \<in> set (registry_entries H m) \<Longrightarrow> te_path e \<noteq> [] \<and> te_folder e = dirname (te_path e)"
proof -
  have "c \<in> set (load_entries es) \<Longrightarrow> tc_path c \<noteq> []" for c es
    by (induction es rule: load_entries.induct) (auto simp: load_entry_def Let_def split: option.splits if_splits)
  moreover have "\<exists>es. load_config f = load_entries es" for f
    by (auto simp: load_config_def intro: exI [of _ "[]"] split: file_text.split pyval.split)
  ultimately have "c \<in> set (load_config f) \<Longrightarrow> tc_path c \<noteq> []" for c f by metis
  moreover have "r \<in> set (scan_running_terminals ps) \<Longrightarrow> rn_exe r \<noteq> [] \<and> rn_folder r = dirname (rn_exe r)" for r ps
    by (auto simp: scan_running_terminals_def split: option.splits if_splits)
  ultimately show "e \<in> set (registry_entries H m) \<Longrightarrow> ?thesis"
    by (auto simp: registry_entries_def Let_def config_entry_def auto_entry_def)
qed

lemma attach_broker:
  "p \<noteq> [] \<Longrightarrow> fst (use_live_data_mode (Some lib) (Some p) d) \<Longrightarrow>
   nv_initialize lib (Some p) (bd_broker d) = (Some True, bd_broker (snd (use_live_data_mode (Some lib) (Some p) d)))"
  by (cases p) (auto simp: use_live_data_mode_def Let_def split: prod.splits option.splits bool.splits)

text \<open>
  The probe runs only while nothing is armed, changes no switch, and when it reports the binding
  restored and the terminal it was attached to is in the registry, the binding is attached to the
  same folder again, given that the library reports the folder of the terminal it was told to use.
\<close>

theorem probe_returns_the_binding:
  assumes "probe_accounts H m = (Probed rows True, n)"
    and "ho_native H = Some lib" and "\<And>p b. fst (nv_initialize lib (Some p) b) = Some True \<Longrightarrow>
           nv_path lib (snd (nv_initialize lib (Some p) b)) = Some (dirname p)"
    and "detect_attached_path (ho_native H) (tm_binding m) = Some f"
    and "list_ex (\<lambda>e. te_folder e \<noteq> [] \<and> norm_path (te_folder e) = norm_path f) (vw_terminals (fst (list_terminals H m)))"
  shows "\<not> is_execution_armed m \<and> tm_states n = tm_states (reconcile_globals m)
         \<and> map_option norm_path (detect_attached_path (ho_native H) (tm_binding n)) = Some (norm_path f)"
proof -
  let ?v = "fst (list_terminals H m)"
  obtain d where d: "restore_binding H ?v d = (True, tm_binding n)"
    and arms: "\<not> is_execution_armed m" "tm_states n = tm_states (snd (list_terminals H m))"
    using probe_state [OF assms(1)] by blast
  have attached: "vw_attached ?v = Some f" using assms(4) by (simp add: list_terminals_def Let_def)
  obtain e where e: "find (\<lambda>e. te_folder e \<noteq> [] \<and> norm_path (te_folder e) = norm_path f) (vw_terminals ?v) = Some e"
    using assms(5)
    by (cases "find (\<lambda>e. te_folder e \<noteq> [] \<and> norm_path (te_folder e) = norm_path f) (vw_terminals ?v)")
      (auto simp: find_None_iff list_ex_iff)
  then have inv: "e \<in> set (vw_terminals ?v)" "te_folder e \<noteq> []" "norm_path (te_folder e) = norm_path f"
    by (auto simp: find_Some_iff)
  then have path: "te_path e \<noteq> []" "te_folder e = dirname (te_path e)"
    using entry_paths [of e H "snd (list_terminals H m)"] view_entries [of H m] by auto
  have "original_path ?v = Some (te_path e)" using e by (simp add: original_path_def attached)
  then have u: "use_live_data_mode (ho_native H) (Some (te_path e)) (shutdown (ho_native H) d) = (True, tm_binding n)"
    using d path(1) by (cases "te_path e") (auto simp: restore_binding_def)
  obtain x where x: "nv_initialize lib (Some (te_path e)) (bd_broker (shutdown (ho_native H) d)) = (Some True, x)"
    "bd_broker (tm_binding n) = x"
    using attach_broker [where lib = lib and p = "te_path e" and d = "shutdown (ho_native H) d"] u path(1) by (simp add: assms(2))
  have "nv_path lib (bd_broker (tm_binding n)) = Some (te_folder e)"
    using assms(3) [of "te_path e" "bd_broker (shutdown (ho_native H) d)"] x path(2) by simp
  then have "detect_attached_path (ho_native H) (tm_binding n) = Some (te_folder e)"
    using inv(2) by (cases "te_folder e") (auto simp: detect_attached_path_def assms(2))
  then show ?thesis using arms inv(3) by (simp add: listed_state refresh_attached_account_def split: option.splits)
qed

section \<open>Concrete runs\<close>

text \<open>A library whose state is the folder it is attached to, with one demo account everywhere.\<close>

definition demo_lib :: "string option native" where
  "demo_lib =
     \<lparr>nv_initialize = (\<lambda>p b. (Some True, map_option dirname p)), nv_shutdown = (\<lambda>b. None), nv_path = (\<lambda>b. b),
      nv_account = (\<lambda>b. Some [(''login'', VInt 7), (''server'', VStr ''Demo''), (''trade_mode'', VInt 0)]),
      nv_symbols = (\<lambda>b. [''XAUUSDc''])\<rparr>"

definition demo_process :: "int \<Rightarrow> string \<Rightarrow> process option" where
  "demo_process pid exe = Some \<lparr>pc_pid = pid, pc_name = ''terminal64.exe'', pc_exe = exe\<rparr>"

definition demo_host :: "string option host" where
  "demo_host = \<lparr>ho_native = Some demo_lib,
     ho_processes = Some [demo_process 1 ''C:/a/t.exe'', None, demo_process 2 ''D:/a/t.exe''],
     ho_writes = True, ho_now = ''now''\<rparr>"

definition detached :: "string option binding" where
  "detached = \<lparr>bd_broker = None, bd_live = False, bd_available = False, bd_cache = []\<rparr>"

definition demo_ops :: "(string option host \<times> string option terminal_op) list" where
  "demo_ops = [(demo_host, SelectOp ''demo''), (demo_host, ArmOp ''demo'' True)]"

definition demo_manager :: "string option manager" where
  "demo_manager = fresh_manager detached (Parsed (VDict demo_file)) FileMissing"

theorem fanout_targets_were_armed_witness:
  "map te_folder (fst (get_fanout_targets demo_host (manager_run demo_ops demo_manager))) = [''C:/a'']
   \<and> list_all (\<lambda>e. te_running e \<and> te_verified e \<and> te_fanout e \<and> left_on (te_id e) demo_ops demo_manager)
       (fst (get_fanout_targets demo_host (manager_run demo_ops demo_manager)))"
proof -
  have "module_only demo_ops" by code_simp
  then have "list_all (\<lambda>e. te_running e \<and> te_verified e \<and> te_fanout e \<and> left_on (te_id e) demo_ops demo_manager)
       (fst (get_fanout_targets demo_host (manager_run demo_ops demo_manager)))"
    unfolding demo_manager_def by (rule fanout_targets_were_armed)
  moreover have "map te_folder (fst (get_fanout_targets demo_host (manager_run demo_ops demo_manager))) = [''C:/a'']"
    by code_simp
  ultimately show ?thesis by blast
qed

theorem permitted_iff_attached_terminal_armed_witness:
  "fst (execution_permitted demo_host (manager_run demo_ops demo_manager))
   \<and> tm_selected (manager_run demo_ops demo_manager) = Some ''demo''"
proof -
  let ?m = "manager_run demo_ops demo_manager"
  have m: "?m = manager_run demo_ops (fresh_manager detached (Parsed (VDict demo_file)) FileMissing)"
    by (simp only: demo_manager_def)
  have d: "distinct (map te_id (vw_terminals (fst (list_terminals demo_host ?m))))" by code_simp
  have "list_ex (\<lambda>e. te_armed e \<and> te_running e \<and> te_verified e \<and> te_attached e)
      (vw_terminals (fst (list_terminals demo_host ?m)))" by code_simp
  then have "fst (execution_permitted demo_host ?m)"
    by (rule permitted_iff_attached_terminal_armed [OF m d, THEN iffD2])
  moreover have "tm_selected ?m = Some ''demo''"
    by code_simp
  ultimately show ?thesis by blast
qed

theorem selection_survives_restart_witness:
  "let n = snd (select_terminal demo_host ''live'' demo_manager);
       (r, k) = restore_saved_selection demo_host (fresh_manager detached (Parsed (VDict demo_file)) (tm_saved n))
   in r = Some ''live'' \<and> tm_selected k = Some ''live''"
proof -
  let ?s = "select_terminal demo_host ''live'' demo_manager"
  let ?f = "fresh_manager detached (Parsed (VDict demo_file)) (tm_saved (snd ?s))"
  have "case entry_of ''live'' (fst (list_terminals demo_host ?f)) of
          Some e \<Rightarrow> te_running e \<and> te_path e = ''D:/a/t.exe'' | None \<Rightarrow> False" by code_simp
  then obtain e where e: "entry_of ''live'' (fst (list_terminals demo_host ?f)) = Some e" "te_running e"
    "te_path e = ''D:/a/t.exe''" by (auto split: option.splits)
  have attach: "fst (use_live_data_mode (ho_native demo_host) (Some (te_path e)) (shutdown (ho_native demo_host) detached))"
    unfolding e(3) by code_simp
  have chosen: "?s = (Chosen, snd ?s)" by code_simp
  have facts: "ho_writes demo_host" "''live'' \<noteq> []" by code_simp+
  have "let (r, k) = restore_saved_selection demo_host ?f
      in r = Some ''live'' \<and> tm_selected k = Some ''live'' \<and> bd_live (tm_binding k) \<and> \<not> is_execution_armed k"
    by (rule selection_survives_restart [OF chosen facts e(1,2) attach])
  then show ?thesis by (simp add: Let_def case_prod_beta)
qed

definition probed_manager :: "string option manager" where
  "probed_manager = fresh_manager \<lparr>bd_broker = Some ''D:/a'', bd_live = True, bd_available = True, bd_cache = []\<rparr>
     (Parsed (VDict demo_file)) FileMissing"

theorem probe_returns_the_binding_witness:
  "map_option norm_path (detect_attached_path (ho_native demo_host)
     (tm_binding (snd (probe_accounts demo_host probed_manager)))) = Some (norm_path ''D:/a'')"
proof -
  let ?p = "probe_accounts demo_host probed_manager"
  have "case fst ?p of Probed rows r \<Rightarrow> r | _ \<Rightarrow> False" by code_simp
  then obtain rows where p: "?p = (Probed rows True, snd ?p)" by (cases ?p; cases "fst ?p") auto
  have lib: "ho_native demo_host = Some demo_lib" by (simp add: demo_host_def)
  have law: "nv_path demo_lib (snd (nv_initialize demo_lib (Some p) b)) = Some (dirname p)" for p b
    by (simp add: demo_lib_def)
  have at: "detect_attached_path (ho_native demo_host) (tm_binding probed_manager) = Some ''D:/a''" by code_simp
  have entry: "list_ex (\<lambda>e. te_folder e \<noteq> [] \<and> norm_path (te_folder e) = norm_path ''D:/a'')
      (vw_terminals (fst (list_terminals demo_host probed_manager)))" by code_simp
  show ?thesis using probe_returns_the_binding [OF p lib law at entry] by blast
qed

text \<open>
  The registry file may name two terminals alike: the switch of that id arms both, though its check
  looks at the first one only.
\<close>

definition twin_manager :: "string option manager" where
  "twin_manager = fresh_manager detached
     (Parsed (VList [VDict [(''id'', VStr ''x''), (''path'', VStr ''C:/a/t.exe'')],
                     VDict [(''id'', VStr ''x''), (''path'', VStr ''D:/a/t.exe'')]])) FileMissing"

theorem one_switch_arms_both_twins:
  "map te_folder (fst (get_fanout_targets demo_host
     (manager_run [(demo_host, ProbeOp), (demo_host, ArmOp ''x'' True)] twin_manager))) = [''C:/a'', ''D:/a'']"
  by code_simp

end
