(* ===== verification/Multi_Terminal.thy ===== *)
theory Multi_Terminal
  imports Execution Terminal_Runs
begin

text \<open>
  The engine's own dispatch to several terminals, \<open>execute_order_fanout\<close>, and the change of a
  position's stop, \<open>modify_position_sltp\<close>, of \<open>execution/engine.py\<close>. The broker of the engine's
  world is the terminal manager with its binding; \<open>dealing\<close> holds the calls of the library that deal
  (reads do not raise, a send may). An exception of a dispatch becomes the message of its row.
\<close>

section \<open>Dealing through the binding\<close>

record 'b dealing =
  dl_tick :: "string \<Rightarrow> 'b \<Rightarrow> (pyfloat \<times> pyfloat) option"     \<comment> \<open>ask and bid\<close>
  dl_equity :: "'b \<Rightarrow> pyfloat"
  dl_symbol :: "string \<Rightarrow> 'b \<Rightarrow> pydict option"
  dl_send :: "pydict \<Rightarrow> 'b \<Rightarrow> (exn + raw_result) \<times> 'b"

type_synonym 'b fan_world = "'b manager world"

definition bound :: "'b fan_world \<Rightarrow> 'b" where
  "bound w = bd_broker (tm_binding (w_broker w))"

definition set_binding :: "'b binding \<Rightarrow> 'b fan_world \<Rightarrow> 'b fan_world" where
  "set_binding d w = w\<lparr>w_broker := (w_broker w)\<lparr>tm_binding := d\<rparr>\<rparr>"

text \<open>\<open>mt5.order_send\<close>: the order goes to whatever terminal the binding is attached to.\<close>

definition order_send :: "'b dealing \<Rightarrow> pydict \<Rightarrow> 'b manager \<Rightarrow> (exn + raw_result) \<times> 'b manager" where
  "order_send L payload m =
     (case dl_send L payload (bd_broker (tm_binding m)) of
        (res, b) \<Rightarrow> (res, m\<lparr>tm_binding := (tm_binding m)\<lparr>bd_broker := b\<rparr>\<rparr>))"

section \<open>Changing a stop\<close>

record sltp_result =
  mr_success :: bool
  mr_simulated :: bool
  mr_code :: int
  mr_message :: string

definition sltp_refusal :: "int \<Rightarrow> string \<Rightarrow> sltp_result" where
  "sltp_refusal code msg = \<lparr>mr_success = False, mr_simulated = False, mr_code = code, mr_message = msg\<rparr>"

definition sltp_payload :: "int \<Rightarrow> string \<Rightarrow> pyfloat \<Rightarrow> pyfloat option \<Rightarrow> pydict" where
  "sltp_payload ticket symbol sl tp =
     [(''action'', VStr ''TRADE_ACTION_SLTP''), (''symbol'', VStr symbol), (''position'', VInt ticket), (''sl'', VFloat sl)]
     @ (case tp of Some t \<Rightarrow> if 0 < t then [(''tp'', VFloat t)] else [] | None \<Rightarrow> [])"

definition modify_position_sltp ::
  "'b host \<Rightarrow> 'b dealing \<Rightarrow> 'b manager engine \<Rightarrow> int \<Rightarrow> string \<Rightarrow> pyfloat \<Rightarrow> pyfloat option \<Rightarrow> 'b fan_world
   \<Rightarrow> sltp_result \<times> 'b fan_world" where
  "modify_position_sltp H L E ticket symbol sl tp w =
     (if ticket \<le> 0 then (sltp_refusal 400 ''Invalid ticket'', w)
      else if sl \<le> 0 then (sltp_refusal 400 ''Invalid SL price'', w)
      else if ho_native H = None
      then (\<lparr>mr_success = True, mr_simulated = True, mr_code = 0,
             mr_message = ''Simulated SLTP modification (no native MT5)''\<rparr>, w)
      else case execution_permitted H (w_broker w) of
             (armed, m) \<Rightarrow>
               (let w1 = w\<lparr>w_broker := m\<rparr>
                in if \<not> armed
                   then (sltp_refusal 403 (''EXECUTION NOT ARMED '' @ em_dash @ '' SLTP modification disabled.''), w1)
                   else case hand_over (order_send L) (sltp_payload ticket symbol sl tp) w1 of
                          (res, w2) \<Rightarrow>
                            (case parsed E res of
                               Inl x \<Rightarrow> (sltp_refusal (- 1) (''Native MT5 SLTP modify failed: '' @ x), w2)
                             | Inr s \<Rightarrow> (\<lparr>mr_success = sr_success s, mr_simulated = False, mr_code = sr_code s,
                                          mr_message = sr_message s\<rparr>, w2))))"

section \<open>Sizing for one terminal\<close>

definition symbol_number :: "pydict option \<Rightarrow> string \<Rightarrow> pyerr + pyfloat" where
  "symbol_number info k = (case info of None \<Rightarrow> Inr 0 | Some d \<Rightarrow> get_float_or0 d k)"

text \<open>
  The volume before the clamp, and whether its branch imports the library: the import makes \<open>mt5\<close> a
  local name of the whole function, so in the other branches the later use of it raises, which
  the handler around the normalisation swallows.
\<close>

definition raw_volume ::
  "'b dealing \<Rightarrow> entry \<Rightarrow> pyfloat \<Rightarrow> string \<Rightarrow> pyfloat \<Rightarrow> 'b \<Rightarrow> pyerr + pyfloat \<times> bool" where
  "raw_volume L t risk symbol fallback b =
     (case positive (te_fixed_lot t) of
        Some f \<Rightarrow> Inr (f, False)
      | None \<Rightarrow>
          (case positive (te_risk_pct t) of
             None \<Rightarrow> Inr (fallback, False)
           | Some pct \<Rightarrow>
               (if risk \<le> 0 then Inr (fallback, False)
                else if dl_equity L b \<le> 0 then Inr (0, True)
                else bindE (symbol_number (dl_symbol L symbol b) ''trade_tick_value'') (\<lambda>tv.
                     bindE (symbol_number (dl_symbol L symbol b) ''trade_tick_size'') (\<lambda>ts.
                       if 0 < tv \<and> 0 < ts
                       then Inr (if 0 < risk / ts * tv then dl_equity L b * pct / 100 / (risk / ts * tv) else 0, True)
                       else Inr (0, True))))))"

definition snap_lot :: "pydict option \<Rightarrow> pyfloat \<Rightarrow> pyfloat" where
  "snap_lot info vol =
     catchE (bindE (symbol_number info ''volume_step'') (\<lambda>step.
             bindE (symbol_number info ''volume_min'') (\<lambda>vmin.
               let v1 = (if 0 < vmin then max vol vmin else vol);
                   v2 = (if 0 < step then of_int (round_half_even (v1 / step)) * step else v1)
               in Inr (if 0 < step \<and> 0 < vmin \<and> v2 < vmin then vmin else v2)))) vol"

definition lot_cap :: "'c engine \<Rightarrow> entry \<Rightarrow> pyfloat" where
  "lot_cap E t = (case te_max_lot t of Some x \<Rightarrow> if x = 0 then en_max_volume E else x | None \<Rightarrow> en_max_volume E)"

definition size_for_terminal ::
  "'b dealing \<Rightarrow> 'c engine \<Rightarrow> entry \<Rightarrow> pyfloat \<Rightarrow> string \<Rightarrow> pyfloat \<Rightarrow> 'b \<Rightarrow> pyfloat" where
  "size_for_terminal L E t risk symbol fallback b =
     (case raw_volume L t risk symbol fallback b of
        Inl _ \<Rightarrow> 0
      | Inr (v, imported) \<Rightarrow>
          (if v \<le> 0 then 0
           else let c = max (en_min_volume E) (min v (lot_cap E t))
                in py_round (if imported then snap_lot (dl_symbol L symbol b) c else c) 4))"

section \<open>One terminal\<close>

record fan_row =
  fr_terminal :: "string option"
  fr_label :: string
  fr_symbol :: string
  fr_volume :: pyfloat
  fr_success :: bool
  fr_ticket :: "int option"
  fr_code :: int
  fr_message :: string
  fr_price :: "pyfloat option"

definition start_row :: "entry \<Rightarrow> order_request \<Rightarrow> fan_row" where
  "start_row t r =
     \<lparr>fr_terminal = Some (te_id t), fr_label = (if te_label t = [] then te_id t else te_label t), fr_symbol = rq_symbol r,
      fr_volume = rq_volume r, fr_success = False, fr_ticket = None, fr_code = - 1, fr_message = [], fr_price = None\<rparr>"

definition is_buy :: "order_request \<Rightarrow> bool" where
  "is_buy r \<longleftrightarrow> upper (rq_order_type r) = ''BUY''"

text \<open>A level at a distance from the entry, below it for \<open>against = is_buy\<close>, or none.\<close>

definition level_at :: "order_request \<Rightarrow> pyfloat \<Rightarrow> pyfloat \<Rightarrow> bool \<Rightarrow> pyfloat" where
  "level_at r entry distance against =
     (if 0 < distance then (if is_buy r = against then entry - distance else entry + distance) else 0)"

definition fan_payload :: "order_request \<Rightarrow> string \<Rightarrow> pyfloat \<Rightarrow> pyfloat \<Rightarrow> pyfloat \<Rightarrow> pyfloat \<Rightarrow> pydict" where
  "fan_payload r symbol volume entry sl tp =
     [(''action'', VStr ''TRADE_ACTION_DEAL''), (''symbol'', VStr symbol), (''volume'', VFloat volume),
      (''type'', VStr (if is_buy r then ''ORDER_TYPE_BUY'' else ''ORDER_TYPE_SELL'')), (''price'', VFloat entry),
      (''sl'', VFloat sl), (''tp'', VFloat tp), (''magic'', VInt (rq_magic r)), (''comment'', VStr (rq_comment r)),
      (''type_time'', VStr ''ORDER_TIME_GTC'')]"

definition answered_row :: "fan_row \<Rightarrow> exn + send_result \<Rightarrow> fan_row" where
  "answered_row row ans =
     (case ans of
        Inl x \<Rightarrow> row\<lparr>fr_message := take 200 x\<rparr>
      | Inr s \<Rightarrow> row\<lparr>fr_success := sr_success s, fr_ticket := sr_ticket s, fr_code := sr_code s, fr_message := sr_message s\<rparr>)"

text \<open>From the attached terminal on: quote, levels, size and send.\<close>

definition deal_at_terminal ::
  "'b dealing \<Rightarrow> 'b manager engine \<Rightarrow> order_request \<Rightarrow> pyfloat \<Rightarrow> pyfloat \<Rightarrow> entry \<Rightarrow> string \<Rightarrow> 'b fan_world
   \<Rightarrow> fan_row \<times> 'b fan_world" where
  "deal_at_terminal L E r risk tp t symbol w =
     (let row = (start_row t r)\<lparr>fr_symbol := symbol\<rparr>
      in case dl_tick L symbol (bound w) of
           None \<Rightarrow> (row\<lparr>fr_message := ''Tidak ada tick untuk simbol '' @ [CHR 0x27] @ symbol @ [CHR 0x27] @ ''.''\<rparr>, w)
         | Some (ask, bid) \<Rightarrow>
             (let entry = (if is_buy r then ask else bid);
                  volume = size_for_terminal L E t risk symbol (rq_volume r) (bound w);
                  priced = row\<lparr>fr_price := Some entry, fr_volume := volume\<rparr>
              in if volume \<le> 0 then (priced\<lparr>fr_message := ''Volume lot tidak valid (0).''\<rparr>, w)
                 else case hand_over (order_send L)
                        (fan_payload r symbol volume entry (level_at r entry risk True) (level_at r entry tp False)) w of
                        (res, w2) \<Rightarrow> (answered_row priced (parsed E res), w2)))"

definition dispatch_to_terminal ::
  "'b host \<Rightarrow> 'b dealing \<Rightarrow> 'b manager engine \<Rightarrow> order_request \<Rightarrow> pyfloat \<Rightarrow> pyfloat \<Rightarrow> entry \<Rightarrow> 'b fan_world
   \<Rightarrow> fan_row \<times> 'b fan_world" where
  "dispatch_to_terminal H L E r risk tp t w =
     (case use_live_data_mode (ho_native H) (Some (te_path t)) (shutdown (ho_native H) (tm_binding (w_broker w))) of
        (ok, d) \<Rightarrow>
          (if \<not> ok
           then ((start_row t r)\<lparr>fr_message := ''Gagal attach ke terminal '' @ [CHR 0x27] @ te_id t @ [CHR 0x27] @ ''.''\<rparr>,
                 set_binding d w)
           else case resolve_broker_symbol (ho_native H) (rq_symbol r) (clear_symbol_cache d) of
                  (s, d2) \<Rightarrow>
                    deal_at_terminal L E r risk tp t (if s = [] then rq_symbol r else s) (set_binding d2 w)))"

section \<open>The fan-out\<close>

record fan_result =
  fo_rows :: "fan_row list"
  fo_succeeded :: nat
  fo_failed :: nat
  fo_targets :: nat

definition refused_row :: "int \<Rightarrow> string \<Rightarrow> fan_row" where
  "refused_row code msg =
     \<lparr>fr_terminal = None, fr_label = [], fr_symbol = [], fr_volume = 0, fr_success = False, fr_ticket = None,
      fr_code = code, fr_message = msg, fr_price = None\<rparr>"

fun simulate_rows ::
  "'b manager engine \<Rightarrow> order_request \<Rightarrow> entry list \<Rightarrow> 'b fan_world \<Rightarrow> fan_row list \<times> 'b fan_world" where
  "simulate_rows E r [] w = ([], w)"
| "simulate_rows E r (t # ts) w =
     (let (ticket, w1) = next_simulated_ticket E w;
          (rows, w2) = simulate_rows E r ts w1
      in ((start_row t r)\<lparr>fr_label := te_label t, fr_success := True, fr_ticket := Some ticket, fr_code := 0,
              fr_message := ''Simulated fan-out fill'', fr_price := Some (rq_price r)\<rparr> # rows, w2))"

fun dispatch_rows ::
  "'b host \<Rightarrow> 'b dealing \<Rightarrow> 'b manager engine \<Rightarrow> order_request \<Rightarrow> pyfloat \<Rightarrow> pyfloat \<Rightarrow> entry list \<Rightarrow> 'b fan_world
   \<Rightarrow> fan_row list \<times> 'b fan_world" where
  "dispatch_rows H L E r risk tp [] w = ([], w)"
| "dispatch_rows H L E r risk tp (t # ts) w =
     (let (row, w1) = dispatch_to_terminal H L E r risk tp t w;
          (rows, w2) = dispatch_rows H L E r risk tp ts w1
      in (row # rows, w2))"

text \<open>The \<open>finally\<close> block: back to the path the library reported before the first dispatch.\<close>

definition restore_original :: "'b host \<Rightarrow> string option \<Rightarrow> 'b fan_world \<Rightarrow> 'b fan_world" where
  "restore_original H original w =
     (let d = shutdown (ho_native H) (tm_binding (w_broker w))
      in set_binding (case original of Some p \<Rightarrow> snd (use_live_data_mode (ho_native H) (Some p) d) | None \<Rightarrow> d) w)"

definition counted :: "fan_row list \<Rightarrow> nat \<Rightarrow> fan_result" where
  "counted rows n = \<lparr>fo_rows = rows, fo_succeeded = length (filter fr_success rows),
     fo_failed = length (filter (\<lambda>x. \<not> fr_success x) rows), fo_targets = n\<rparr>"

definition fan_to_targets ::
  "'b host \<Rightarrow> 'b dealing \<Rightarrow> 'b manager engine \<Rightarrow> order_request \<Rightarrow> pyfloat \<Rightarrow> pyfloat \<Rightarrow> entry list \<Rightarrow> 'b fan_world
   \<Rightarrow> fan_result \<times> 'b fan_world" where
  "fan_to_targets H L E r risk tp targets w =
     (if targets = [] then (counted [] 0, w)
      else if ho_native H = None
      then if en_simulation E
           then (case simulate_rows E r targets w of (rows, w1) \<Rightarrow> (counted rows (length targets), w1))
           else (\<lparr>fo_rows = [refused_row 0 ''No MT5 and simulation off''], fo_succeeded = 0,
                  fo_failed = length targets, fo_targets = length targets\<rparr>, w)
      else let original = detect_attached_path (ho_native H) (tm_binding (w_broker w))
           in case dispatch_rows H L E r risk tp targets w of
                (rows, w1) \<Rightarrow> (counted rows (length targets), restore_original H original w1))"

definition execute_order_fanout ::
  "'b host \<Rightarrow> 'b dealing \<Rightarrow> 'b manager engine \<Rightarrow> order_request \<Rightarrow> entry list option \<Rightarrow> pyfloat \<Rightarrow> pyfloat \<Rightarrow> 'b fan_world
   \<Rightarrow> fan_result \<times> 'b fan_world" where
  "execute_order_fanout H L E r targets risk tp w =
     (if en_require_approval E \<and> missing_approval r
      then (\<lparr>fo_rows = [refused_row 403 (''Fan-out rejected: require_approval is enabled but the order ''
               @ ''carries no gate-issued approval_token (fail-closed).'')], fo_succeeded = 0, fo_failed = 1, fo_targets = 0\<rparr>, w)
      else case targets of
             Some ts \<Rightarrow> fan_to_targets H L E r risk tp ts w
           | None \<Rightarrow>
               (case get_fanout_targets H (w_broker w) of
                  (ts, m) \<Rightarrow> fan_to_targets H L E r risk tp ts (w\<lparr>w_broker := m\<rparr>)))"

section \<open>Frames\<close>

text \<open>Everything of the world but the broker, the log and the ticket counter.\<close>

definition with_books :: "ledger \<Rightarrow> string list \<Rightarrow> (string \<times> exec_result) list \<Rightarrow> 'c world \<Rightarrow> 'c world" where
  "with_books G P C w = w\<lparr>w_ledger := G, w_pending := P, w_completed := C\<rparr>"

lemma with_books_fields [simp]:
  "w_broker (with_books G P C w) = w_broker w" "w_sent (with_books G P C w) = w_sent w"
  "w_seq (with_books G P C w) = w_seq w" "w_step (with_books G P C w) = w_step w" "bound (with_books G P C w) = bound w"
  "set_binding d (with_books G P C w) = with_books G P C (set_binding d w)"
  "(with_books G P C w)\<lparr>w_broker := m\<rparr> = with_books G P C (w\<lparr>w_broker := m\<rparr>)"
  by (simp_all add: with_books_def bound_def set_binding_def)

lemma hand_over_books: "hand_over f p (with_books G P C w) = map_prod id (with_books G P C) (hand_over f p w)"
  by (simp add: hand_over_def with_books_def Let_def split: prod.splits)

lemma ticket_books: "next_simulated_ticket E (with_books G P C w) = map_prod id (with_books G P C) (next_simulated_ticket E w)"
  by (simp add: next_simulated_ticket_def with_books_def Let_def)

lemma deal_books: "deal_at_terminal L E r risk tp t s (with_books G P C w)
    = map_prod id (with_books G P C) (deal_at_terminal L E r risk tp t s w)"
  by (simp add: deal_at_terminal_def hand_over_books Let_def split: option.splits prod.splits)

lemma dispatch_books: "dispatch_to_terminal H L E r risk tp t (with_books G P C w)
    = map_prod id (with_books G P C) (dispatch_to_terminal H L E r risk tp t w)"
  by (simp add: dispatch_to_terminal_def deal_books split: prod.splits)

lemma rows_books:
  "dispatch_rows H L E r risk tp ts (with_books G P C w) = map_prod id (with_books G P C) (dispatch_rows H L E r risk tp ts w)"
  "simulate_rows E r ts (with_books G P C w) = map_prod id (with_books G P C) (simulate_rows E r ts w)"
  by (induction ts arbitrary: w) (simp_all add: dispatch_books ticket_books Let_def split: prod.splits)

lemma restore_books: "restore_original H p (with_books G P C w) = with_books G P C (restore_original H p w)"
  by (simp add: restore_original_def Let_def split: option.splits)

lemma fan_books: "fan_to_targets H L E r risk tp ts (with_books G P C w)
    = map_prod id (with_books G P C) (fan_to_targets H L E r risk tp ts w)"
  by (simp add: fan_to_targets_def rows_books restore_books Let_def case_prod_beta)

text \<open>
  The engine's fan-out neither reads nor writes the order ledger and the registries of submitted
  keys: with any other books the answer, the orders sent and the binding are the same and the books
  stay as they were, so a key that was already filled is sent again to every terminal.
\<close>

theorem fanout_ignores_the_ledger:
  "let w2 = with_books G P C w; (res, v) = execute_order_fanout H L E r ts risk tp w;
       (res2, v2) = execute_order_fanout H L E r ts risk tp w2
   in res2 = res \<and> v2 = with_books G P C v"
  by (cases ts) (simp_all add: execute_order_fanout_def fan_books Let_def case_prod_beta)

section \<open>What is sent\<close>

text \<open>
  What a dispatch owes to the target \<open>t\<close> whose terminal the library has attached, with the broker state
  \<open>b\<close> that attaching left: the name under which that terminal lists the symbol, and an order priced
  from that terminal's own quote, sized for it, with its levels at the decision's distances on
  the right side, and answered by that terminal.
\<close>

definition symbol_at :: "'b native \<Rightarrow> string \<Rightarrow> 'b \<Rightarrow> string" where
  "symbol_at lib base b =
     (case candidate_matches (upper (strip base)) (nv_symbols lib b) of
        s # _ \<Rightarrow> s
      | [] \<Rightarrow> base)"

definition at_distance :: "pyfloat \<Rightarrow> pyfloat \<Rightarrow> bool \<Rightarrow> pyfloat \<Rightarrow> bool" where
  "at_distance entry distance up level \<longleftrightarrow>
     (if 0 < distance then level - entry = (if up then distance else - distance) else level = 0)"

definition order_at ::
  "'b dealing \<Rightarrow> 'c engine \<Rightarrow> order_request \<Rightarrow> pyfloat \<Rightarrow> pyfloat \<Rightarrow> entry \<Rightarrow> string \<Rightarrow> 'b
   \<Rightarrow> pydict \<times> (exn + raw_result) \<Rightarrow> bool" where
  "order_at L E r risk tp t symbol b s =
     (case s of (p, answer) \<Rightarrow>
        dget p ''symbol'' VNone = VStr symbol
        \<and> dget p ''type'' VNone = VStr (if is_buy r then ''ORDER_TYPE_BUY'' else ''ORDER_TYPE_SELL'')
        \<and> dget p ''volume'' VNone = VFloat (size_for_terminal L E t risk symbol (rq_volume r) b)
        \<and> (case (dl_tick L symbol b, dget p ''price'' VNone, dget p ''sl'' VNone, dget p ''tp'' VNone) of
             (Some (ask, bid), VFloat e, VFloat sl, VFloat goal) \<Rightarrow>
               e = (if is_buy r then ask else bid)
               \<and> at_distance e risk (\<not> is_buy r) sl \<and> at_distance e tp (is_buy r) goal
           | _ \<Rightarrow> False)
        \<and> answer = fst (dl_send L p b))"

text \<open>
  The visit of one target: the process detaches (if it was attached), attaches to the path of
  this target, and, where the terminal attaches, quotes the symbol and the size is positive,
  places exactly one order there; otherwise none. The results are the broker state left and
  whether the process is attached.
\<close>

definition visit ::
  "'b native \<Rightarrow> 'b dealing \<Rightarrow> 'c engine \<Rightarrow> order_request \<Rightarrow> pyfloat \<Rightarrow> pyfloat \<Rightarrow> entry \<Rightarrow> bool \<times> 'b
   \<Rightarrow> (pydict \<times> (exn + raw_result)) list \<Rightarrow> (bool \<times> 'b) option" where
  "visit lib L E r risk tp t link orders =
     (case nv_initialize lib (if te_path t = [] then None else Some (te_path t))
             (if fst link then nv_shutdown lib (snd link) else snd link) of
        (Some True, b) \<Rightarrow>
          (let symbol = symbol_at lib (rq_symbol r) b; symbol = (if symbol = [] then rq_symbol r else symbol)
           in if dl_tick L symbol b \<noteq> None \<and> 0 < size_for_terminal L E t risk symbol (rq_volume r) b
              then case orders of
                     [s] \<Rightarrow> if order_at L E r risk tp t symbol b s then Some (True, snd (dl_send L (fst s) b)) else None
                   | _ \<Rightarrow> None
              else if orders = [] then Some (True, b) else None)
      | (_, b) \<Rightarrow> if orders = [] then Some (False, b) else None)"

text \<open>The visits of the targets in order, \<open>orders\<close> holding what each of them received.\<close>

fun visits ::
  "'b native \<Rightarrow> 'b dealing \<Rightarrow> 'c engine \<Rightarrow> order_request \<Rightarrow> pyfloat \<Rightarrow> pyfloat \<Rightarrow> entry list \<Rightarrow> bool \<times> 'b
   \<Rightarrow> (pydict \<times> (exn + raw_result)) list list \<Rightarrow> bool" where
  "visits lib L E r risk tp [] link orders \<longleftrightarrow> orders = []"
| "visits lib L E r risk tp (t # ts) link [] \<longleftrightarrow> False"
| "visits lib L E r risk tp (t # ts) link (os # orders) \<longleftrightarrow>
     (case visit lib L E r risk tp t link os of Some left \<Rightarrow> visits lib L E r risk tp ts left orders | None \<Rightarrow> False)"

lemma visit_at_most_one: "visit lib L E r risk tp t link orders = Some left \<Longrightarrow> length orders \<le> 1"
  by (auto simp: visit_def Let_def split: prod.splits option.splits bool.splits if_splits list.splits)

lemma visits_at_most_one:
  "visits lib L E r risk tp ts link orders \<Longrightarrow> length orders = length ts \<and> list_all (\<lambda>os. length os \<le> 1) orders"
  by (induction lib L E r risk tp ts link orders rule: visits.induct)
    (auto split: option.splits dest: visit_at_most_one)

lemma visit_attached:
  assumes "nv_initialize lib (if te_path t = [] then None else Some (te_path t))
             (if fst link then nv_shutdown lib (snd link) else snd link) = (Some True, b)"
    and "symbol = (if symbol_at lib (rq_symbol r) b = [] then rq_symbol r else symbol_at lib (rq_symbol r) b)"
    and "if dl_tick L symbol b \<noteq> None \<and> 0 < size_for_terminal L E t risk symbol (rq_volume r) b
         then \<exists>s. orders = [s] \<and> order_at L E r risk tp t symbol b s \<and> c = snd (dl_send L (fst s) b)
         else orders = [] \<and> c = b"
  shows "visit lib L E r risk tp t link orders = Some (True, c)"
proof (cases "dl_tick L symbol b \<noteq> None \<and> 0 < size_for_terminal L E t risk symbol (rq_volume r) b")
  case True
  obtain s where s: "orders = [s]" "order_at L E r risk tp t symbol b s" "c = snd (dl_send L (fst s) b)"
    using assms(3) unfolding if_P [OF True] by blast
  show ?thesis unfolding visit_def assms(1) Let_def prod.case option.case bool.case assms(2) [symmetric] if_P [OF True]
    by (simp add: s)
next
  case False
  have s: "orders = []" "c = b" using assms(3) unfolding if_not_P [OF False] by blast+
  show ?thesis unfolding visit_def assms(1) Let_def prod.case option.case bool.case assms(2) [symmetric] if_not_P [OF False]
    by (simp add: s)
qed

lemma set_binding_fields [simp]:
  "w_sent (set_binding d w) = w_sent w" "bound (set_binding d w) = bd_broker d"
  "tm_binding (w_broker (set_binding d w)) = d"
  by (simp_all add: set_binding_def bound_def)

lemma hand_over_sent: "hand_over f p w = (res, v) \<Longrightarrow> w_sent v = w_sent w @ [(p, res)]"
  by (auto simp: hand_over_def Let_def split: prod.splits)

lemma hand_over_bound:
  assumes "hand_over (order_send L) p w = (res, v)"
  shows "res = fst (dl_send L p (bound w))" "bound v = snd (dl_send L p (bound w))"
    "bd_available (tm_binding (w_broker v)) = bd_available (tm_binding (w_broker w))"
  using assms by (auto simp: hand_over_def order_send_def bound_def Let_def split: prod.splits)

lemma fan_payload_placed:
  assumes "dl_tick L symbol b = Some (ask, bid)" "e = (if is_buy r then ask else bid)"
    "p = fan_payload r symbol (size_for_terminal L E t risk symbol (rq_volume r) b) e (level_at r e risk True) (level_at r e tp False)"
  shows "order_at L E r risk tp t symbol b (p, fst (dl_send L p b))"
  using assms(1) by (simp add: order_at_def assms(2,3) fan_payload_def dget_def level_at_def at_distance_def)

lemma no_candidates [simp]: "candidate_matches base [] = []" "candidate_matches [] xs = []"
  using candidates_listed [of base "[]"] by (simp, simp add: candidate_matches_def upper_def strip_def)

lemma resolve_cleared:
  assumes "bd_live d"
  shows "fst (resolve_broker_symbol (Some lib) base (clear_symbol_cache d)) = symbol_at lib base (bd_broker d)"
  using assms
  by (auto simp: resolve_broker_symbol_def clear_symbol_cache_def available_symbols_def symbol_at_def Let_def
      split: list.splits)

lemma deal_order:
  assumes "deal_at_terminal L E r risk tp t symbol w = (row, v)"
  shows "\<exists>os. w_sent v = w_sent w @ os
    \<and> bd_available (tm_binding (w_broker v)) = bd_available (tm_binding (w_broker w))
    \<and> (if dl_tick L symbol (bound w) \<noteq> None \<and> 0 < size_for_terminal L E t risk symbol (rq_volume r) (bound w)
        then \<exists>s. os = [s] \<and> order_at L E r risk tp t symbol (bound w) s \<and> bound v = snd (dl_send L (fst s) (bound w))
        else os = [] \<and> bound v = bound w)"
proof (cases "dl_tick L symbol (bound w)")
  case None
  then show ?thesis using assms by (auto simp: deal_at_terminal_def)
next
  case (Some q)
  obtain ask bid where q: "q = (ask, bid)" by (cases q)
  let ?e = "if is_buy r then ask else bid"
  let ?vol = "size_for_terminal L E t risk symbol (rq_volume r) (bound w)"
  let ?p = "fan_payload r symbol ?vol ?e (level_at r ?e risk True) (level_at r ?e tp False)"
  show ?thesis
  proof (cases "0 < ?vol")
    case True
    obtain res w2 where h: "hand_over (order_send L) ?p w = (res, w2)" by (cases "hand_over (order_send L) ?p w")
    then have v: "v = w2" using assms Some True by (simp add: deal_at_terminal_def q Let_def)
    have "order_at L E r risk tp t symbol (bound w) (?p, res)"
      unfolding hand_over_bound(1) [OF h] by (rule fan_payload_placed [OF Some [unfolded q] refl refl])
    then show ?thesis using Some True hand_over_sent [OF h] hand_over_bound(2,3) [OF h] by (auto simp: v)
  qed (use assms Some in \<open>auto simp: deal_at_terminal_def q Let_def\<close>)
qed

lemma resolve_available: "bd_available (snd (resolve_broker_symbol N s d)) = bd_available d"
  by (auto simp: resolve_broker_symbol_def Let_def split: option.splits list.splits)

definition attachment :: "'b fan_world \<Rightarrow> bool \<times> 'b" where
  "attachment w = (bd_available (tm_binding (w_broker w)), bound w)"

lemma dispatch_visits:
  assumes "ho_native H = Some lib" "dispatch_to_terminal H L E r risk tp t w = (row, v)"
  shows "\<exists>os. w_sent v = w_sent w @ os \<and> visit lib L E r risk tp t (attachment w) os = Some (attachment v)"
proof -
  let ?d = "shutdown (Some lib) (tm_binding (w_broker w))"
  let ?path = "if te_path t = [] then None else Some (te_path t)"
  have left: "bd_broker ?d = (if fst (attachment w) then nv_shutdown lib (snd (attachment w)) else snd (attachment w))"
    by (simp add: shutdown_def attachment_def bound_def)
  obtain ok b where init: "nv_initialize lib ?path (bd_broker ?d) = (ok, b)"
    by (cases "nv_initialize lib ?path (bd_broker ?d)")
  have path: "(case te_path t of [] \<Rightarrow> None | c # cs \<Rightarrow> Some (c # cs)) = ?path" by (cases "te_path t") auto
  have attach: "use_live_data_mode (Some lib) (Some (te_path t)) ?d =
      (case ok of None \<Rightarrow> (False, ?d\<lparr>bd_broker := b, bd_available := False\<rparr>)
       | Some True \<Rightarrow> (True, ?d\<lparr>bd_broker := b, bd_live := True, bd_available := True\<rparr>)
       | Some False \<Rightarrow> (False, ?d\<lparr>bd_broker := b\<rparr>))"
    unfolding use_live_data_mode_def option.case path init Let_def prod.case by simp
  show ?thesis
  proof (cases "ok = Some True")
    case False
    then have "\<exists>d. v = set_binding d w \<and> bd_broker d = b \<and> \<not> bd_available d"
      using assms attach by (auto simp: dispatch_to_terminal_def split: option.splits bool.splits)
    then show ?thesis using False init left
      by (auto simp: visit_def attachment_def bound_def split: option.splits bool.splits)
  next
    case True
    define d where "d = ?d\<lparr>bd_broker := b, bd_live := True, bd_available := True\<rparr>"
    obtain s d2 where rs: "resolve_broker_symbol (Some lib) (rq_symbol r) (clear_symbol_cache d) = (s, d2)"
      by (cases "resolve_broker_symbol (Some lib) (rq_symbol r) (clear_symbol_cache d)")
    have "s = symbol_at lib (rq_symbol r) b" using resolve_cleared [of d lib "rq_symbol r"] rs by (simp add: d_def)
    have "bd_broker (snd (s, d2)) = bd_broker (clear_symbol_cache d)"
      "bd_available (snd (s, d2)) = bd_available (clear_symbol_cache d)"
      unfolding rs [symmetric] by (rule resolve_broker, rule resolve_available)
    then have "bd_broker d2 = b" "bd_available d2" by (simp_all add: d_def clear_symbol_cache_def)
    moreover have "deal_at_terminal L E r risk tp t (if s = [] then rq_symbol r else s) (set_binding d2 w) = (row, v)"
      using assms attach True rs by (simp add: dispatch_to_terminal_def d_def)
    ultimately obtain os where os: "w_sent v = w_sent w @ os" "bd_available (tm_binding (w_broker v))"
      and placed: "let symbol = (if s = [] then rq_symbol r else s)
        in if dl_tick L symbol b \<noteq> None \<and> 0 < size_for_terminal L E t risk symbol (rq_volume r) b
           then \<exists>x. os = [x] \<and> order_at L E r risk tp t symbol b x \<and> bound v = snd (dl_send L (fst x) b)
           else os = [] \<and> bound v = b"
      using deal_order [of L E r risk tp t "if s = [] then rq_symbol r else s" "set_binding d2 w" row v]
      by (simp only: set_binding_fields Let_def) blast
    have "visit lib L E r risk tp t (attachment w) os = Some (True, bound v)"
      by (rule visit_attached [OF init [unfolded left True] refl]) (use placed in \<open>simp only: \<open>s = _\<close> Let_def\<close>)
    then show ?thesis using os by (auto simp: attachment_def)
  qed
qed

lemma rows_visits:
  assumes "ho_native H = Some lib"
  shows "\<exists>orders. w_sent (snd (dispatch_rows H L E r risk tp ts w)) = w_sent w @ concat orders
           \<and> visits lib L E r risk tp ts (attachment w) orders"
proof (induction ts arbitrary: w)
  case (Cons t ts)
  obtain row v where d: "dispatch_to_terminal H L E r risk tp t w = (row, v)"
    by (cases "dispatch_to_terminal H L E r risk tp t w")
  obtain os where os: "w_sent v = w_sent w @ os" "visit lib L E r risk tp t (attachment w) os = Some (attachment v)"
    using dispatch_visits [OF assms d] by blast
  obtain orders where "w_sent (snd (dispatch_rows H L E r risk tp ts v)) = w_sent v @ concat orders"
    "visits lib L E r risk tp ts (attachment v) orders" using Cons.IH by blast
  then show ?case using os by (intro exI [of _ "os # orders"]) (simp add: d case_prod_beta)
qed simp


lemma simulated_sends [simp]: "w_sent (snd (simulate_rows E r ts w)) = w_sent w"
  by (induction ts arbitrary: w) (simp_all add: next_simulated_ticket_def Let_def case_prod_beta)

lemma rows_of_targets:
  "map fr_terminal (fst (dispatch_rows H L E r risk tp ts w)) = map (\<lambda>t. Some (te_id t)) ts"
proof (induction ts arbitrary: w)
  case (Cons t ts)
  have "fr_terminal (fst (dispatch_to_terminal H L E r risk tp t w)) = Some (te_id t)" for w
    by (auto simp: dispatch_to_terminal_def deal_at_terminal_def start_row_def answered_row_def Let_def
        split: prod.splits option.splits sum.splits)
  then show ?case using Cons.IH by (simp add: case_prod_beta)
qed simp

lemma fan_visits:
  "case ho_native H of
     None \<Rightarrow> w_sent (snd (fan_to_targets H L E r risk tp ts w)) = w_sent w
   | Some lib \<Rightarrow> (\<exists>orders. w_sent (snd (fan_to_targets H L E r risk tp ts w)) = w_sent w @ concat orders
                     \<and> visits lib L E r risk tp ts (attachment w) orders)"
proof (cases "ho_native H")
  case (Some lib)
  then show ?thesis using rows_visits [OF Some, of L E r risk tp ts w]
    by (auto simp: fan_to_targets_def restore_original_def Let_def case_prod_beta)
qed (auto simp: fan_to_targets_def case_prod_beta)

definition targets_of :: "'b host \<Rightarrow> entry list option \<Rightarrow> 'b manager \<Rightarrow> entry list" where
  "targets_of H ts m = (case ts of Some us \<Rightarrow> us | None \<Rightarrow> fst (get_fanout_targets H m))"


section \<open>The size of an order\<close>

definition number_or_0 :: "pydict option \<Rightarrow> string \<Rightarrow> pyfloat" where
  "number_or_0 info k = catchE (symbol_number info k) 0"

lemma snap_lot_bounds:
  assumes "0 \<le> vol"
  shows "snap_lot info vol \<le> max vol (number_or_0 info ''volume_min'') + \<bar>number_or_0 info ''volume_step''\<bar> / 2"
proof (cases "symbol_number info ''volume_step''")
  case (Inr step)
  show ?thesis
  proof (cases "symbol_number info ''volume_min''")
    case (Inr vmin)
    define v1 where "v1 = (if 0 < vmin then max vol vmin else vol)"
    have v1: "v1 \<le> max vol vmin" "0 < vmin \<longrightarrow> vmin \<le> v1" by (auto simp: v1_def)
    have "of_int (round_half_even (v1 / step)) * step \<le> v1 + step / 2" if "0 < step"
    proof -
      have "of_int (round_half_even (v1 / step)) \<le> v1 / step + 1/2"
        using round_half_even_error [of "v1 / step"] by (simp only: abs_le_iff) linarith
      then have "of_int (round_half_even (v1 / step)) * step \<le> (v1 / step + 1/2) * step"
        using that by (intro mult_right_mono) auto
      then show ?thesis using that by (simp add: distrib_right)
    qed
    then show ?thesis using v1 Inr \<open>symbol_number info ''volume_step'' = Inr step\<close>
      by (auto simp: snap_lot_def number_or_0_def v1_def [symmetric] Let_def)
  qed (use Inr in \<open>simp add: snap_lot_def number_or_0_def\<close>)
qed (simp add: snap_lot_def number_or_0_def)

lemma snap_lot_nonneg: "0 \<le> vol \<Longrightarrow> 0 \<le> snap_lot info vol"
proof -
  assume v: "0 \<le> vol"
  have "0 \<le> of_int (round_half_even (x / step)) * step" if "0 < step" "0 \<le> x" for x step :: pyfloat
    using round_half_even_mono [of 0 "x / step"] round_half_even_of_int [of 0] that by (intro mult_nonneg_nonneg) auto
  then show ?thesis using v
    by (cases "symbol_number info ''volume_step''"; cases "symbol_number info ''volume_min''")
      (auto simp: snap_lot_def Let_def)
qed

lemma raw_imported:
  "raw_volume L t risk symbol fallback b = Inr (v, imported) \<Longrightarrow>
   imported = (positive (te_fixed_lot t) = None \<and> positive (te_risk_pct t) \<noteq> None \<and> 0 < risk)"
  by (auto simp: raw_volume_def split: option.splits if_splits)

text \<open>
  What bounds the lot of a terminal: the larger of the engine's minimum and the cap of the terminal,
  and, where the lot is normalised, the broker's minimum and half a step more.
\<close>

definition lot_limit :: "'b dealing \<Rightarrow> 'c engine \<Rightarrow> entry \<Rightarrow> string \<Rightarrow> bool \<Rightarrow> 'b \<Rightarrow> pyfloat" where
  "lot_limit L E t symbol normalised b =
     (let base = max (en_min_volume E) (lot_cap E t)
      in if normalised
         then max base (number_or_0 (dl_symbol L symbol b) ''volume_min'')
              + \<bar>number_or_0 (dl_symbol L symbol b) ''volume_step''\<bar> / 2
         else base)"

theorem fan_lot_bounded:
  assumes "0 \<le> en_min_volume E"
  shows "let lot = size_for_terminal L E t risk symbol fallback b
         in 0 \<le> lot
            \<and> lot \<le> max 0 (lot_limit L E t symbol
                   (positive (te_fixed_lot t) = None \<and> positive (te_risk_pct t) \<noteq> None \<and> 0 < risk) b) + 1/20000"
proof (cases "raw_volume L t risk symbol fallback b")
  case (Inl e)
  then show ?thesis by (simp add: size_for_terminal_def)
next
  case (Inr x)
  then obtain v imported where raw: "raw_volume L t risk symbol fallback b = Inr (v, imported)" by (cases x) auto
  let ?info = "dl_symbol L symbol b"
  define c where "c = max (en_min_volume E) (min v (lot_cap E t))"
  define s where "s = (if imported then snap_lot ?info c else c)"
  show ?thesis
  proof (cases "v \<le> 0")
    case True
    then show ?thesis by (simp add: size_for_terminal_def raw)
  next
    case False
    have c: "0 \<le> c" "c \<le> max (en_min_volume E) (lot_cap E t)" using assms by (auto simp: c_def)
    have size: "size_for_terminal L E t risk symbol fallback b = py_round s 4"
      using False by (simp add: size_for_terminal_def raw c_def s_def Let_def)
    have "0 \<le> s" using c(1) snap_lot_nonneg [OF c(1)] by (simp add: s_def)
    then have lower: "0 \<le> py_round s 4" using py_round_mono [of 0 s 4] round_half_even_of_int [of 0] by (simp add: py_round_def)
    have "s \<le> lot_limit L E t symbol imported b"
      using c(2) snap_lot_bounds [OF c(1), of ?info] by (auto simp: s_def lot_limit_def Let_def)
    moreover have "imported = (positive (te_fixed_lot t) = None \<and> positive (te_risk_pct t) \<noteq> None \<and> 0 < risk)"
      by (rule raw_imported [OF raw])
    ultimately have "s \<le> lot_limit L E t symbol
        (positive (te_fixed_lot t) = None \<and> positive (te_risk_pct t) \<noteq> None \<and> 0 < risk) b" by simp
    then show ?thesis using lower py_round_bounds(1) [of s 4] by (simp add: size Let_def)
  qed
qed

section \<open>The binding after the fan-out\<close>


text \<open>
  Nor is the cache of symbol names cleared, so the names of the last terminal answer for the first.
\<close>

lemma fanout_keeps_last_cache:
  assumes "ho_native H = Some lib" "ts \<noteq> []" "\<not> (en_require_approval E \<and> missing_approval r)"
  shows "bd_cache (tm_binding (w_broker (snd (execute_order_fanout H L E r (Some ts) risk tp w))))
         = bd_cache (tm_binding (w_broker (snd (dispatch_rows H L E r risk tp ts w))))"
  using assms
  by (auto simp: execute_order_fanout_def fan_to_targets_def restore_original_def set_binding_def Let_def case_prod_beta
      split: option.splits)

section \<open>Changing a stop\<close>


section \<open>Concrete desks\<close>

text \<open>A library that takes the path of an executable, refuses a folder and names gold per terminal.\<close>

definition desk_lib :: "string option native" where
  "desk_lib =
     \<lparr>nv_initialize = (\<lambda>p b. case p of
          Some x \<Rightarrow> if basename x = ''t.exe'' then (Some True, Some (dirname x)) else (Some False, None)
        | None \<Rightarrow> (Some False, None)),
      nv_shutdown = (\<lambda>b. None),
      nv_path = (\<lambda>b. case b of Some x \<Rightarrow> if basename x = ''t.exe'' then None else Some x | None \<Rightarrow> None),
      nv_account = (\<lambda>b. Some [(''login'', VInt 7), (''server'', VStr ''Demo''), (''trade_mode'', VInt 0)]),
      nv_symbols = (\<lambda>b. if b = Some ''C:/a'' then [''GOLDc''] else [''GOLDm''])\<rparr>"

definition desk_host :: "string option host" where
  "desk_host = \<lparr>ho_native = Some desk_lib,
     ho_processes = Some [demo_process 1 ''C:/a/t.exe'', demo_process 2 ''D:/a/t.exe''], ho_writes = True, ho_now = ''now''\<rparr>"

definition desk_dealing :: "string option dealing" where
  "desk_dealing =
     \<lparr>dl_tick = (\<lambda>s b. Some (2001, 2000)), dl_equity = (\<lambda>b. 10000),
      dl_symbol = (\<lambda>s b. Some [(''trade_tick_value'', VFloat 1), (''trade_tick_size'', VFloat (1/100)),
                               (''volume_step'', VFloat (1/10)), (''volume_min'', VFloat (1/10))]),
      dl_send = (\<lambda>p b. (Inr (RawObj (Some 10009) ''done'' (Some 5) (VFloat 2001)), b))\<rparr>"

definition desk_terminal :: "string option manager terminal" where
  "desk_terminal = \<lparr>bk_order_send = None, bk_execute_order = None, bk_native_send = None, bk_armed = (\<lambda>m. True),
     bk_native_tick = (\<lambda>s m. None), bk_tick = (\<lambda>s m. None), bk_symbol_info = None, bk_positions = (\<lambda>m. []),
     bk_has_position = (\<lambda>t m. False), bk_resolve = (\<lambda>s. None), bk_locator = None\<rparr>"

definition desk_engine :: "string option manager engine" where
  "desk_engine = \<lparr>en_terminal = desk_terminal, en_max_retries = 3, en_spread_tolerance = 1, en_min_volume = 1/100,
     en_max_volume = 100, en_simulation = False, en_require_approval = True, en_require_durable = False,
     en_io = (\<lambda>n. True), en_now = (\<lambda>n. ''now''), en_ms = (\<lambda>n. n), en_repr = (\<lambda>x. ''x''), en_err = (\<lambda>e. ''error'')\<rparr>"

definition desk_entry :: "string \<Rightarrow> string \<Rightarrow> pyfloat option \<Rightarrow> pyfloat option \<Rightarrow> entry" where
  "desk_entry t path pct cap =
     \<lparr>te_id = t, te_label = t, te_path = path, te_folder = dirname path, te_armable = True, te_auto = False,
      te_running = True, te_pid = None, te_attached = False, te_selected = False, te_armed = True, te_account = None,
      te_verified = True, te_risk_pct = pct, te_fixed_lot = None, te_max_lot = cap, te_fanout = True\<rparr>"

definition desk_order :: order_request where
  "desk_order =
     \<lparr>rq_symbol = ''GOLD'', rq_order_type = ''BUY'', rq_volume = 1/10, rq_price = 0, rq_sl = 0, rq_tp = 0, rq_magic = 1,
      rq_comment = ''c'', rq_key = ''k'', rq_token = Some ''t'', rq_signal_id = None, rq_account_id = None,
      rq_terminal_id = None, rq_proposal_id = None, rq_execution_id = None, rq_strategy_version = None,
      rq_order_ticket = None, rq_deal_ticket = None, rq_position_ticket = None\<rparr>"

definition desk_world :: "string option fan_world" where
  "desk_world =
     \<lparr>w_broker = fresh_manager \<lparr>bd_broker = Some ''C:/a'', bd_live = True, bd_available = True, bd_cache = []\<rparr> FileMissing FileMissing,
      w_ledger = empty_ledger, w_pending = [], w_completed = [], w_seq = 0, w_step = 0, w_sent = []\<rparr>"

definition other_desk :: "entry list" where
  "other_desk = [desk_entry ''d'' ''D:/a/t.exe'' (Some 1) (Some (26/100))]"

text \<open>Two terminals that name gold differently: each gets its order under its own name.\<close>

lemma two_desks_served:
  "map (\<lambda>(p, answer). dget p ''symbol'' VNone)
     (w_sent (snd (execute_order_fanout desk_host desk_dealing desk_engine desk_order
        (Some (desk_entry ''c'' ''C:/a/t.exe'' (Some 1) None # other_desk)) 1 2 desk_world)))
   = [VStr ''GOLDc'', VStr ''GOLDm'']"
  by code_simp

theorem fan_lot_bounded_witness:
  "let lot = size_for_terminal desk_dealing desk_engine (desk_entry ''d'' ''D:/a/t.exe'' (Some 1) (Some (26/100))) 1 ''GOLDm'' 1 None
   in 0 \<le> lot \<and> lot \<le> 31/100 + 1/20000"
proof -
  let ?t = "desk_entry ''d'' ''D:/a/t.exe'' (Some 1) (Some (26/100))"
  have "0 \<le> en_min_volume desk_engine" by (simp add: desk_engine_def)
  note b = fan_lot_bounded [OF this, of desk_dealing ?t 1 "''GOLDm''" 1 None]
  have "positive (te_fixed_lot ?t) = None" "positive (te_risk_pct ?t) = Some 1" "lot_cap desk_engine ?t = 26/100"
    by (simp_all add: desk_entry_def positive_def lot_cap_def)
  moreover have "lot_limit desk_dealing desk_engine ?t ''GOLDm'' True None = 31/100"
    by code_simp
  ultimately show ?thesis using b by (simp add: Let_def)
qed

text \<open>The lot of a terminal is rounded to the nearest step after the cap, so it can exceed the cap.\<close>

theorem lot_exceeds_the_cap:
  "size_for_terminal desk_dealing desk_engine (desk_entry ''d'' ''D:/a/t.exe'' (Some 1) (Some (26/100))) 1 ''GOLDm'' 1 None
   = 3/10"
  by code_simp


definition armed_desk :: "string option fan_world" where
  "armed_desk = desk_world\<lparr>w_broker := manager_run [(desk_host, ArmOp ''auto-1'' True)] (w_broker desk_world)\<rparr>"


end
