(* ===== verification/Trade_Manager.thy ===== *)
theory Trade_Manager
  imports SLTP Multi_Terminal
begin

text \<open>
  The trade manager: \<open>monitoring/trade_manager.py\<close>. Each call of \<open>manage\<close> reads the open positions
  and sends the stop changes the ladder (theory \<open>SLTP\<close>) asks for. The readers and the sender the
  manager was built with are the record \<open>desk\<close> over a world of any type; in production the sender is
  the engine's \<open>modify_position_sltp\<close>. A position is its dictionary of fields.
\<close>

section \<open>Positions and readers\<close>

datatype raw_position =
    PosDict pydict
  | PosModel "pydict option"   \<comment> \<open>\<open>model_dump()\<close>, nothing when it raises\<close>
  | PosObject pydict

definition position_attributes :: "string list" where
  "position_attributes = [''ticket'', ''symbol'', ''side'', ''volume'', ''entry_price'', ''price_open'', ''current_price'',
     ''price_current'', ''sl'', ''tp'']"

fun to_dict :: "raw_position \<Rightarrow> pydict" where
  "to_dict (PosDict d) = d"
| "to_dict (PosModel d) = (case d of Some x \<Rightarrow> x | None \<Rightarrow> [])"
| "to_dict (PosObject d) = concat (map (\<lambda>k. case map_of d k of Some v \<Rightarrow> [(k, v)] | None \<Rightarrow> []) position_attributes)"

record 'w desk =
  td_static :: sltp_config
  td_enabled :: "('w \<Rightarrow> exn + bool) option"
  td_config :: "('w \<Rightarrow> exn + sltp_config option) option"
  td_positions :: "'w \<Rightarrow> exn + raw_position list"
  td_tick :: "string \<Rightarrow> 'w \<Rightarrow> exn + (pyval \<times> pyval) option"   \<comment> \<open>bid and ask\<close>
  td_atr :: "(string \<Rightarrow> 'w \<Rightarrow> exn + pyval) option"
  td_initial_sl :: "pyval \<Rightarrow> 'w \<Rightarrow> exn + pyval"
  td_apply :: "int \<Rightarrow> string \<Rightarrow> pyfloat \<Rightarrow> pyval \<Rightarrow> 'w \<Rightarrow> (exn + pydict) \<times> 'w"

record stop_change =
  sc_ticket :: int
  sc_symbol :: string
  sc_side :: string
  sc_old_sl :: pyval
  sc_new_sl :: pyfloat
  sc_reason :: string
  sc_locked_r :: pyfloat
  sc_sent :: bool
  sc_simulated :: bool
  sc_code :: int
  sc_message :: string

record trade_state =
  tr_evaluated :: nat
  tr_modified :: nat
  tr_errors :: nat
  tr_skipped :: nat
  tr_recent :: "stop_change list"

definition new_trade_state :: trade_state where
  "new_trade_state = \<lparr>tr_evaluated = 0, tr_modified = 0, tr_errors = 0, tr_skipped = 0, tr_recent = []\<rparr>"

text \<open>A \<open>deque(maxlen=50)\<close>.\<close>

definition push_recent :: "stop_change \<Rightarrow> stop_change list \<Rightarrow> stop_change list" where
  "push_recent c cs = drop (length cs + 1 - 50) (cs @ [c])"

section \<open>Reading\<close>

text \<open>\<open>float(reader(...) or 0.0)\<close>, with 0 for every exception.\<close>

definition float_or_zero :: "exn + pyval \<Rightarrow> pyfloat" where
  "float_or_zero v = (case v of Inl _ \<Rightarrow> 0 | Inr x \<Rightarrow> sltp_f (py_or x (VFloat 0)))"

definition trade_atr :: "'w desk \<Rightarrow> string \<Rightarrow> 'w \<Rightarrow> pyfloat" where
  "trade_atr D symbol w = (case td_atr D of None \<Rightarrow> 0 | Some f \<Rightarrow> float_or_zero (f symbol w))"

definition initial_sl :: "'w desk \<Rightarrow> pyval \<Rightarrow> 'w \<Rightarrow> pyfloat" where
  "initial_sl D ticket w = float_or_zero (td_initial_sl D ticket w)"

definition live_config :: "'w desk \<Rightarrow> 'w \<Rightarrow> sltp_config" where
  "live_config D w =
     (case td_config D of
        Some f \<Rightarrow> (case f w of Inr (Some c) \<Rightarrow> c | _ \<Rightarrow> td_static D)
      | None \<Rightarrow> td_static D)"

definition is_enabled :: "'w desk \<Rightarrow> 'w \<Rightarrow> bool" where
  "is_enabled D w =
     (case td_enabled D of
        Some f \<Rightarrow> (case f w of Inr b \<Rightarrow> b | Inl _ \<Rightarrow> cf_enabled (td_static D))
      | None \<Rightarrow> cf_enabled (td_static D))"

text \<open>\<open>abs(float(entry) - float(initial_sl)) if initial_sl else None\<close>, \<open>None\<close> for no number.\<close>

definition initial_risk :: "pyval \<Rightarrow> pyval \<Rightarrow> pyval" where
  "initial_risk entry initial =
     (if \<not> py_truthy initial then VNone
      else case bindE (py_float entry) (\<lambda>e. bindE (py_float initial) (\<lambda>s. Inr \<bar>e - s\<bar>)) of
             Inr x \<Rightarrow> VFloat x | Inl _ \<Rightarrow> VNone)"

section \<open>One position\<close>

definition position_side :: "pydict \<Rightarrow> string" where
  "position_side pos = lower (py_text (py_or (dget pos ''side'' VNone) (VStr [])))"

definition position_symbol :: "pydict \<Rightarrow> string" where
  "position_symbol pos = py_text (py_or (dget pos ''symbol'' VNone) (VStr []))"

definition exit_price :: "pydict \<Rightarrow> string \<Rightarrow> (pyval \<times> pyval) option \<Rightarrow> pyval" where
  "exit_price pos side tick =
     (let quote = (case tick of None \<Rightarrow> VNone | Some (bid, ask) \<Rightarrow> if side = ''buy'' then bid else ask)
      in if quote = VNone then dget pos ''current_price'' (dget pos ''price_current'' (VFloat 0)) else quote)"

definition desired_stop :: "'w desk \<Rightarrow> pydict \<Rightarrow> string \<Rightarrow> string \<Rightarrow> (pyval \<times> pyval) option \<Rightarrow> 'w \<Rightarrow> sltp_decision option" where
  "desired_stop D pos symbol side tick w =
     (let entry = dget pos ''entry_price'' (dget pos ''price_open'' (VFloat 0));
          current = dget pos ''sl'' (VFloat 0);
          first = initial_sl D (dget pos ''ticket'' VNone) w;
          initial = (if first = 0 then current else VFloat first)
      in decide_stop_loss side entry current (exit_price pos side tick) (VFloat (trade_atr D symbol w))
           (initial_risk entry initial) (live_config D w))"

definition change_of ::
  "pydict \<Rightarrow> string \<Rightarrow> string \<Rightarrow> int \<Rightarrow> sltp_decision \<Rightarrow> pydict \<Rightarrow> pyerr + stop_change" where
  "change_of pos symbol side ticket d result =
     bindE (py_int (py_or (dget result ''error_code'' (VInt 0)) (VInt 0))) (\<lambda>code.
       Inr \<lparr>sc_ticket = ticket, sc_symbol = symbol, sc_side = side, sc_old_sl = dget pos ''sl'' (VFloat 0),
            sc_new_sl = sd_new_sl d, sc_reason = sd_reason d, sc_locked_r = sd_locked_r d,
            sc_sent = py_truthy (dget result ''success'' VNone), sc_simulated = py_truthy (dget result ''simulated'' VNone),
            sc_code = code, sc_message = py_text (py_or (dget result ''message'' (VStr [])) (VStr []))\<rparr>)"

text \<open>The outcome of a position: skipped, an exception, or a change.\<close>

datatype outcome = Skipped | Raised | Changed stop_change

definition apply_change ::
  "'w desk \<Rightarrow> pydict \<Rightarrow> string \<Rightarrow> string \<Rightarrow> sltp_decision \<Rightarrow> 'w \<Rightarrow> outcome \<times> 'w" where
  "apply_change D pos symbol side d w =
     (case py_int (dget pos ''ticket'' VNone) of
        Inl _ \<Rightarrow> (Raised, w)
      | Inr ticket \<Rightarrow>
          (case td_apply D ticket symbol (sd_new_sl d) (py_or (dget pos ''tp'' (VFloat 0)) VNone) w of
             (Inl _, w2) \<Rightarrow> (Raised, w2)
           | (Inr result, w2) \<Rightarrow>
               (case change_of pos symbol side ticket d result of
                  Inl _ \<Rightarrow> (Raised, w2)
                | Inr c \<Rightarrow> (Changed c, w2))))"

definition evaluate_and_apply :: "'w desk \<Rightarrow> raw_position \<Rightarrow> 'w \<Rightarrow> (bool \<times> outcome) \<times> 'w" where
  "evaluate_and_apply D raw w =
     (let pos = to_dict raw; symbol = position_symbol pos; side = position_side pos
      in if \<not> py_truthy (dget pos ''ticket'' VNone) \<or> symbol = [] then ((False, Skipped), w)
         else if side \<noteq> ''buy'' \<and> side \<noteq> ''sell'' then ((False, Skipped), w)
         else case td_tick D symbol w of
                Inl _ \<Rightarrow> ((False, Raised), w)
              | Inr tick \<Rightarrow>
                  (case desired_stop D pos symbol side tick w of
                     None \<Rightarrow> ((True, Skipped), w)
                   | Some d \<Rightarrow> (case apply_change D pos symbol side d w of (out, w2) \<Rightarrow> ((True, out), w2))))"

definition count_outcome :: "bool \<Rightarrow> outcome \<Rightarrow> trade_state \<Rightarrow> trade_state" where
  "count_outcome evaluated out s =
     (let s1 = (if evaluated then s\<lparr>tr_evaluated := Suc (tr_evaluated s)\<rparr> else s)
      in case out of
           Skipped \<Rightarrow> s1\<lparr>tr_skipped := Suc (tr_skipped s1)\<rparr>
         | Raised \<Rightarrow> s1\<lparr>tr_errors := Suc (tr_errors s1)\<rparr>
         | Changed c \<Rightarrow>
             (let s2 = (if sc_sent c then s1\<lparr>tr_modified := Suc (tr_modified s1)\<rparr>
                        else s1\<lparr>tr_errors := Suc (tr_errors s1)\<rparr>)
              in s2\<lparr>tr_recent := push_recent c (tr_recent s2)\<rparr>))"

section \<open>One call\<close>

fun manage_positions ::
  "'w desk \<Rightarrow> raw_position list \<Rightarrow> trade_state \<Rightarrow> 'w \<Rightarrow> stop_change list \<times> trade_state \<times> 'w" where
  "manage_positions D [] s w = ([], s, w)"
| "manage_positions D (p # ps) s w =
     (let ((evaluated, out), w1) = evaluate_and_apply D p w;
          (cs, s2, w2) = manage_positions D ps (count_outcome evaluated out s) w1
      in (case out of Changed c \<Rightarrow> c # cs | _ \<Rightarrow> cs, s2, w2))"

definition manage :: "'w desk \<Rightarrow> trade_state \<Rightarrow> 'w \<Rightarrow> stop_change list \<times> trade_state \<times> 'w" where
  "manage D s w =
     (if \<not> is_enabled D w then ([], s, w)
      else case td_positions D w of
             Inl _ \<Rightarrow> ([], s\<lparr>tr_errors := Suc (tr_errors s)\<rparr>, w)
           | Inr ps \<Rightarrow> manage_positions D ps s w)"

section \<open>The production sender\<close>

definition sltp_answer :: "sltp_result \<Rightarrow> pydict" where
  "sltp_answer r = [(''success'', VBool (mr_success r)), (''simulated'', VBool (mr_simulated r)),
     (''error_code'', VInt (mr_code r)), (''message'', VStr (mr_message r))]"

definition optional_level :: "pyval \<Rightarrow> pyfloat option" where
  "optional_level v = (case v of VFloat x \<Rightarrow> Some x | VInt i \<Rightarrow> Some (of_int i) | _ \<Rightarrow> None)"

definition engine_apply ::
  "'b host \<Rightarrow> 'b dealing \<Rightarrow> 'b manager engine \<Rightarrow> int \<Rightarrow> string \<Rightarrow> pyfloat \<Rightarrow> pyval \<Rightarrow> 'b fan_world
   \<Rightarrow> (exn + pydict) \<times> 'b fan_world" where
  "engine_apply H L E ticket symbol sl tp w =
     (case modify_position_sltp H L E ticket symbol sl (optional_level tp) w of
        (res, v) \<Rightarrow> (Inr (sltp_answer res), v))"

section \<open>Every position is counted once\<close>

lemma count_outcome_sum:
  "tr_modified (count_outcome e out s) + tr_errors (count_outcome e out s) + tr_skipped (count_outcome e out s)
   = Suc (tr_modified s + tr_errors s + tr_skipped s)"
  by (cases out) (auto simp: count_outcome_def Let_def)

lemma count_outcome_recent: "length (tr_recent s) \<le> 50 \<Longrightarrow> length (tr_recent (count_outcome e out s)) \<le> 50"
  by (cases out) (auto simp: count_outcome_def Let_def push_recent_def)

lemma manage_positions_counts:
  "let (cs, t, v) = manage_positions D ps s w
   in tr_modified t + tr_errors t + tr_skipped t = tr_modified s + tr_errors s + tr_skipped s + length ps
      \<and> tr_evaluated t \<le> tr_evaluated s + length ps \<and> length cs \<le> length ps
      \<and> tr_modified t = tr_modified s + length (filter sc_sent cs)
      \<and> (length (tr_recent s) \<le> 50 \<longrightarrow> length (tr_recent t) \<le> 50)"
proof (induction ps arbitrary: s w)
  case (Cons p ps)
  obtain e out w1 where p: "evaluate_and_apply D p w = ((e, out), w1)"
    by (cases "evaluate_and_apply D p w") (metis prod.collapse)
  obtain cs t v where r: "manage_positions D ps (count_outcome e out s) w1 = (cs, t, v)"
    by (cases "manage_positions D ps (count_outcome e out s) w1")
  have ev: "tr_evaluated (count_outcome e out s) \<le> Suc (tr_evaluated s)"
    "tr_modified (count_outcome e out s) = tr_modified s + (case out of Changed c \<Rightarrow> if sc_sent c then 1 else 0 | _ \<Rightarrow> 0)"
    by (cases out; simp add: count_outcome_def Let_def)+
  note ih = Cons.IH [of "count_outcome e out s" w1, unfolded r]
  have step: "manage_positions D (p # ps) s w = (case out of Changed c \<Rightarrow> c # cs | _ \<Rightarrow> cs, t, v)"
    by (simp add: p r)
  show ?case unfolding step using ih ev count_outcome_sum [of e out s] count_outcome_recent [of s e out]
    by (cases out) auto
qed simp

text \<open>
  One call accounts for every position exactly once, as modified, failed or skipped, however it ends;
  the modified ones are the reported changes that were sent, and the log keeps at most 50.
\<close>

theorem manage_counts_every_position:
  assumes "is_enabled D w" and "td_positions D w = Inr ps" and "length (tr_recent s) \<le> 50"
  shows "let (cs, t, v) = manage D s w
         in tr_modified t + tr_errors t + tr_skipped t = tr_modified s + tr_errors s + tr_skipped s + length ps
            \<and> tr_modified t = tr_modified s + length (filter sc_sent cs) \<and> length cs \<le> length ps
            \<and> length (tr_recent t) \<le> 50"
  using manage_positions_counts [of D ps s w] assms by (simp add: manage_def case_prod_beta Let_def)

section \<open>Stops never loosen\<close>

text \<open>
  No looser than the stop in place. The new stop is rounded to five decimals, so a stop in place
  with more decimals than that can be passed by less than half a unit of the fifth.
\<close>

definition not_looser :: "stop_change \<Rightarrow> bool" where
  "not_looser c \<longleftrightarrow>
     (let old = sltp_f (sc_old_sl c)
      in if old \<le> 0 then True
         else if py_round old 5 = old
         then (if sc_side c = ''buy'' then old \<le> sc_new_sl c else sc_new_sl c \<le> old)
         else (if sc_side c = ''buy'' then old < sc_new_sl c + 1/200000 else sc_new_sl c < old + 1/200000))"

lemma lower_lower: "lower s = ''buy'' \<or> lower s = ''sell'' \<Longrightarrow> lower (lower s) = lower s"
  by (auto simp: lower_def to_lower_def)

lemma decision_not_looser:
  assumes "decide_stop_loss side e c p a i cfg = Some d" "0 < sltp_f c"
  shows "if lower side = ''buy'' then sltp_f c < sd_new_sl d + 1/200000 else sd_new_sl d < sltp_f c + 1/200000"
    and "if lower side = ''buy'' then py_round (sltp_f c) 5 \<le> sd_new_sl d else sd_new_sl d \<le> py_round (sltp_f c) 5"
proof -
  obtain raw where b: "better_stop (lower side = ''buy'') (sd_new_sl raw) (sltp_f c)"
    and d: "d = raw\<lparr>sd_new_sl := py_round (sd_new_sl raw) 5\<rparr>"
    using assms(1) by (rule decide_stop_loss_cases)
  show "if lower side = ''buy'' then sltp_f c < sd_new_sl d + 1/200000 else sd_new_sl d < sltp_f c + 1/200000"
    using b assms(2) py_round_bounds [of "sd_new_sl raw" 5] by (auto simp: better_stop_def d)
  show "if lower side = ''buy'' then py_round (sltp_f c) 5 \<le> sd_new_sl d else sd_new_sl d \<le> py_round (sltp_f c) 5"
    using b assms(2) by (auto simp: better_stop_def d intro!: py_round_mono)
qed

lemma change_fields:
  assumes "change_of pos symbol side ticket d result = Inr c"
  shows "sc_side c = side \<and> sc_old_sl c = dget pos ''sl'' (VFloat 0) \<and> sc_new_sl c = sd_new_sl d"
  using assms by (auto simp: change_of_def)

lemma evaluated_not_looser:
  assumes "evaluate_and_apply D raw w = ((e, Changed c), v)"
  shows "not_looser c"
proof -
  let ?pos = "to_dict raw"
  let ?side = "position_side ?pos" and ?symbol = "position_symbol ?pos"
  obtain tick d where d: "desired_stop D ?pos ?symbol ?side tick w = Some d"
    and c: "apply_change D ?pos ?symbol ?side d w = (Changed c, v)" and side: "?side = ''buy'' \<or> ?side = ''sell''"
    using assms by (auto simp: evaluate_and_apply_def Let_def split: if_splits sum.splits option.splits prod.splits)
  have f: "sc_side c = ?side" "sc_old_sl c = dget ?pos ''sl'' (VFloat 0)" "sc_new_sl c = sd_new_sl d"
    using c by (auto simp: apply_change_def dest!: change_fields split: sum.splits prod.splits)
  have "lower ?side = ?side" using side by (auto simp: lower_def to_lower_def)
  then show ?thesis using d decision_not_looser [of ?side _ "dget ?pos ''sl'' (VFloat 0)"]
    by (fastforce simp: desired_stop_def Let_def not_looser_def f)
qed

lemma managed_not_looser: "list_all not_looser (fst (manage_positions D ps s w))"
proof (induction ps arbitrary: s w)
  case (Cons p ps)
  obtain e out w1 where p: "evaluate_and_apply D p w = ((e, out), w1)"
    by (cases "evaluate_and_apply D p w") (metis prod.collapse)
  show ?case using Cons.IH evaluated_not_looser [of D p w e _ w1] p
    by (cases out) (auto simp: case_prod_beta)
qed simp

text \<open>
  C27. The manager never widens risk: of every change a call reports, whatever the readers answer,
  the new stop is at the stop in place or on its tighter side when that one has at most five
  decimals; when it has more, it is passed by less than half a unit of the fifth decimal, which the
  rounding of the new stop can cost. Switched off, the manager touches nothing.
\<close>

theorem managed_stops_never_loosen:
  "let (cs, t, v) = manage D s w
   in list_all not_looser cs \<and> (if is_enabled D w then True else cs = [] \<and> t = s \<and> v = w)"
  using managed_not_looser [of D _ s w] by (auto simp: manage_def split: sum.splits prod.splits)
    (metis fst_conv)

section \<open>The manager over the engine\<close>

definition unarmed :: "'b manager \<Rightarrow> bool" where
  "unarmed m \<longleftrightarrow> synced m \<and> \<not> is_execution_armed m"

lemma unarmed_not_permitted:
  assumes "unarmed m"
  shows "\<not> fst (execution_permitted H m)" and "unarmed (snd (execution_permitted H m))"
proof -
  have m: "synced m" "\<not> is_execution_armed m" using assms by (simp_all add: unarmed_def)
  obtain v n where l: "list_terminals H m = (v, n)" by (cases "list_terminals H m")
  have n: "n = refresh_attached_account H m" using listed_state [of H m] by (simp add: l reconcile_synced m(1))
  have states: "tm_states n = tm_states m" by (simp add: n refresh_attached_account_def split: option.splits)
  have un: "unarmed n" using m by (simp add: unarmed_def n) (simp add: is_execution_armed_def states [unfolded n])
  have "get_armed_terminals H (reconcile_globals m) = ([], n)"
    using m(2) by (auto simp: get_armed_terminals_def l Let_def states is_execution_armed_def list_ex_iff filter_empty_conv)
  then show "\<not> fst (execution_permitted H m)" "unarmed (snd (execution_permitted H m))"
    using un by (simp_all add: execution_permitted_def)
qed

lemma unarmed_apply:
  assumes "unarmed (w_broker w)" and "engine_apply H L E ticket symbol sl tp w = (res, v)"
  shows "w_sent v = w_sent w \<and> unarmed (w_broker v)
         \<and> (\<exists>r. res = Inr (sltp_answer r) \<and> (if mr_success r then mr_simulated r else True))"
proof -
  obtain armed m where p: "execution_permitted H (w_broker w) = (armed, m)"
    by (cases "execution_permitted H (w_broker w)")
  have "\<not> armed" "unarmed m" using unarmed_not_permitted [OF assms(1), of H] by (simp_all add: p)
  then show ?thesis using assms
    by (auto simp: engine_apply_def modify_position_sltp_def p sltp_refusal_def Let_def split: if_splits)
qed

definition sent_only_simulated :: "outcome \<Rightarrow> bool" where
  "sent_only_simulated out = (case out of Changed c \<Rightarrow> if sc_sent c then sc_simulated c else True | _ \<Rightarrow> True)"

lemma change_of_answer:
  "\<exists>c. change_of pos symbol side ticket d (sltp_answer x) = Inr c \<and> sc_sent c = mr_success x
       \<and> sc_simulated c = mr_simulated x"
  by (simp add: change_of_def sltp_answer_def dget_def py_or_def)

lemma unarmed_position:
  assumes "td_apply D = engine_apply H L E" and "unarmed (w_broker w)" and "evaluate_and_apply D p w = ((e, out), v)"
  shows "w_sent v = w_sent w \<and> unarmed (w_broker v) \<and> sent_only_simulated out"
proof -
  have applied: "w_sent v2 = w_sent w \<and> unarmed (w_broker v2) \<and> sent_only_simulated out2"
    if a: "apply_change D pos symbol side d w = (out2, v2)" for pos symbol side d out2 v2
  proof (cases "py_int (dget pos ''ticket'' VNone)")
    case (Inl x)
    then show ?thesis using a assms(2) by (simp add: apply_change_def sent_only_simulated_def)
  next
    case (Inr ticket)
    let ?tp = "py_or (dget pos ''tp'' (VFloat 0)) VNone"
    obtain res u where r: "engine_apply H L E ticket symbol (sd_new_sl d) ?tp w = (res, u)"
      by (cases "engine_apply H L E ticket symbol (sd_new_sl d) ?tp w")
    note u = unarmed_apply [OF assms(2) r]
    then obtain x where x: "res = Inr (sltp_answer x)" "if mr_success x then mr_simulated x else True" by blast
    obtain c where c: "change_of pos symbol side ticket d (sltp_answer x) = Inr c" "sc_sent c = mr_success x"
      "sc_simulated c = mr_simulated x" using change_of_answer by blast
    have "(out2, v2) = (Changed c, u)" using a unfolding apply_change_def assms(1) Inr sum.case r x(1) prod.case c(1) by simp
    then show ?thesis using u x(2) c(2,3) by (simp add: sent_only_simulated_def)
  qed
  have simple: "sent_only_simulated Skipped" "sent_only_simulated Raised" by (simp_all add: sent_only_simulated_def)
  show ?thesis using assms(2,3) applied
    by (auto simp: evaluate_and_apply_def Let_def simple split: if_splits
        sum.splits option.splits prod.splits)
qed

lemma unarmed_positions:
  assumes "td_apply D = engine_apply H L E"
  shows "unarmed (w_broker w) \<Longrightarrow> manage_positions D ps s w = (cs, t, v) \<Longrightarrow>
         w_sent v = w_sent w \<and> list_all (\<lambda>c. sent_only_simulated (Changed c)) cs"
proof (induction ps arbitrary: s w cs)
  case (Cons p ps)
  obtain e out w1 where p: "evaluate_and_apply D p w = ((e, out), w1)"
    by (cases "evaluate_and_apply D p w") (metis prod.collapse)
  obtain cs2 where r: "manage_positions D ps (count_outcome e out s) w1 = (cs2, t, v)"
    and cs: "cs = (case out of Changed c \<Rightarrow> c # cs2 | _ \<Rightarrow> cs2)"
    using Cons.prems(2) by (auto simp: p split: prod.splits)
  note one = unarmed_position [OF assms Cons.prems(1) p]
  show ?case using Cons.IH [OF _ r] one by (cases out) (auto simp: cs)
qed simp

text \<open>
  With the engine as its sender the manager reaches no broker while no terminal is armed: after any
  run of the terminal manager that leaves every switch off, a call hands nothing over, and a change
  it reports as sent is marked simulated.
\<close>

theorem unarmed_manager_sends_nothing:
  assumes "td_apply D = engine_apply H L E" and "module_only ops"
    and "w_broker w = manager_run ops (fresh_manager d config saved)" and "\<not> is_execution_armed (w_broker w)"
  shows "let (cs, t, v) = manage D s w
         in w_sent v = w_sent w \<and> list_all (\<lambda>c. if sc_sent c then sc_simulated c else True) cs"
proof -
  have "synced (w_broker w)" unfolding assms(3) by (rule run_synced [OF assms(2)]) simp
  then have un: "unarmed (w_broker w)" using assms(4) by (simp add: unarmed_def)
  obtain cs t v where m: "manage D s w = (cs, t, v)" by (cases "manage D s w")
  have "w_sent v = w_sent w \<and> list_all (\<lambda>c. sent_only_simulated (Changed c)) cs"
  proof (cases "is_enabled D w")
    case True
    show ?thesis
    proof (cases "td_positions D w")
      case (Inr ps)
      then have "manage_positions D ps s w = (cs, t, v)" using m True by (simp add: manage_def)
      then show ?thesis by (rule unarmed_positions [OF assms(1) un])
    qed (use m True in \<open>auto simp: manage_def\<close>)
  qed (use m in \<open>auto simp: manage_def\<close>)
  then show ?thesis by (simp add: m sent_only_simulated_def)
qed

section \<open>A concrete call\<close>

definition gold_long :: pydict where
  "gold_long = [(''ticket'', VInt 7), (''symbol'', VStr ''GOLD''), (''side'', VStr ''buy''), (''entry_price'', VFloat 100),
     (''sl'', VFloat 90)]"

definition gold_desk :: "string option fan_world desk" where
  "gold_desk =
     \<lparr>td_static = sltp_defaults, td_enabled = None, td_config = None,
      td_positions = (\<lambda>w. Inr [PosDict gold_long, PosDict [(''ticket'', VInt 8)], PosModel None]),
      td_tick = (\<lambda>s w. Inr (Some (VFloat 115, VFloat 116))), td_atr = None, td_initial_sl = (\<lambda>t w. Inr (VFloat 90)),
      td_apply = engine_apply desk_host desk_dealing desk_engine\<rparr>"

theorem manage_counts_every_position_witness:
  "let (cs, t, v) = manage gold_desk new_trade_state desk_world in tr_modified t + tr_errors t + tr_skipped t = 3"
proof -
  have "is_enabled gold_desk desk_world" by (simp add: is_enabled_def gold_desk_def sltp_defaults_def)
  moreover have "td_positions gold_desk desk_world
      = Inr [PosDict gold_long, PosDict [(''ticket'', VInt 8)], PosModel None]" by (simp add: gold_desk_def)
  moreover have "length (tr_recent new_trade_state) \<le> 50" by (simp add: new_trade_state_def)
  ultimately show ?thesis
    using manage_counts_every_position [of gold_desk desk_world _ new_trade_state]
    by (auto simp: new_trade_state_def case_prod_beta Let_def)
qed

theorem unarmed_manager_sends_nothing_witness:
  "let (cs, t, v) = manage gold_desk new_trade_state desk_world
   in w_sent v = [] \<and> map sc_new_sl cs = [101] \<and> map sc_code cs = [403] \<and> map sc_sent cs = [False]"
proof -
  have applied: "td_apply gold_desk = engine_apply desk_host desk_dealing desk_engine" by (simp add: gold_desk_def)
  have w: "w_broker desk_world = manager_run []
      (fresh_manager \<lparr>bd_broker = Some ''C:/a'', bd_live = True, bd_available = True, bd_cache = []\<rparr> FileMissing FileMissing)"
    by (simp add: desk_world_def)
  have off: "\<not> is_execution_armed (w_broker desk_world)" by code_simp
  have "w_sent (snd (snd (manage gold_desk new_trade_state desk_world))) = []"
    using unarmed_manager_sends_nothing [OF applied _ w off, of new_trade_state]
    by (simp add: module_only_def case_prod_beta Let_def desk_world_def)
  moreover have "map (\<lambda>c. (sc_new_sl c, sc_code c, sc_sent c)) (fst (manage gold_desk new_trade_state desk_world))
      = [(101, 403, False)]" by code_simp
  ultimately show ?thesis by (auto simp: case_prod_beta Let_def)
qed

end
