(* ===== verification/Paper.thy ===== *)
theory Paper
  imports Symbol_Spec Execution
begin

text \<open>
  Paper trading: \<open>paper/paper_account.py\<close> and \<open>paper/simulated_execution.py\<close>. The account keeps its
  books, the engine fills orders at a mid price with spread and random slippage. Contract sizes come
  from \<open>info\<close>, what the terminal reports of a symbol (theory \<open>Symbol_Spec\<close>). Python's
  \<open>random.uniform(a, b)\<close> is \<open>a + (b - a) * u\<close> for the next \<open>u\<close> of a stream in the unit interval.
  Time stamps and log lines are left out.
\<close>

section \<open>Positions, trades and the account\<close>

record paper_position =
  pp_symbol :: string
  pp_entry :: pyfloat
  pp_size :: pyfloat
  pp_side :: string
  pp_current :: pyfloat
  pp_stop :: pyval
  pp_target :: pyval
  pp_pnl :: pyfloat
  pp_pnl_pct :: pyfloat

record paper_trade =
  pt_symbol :: string
  pt_type :: string
  pt_volume :: pyfloat
  pt_price :: pyfloat
  pt_spread :: pyfloat
  pt_slippage :: pyfloat
  pt_ticket :: int
  pt_pnl :: "pyfloat option"

record paper_account =
  pa_id :: string
  pa_initial :: pyfloat
  pa_balance :: pyfloat
  pa_equity :: pyfloat
  pa_peak :: pyfloat
  pa_used :: pyfloat
  pa_free :: pyfloat
  pa_positions :: "paper_position list"
  pa_history :: "paper_trade list"
  pa_daily_pnl :: pyfloat
  pa_daily_trades :: nat

type_synonym symbol_info = "string \<Rightarrow> pydict option"

definition default_contract_size :: pyfloat where
  "default_contract_size = 100000"

definition contract_of :: "symbol_info \<Rightarrow> string \<Rightarrow> pyfloat" where
  "contract_of info symbol = resolve_contract_size info symbol default_contract_size"

definition sim_is_long :: "string \<Rightarrow> bool" where
  "sim_is_long side \<longleftrightarrow> upper side = ''BUY''"

definition price_gain :: "string \<Rightarrow> pyfloat \<Rightarrow> pyfloat \<Rightarrow> pyfloat" where
  "price_gain side entry price = (if sim_is_long side then price - entry else entry - price)"

definition update_pnl :: "symbol_info \<Rightarrow> paper_position \<Rightarrow> paper_position" where
  "update_pnl info p =
     (let diff = price_gain (pp_side p) (pp_entry p) (pp_current p)
      in p\<lparr>pp_pnl := diff * pp_size p * contract_of info (pp_symbol p),
           pp_pnl_pct := (if 0 < pp_entry p then diff / pp_entry p * 100 else pp_pnl_pct p)\<rparr>)"

definition update_price :: "symbol_info \<Rightarrow> pyfloat \<Rightarrow> paper_position \<Rightarrow> paper_position" where
  "update_price info price p = update_pnl info (p\<lparr>pp_current := price\<rparr>)"

definition new_position ::
  "symbol_info \<Rightarrow> string \<Rightarrow> pyfloat \<Rightarrow> pyfloat \<Rightarrow> string \<Rightarrow> pyfloat \<Rightarrow> pyval \<Rightarrow> pyval \<Rightarrow> paper_position" where
  "new_position info symbol entry lots side current stop target =
     (let p = \<lparr>pp_symbol = symbol, pp_entry = entry, pp_size = lots, pp_side = side, pp_current = current, pp_stop = stop,
               pp_target = target, pp_pnl = 0, pp_pnl_pct = 0\<rparr>
      in if 0 < current then update_pnl info p else p)"

definition total_cost :: "paper_trade \<Rightarrow> pyfloat" where
  "total_cost t = pt_spread t + pt_slippage t"

text \<open>A new account; a zero balance, equity, peak or free margin is the initial balance.\<close>

definition new_account :: "string \<Rightarrow> pyfloat \<Rightarrow> paper_account" where
  "new_account i initial =
     \<lparr>pa_id = i, pa_initial = initial, pa_balance = initial, pa_equity = initial, pa_peak = initial, pa_used = 0,
      pa_free = initial, pa_positions = [], pa_history = [], pa_daily_pnl = 0, pa_daily_trades = 0\<rparr>"

definition total_pnl :: "paper_account \<Rightarrow> pyfloat" where
  "total_pnl a = sum_list (map pp_pnl (pa_positions a))"

definition update_equity :: "paper_account \<Rightarrow> paper_account" where
  "update_equity a =
     (let e = pa_balance a + total_pnl a
      in a\<lparr>pa_equity := e, pa_peak := (if pa_peak a < e then e else pa_peak a)\<rparr>)"

definition update_margin :: "pyfloat \<Rightarrow> paper_account \<Rightarrow> paper_account" where
  "update_margin used a = a\<lparr>pa_used := used, pa_free := max 0 (pa_equity a - used)\<rparr>"

definition add_position :: "paper_position \<Rightarrow> paper_account \<Rightarrow> paper_account" where
  "add_position p a = update_equity (a\<lparr>pa_positions := pa_positions a @ [p]\<rparr>)"

fun take_position :: "string \<Rightarrow> string \<Rightarrow> paper_position list \<Rightarrow> (paper_position \<times> paper_position list) option" where
  "take_position symbol side [] = None"
| "take_position symbol side (p # ps) =
     (if pp_symbol p = symbol \<and> upper (pp_side p) = upper side then Some (p, ps)
      else map_option (\<lambda>(q, qs). (q, p # qs)) (take_position symbol side ps))"

definition remove_position :: "string \<Rightarrow> string \<Rightarrow> paper_account \<Rightarrow> paper_position option \<times> paper_account" where
  "remove_position symbol side a =
     (case take_position symbol side (pa_positions a) of
        None \<Rightarrow> (None, a)
      | Some (p, ps) \<Rightarrow> (Some p, update_equity (a\<lparr>pa_positions := ps\<rparr>)))"

definition add_trade :: "paper_trade \<Rightarrow> paper_account \<Rightarrow> paper_account" where
  "add_trade t a = a\<lparr>pa_history := pa_history a @ [t], pa_daily_trades := Suc (pa_daily_trades a)\<rparr>"

definition drawdown_pct :: "paper_account \<Rightarrow> pyfloat" where
  "drawdown_pct a = (if pa_peak a \<le> 0 then 0 else (pa_peak a - pa_equity a) / pa_peak a * 100)"

definition daily_loss_pct :: "paper_account \<Rightarrow> pyfloat" where
  "daily_loss_pct a = (if pa_balance a \<le> 0 then 0 else \<bar>min (pa_daily_pnl a) 0\<bar> / pa_balance a * 100)"

definition reset_daily_stats :: "paper_account \<Rightarrow> paper_account" where
  "reset_daily_stats a = a\<lparr>pa_daily_pnl := 0, pa_daily_trades := 0\<rparr>"

section \<open>Spread and slippage\<close>

record spread_config =
  sc_default :: pyfloat
  sc_symbols :: "(string \<times> pyfloat) list"
  sc_variation :: pyfloat

record slippage_model =
  sm_base :: pyfloat
  sm_volatility :: pyfloat
  sm_max :: pyfloat

record sim_engine =
  se_spread :: spread_config
  se_slippage :: slippage_model
  se_min_volume :: pyfloat
  se_max_volume :: pyfloat
  se_auto_review :: bool
  se_completed :: "(string \<times> exec_result) list"
  se_tickets :: int
  se_draws :: nat

definition new_sim_engine :: "spread_config option \<Rightarrow> slippage_model option \<Rightarrow> bool \<Rightarrow> sim_engine" where
  "new_sim_engine spread slippage auto_review =
     \<lparr>se_spread = (case spread of Some c \<Rightarrow> c | None \<Rightarrow> \<lparr>sc_default = 1/10000, sc_symbols = [], sc_variation = 0\<rparr>),
      se_slippage = (case slippage of Some m \<Rightarrow> m | None \<Rightarrow> \<lparr>sm_base = 1/100000, sm_volatility = 1/2, sm_max = 1/1000\<rparr>),
      se_min_volume = 1/100, se_max_volume = 100, se_auto_review = auto_review, se_completed = [], se_tickets = 10000,
      se_draws = 0\<rparr>"

definition uniform :: "(nat \<Rightarrow> pyfloat) \<Rightarrow> pyfloat \<Rightarrow> pyfloat \<Rightarrow> sim_engine \<Rightarrow> pyfloat \<times> sim_engine" where
  "uniform rnd a b s = (a + (b - a) * rnd (se_draws s), s\<lparr>se_draws := Suc (se_draws s)\<rparr>)"

definition get_spread :: "(nat \<Rightarrow> pyfloat) \<Rightarrow> string \<Rightarrow> sim_engine \<Rightarrow> pyfloat \<times> sim_engine" where
  "get_spread rnd symbol s =
     (let c = se_spread s; base = (case map_of (sc_symbols c) symbol of Some x \<Rightarrow> x | None \<Rightarrow> sc_default c)
      in if 0 < sc_variation c
         then (case uniform rnd (- sc_variation c) (sc_variation c) s of (v, s2) \<Rightarrow> (base * (1 + v), s2))
         else (base, s))"

definition slippage_pct :: "slippage_model \<Rightarrow> pyfloat \<Rightarrow> pyfloat" where
  "slippage_pct m volatility = min (sm_base m + volatility * sm_volatility m * (1/100)) (sm_max m)"

definition calculate_slippage ::
  "(nat \<Rightarrow> pyfloat) \<Rightarrow> pyfloat \<Rightarrow> pyfloat \<Rightarrow> bool \<Rightarrow> sim_engine \<Rightarrow> pyfloat \<times> sim_engine" where
  "calculate_slippage rnd price volatility buy s =
     (if volatility \<le> 0 then (0, s)
      else case uniform rnd (1/2) (3/2) s of
             (f, s2) \<Rightarrow> (let slip = price * slippage_pct (se_slippage s) volatility * f
                         in (if buy then slip else - slip, s2)))"

definition apply_spread :: "(nat \<Rightarrow> pyfloat) \<Rightarrow> string \<Rightarrow> pyfloat \<Rightarrow> bool \<Rightarrow> sim_engine \<Rightarrow> pyfloat \<times> sim_engine" where
  "apply_spread rnd symbol base buy s =
     (case get_spread rnd symbol s of (x, s2) \<Rightarrow> (if buy then base + x / 2 else base - x / 2, s2))"

definition apply_slippage ::
  "(nat \<Rightarrow> pyfloat) \<Rightarrow> pyfloat \<Rightarrow> pyfloat \<Rightarrow> bool \<Rightarrow> sim_engine \<Rightarrow> pyfloat \<times> sim_engine" where
  "apply_slippage rnd price volatility buy s =
     (case calculate_slippage rnd price volatility buy s of (x, s2) \<Rightarrow> (price + x, s2))"

section \<open>Orders\<close>

definition sim_order_types :: "string list" where
  "sim_order_types = [''BUY'', ''SELL'', ''BUY_LIMIT'', ''SELL_LIMIT'', ''BUY_STOP'', ''SELL_STOP'']"

datatype order_fault = EmptySymbol | VolumeNotPositive | VolumeBelow | VolumeAbove | BadOrderType

definition sim_validate_order :: "order_request \<Rightarrow> sim_engine \<Rightarrow> order_fault list" where
  "sim_validate_order r s =
     (if strip (rq_symbol r) = [] then [EmptySymbol] else [])
     @ (if rq_volume r \<le> 0 then [VolumeNotPositive]
        else if rq_volume r < se_min_volume s then [VolumeBelow]
        else if se_max_volume s < rq_volume r then [VolumeAbove] else [])
     @ (if upper (rq_order_type r) \<notin> set sim_order_types then [BadOrderType] else [])"

text \<open>
  \<open>simulate_order\<close>; \<open>fresh\<close> is the key it invents for a request without one, \<open>text\<close> the message of
  the faults.
\<close>

definition fill_price ::
  "(nat \<Rightarrow> pyfloat) \<Rightarrow> string \<Rightarrow> pyfloat \<Rightarrow> pyfloat \<Rightarrow> bool \<Rightarrow> sim_engine \<Rightarrow> (pyfloat \<times> pyfloat) \<times> sim_engine" where
  "fill_price rnd symbol base volatility buy s =
     (case apply_spread rnd symbol base buy s of
        (p1, s1) \<Rightarrow> (case apply_slippage rnd p1 volatility buy s1 of (p2, s2) \<Rightarrow> ((p1, p2), s2)))"

definition opened_position :: "order_request \<Rightarrow> bool \<Rightarrow> pyfloat \<Rightarrow> pyfloat \<Rightarrow> pyfloat \<Rightarrow> int \<Rightarrow> pydict" where
  "opened_position r buy base spread_price final ticket =
     [(''symbol'', VStr (rq_symbol r)), (''entry_price'', VFloat final), (''size'', VFloat (rq_volume r)),
      (''side'', VStr (if buy then ''BUY'' else ''SELL'')), (''stop_loss'', VFloat (rq_sl r)),
      (''take_profit'', VFloat (rq_tp r)), (''ticket'', VInt ticket), (''spread_applied'', VFloat \<bar>spread_price - base\<bar>),
      (''slippage_applied'', VFloat \<bar>final - spread_price\<bar>)]"

definition simulate_order ::
  "(nat \<Rightarrow> pyfloat) \<Rightarrow> (order_fault list \<Rightarrow> string) \<Rightarrow> string \<Rightarrow> order_request \<Rightarrow> pyfloat \<Rightarrow> pyfloat \<Rightarrow> sim_engine
   \<Rightarrow> exec_result \<times> sim_engine" where
  "simulate_order rnd txt fresh r base volatility s =
     (let key = (if rq_key r = [] then fresh else rq_key r)
      in case map_of (se_completed s) key of
           Some res \<Rightarrow> (res, s)
         | None \<Rightarrow>
             (let faults = sim_validate_order r s
              in if faults \<noteq> [] then (failed 400 (txt faults) 0, s)
                 else let buy = contains ''BUY'' (upper (rq_order_type r));
                          ((p1, p2), s2) = fill_price rnd (rq_symbol r) base volatility buy s;
                          ticket = se_tickets s2 + 1;
                          res = \<lparr>er_success = True, er_ticket = Some ticket, er_code = 0, er_message = [], er_retries = 0,
                                 er_position = Some (opened_position r buy base p1 p2 ticket)\<rparr>
                      in (res, s2\<lparr>se_tickets := ticket, se_completed := AList.update key res (se_completed s2)\<rparr>)))"

section \<open>Booking\<close>

definition needed :: "pydict \<Rightarrow> string \<Rightarrow> pyerr + pyval" where
  "needed d k = (case map_of d k of None \<Rightarrow> Inl KeyError | Some v \<Rightarrow> Inr v)"

text \<open>A number or text the arithmetic and \<open>upper\<close> accept.\<close>

definition as_number :: "pyval \<Rightarrow> pyerr + pyfloat" where
  "as_number v = (case v of VFloat x \<Rightarrow> Inr x | VInt i \<Rightarrow> Inr (of_int i) | VBool b \<Rightarrow> Inr (if b then 1 else 0) | _ \<Rightarrow> Inl TypeError)"

definition as_text :: "pyval \<Rightarrow> pyerr + string" where
  "as_text v = (case v of VStr t \<Rightarrow> Inr t | _ \<Rightarrow> Inl AttributeError)"

definition booked_position :: "symbol_info \<Rightarrow> pydict \<Rightarrow> pyerr + paper_position" where
  "booked_position info d =
     bindE (bindE (needed d ''symbol'') as_text) (\<lambda>symbol.
     bindE (bindE (needed d ''entry_price'') as_number) (\<lambda>entry.
     bindE (bindE (needed d ''size'') as_number) (\<lambda>lots.
     bindE (bindE (needed d ''side'') as_text) (\<lambda>side.
       Inr (new_position info symbol entry lots side entry
              (dget d ''stop_loss'' (VFloat 0)) (dget d ''take_profit'' (VFloat 0)))))))"

definition number_of :: "pyval \<Rightarrow> pyfloat" where
  "number_of v = (case as_number v of Inr x \<Rightarrow> x | Inl _ \<Rightarrow> 0)"

definition opening_trade :: "pydict \<Rightarrow> paper_position \<Rightarrow> exec_result \<Rightarrow> pyfloat \<Rightarrow> paper_trade" where
  "opening_trade d p res change =
     \<lparr>pt_symbol = pp_symbol p, pt_type = pp_side p, pt_volume = pp_size p, pt_price = pp_entry p,
      pt_spread = number_of (dget d ''spread_applied'' (VFloat 0)),
      pt_slippage = number_of (dget d ''slippage_applied'' (VFloat 0)),
      pt_ticket = (case er_ticket res of Some t \<Rightarrow> t | None \<Rightarrow> 0), pt_pnl = (if change \<noteq> 0 then Some change else None)\<rparr>"

definition realise :: "pyfloat \<Rightarrow> paper_account \<Rightarrow> paper_account" where
  "realise x a = a\<lparr>pa_balance := pa_balance a + x, pa_daily_pnl := pa_daily_pnl a + x\<rparr>"

definition update_account ::
  "symbol_info \<Rightarrow> exec_result \<Rightarrow> pyfloat \<Rightarrow> paper_account \<Rightarrow> pyerr + paper_account" where
  "update_account info res change a =
     (case er_position res of
        None \<Rightarrow> Inr a
      | Some d \<Rightarrow>
          (if \<not> er_success res \<or> d = [] then Inr a
           else bindE (booked_position info d) (\<lambda>p.
                  let a1 = add_trade (opening_trade d p res change) (add_position p a);
                      a2 = (if change \<noteq> 0 then realise change a1 else a1)
                  in Inr (update_equity a2))))"

text \<open>
  What the review of a closed position receives, nothing when its stop is no number; \<open>ctx\<close> is the
  remembered entry context.
\<close>

definition review_record ::
  "pydict \<Rightarrow> string \<Rightarrow> paper_position \<Rightarrow> pyfloat \<Rightarrow> pyfloat \<Rightarrow> pyfloat \<Rightarrow> pydict option" where
  "review_record ctx symbol p close_price pnl slippage =
     (let base = [(''trade_id'', VStr symbol), (''symbol'', VStr symbol), (''direction'', VStr (pp_side p)),
                  (''entry_price'', VFloat (pp_entry p)), (''close_price'', VFloat close_price), (''pnl'', VFloat pnl),
                  (''slippage'', VFloat slippage), (''status'', VStr ''CLOSED'')]
                 @ concat (map (\<lambda>k. case map_of ctx k of Some v \<Rightarrow> [(k, v)] | None \<Rightarrow> [])
                     [''agent_outputs'', ''news_events'', ''regime'']);
          stop = py_or (dget ctx ''stop_loss'' VNone) (pp_stop p)
      in if \<not> py_truthy stop then Some base
         else case py_float stop of Inr x \<Rightarrow> Some (base @ [(''stop_loss'', VFloat x)]) | Inl _ \<Rightarrow> None)"

definition close_position ::
  "symbol_info \<Rightarrow> (nat \<Rightarrow> pyfloat) \<Rightarrow> pydict \<Rightarrow> string \<Rightarrow> string \<Rightarrow> pyfloat \<Rightarrow> paper_account \<Rightarrow> sim_engine
   \<Rightarrow> (paper_trade \<times> pydict option) option \<times> paper_account \<times> sim_engine" where
  "close_position info rnd ctx symbol side price a s =
     (case remove_position symbol side a of
        (None, a1) \<Rightarrow> (None, a1, s)
      | (Some p, a1) \<Rightarrow>
          (let pnl = price_gain (pp_side p) (pp_entry p) price * pp_size p * contract_of info symbol;
               (spread, s2) = get_spread rnd symbol s;
               t = \<lparr>pt_symbol = symbol, pt_type = (if sim_is_long side then ''SELL'' else ''BUY''), pt_volume = pp_size p,
                    pt_price = price, pt_spread = spread / 2, pt_slippage = 0, pt_ticket = 0, pt_pnl = Some pnl\<rparr>
           in (Some (t, if se_auto_review s then review_record ctx symbol p price pnl 0 else None),
               update_equity (realise pnl (add_trade t a1)), s2)))"

section \<open>Runs\<close>

text \<open>What a paper session does with its account and engine.\<close>

datatype paper_op =
    Simulate string order_request pyfloat pyfloat
  | Book exec_result pyfloat
  | Close pydict string string pyfloat
  | Mark nat pyfloat
  | Refresh
  | Margin pyfloat
  | NewDay

definition mark_position :: "symbol_info \<Rightarrow> nat \<Rightarrow> pyfloat \<Rightarrow> paper_account \<Rightarrow> paper_account" where
  "mark_position info i price a =
     (if i < length (pa_positions a)
      then a\<lparr>pa_positions := (pa_positions a)[i := update_price info price (pa_positions a ! i)]\<rparr> else a)"

fun paper_step ::
  "symbol_info \<Rightarrow> (nat \<Rightarrow> pyfloat) \<Rightarrow> paper_op \<Rightarrow> paper_account \<times> sim_engine \<Rightarrow> paper_account \<times> sim_engine" where
  "paper_step info rnd (Simulate fresh r base v) (a, s) = (a, snd (simulate_order rnd (\<lambda>fs. ''invalid'') fresh r base v s))"
| "paper_step info rnd (Book res x) (a, s) = (case update_account info res x a of Inr b \<Rightarrow> (b, s) | Inl _ \<Rightarrow> (a, s))"
| "paper_step info rnd (Close ctx symbol side p) (a, s) =
     (case close_position info rnd ctx symbol side p a s of (_, b, s2) \<Rightarrow> (b, s2))"
| "paper_step info rnd (Mark i p) (a, s) = (mark_position info i p a, s)"
| "paper_step info rnd Refresh (a, s) = (update_equity a, s)"
| "paper_step info rnd (Margin x) (a, s) = (update_margin x a, s)"
| "paper_step info rnd NewDay (a, s) = (reset_daily_stats a, s)"

definition paper_run ::
  "symbol_info \<Rightarrow> (nat \<Rightarrow> pyfloat) \<Rightarrow> paper_op list \<Rightarrow> paper_account \<times> sim_engine \<Rightarrow> paper_account \<times> sim_engine" where
  "paper_run info rnd ops st = foldl (\<lambda>st op. paper_step info rnd op st) st ops"

section \<open>The books\<close>

definition realised :: "paper_account \<Rightarrow> pyfloat" where
  "realised a = sum_list (map (\<lambda>t. case pt_pnl t of Some x \<Rightarrow> x | None \<Rightarrow> 0) (pa_history a))"

definition books_ok :: "paper_account \<Rightarrow> bool" where
  "books_ok a \<longleftrightarrow> pa_balance a = pa_initial a + realised a \<and> pa_equity a \<le> pa_peak a \<and> pa_initial a \<le> pa_peak a"

lemma books_equity [preserves]: "books_ok a \<Longrightarrow> books_ok (update_equity a)"
  by (auto simp: books_ok_def update_equity_def realised_def Let_def)

lemma equity_fresh: "pa_equity (update_equity a) = pa_balance (update_equity a) + total_pnl (update_equity a)"
  by (simp add: update_equity_def total_pnl_def Let_def)

lemma books_positions: "books_ok a \<Longrightarrow> books_ok (a\<lparr>pa_positions := ps\<rparr>)"
  by (simp add: books_ok_def realised_def)

lemma books_trade:
  "books_ok a \<Longrightarrow> pt_pnl t = None \<Longrightarrow> books_ok (add_trade t a)"
  "books_ok a \<Longrightarrow> pt_pnl t = Some x \<Longrightarrow> books_ok (realise x (add_trade t a))"
  by (auto simp: books_ok_def realised_def add_trade_def realise_def)

lemma books_add: "books_ok a \<Longrightarrow> books_ok (add_position p a)"
  by (simp add: add_position_def books_equity books_positions)

lemma books_book: "books_ok a \<Longrightarrow> update_account info res x a = Inr b \<Longrightarrow> books_ok b"
proof -
  assume a: "books_ok a" and b: "update_account info res x a = Inr b"
  show ?thesis
  proof (cases "\<exists>d p. er_position res = Some d \<and> er_success res \<and> d \<noteq> [] \<and> booked_position info d = Inr p")
    case True
    then obtain d p where d: "er_position res = Some d" "er_success res" "d \<noteq> []" "booked_position info d = Inr p" by blast
    let ?t = "opening_trade d p res x"
    have "pt_pnl ?t = (if x \<noteq> 0 then Some x else None)" by (simp add: opening_trade_def)
    then have "books_ok (if x \<noteq> 0 then realise x (add_trade ?t (add_position p a)) else add_trade ?t (add_position p a))"
      using books_trade(1) [OF books_add [OF a], of ?t] books_trade(2) [OF books_add [OF a], of ?t x] by (cases "x = 0") auto
    then show ?thesis using b d by (auto simp: update_account_def Let_def intro!: books_equity)
  next
    case False
    then have "b = a" using b by (auto simp: update_account_def split: option.splits if_splits)
    then show ?thesis using a by simp
  qed
qed

lemma books_remove: "books_ok a \<Longrightarrow> books_ok (snd (remove_position symbol side a))"
  by (auto simp: remove_position_def books_equity books_positions split: option.splits)

lemma books_close: "books_ok a \<Longrightarrow> books_ok (fst (snd (close_position info rnd ctx symbol side p a s)))"
  using books_remove [of a symbol side]
  by (auto simp: close_position_def Let_def intro!: books_equity books_trade split: prod.splits option.splits)

lemma books_step: "books_ok (fst st) \<Longrightarrow> books_ok (fst (paper_step info rnd op st))"
proof (cases st; cases op)
  fix a s i p
  assume "books_ok (fst st)" "st = (a, s)" "op = Mark i p"
  then show ?thesis by (simp add: mark_position_def books_positions)
next
  fix a s x
  assume "books_ok (fst st)" "st = (a, s)" "op = Margin x"
  then show ?thesis by (simp add: update_margin_def books_ok_def realised_def)
next
  fix a s
  assume "books_ok (fst st)" "st = (a, s)" "op = NewDay"
  then show ?thesis by (simp add: reset_daily_stats_def books_ok_def realised_def)
next
  fix a s ctx symbol side p
  assume "books_ok (fst st)" "st = (a, s)" "op = Close ctx symbol side p"
  then show ?thesis using books_close [of a info rnd ctx symbol side p s] by (simp add: case_prod_beta)
qed (auto simp: books_equity dest: books_book split: sum.splits)

lemma books_run: "books_ok (fst st) \<Longrightarrow> books_ok (fst (paper_run info rnd ops st))"
proof (induction ops arbitrary: st)
  case (Cons op ops)
  then show ?case using Cons.IH [OF books_step] by (simp add: paper_run_def)
qed (simp add: paper_run_def)

text \<open>
  C29. The books of a paper account balance after every session: the balance is the initial balance and
  the realised results of its history, the peak is no lower than the equity, and once the equity is
  refreshed it is the balance and the open results.
\<close>

theorem paper_books_balance:
  "let a = fst (paper_run info rnd ops (new_account i initial, s)); b = update_equity a
   in pa_balance a = initial + realised a \<and> max initial (pa_equity a) \<le> pa_peak a
      \<and> pa_equity b = pa_balance b + total_pnl b \<and> pa_balance b = pa_balance a"
proof -
  let ?a = "fst (paper_run info rnd ops (new_account i initial, s))"
  have "books_ok (new_account i initial)" by (simp add: books_ok_def new_account_def realised_def)
  then have "books_ok ?a" by (intro books_run) simp
  moreover have "pa_initial ?a = initial"
  proof -
    have close: "pa_initial (fst (snd (close_position info rnd ctx symbol side p a s))) = pa_initial a" for ctx symbol side p a s
      by (auto simp: close_position_def remove_position_def update_equity_def realise_def add_trade_def Let_def
          split: prod.splits option.splits)
    have book: "update_account info res x a = Inr b \<Longrightarrow> pa_initial b = pa_initial a" for res x a b
      by (auto simp: update_account_def add_position_def update_equity_def realise_def add_trade_def Let_def
          split: option.splits if_splits)
    have step: "pa_initial (fst (paper_step info rnd op st)) = pa_initial (fst st)" for op st
    proof (cases st; cases op)
      fix a s ctx symbol side p
      assume "st = (a, s)" "op = Close ctx symbol side p"
      then show ?thesis using close [of ctx symbol side p a s] by (simp add: case_prod_beta)
    qed (auto simp: mark_position_def update_equity_def update_margin_def reset_daily_stats_def Let_def
          dest: book split: sum.splits)
    have "pa_initial (fst (paper_run info rnd ops st)) = pa_initial (fst st)" for st
      by (induction ops arbitrary: st) (simp_all add: paper_run_def step)
    then show ?thesis by (simp add: new_account_def)
  qed
  ultimately show ?thesis using equity_fresh [of ?a]
    by (auto simp: books_ok_def Let_def) (auto simp: update_equity_def Let_def)
qed

definition two_open :: paper_account where
  "two_open = update_equity ((new_account ''p'' 10000)\<lparr>pa_positions :=
     [new_position (\<lambda>s. None) ''A'' 100 1 ''BUY'' (100001/1000) (VFloat 0) (VFloat 0),
      new_position (\<lambda>s. None) ''B'' 100 1 ''BUY'' (99999/1000) (VFloat 0) (VFloat 0)]\<rparr>)"

text \<open>
  Taking a loser out of the account before its loss reaches the balance lifts the equity for a moment,
  and the peak keeps that height: an account that only broke even reports a drawdown.
\<close>

theorem closing_a_loser_lifts_the_peak:
  "let (r, b, s) = close_position (\<lambda>s. None) (\<lambda>n. 0) [] ''B'' ''BUY'' (99999/1000) two_open (new_sim_engine None None False)
   in pa_equity two_open = 10000 \<and> pa_peak two_open = 10000
      \<and> pa_equity b = 10000 \<and> pa_peak b = 10100 \<and> 0 < drawdown_pct b"
  by code_simp

section \<open>Fills\<close>

definition sane_costs :: "sim_engine \<Rightarrow> string \<Rightarrow> bool" where
  "sane_costs s symbol \<longleftrightarrow>
     0 \<le> (case map_of (sc_symbols (se_spread s)) symbol of Some x \<Rightarrow> x | None \<Rightarrow> sc_default (se_spread s))
     \<and> sc_variation (se_spread s) \<le> 1 \<and> 0 \<le> sm_base (se_slippage s) \<and> 0 \<le> sm_volatility (se_slippage s)
     \<and> 0 \<le> sm_max (se_slippage s)"

lemma spread_nonneg:
  assumes "sane_costs s symbol" "\<And>n. 0 \<le> rnd n \<and> rnd n \<le> 1"
  shows "0 \<le> fst (get_spread rnd symbol s)" and "se_slippage (snd (get_spread rnd symbol s)) = se_slippage s"
proof -
  define base where "base = (case map_of (sc_symbols (se_spread s)) symbol of Some x \<Rightarrow> x | None \<Rightarrow> sc_default (se_spread s))"
  define v where "v = sc_variation (se_spread s)"
  have b: "0 \<le> base" "v \<le> 1" using assms(1) by (simp_all add: sane_costs_def base_def v_def)
  have "0 \<le> 1 + (- v + (v - - v) * rnd (se_draws s))" if "0 < v"
  proof -
    have "0 \<le> 2 * v * rnd (se_draws s)" using that assms(2) [of "se_draws s"] by (intro mult_nonneg_nonneg) auto
    moreover have "1 + (- v + (v - - v) * rnd (se_draws s)) = (1 - v) + 2 * v * rnd (se_draws s)"
      by (simp add: algebra_simps)
    ultimately show ?thesis using b(2) by linarith
  qed
  then have "0 < v \<Longrightarrow> 0 \<le> base * (1 + (- v + (v - - v) * rnd (se_draws s)))"
    using b(1) by (intro mult_nonneg_nonneg) auto
  then show "0 \<le> fst (get_spread rnd symbol s)"
    using b(1) by (simp add: get_spread_def uniform_def base_def [symmetric] v_def [symmetric] Let_def)
  show "se_slippage (snd (get_spread rnd symbol s)) = se_slippage s"
    by (simp add: get_spread_def uniform_def Let_def)
qed

lemma slippage_bounds:
  assumes "0 \<le> price" "\<And>n. 0 \<le> rnd n \<and> rnd n \<le> 1" "0 \<le> sm_base (se_slippage s)"
    and "0 \<le> sm_volatility (se_slippage s)" "0 \<le> sm_max (se_slippage s)"
  shows "let x = fst (calculate_slippage rnd price volatility buy s)
         in if buy then 0 \<le> x \<and> x \<le> price * (3/2 * sm_max (se_slippage s))
            else x \<le> 0 \<and> - (price * (3/2 * sm_max (se_slippage s))) \<le> x"
proof (cases "volatility \<le> 0")
  case True
  then show ?thesis using assms by (simp add: calculate_slippage_def)
next
  case False
  define pct where "pct = slippage_pct (se_slippage s) volatility"
  define f where "f = 1/2 + (3/2 - 1/2) * rnd (se_draws s)"
  have pct: "0 \<le> pct" "pct \<le> sm_max (se_slippage s)"
    using assms False by (auto simp: pct_def slippage_pct_def intro!: add_nonneg_nonneg mult_nonneg_nonneg)
  have f: "0 \<le> f" "f \<le> 3/2" using assms(2) [of "se_draws s"] by (auto simp: f_def)
  have "pct * f \<le> sm_max (se_slippage s) * (3/2)" using pct f by (intro mult_mono) auto
  then have up: "price * (pct * f) \<le> price * (3/2 * sm_max (se_slippage s))"
    using assms(1) by (intro mult_left_mono) (auto simp: mult.commute)
  have "0 \<le> price * (pct * f)" using assms(1) pct f by (intro mult_nonneg_nonneg) auto
  moreover have "fst (calculate_slippage rnd price volatility buy s)
      = (if buy then price * (pct * f) else - (price * (pct * f)))"
    using False by (simp add: calculate_slippage_def uniform_def pct_def f_def Let_def mult.assoc)
  ultimately show ?thesis using up by (auto simp: Let_def)
qed

text \<open>
  Fills are adverse and bounded: with sane costs a buy never fills below the mid price and a sell
  never above it, and slippage moves the price by at most one and a half times the configured
  maximum, in the direction of the spread.
\<close>

theorem fills_are_adverse:
  assumes "sane_costs s symbol" and "\<And>n. 0 \<le> rnd n \<and> rnd n \<le> 1"
    and "0 \<le> fst (fst (fill_price rnd symbol base volatility buy s))"
  shows "let (p1, p2) = fst (fill_price rnd symbol base volatility buy s); most = p1 * (3/2 * sm_max (se_slippage s))
         in if buy then base \<le> p1 \<and> p1 \<le> p2 \<and> p2 \<le> p1 + most else p1 \<le> base \<and> p2 \<le> p1 \<and> p1 - most \<le> p2"
proof -
  obtain x s1 where x: "get_spread rnd symbol s = (x, s1)" by (cases "get_spread rnd symbol s")
  have x0: "0 \<le> x" "se_slippage s1 = se_slippage s"
    using spread_nonneg [where rnd = rnd, OF assms(1,2)] by (simp_all add: x)
  define p1 where "p1 = (if buy then base + x / 2 else base - x / 2)"
  have p1: "0 \<le> p1"
    using assms(3) by (simp add: fill_price_def apply_spread_def x p1_def case_prod_beta split: if_splits)
  have costs: "0 \<le> sm_base (se_slippage s1)" "0 \<le> sm_volatility (se_slippage s1)" "0 \<le> sm_max (se_slippage s1)"
    using assms(1) by (simp_all add: sane_costs_def x0)
  note slip = slippage_bounds [where rnd = rnd, OF p1 assms(2) costs, of volatility buy]
  have fill: "fst (fill_price rnd symbol base volatility buy s) = (p1, p1 + fst (calculate_slippage rnd p1 volatility buy s1))"
    by (auto simp: fill_price_def apply_spread_def apply_slippage_def x p1_def case_prod_beta)
  show ?thesis unfolding fill using slip x0 by (cases buy) (auto simp: p1_def Let_def)
qed

definition rough_model :: slippage_model where
  "rough_model = \<lparr>sm_base = 1/100000, sm_volatility = 1/2, sm_max = 1/1000\<rparr>"

definition rough_engine :: sim_engine where
  "rough_engine = new_sim_engine None (Some rough_model) False"

theorem fills_are_adverse_witness:
  "let (p1, p2) = fst (fill_price (\<lambda>n. 1) ''EURUSD'' 2 1 True rough_engine)
   in p1 \<le> p2 \<and> p2 \<le> p1 + p1 * (3/2 * (1/1000))"
proof -
  have "sane_costs rough_engine ''EURUSD''" by code_simp
  moreover have "0 \<le> fst (fst (fill_price (\<lambda>n. 1) ''EURUSD'' 2 1 True rough_engine))" by code_simp
  ultimately have "let (p1, p2) = fst (fill_price (\<lambda>n. 1) ''EURUSD'' 2 1 True rough_engine);
        most = p1 * (3/2 * sm_max (se_slippage rough_engine))
      in if True then 2 \<le> p1 \<and> p1 \<le> p2 \<and> p2 \<le> p1 + most else p1 \<le> 2 \<and> p2 \<le> p1 \<and> p1 - most \<le> p2"
    by (intro fills_are_adverse) auto
  moreover have "sm_max (se_slippage rough_engine) = 1/1000" by code_simp
  ultimately show ?thesis by (simp only: case_prod_beta Let_def simp_thms if_True)
qed

text \<open>The random factor is applied after the cap, so slippage can exceed the configured maximum.\<close>

theorem slippage_exceeds_its_maximum:
  "fst (calculate_slippage (\<lambda>n. 1) 2 1 True rough_engine) = 2 * (3/2) * sm_max (se_slippage rough_engine)"
  by code_simp

section \<open>Booking twice\<close>

text \<open>
  A repeated key answers with the first result, and booking it opens the position again: the engine
  is idempotent, its account is not.
\<close>

theorem repeated_result_opens_twice:
  assumes "simulate_order rnd txt fresh r base v s = (res, s2)" and "er_success res" and "rq_key r \<noteq> []"
    and "update_account info res 0 a = Inr b" and "update_account info res 0 b = Inr c"
    and "map_of (se_completed s) (rq_key r) = None"
  shows "simulate_order rnd txt fresh r base2 v2 s2 = (res, s2)
         \<and> length (pa_positions b) = Suc (length (pa_positions a)) \<and> length (pa_positions c) = Suc (length (pa_positions b))"
proof -
  have key: "(if rq_key r = [] then fresh else rq_key r) = rq_key r" using assms(3) by simp
  have valid: "sim_validate_order r s = []"
    using assms(1,2,6) by (auto simp: simulate_order_def key failed_def Let_def split: if_splits)
  have kept: "map_of (se_completed s2) (rq_key r) = Some res" and some: "\<exists>d. er_position res = Some d \<and> d \<noteq> []"
    using assms(1,6) valid by (auto simp: simulate_order_def key opened_position_def Let_def case_prod_beta)
  obtain d where d: "er_position res = Some d" "d \<noteq> []" using some by blast
  have "length (pa_positions y) = Suc (length (pa_positions x))" if "update_account info res 0 x = Inr y" for x y
    using that d assms(2)
    by (auto simp: update_account_def add_position_def add_trade_def update_equity_def Let_def)
  then show ?thesis using assms(4,5) kept by (simp add: simulate_order_def key)
qed

end
