(* ===== verification/Intents.thy ===== *)
theory Intents
  imports Order_State
begin

text \<open>
  The registry of order intents: \<open>execution/intents.py\<close> and its journal
  \<open>persistence/intent_store.py\<close>. Every registration and change of state is mirrored in the order
  ledger (theory \<open>Order_State\<close>). \<open>io\<close> is whether the file takes a line, \<open>now\<close> the clock, \<open>stamp\<close>
  whether a text is a time stamp \<open>datetime.fromisoformat\<close> reads. In the process the cached entry of the store
  shares its \<open>extra\<close> with the record; the model copies it, which no reader of the file can tell.
\<close>

section \<open>Intents and the journal\<close>

record intent =
  it_id :: string
  it_decision :: string
  it_version :: string
  it_symbol :: string
  it_direction :: string
  it_created :: string
  it_state :: order_state
  it_extra :: pydict

definition intent_dict :: "intent \<Rightarrow> pydict" where
  "intent_dict r =
     [(''intent_id'', VStr (it_id r)), (''decision_id'', VStr (it_decision r)),
      (''strategy_version'', VStr (it_version r)), (''symbol'', VStr (it_symbol r)),
      (''direction'', VStr (it_direction r)), (''created_at'', VStr (it_created r)),
      (''state'', VStr (os_value (it_state r))), (''extra'', VDict (it_extra r))]"

record intent_store =
  is_intents :: "(string \<times> pydict) list"
  is_file :: "jline list"

text \<open>A line is filed under its text \<open>intent_id\<close>, as this store writes it; others are passed over.\<close>

fun is_load_line :: "(string \<times> pydict) list \<Rightarrow> jline \<Rightarrow> (string \<times> pydict) list" where
  "is_load_line m (Json (VDict d)) =
     (case map_of d ''intent_id'' of
        Some (VStr i) \<Rightarrow>
          (if dget d ''event'' VNone = VStr ''created'' then AList.update i d m
           else if dget d ''event'' VNone = VStr ''updated''
           then (case map_of m i of Some e \<Rightarrow> AList.update i (dict_update e d) m | None \<Rightarrow> m)
           else m)
      | _ \<Rightarrow> m)"
| "is_load_line m _ = m"

definition is_init :: "jread \<Rightarrow> intent_store" where
  "is_init r = (case r of
      Lines ls \<Rightarrow> \<lparr>is_intents = foldl is_load_line [] ls, is_file = ls\<rparr>
    | _ \<Rightarrow> \<lparr>is_intents = [], is_file = []\<rparr>)"

definition is_append :: "bool \<Rightarrow> pydict \<Rightarrow> intent_store \<Rightarrow> intent_store" where
  "is_append io entry s = (if io then s\<lparr>is_file := is_file s @ [Json (VDict entry)]\<rparr> else s)"

definition created_entry :: "string \<Rightarrow> intent \<Rightarrow> pydict" where
  "created_entry now r = intent_dict r @ [(''event'', VStr ''created''), (''timestamp'', VStr now)]"

definition add_intent :: "bool \<Rightarrow> string \<Rightarrow> intent \<Rightarrow> intent_store \<Rightarrow> intent_store" where
  "add_intent io now r s =
     (let entry = created_entry now r
      in is_append io entry
           (if it_id r \<noteq> [] then s\<lparr>is_intents := AList.update (it_id r) entry (is_intents s)\<rparr> else s))"

definition updated_entry :: "string \<Rightarrow> string \<Rightarrow> string \<Rightarrow> pydict \<Rightarrow> pydict" where
  "updated_entry now i st extra =
     dict_update [(''intent_id'', VStr i), (''state'', VStr st), (''event'', VStr ''updated''), (''timestamp'', VStr now)] extra"

definition store_intent_state :: "bool \<Rightarrow> string \<Rightarrow> string \<Rightarrow> string \<Rightarrow> pydict \<Rightarrow> intent_store \<Rightarrow> intent_store" where
  "store_intent_state io now i st extra s =
     (let entry = updated_entry now i st extra
      in is_append io entry
           (case map_of (is_intents s) i of
              Some e \<Rightarrow> s\<lparr>is_intents := AList.update i (dict_update e entry) (is_intents s)\<rparr>
            | None \<Rightarrow> s))"

definition clear_intents :: "bool \<Rightarrow> intent_store \<Rightarrow> intent_store" where
  "clear_intents io s = s\<lparr>is_intents := [], is_file := (if io then [] else is_file s)\<rparr>"

section \<open>The registry\<close>

record intent_registry =
  ir_intents :: "(string \<times> intent) list"
  ir_store :: "intent_store option"
  ir_ledger :: ledger

definition empty_registry :: "intent_store option \<Rightarrow> intent_registry" where
  "empty_registry s = \<lparr>ir_intents = [], ir_store = s, ir_ledger = empty_ledger\<rparr>"

definition entry_text :: "pydict \<Rightarrow> string \<Rightarrow> string" where
  "entry_text e k = py_text (dget e k (VStr []))"

definition entry_state :: "pydict \<Rightarrow> order_state" where
  "entry_state e =
     (case dget e ''state'' (VStr (os_value INTENT_CREATED)) of
        VStr t \<Rightarrow> (case order_state_of t of Some s \<Rightarrow> s | None \<Rightarrow> UNKNOWN)
      | _ \<Rightarrow> UNKNOWN)"

text \<open>\<open>dict(entry.get("extra") or {})\<close>; a value that is no dictionary raises.\<close>

definition entry_extra :: "pydict \<Rightarrow> pyerr + pydict" where
  "entry_extra e =
     (let v = dget e ''extra'' VNone
      in if \<not> py_truthy v then Inr [] else case v of VDict d \<Rightarrow> Inr d | _ \<Rightarrow> Inl TypeError)"

definition rebuilt :: "(string \<Rightarrow> bool) \<Rightarrow> string \<Rightarrow> string \<Rightarrow> pydict \<Rightarrow> pyerr + intent" where
  "rebuilt stamp now i e =
     bindE (entry_extra e) (\<lambda>extra.
       let t = py_text (dget e ''created_at'' VNone)
       in Inr \<lparr>it_id = i, it_decision = entry_text e ''decision_id'', it_version = entry_text e ''strategy_version'',
               it_symbol = entry_text e ''symbol'', it_direction = entry_text e ''direction'',
               it_created = (if stamp t then t else now), it_state = entry_state e, it_extra = extra\<rparr>)"

text \<open>The first entry that raises ends the loop; what was rebuilt stays.\<close>

fun rebuild_all ::
  "(string \<Rightarrow> bool) \<Rightarrow> string \<Rightarrow> (string \<times> pydict) list \<Rightarrow> (string \<times> intent) list \<Rightarrow> (string \<times> intent) list" where
  "rebuild_all stamp now [] m = m"
| "rebuild_all stamp now ((i, e) # es) m =
     (case map_of m i of
        Some _ \<Rightarrow> rebuild_all stamp now es m
      | None \<Rightarrow> (case rebuilt stamp now i e of
                  Inl _ \<Rightarrow> m
                | Inr r \<Rightarrow> rebuild_all stamp now es (m @ [(i, r)])))"

definition set_intent_store ::
  "(string \<Rightarrow> bool) \<Rightarrow> string \<Rightarrow> intent_store option \<Rightarrow> intent_registry \<Rightarrow> intent_registry" where
  "set_intent_store stamp now st g =
     (case st of
        None \<Rightarrow> g\<lparr>ir_store := None\<rparr>
      | Some s \<Rightarrow> g\<lparr>ir_store := Some s, ir_intents := rebuild_all stamp now (is_intents s) (ir_intents g)\<rparr>)"

definition register_intent :: "bool \<Rightarrow> string \<Rightarrow> intent \<Rightarrow> intent_registry \<Rightarrow> pyerr + intent_registry" where
  "register_intent io now r g =
     (if map_of (ir_intents g) (it_id r) \<noteq> None then Inl ValueError
      else Inr \<lparr>ir_intents = AList.update (it_id r) r (ir_intents g),
                ir_store = map_option (add_intent io now r) (ir_store g),
                ir_ledger = snd (set_order io now (it_id r) (it_state r) [] (ir_ledger g))\<rparr>)"

definition get_intent :: "string \<Rightarrow> intent_registry \<Rightarrow> pyerr + intent" where
  "get_intent i g = (case map_of (ir_intents g) i of None \<Rightarrow> Inl KeyError | Some r \<Rightarrow> Inr r)"

definition update_intent_state ::
  "bool \<Rightarrow> string \<Rightarrow> string \<Rightarrow> order_state \<Rightarrow> pydict \<Rightarrow> intent_registry \<Rightarrow> pyerr + intent_registry" where
  "update_intent_state io now i st extra g =
     bindE (get_intent i g) (\<lambda>r.
       let r2 = r\<lparr>it_state := st, it_extra := dict_update (it_extra r) extra\<rparr>
       in Inr \<lparr>ir_intents = AList.update i r2 (ir_intents g),
               ir_store = map_option (store_intent_state io now i (os_value st) extra) (ir_store g),
               ir_ledger = snd (set_order io now i st (it_extra r2) (ir_ledger g))\<rparr>)"

definition reset_intents :: "intent_registry \<Rightarrow> intent_registry" where
  "reset_intents g = g\<lparr>ir_intents := [], ir_ledger := reset_store (ir_ledger g)\<rparr>"

section \<open>Runs\<close>

datatype intent_op = Register string intent | UpdateState string string order_state pydict

fun intent_step :: "intent_op \<Rightarrow> intent_registry \<Rightarrow> intent_registry" where
  "intent_step (Register now r) g = catchE (register_intent True now r g) g"
| "intent_step (UpdateState now i st extra) g = catchE (update_intent_state True now i st extra g) g"

definition intent_run :: "intent_op list \<Rightarrow> intent_registry \<Rightarrow> intent_registry" where
  "intent_run ops g = foldl (\<lambda>g op. intent_step op g) g ops"

definition reserved_keys :: "string list" where
  "reserved_keys = [''intent_id'', ''decision_id'', ''strategy_version'', ''symbol'', ''direction'', ''created_at'',
     ''state'', ''event'', ''extra'']"

text \<open>Time stamps that parse, ids that are not empty, and metadata that uses none of the reserved keys.\<close>

fun plain_op :: "(string \<Rightarrow> bool) \<Rightarrow> intent_op \<Rightarrow> bool" where
  "plain_op stamp (Register now r) = (it_id r \<noteq> [] \<and> stamp (it_created r))"
| "plain_op stamp (UpdateState now i st extra) = list_all (\<lambda>(k, v). k \<notin> set reserved_keys) extra"

definition without_extra :: "intent \<Rightarrow> intent" where
  "without_extra r = r\<lparr>it_extra := []\<rparr>"

section \<open>What the journal keeps\<close>

text \<open>An entry of the cache that stands for an intent.\<close>

definition stands_for :: "intent \<Rightarrow> pydict \<Rightarrow> bool" where
  "stands_for r e \<longleftrightarrow>
     list_all (\<lambda>(k, v). k = ''extra'' \<or> map_of e k = Some v) (intent_dict r)
     \<and> (case map_of e ''extra'' of Some (VDict d) \<Rightarrow> True | _ \<Rightarrow> False)"

text \<open>The journal holds every registered intent, and its cache is what reading the file gives.\<close>

definition in_journal :: "(string \<Rightarrow> bool) \<Rightarrow> intent_store \<Rightarrow> intent_registry \<Rightarrow> string \<Rightarrow> bool" where
  "in_journal stamp s g i \<longleftrightarrow>
     (case map_of (ir_intents g) i of
        None \<Rightarrow> map_of (is_intents s) i = None
      | Some r \<Rightarrow> it_id r = i \<and> stamp (it_created r)
          \<and> (case map_of (is_intents s) i of Some e \<Rightarrow> stands_for r e | None \<Rightarrow> False))"

definition journal_ok :: "(string \<Rightarrow> bool) \<Rightarrow> intent_registry \<Rightarrow> bool" where
  "journal_ok stamp g \<longleftrightarrow> (\<exists>s. ir_store g = Some s \<and> is_intents s = foldl is_load_line [] (is_file s)
     \<and> distinct (map fst (is_intents s)) \<and> (\<forall>i. in_journal stamp s g i))"

lemma created_facts:
  "map_of (created_entry now r) ''intent_id'' = Some (VStr (it_id r))"
  "dget (created_entry now r) ''event'' VNone = VStr ''created''" "stands_for r (created_entry now r)"
  by (simp_all add: created_entry_def intent_dict_def dget_def stands_for_def)

lemma updated_get:
  assumes "list_all (\<lambda>(k, v). k \<notin> set reserved_keys) extra" "k \<in> set reserved_keys"
  shows "map_of (updated_entry now i st extra) k
         = map_of [(''intent_id'', VStr i), (''state'', VStr st), (''event'', VStr ''updated''), (''timestamp'', VStr now)] k"
  unfolding updated_entry_def using assms by (intro map_of_dict_update_notin) (auto simp: list_all_iff)

lemma merged_get: "map_of (dict_update e d) k = (case map_of (rev d) k of Some v \<Rightarrow> Some v | None \<Rightarrow> map_of e k)"
  by (induction d arbitrary: e) (auto simp: map_add_def split: option.splits)


lemma distinct_dict_update: "distinct (map fst d) \<Longrightarrow> distinct (map fst (dict_update d e))"
  by (induction e arbitrary: d) (auto simp: distinct_update)

lemma updated_distinct: "distinct (map fst (updated_entry now i st extra))"
  unfolding updated_entry_def by (rule distinct_dict_update) simp

lemma rev_get: "distinct (map fst d) \<Longrightarrow> map_of (rev d) = map_of d"
  by (subst map_of_inject_set) (auto simp: rev_map [symmetric])

lemma stands_for_updated:
  assumes "stands_for r e" "it_id r = i" "list_all (\<lambda>(k, v). k \<notin> set reserved_keys) extra"
  shows "stands_for (r\<lparr>it_state := st, it_extra := x\<rparr>) (dict_update e (updated_entry now i (os_value st) extra))"
proof -
  let ?u = "updated_entry now i (os_value st) extra"
  have get: "map_of (dict_update e ?u) k = (case map_of ?u k of Some v \<Rightarrow> Some v | None \<Rightarrow> map_of e k)" for k
    by (simp add: merged_get rev_get [OF updated_distinct])
  note u = updated_get [OF assms(3), of _ now i "os_value st"]
  show ?thesis using assms(1,2)
    by (auto simp: stands_for_def intent_dict_def get u reserved_keys_def)
qed

lemma journal_register:
  assumes "journal_ok stamp g" "plain_op stamp (Register now r)" "map_of (ir_intents g) (it_id r) = None"
  shows "journal_ok stamp (intent_step (Register now r) g)"
proof -
  obtain s where s: "ir_store g = Some s" "is_intents s = foldl is_load_line [] (is_file s)"
    "distinct (map fst (is_intents s))" "\<And>i. in_journal stamp s g i"
    using assms(1) by (auto simp: journal_ok_def)
  let ?s = "add_intent True now r s"
  have cache: "is_intents ?s = AList.update (it_id r) (created_entry now r) (is_intents s)"
    "is_file ?s = is_file s @ [Json (VDict (created_entry now r))]"
    using assms(2) by (simp_all add: add_intent_def is_append_def Let_def)
  have step: "intent_step (Register now r) g = \<lparr>ir_intents = AList.update (it_id r) r (ir_intents g), ir_store = Some ?s,
      ir_ledger = snd (set_order True now (it_id r) (it_state r) [] (ir_ledger g))\<rparr>"
    using assms(3) s(1) by (simp add: register_intent_def)
  have "is_intents ?s = foldl is_load_line [] (is_file ?s)"
    using s(2) by (simp add: cache created_facts)
  moreover have "distinct (map fst (is_intents ?s))" using s(3) by (simp add: cache distinct_update)
  moreover have "in_journal stamp ?s (intent_step (Register now r) g) i" for i
    using s(4) [of i] assms(2) created_facts(3) [of r now] unfolding step in_journal_def cache
    by (auto split: option.splits)
  ultimately show ?thesis unfolding journal_ok_def step by (intro exI [of _ ?s] conjI allI) simp_all
qed

lemma journal_update:
  assumes "journal_ok stamp g" "plain_op stamp (UpdateState now i st extra)" "map_of (ir_intents g) i = Some r"
  shows "journal_ok stamp (intent_step (UpdateState now i st extra) g)"
proof -
  obtain s where s: "ir_store g = Some s" "is_intents s = foldl is_load_line [] (is_file s)"
    "distinct (map fst (is_intents s))" "\<And>i. in_journal stamp s g i"
    using assms(1) by (auto simp: journal_ok_def)
  have r: "it_id r = i" "stamp (it_created r)" and "\<exists>e. map_of (is_intents s) i = Some e \<and> stands_for r e"
    using s(4) [of i] assms(3) by (auto simp: in_journal_def split: option.splits)
  then obtain e where e: "map_of (is_intents s) i = Some e" "stands_for r e" by blast
  have plain: "list_all (\<lambda>(k, v). k \<notin> set reserved_keys) extra" using assms(2) by simp
  let ?u = "updated_entry now i (os_value st) extra"
  let ?s = "store_intent_state True now i (os_value st) extra s"
  let ?r = "r\<lparr>it_state := st, it_extra := dict_update (it_extra r) extra\<rparr>"
  have cache: "is_intents ?s = AList.update i (dict_update e ?u) (is_intents s)" "is_file ?s = is_file s @ [Json (VDict ?u)]"
    by (simp_all add: store_intent_state_def is_append_def e Let_def)
  have step: "intent_step (UpdateState now i st extra) g = \<lparr>ir_intents = AList.update i ?r (ir_intents g),
      ir_store = Some ?s, ir_ledger = snd (set_order True now i st (it_extra ?r) (ir_ledger g))\<rparr>"
    using assms(3) s(1) by (simp add: update_intent_state_def get_intent_def Let_def)
  have "map_of ?u ''intent_id'' = Some (VStr i)" "map_of ?u ''event'' = Some (VStr ''updated'')"
    by (simp_all add: updated_get [OF plain] reserved_keys_def)
  then have "is_intents ?s = foldl is_load_line [] (is_file ?s)"
    unfolding cache foldl_append s(2) [symmetric] by (simp add: dget_def e)
  moreover have "distinct (map fst (is_intents ?s))" using s(3) by (simp add: cache distinct_update)
  moreover have "in_journal stamp ?s (intent_step (UpdateState now i st extra) g) j" for j
    using s(4) [of j] r stands_for_updated [OF e(2) r(1) plain] unfolding step in_journal_def cache
    by (auto split: option.splits)
  ultimately show ?thesis unfolding journal_ok_def step by (intro exI [of _ ?s] conjI allI) simp_all
qed

lemma journal_step:
  assumes "journal_ok stamp g" "plain_op stamp op"
  shows "journal_ok stamp (intent_step op g)"
proof (cases op)
  case (Register now r)
  show ?thesis
  proof (cases "map_of (ir_intents g) (it_id r)")
    case None
    then show ?thesis using journal_register assms unfolding Register by blast
  qed (use assms Register in \<open>simp add: register_intent_def\<close>)
next
  case (UpdateState now i st extra)
  show ?thesis
  proof (cases "map_of (ir_intents g) i")
    case (Some r)
    then show ?thesis using journal_update assms unfolding UpdateState by blast
  qed (use assms UpdateState in \<open>simp add: update_intent_state_def get_intent_def\<close>)
qed

lemma journal_run: "journal_ok stamp g \<Longrightarrow> list_all (plain_op stamp) ops \<Longrightarrow> journal_ok stamp (intent_run ops g)"
proof (induction ops arbitrary: g)
  case (Cons op ops)
  then show ?case using Cons.IH [OF journal_step, of g op] by (simp add: intent_run_def)
qed (simp add: intent_run_def)

lemma journal_fresh: "journal_ok stamp (empty_registry (Some (is_init NoFile)))"
  by (auto simp: journal_ok_def empty_registry_def is_init_def in_journal_def)

section \<open>Restart\<close>

lemma rebuilt_of:
  assumes "stands_for r e" "it_id r = i" "stamp (it_created r)"
  shows "\<exists>x. rebuilt stamp now i e = Inr (r\<lparr>it_extra := x\<rparr>)"
proof -
  obtain d where d: "map_of e ''extra'' = Some (VDict d)"
    using assms(1) by (auto simp: stands_for_def split: option.splits pyval.splits)
  show ?thesis using assms d
    by (cases r) (auto simp: stands_for_def intent_dict_def rebuilt_def entry_extra_def entry_text_def entry_state_def dget_def Let_def)
qed

lemma rebuild_get:
  assumes "\<forall>(i, e)\<in>set es. \<exists>r. rebuilt stamp now i e = Inr r" "distinct (map fst es)" "\<forall>i\<in>fst ` set es. map_of m i = None"
  shows "map_of (rebuild_all stamp now es m) i =
         (case map_of m i of Some r \<Rightarrow> Some r
          | None \<Rightarrow> (case map_of es i of Some e \<Rightarrow> (case rebuilt stamp now i e of Inr r \<Rightarrow> Some r | Inl _ \<Rightarrow> None) | None \<Rightarrow> None))"
  using assms
proof (induction es arbitrary: m)
  case (Cons p es)
  obtain j e where p: "p = (j, e)" by (cases p)
  obtain r where r: "rebuilt stamp now j e = Inr r" using Cons.prems(1) by (auto simp: p)
  have m: "map_of m j = None" using Cons.prems(3) by (simp add: p)
  have "\<forall>k\<in>fst ` set es. map_of (m @ [(j, r)]) k = None" using Cons.prems(2,3) by (auto simp: p map_add_def)
  then have "map_of (rebuild_all stamp now es (m @ [(j, r)])) i =
      (case map_of (m @ [(j, r)]) i of Some r \<Rightarrow> Some r
       | None \<Rightarrow> (case map_of es i of Some e \<Rightarrow> (case rebuilt stamp now i e of Inr r \<Rightarrow> Some r | Inl _ \<Rightarrow> None) | None \<Rightarrow> None))"
    using Cons.prems(1,2) by (intro Cons.IH) (auto simp: p)
  then show ?case using m r by (auto simp: p map_add_def split: option.splits)
qed (simp split: option.splits)


section \<open>Concrete journals\<close>

definition one_intent :: intent where
  "one_intent = \<lparr>it_id = ''i'', it_decision = ''d'', it_version = ''v'', it_symbol = ''X'', it_direction = ''BUY'',
     it_created = ''t'', it_state = INTENT_CREATED, it_extra = [(''a'', VInt 1)]\<rparr>"

definition restarted :: "intent_op list \<Rightarrow> intent_registry" where
  "restarted ops = set_intent_store (\<lambda>t. True) ''n''
     (Some (is_init (Lines (is_file (the (ir_store (intent_run ops (empty_registry (Some (is_init NoFile)))))))))) (empty_registry None)"


text \<open>
  The metadata of an update is written beside the fields of the entry but read from its \<open>extra\<close>:
  it is gone after a restart, and metadata named \<open>event\<close> makes the reader drop the update itself.
\<close>

theorem update_metadata_is_lost:
  "map_option it_extra (map_of (ir_intents (restarted
     [Register ''n'' one_intent, UpdateState ''n'' ''i'' FILLED [(''ticket'', VInt 7)]])) ''i'') = Some [(''a'', VInt 1)]"
  by code_simp

theorem event_metadata_hides_the_update:
  "map_option it_state (map_of (ir_intents (restarted
     [Register ''n'' one_intent, UpdateState ''n'' ''i'' FILLED [(''event'', VStr ''fill'')]])) ''i'') = Some INTENT_CREATED"
  by code_simp

end
