(* ===== verification/Spec2Isabelle.thy ===== *)
theory Spec2Isabelle
  imports Order_Once Outbox Kill_Switch Breakers Multi_Level Capital SLTP Trading_Gate Recovery Lifecycle Write_Guard
    Signals Entries Cycles Freshness Trade_Manager Paper Intents
begin

text \<open>
  The decision core of a trading bot (the Python service under \<open>services/python/src\<close>), component
  by component.

  The program. An event starts a cycle of \<open>orchestration/pipeline.py\<close>: a committee of agents
  proposes a trade, a deterministic risk gate judges it, guards may hold it back, an order is built and
  handed to the execution engine, which sends it to a broker through a terminal and keeps a durable
  ledger of its orders. Around it stand breakers and a kill switch that halt trading, money management
  and capital allocation that size it, reconciliation and recovery that compare the books with the
  broker's after a restart, a manager that arms and attaches terminals, a trade manager that trails the
  stops of open positions, a paper account, a life cycle of strategies, and a guard on every write to
  the terminal.

  Theories and sources (each name of a definition is that of the Python function where HOL allows it;
  the manifest gives the lines):

  \<^item> \<open>Prelude\<close>: Python values (\<open>pyval\<close>, dictionaries as association lists), conversions that
    raise (\<open>py_float\<close>, \<open>py_int\<close>), \<open>bindE\<close> for code that raises, text, rounding.
  \<^item> \<open>Contracts\<close>: the locales, with the laws a store, a gate, a breaker or an escalating monitor
    promises; each is interpreted on the definitions of the components that provide it.
  \<^item> \<open>Symbol_Spec\<close>, \<open>Money\<close>, \<open>Capital\<close>, \<open>SLTP\<close>: \<open>market/symbol_spec.py\<close>, \<open>risk/money_management.py\<close>
    with \<open>trading/position_sizing.py\<close>, \<open>risk/capital_allocation.py\<close>, \<open>execution/sltp_manager.py\<close>.
  \<^item> \<open>Risk_Engine\<close>, \<open>Risk_Gate\<close>, \<open>Trading_Gate\<close>: \<open>risk/engine.py\<close>, \<open>risk/gate.py\<close>, \<open>trading/risk_gate.py\<close>.
  \<^item> \<open>Kill_Switch\<close>, \<open>Breakers\<close>, \<open>Multi_Level\<close>: \<open>risk/kill_switch.py\<close> with its snapshot store,
    \<open>risk/circuit_breaker.py\<close> with \<open>risk/dependency_breakers.py\<close>, \<open>risk/multi_level_breaker.py\<close>.
  \<^item> \<open>Order_State\<close>, \<open>Execution\<close>, \<open>Execution_Safety\<close>, \<open>Order_Once\<close>, \<open>Outbox\<close>: \<open>execution/state_machine.py\<close> and
    \<open>persistence/order_state_store.py\<close>, then \<open>execute_order\<close> of \<open>execution/engine.py\<close>: one call, runs of
    calls, restarts, the refinement of an abstract outbox, progress.
  \<^item> \<open>Order_Builder\<close>, \<open>Fanout\<close>: \<open>execution/order_builder.py\<close>, and \<open>trading/canonical_signal.py\<close> with
    \<open>execution/fanout.py\<close>: one signal for many accounts.
  \<^item> \<open>Symbol_Names\<close>, \<open>Binding\<close>, \<open>Terminal_Config\<close>, \<open>Terminals\<close>, \<open>Terminal_Runs\<close>: \<open>mt5/symbol_resolver.py\<close>,
    the attaching part of \<open>mt5/connector.py\<close>, and \<open>mt5/terminals.py\<close>: its file, its manager, runs of the manager.
  \<^item> \<open>Multi_Terminal\<close>, \<open>Trade_Manager\<close>: \<open>execute_order_fanout\<close> and \<open>modify_position_sltp\<close> of
    \<open>execution/engine.py\<close>, whose broker is there the terminal manager with its binding, and
    \<open>monitoring/trade_manager.py\<close>, which changes stops through the latter.
  \<^item> \<open>Paper\<close>, \<open>Intents\<close>: \<open>paper/paper_account.py\<close> with \<open>paper/simulated_execution.py\<close>, and
    \<open>execution/intents.py\<close> with \<open>persistence/intent_store.py\<close>.
  \<^item> \<open>Signal_Registry\<close>, \<open>Level_Plan\<close>, \<open>Freshness\<close>, \<open>Proposal\<close>, \<open>Pipeline\<close>, \<open>Cycles\<close>:
    \<open>orchestration/signal_registry.py\<close>, \<open>trading/level_plan.py\<close>, \<open>trading/market_freshness.py\<close> with
    \<open>trading/market_snapshot.py\<close>, and \<open>orchestration/pipeline.py\<close> in three steps: the helpers that read and
    complete a proposal, \<open>run\<close> itself with its gates, and what holds of cycles and of their sequences.
  \<^item> \<open>Reconcile\<close>, \<open>Recovery\<close>: \<open>execution/reconciliation.py\<close> with its runner and providers,
    \<open>execution/restart_recovery.py\<close> with \<open>system/startup_checks.py\<close>.
  \<^item> \<open>Lifecycle\<close>, \<open>Write_Guard\<close>, \<open>Signals\<close>, \<open>Entries\<close>: \<open>strategy/lifecycle.py\<close>; \<open>agents/permissions.py\<close>
    with \<open>mt5/write_guard.py\<close>; \<open>trading/signal_state_machine.py\<close>; \<open>trading/entry_zones.py\<close> with
    \<open>trading/entry_lifecycle.py\<close>.

  How the model reads. A class is a record, an operation a function from its arguments and the state
  to its result and the new state; a raise is \<open>Inl\<close> of the kind of the exception, and an exception
  caught from outside is its text. Floats are exact rationals, so rounding is modelled where the code
  calls \<open>round\<close> and nowhere else, and neither NaN nor infinities occur. One operation reads the clock
  once. A write to a file either reaches the disk or not, given by a boolean (or by the number of the
  write), and a file is a list of lines. Locks are left out: an operation is one step, and interleaving
  is a sequence of operations. The broker is a state of any type with the functions the code calls on
  it; reads of it do not raise, sends may. The log \<open>w_sent\<close> of what the broker was handed and the lists
  of reports and meetings of the pipeline are read by no operation; they exist for the statements.

  Where the model says less than the code. \<open>execute_order\<close> is one step, while the engine's lock covers
  only the duplicate check: the statements on calls are about calls one after the other, not about
  threads racing between the check and the send. \<open>info\<close>, the answer of \<open>get_symbol_info\<close>, is an
  argument of the gate, of the sizing and of the specifications; the terminal's half of that function
  is outside, the simulated half is \<open>simulated_info\<close>, and nothing in the gate tells them apart, so a
  genuine contract size is one answered for the proposal's own symbol, from either. \<open>run_cycle\<close> takes the
  engine's fan-out as an argument instead of \<open>execute_order_fanout\<close>. A state or message that is no
  text reads as one (\<open>record_state\<close>, \<open>parse_send_result\<close>). The runs of \<open>Intents\<close> are runs whose writes
  reach the disk.

  What the lemmas show, by group: the properties are marked with their claim in the theories. For
  each component there are simplification rules for its operations, the invariants its operations keep
  (collected in \<open>preserves\<close>), and the branches, errors included. Across components: an order goes out
  only past every gate and guard (\<open>Cycles\<close>), in one call only, also after a restart, its ledger written
  ahead of it (\<open>Order_Once\<close>, \<open>Outbox\<close>), and the gate approves exactly what is inside all of its limits,
  each written out over the raw readings (\<open>Risk_Gate\<close>). A fan-out serves each target once, at that
  target's own terminal (\<open>Multi_Terminal\<close>), which was armed on purpose (\<open>Terminal_Runs\<close>). The registry of
  signals answers by the history of a symbol alone (\<open>Signal_Registry\<close>), a start permits orders exactly
  when the books match (\<open>Recovery\<close>), and no strategy is in production without its evidence
  (\<open>Lifecycle\<close>). Several properties state what the code does against its documentation; the manifest
  lists them as findings.

  Bounds and fuel. No definition takes fuel: loops over lists are recursions on the list, the retry loop
  \<open>attempt_loop\<close> is a recursion on the attempts left, which the engine's setting bounds.

  Parameters. Hashes, fresh identifiers, the reading of ISO dates, Python's text of a float, random numbers,
  the MetaTrader5 library, the process table, the providers injected into a class, and in the pipeline the supervisor's answer, the decision chain, the answers of
  the guards, the plan of the zone gate and the engine's own fan-out.

  Not modelled. Agents and models, market data and the terminal's connection, the runtime's threads and
  wiring, HTTP endpoints, monitoring, reports and demonstrations (input, output and rendering around the
  modelled core); research and backtesting statistics; dictionary views of the modelled objects. Of the
  engine, the closing of positions and the record of execution quality; of the pipeline, the memory of
  entry contexts and the trade journal. Next in the plan: the decision chain and the gates of the zone
  entry, which are parameters of the cycle.
\<close>

end
